(* ===== verification/Pmd_Prelude.thy ===== *)
theory Pmd_Prelude
  imports Main "HOL-Library.Word"
begin

text \<open>
  The vocabulary every component shares: bytes and pages, C strings, the C library
  functions the daemon calls on numbers and text (\<open>"%d"\<close>, \<open>strtol\<close> with base 0,
  \<open>"%02x"\<close>), memory copies into a buffer of fixed size, and straight-line code as a list
  of state transformers.
\<close>

unbundle bit_operations_syntax

section \<open>Collections of facts\<close>

named_theorems layout_simps \<open>position and width of a field of a C structure\<close>
named_theorems inv_intros \<open>an operation keeps an invariant\<close>
named_theorems frame_simps \<open>fields that an operation leaves alone\<close>

section \<open>Bytes and buffers\<close>

type_synonym byte = "8 word"
type_synonym page = "byte list"

text \<open>
  A callee writes \<open>data\<close> at the start of the buffer \<open>buf\<close>: the rest of the buffer keeps
  its bytes, and nothing is written outside it.
\<close>

definition mem_write :: "page \<Rightarrow> byte list \<Rightarrow> page" where
  "mem_write buf data = take (length buf) data @ drop (length data) buf"

lemma length_mem_write [simp]: "length (mem_write buf data) = length buf"
  by (simp add: mem_write_def)

lemma mem_write_full [simp]: "length data = length buf \<Longrightarrow> mem_write buf data = data"
  by (simp add: mem_write_def)

section \<open>Straight-line code\<close>

text \<open>The statements of a block, run from the first to the last.\<close>

definition stmts :: "('s \<Rightarrow> 's) list \<Rightarrow> 's \<Rightarrow> 's" where
  "stmts fs s = fold (\<lambda>f s. f s) fs s"

lemma stmts_Nil [simp]: "stmts [] s = s"
  by (simp add: stmts_def)

lemma stmts_Cons [simp]: "stmts (f # fs) s = stmts fs (f s)"
  by (simp add: stmts_def)

lemma stmts_append [simp]: "stmts (fs @ gs) s = stmts gs (stmts fs s)"
  by (simp add: stmts_def)

text \<open>An invariant that every statement of a block keeps is kept by the block.\<close>

lemma stmts_inv:
  "(\<And>f s. f \<in> set fs \<Longrightarrow> I s \<Longrightarrow> I (f s)) \<Longrightarrow> I s \<Longrightarrow> I (stmts fs s)"
  by (induction fs arbitrary: s) auto

text \<open>A value that no statement of a block changes is not changed by the block.\<close>

lemma stmts_frame:
  "(\<And>f s. f \<in> set fs \<Longrightarrow> g (f s) = g s) \<Longrightarrow> g (stmts fs s) = g s"
  by (induction fs arbitrary: s) auto

section \<open>C strings\<close>

definition char_of_byte :: "byte \<Rightarrow> char" where
  "char_of_byte b = char_of (unat b)"

text \<open>The text of a buffer that is read as a C string: the bytes before the first NUL.\<close>

definition c_string :: "byte list \<Rightarrow> string" where
  "c_string bs = map char_of_byte (takeWhile (\<lambda>b. b \<noteq> 0) bs)"

lemma inj_char_of_byte: "inj char_of_byte"
proof (rule injI)
  fix a b :: byte
  assume "char_of_byte a = char_of_byte b"
  then have "(of_char (char_of (unat a) :: char) :: nat) = of_char (char_of (unat b) :: char)"
    by (simp add: char_of_byte_def)
  moreover have "unat a < 256" "unat b < 256"
    using unsigned_less [of a] unsigned_less [of b] by simp_all
  ultimately show "a = b" by (simp add: word_unat_eq_iff)
qed

lemma length_c_string: "length (c_string bs) \<le> length bs"
  by (simp add: c_string_def length_takeWhile_le)

lemma c_string_Nil [simp]: "c_string [] = []"
  by (simp add: c_string_def)

lemma c_string_Cons:
  "c_string (b # bs) = (if b = 0 then [] else char_of_byte b # c_string bs)"
  by (simp add: c_string_def)

lemma c_string_append_NUL:
  "0 \<notin> set bs \<Longrightarrow> c_string (bs @ 0 # cs) = map char_of_byte bs"
  by (induction bs) (auto simp: c_string_Cons)

section \<open>Printing numbers: \<open>"%d"\<close> and \<open>"%02x"\<close>\<close>

definition digit_char :: "nat \<Rightarrow> char" where
  "digit_char d = char_of (48 + d)"

fun dec_of_nat :: "nat \<Rightarrow> string" where
  "dec_of_nat n = (if n < 10 then [digit_char n] else dec_of_nat (n div 10) @ [digit_char (n mod 10)])"

declare dec_of_nat.simps [simp del]

definition dec_of_int :: "int \<Rightarrow> string" where
  "dec_of_int i = (if i < 0 then CHR ''-'' # dec_of_nat (nat (- i)) else dec_of_nat (nat i))"

definition hex_digit_lower :: "nat \<Rightarrow> char" where
  "hex_digit_lower d = (if d < 10 then char_of (48 + d) else char_of (87 + d))"

definition hex02 :: "byte \<Rightarrow> string" where
  "hex02 b = [hex_digit_lower (unat b div 16), hex_digit_lower (unat b mod 16)]"

section \<open>Reading numbers: \<open>strtol (s, NULL, 0)\<close>\<close>

text \<open>
  White space is skipped, then an optional sign, then the base: \<open>0x\<close> before a hexadecimal
  digit means 16, another leading \<open>0\<close> means 8, anything else 10. The digits are read as far
  as they go, and the value is clamped to a 64-bit \<open>long\<close>.
\<close>

definition is_space :: "char \<Rightarrow> bool" where
  "is_space c \<longleftrightarrow> (let n = of_char c :: nat in n = 32 \<or> (9 \<le> n \<and> n \<le> 13))"

definition digit_value :: "char \<Rightarrow> nat" where
  "digit_value c = (let n = of_char c :: nat in
     if 48 \<le> n \<and> n \<le> 57 then n - 48
     else if 65 \<le> n \<and> n \<le> 90 then n - 55
     else if 97 \<le> n \<and> n \<le> 122 then n - 87
     else 99)"

definition digits_value :: "nat \<Rightarrow> string \<Rightarrow> nat" where
  "digits_value base s =
     foldl (\<lambda>acc c. acc * base + digit_value c) 0 (takeWhile (\<lambda>c. digit_value c < base) s)"

definition strtol_magnitude :: "string \<Rightarrow> nat" where
  "strtol_magnitude s =
     (case s of
        c # d # e # rest \<Rightarrow>
          if c = CHR ''0'' \<and> (d = CHR ''x'' \<or> d = CHR ''X'') \<and> digit_value e < 16
          then digits_value 16 (e # rest)
          else if c = CHR ''0'' then digits_value 8 s
          else digits_value 10 s
      | c # _ \<Rightarrow> if c = CHR ''0'' then digits_value 8 s else digits_value 10 s
      | [] \<Rightarrow> 0)"

definition LONG_MAX :: int where "LONG_MAX = 2 ^ 63 - 1"
definition LONG_MIN :: int where "LONG_MIN = - (2 ^ 63)"

definition strtol0 :: "string \<Rightarrow> int" where
  "strtol0 s =
     (let t = dropWhile is_space s;
          v = (case t of
                 c # r \<Rightarrow> if c = CHR ''-'' then - int (strtol_magnitude r)
                          else if c = CHR ''+'' then int (strtol_magnitude r)
                          else int (strtol_magnitude t)
               | [] \<Rightarrow> 0)
      in max LONG_MIN (min LONG_MAX v))"

section \<open>Printing then reading a number\<close>

lemma of_char_digit_char [simp]: "d < 10 \<Longrightarrow> (of_char (digit_char d) :: nat) = 48 + d"
  by (simp add: digit_char_def)

lemma digit_value_digit_char [simp]: "d < 10 \<Longrightarrow> digit_value (digit_char d) = d"
  by (simp add: digit_value_def)

lemma not_space_digit_char [simp]: "d < 10 \<Longrightarrow> \<not> is_space (digit_char d)"
  by (simp add: is_space_def)

lemma digit_char_eq_iff [simp]: "d < 10 \<Longrightarrow> e < 10 \<Longrightarrow> digit_char d = digit_char e \<longleftrightarrow> d = e"
  by (metis digit_value_digit_char)

lemma digit_char_0: "digit_char 0 = CHR ''0''"
  by (simp add: digit_char_def char_of_def bit_0)

lemma digit_value_small_not_sign:
  "digit_value c < 10 \<Longrightarrow> c \<noteq> CHR ''-'' \<and> c \<noteq> CHR ''+'' \<and> \<not> is_space c"
  by (auto simp: digit_value_def is_space_def Let_def split: if_splits)

lemma dec_of_nat_not_Nil [simp]: "dec_of_nat n \<noteq> []"
  by (subst dec_of_nat.simps) simp

lemma dec_of_nat_digits: "c \<in> set (dec_of_nat n) \<Longrightarrow> digit_value c < 10"
proof (induction n rule: dec_of_nat.induct)
  case (1 n)
  then show ?case
    by (cases "n < 10") (auto simp: dec_of_nat.simps [of n])
qed

lemma foldl_dec_of_nat: "foldl (\<lambda>acc c. acc * 10 + digit_value c) 0 (dec_of_nat n) = n"
proof (induction n rule: dec_of_nat.induct)
  case (1 n)
  then show ?case
    by (cases "n < 10") (auto simp: dec_of_nat.simps [of n])
qed

lemma hd_dec_of_nat: "hd (dec_of_nat n) = CHR ''0'' \<longleftrightarrow> n = 0"
proof (induction n rule: dec_of_nat.induct)
  case (1 n)
  show ?case
  proof (cases "n < 10")
    case True
    then show ?thesis
      by (simp add: dec_of_nat.simps [of n] digit_char_0 [symmetric])
  next
    case False
    with 1 show ?thesis by (simp add: dec_of_nat.simps [of n])
  qed
qed

text \<open>A decimal number followed by nothing or by a fraction is read back as that number.\<close>

definition ends_number :: "string \<Rightarrow> bool" where
  "ends_number r \<longleftrightarrow> r = [] \<or> hd r = CHR ''.''"

lemma takeWhile_dec_of_nat:
  assumes "ends_number r"
  shows "takeWhile (\<lambda>c. digit_value c < 10) (dec_of_nat n @ r) = dec_of_nat n"
proof -
  have "takeWhile (\<lambda>c. digit_value c < 10) r = []"
    using assms by (cases r) (auto simp: ends_number_def digit_value_def)
  then show ?thesis by (simp add: takeWhile_append2 dec_of_nat_digits)
qed

lemma strtol_magnitude_dec_of_nat:
  assumes r: "ends_number r"
  shows "strtol_magnitude (dec_of_nat n @ r) = n"
proof (cases "n = 0")
  case True
  with r show ?thesis
    by (cases r; cases "tl r")
      (auto simp: strtol_magnitude_def dec_of_nat.simps [of 0] digit_char_0 ends_number_def
        digits_value_def digit_value_def)
next
  case False
  obtain c cs where c: "dec_of_nat n = c # cs" by (cases "dec_of_nat n") auto
  with False have "c \<noteq> CHR ''0''" using hd_dec_of_nat [of n] by simp
  then have "strtol_magnitude (dec_of_nat n @ r) = digits_value 10 (dec_of_nat n @ r)"
    by (auto simp: strtol_magnitude_def c split: list.splits)
  then show ?thesis
    using r by (simp add: digits_value_def takeWhile_dec_of_nat foldl_dec_of_nat)
qed

lemma strtol0_dec_of_int:
  assumes "ends_number r" and "LONG_MIN \<le> i" and "i \<le> LONG_MAX"
  shows "strtol0 (dec_of_int i @ r) = i"
proof (cases "i < 0")
  case True
  then have "dropWhile is_space (dec_of_int i @ r) = CHR ''-'' # dec_of_nat (nat (- i)) @ r"
    by (simp add: dec_of_int_def is_space_def)
  with True assms show ?thesis
    by (simp add: strtol0_def strtol_magnitude_dec_of_nat)
next
  case False
  obtain c cs where c: "dec_of_nat (nat i) = c # cs" by (cases "dec_of_nat (nat i)") auto
  then have "digit_value c < 10" using dec_of_nat_digits [of c "nat i"] by simp
  then have sign: "c \<noteq> CHR ''-'' \<and> c \<noteq> CHR ''+'' \<and> \<not> is_space c"
    by (rule digit_value_small_not_sign)
  with False c have "dropWhile is_space (dec_of_int i @ r) = dec_of_nat (nat i) @ r"
    by (simp add: dec_of_int_def)
  moreover have "int (strtol_magnitude (c # cs @ r)) = i"
    using strtol_magnitude_dec_of_nat [OF assms(1), of "nat i"] c False by simp
  ultimately show ?thesis
    using sign c assms by (simp add: strtol0_def)
qed

end
