(* ===== verification/Pm_Hex.thy ===== *)
theory Pm_Hex
  imports Pmd_Prelude
begin

text \<open>
  \<open>hex_to_ascii\<close> of \<open>src/pm_detect.c\<close>: a binary page as upper-case hexadecimal text with a
  space between words of four bytes. The C function writes into a buffer whose size it
  computes beforehand; the model writes into an explicit buffer and fails on a write outside
  it, so that the size computation is part of what is proved. \<open>convert\<close> of
  \<open>atoc.c\<close>, one of the test tools, reads one hexadecimal digit back.
\<close>

section \<open>The conversion\<close>

definition SPACE :: char where "SPACE = CHR '' ''"

definition ascii_map :: "char list" where
  "ascii_map = ''0123456789ABCDEF''"

definition hi_digit :: "byte \<Rightarrow> char" where
  "hi_digit b = ascii_map ! unat (drop_bit 4 (b AND 0xf0))"

definition lo_digit :: "byte \<Rightarrow> char" where
  "lo_digit b = ascii_map ! unat (b AND 0xf)"

text \<open>\<open>ascii[j] = c\<close>; \<^const>\<open>None\<close> is a write outside the allocated buffer.\<close>

definition put :: "nat \<Rightarrow> char \<Rightarrow> string \<Rightarrow> string option" where
  "put j c ascii = (if j < length ascii then Some (ascii[j := c]) else None)"

text \<open>The loop at index \<open>i\<close>, with the bytes from \<open>i\<close> on; \<open>j\<close> is the next free position.\<close>

fun hex_loop :: "byte list \<Rightarrow> nat \<Rightarrow> nat \<Rightarrow> string \<Rightarrow> (nat \<times> string) option" where
  "hex_loop [] i j ascii = Some (j, ascii)"
| "hex_loop (b # bs) i j ascii =
     (case (if 0 < i \<and> i mod 4 = 0 then map_option (\<lambda>a. (Suc j, a)) (put j SPACE ascii)
            else Some (j, ascii)) of
        None \<Rightarrow> None
      | Some (j1, a1) \<Rightarrow>
          (case put j1 (hi_digit b) a1 of
             None \<Rightarrow> None
           | Some a2 \<Rightarrow>
               (case put (Suc j1) (lo_digit b) a2 of
                  None \<Rightarrow> None
                | Some a3 \<Rightarrow> hex_loop bs (Suc i) (Suc (Suc j1)) a3)))"

definition hex_alloc :: "nat \<Rightarrow> nat" where
  "hex_alloc n = 2 * n + n div 4 + 1"

text \<open>The buffer after the loop and the terminating NUL.\<close>

definition hex_fill :: "string \<Rightarrow> byte list \<Rightarrow> string option" where
  "hex_fill ascii buf =
     (case hex_loop buf 0 0 ascii of
        None \<Rightarrow> None
      | Some (j, a) \<Rightarrow> put j (CHR 0x00) a)"

definition c_text :: "string \<Rightarrow> string" where
  "c_text s = takeWhile (\<lambda>c. c \<noteq> CHR 0x00) s"

text \<open>
  The returned string. The allocation is assumed to succeed, as the code does everywhere
  else; what the fresh buffer holds does not matter (\<open>hex_fill_text\<close>).
\<close>

definition hex_to_ascii :: "byte list \<Rightarrow> string option" where
  "hex_to_ascii buf = map_option c_text (hex_fill (replicate (hex_alloc (length buf)) (CHR ''?'')) buf)"

section \<open>What it computes\<close>

fun hex_text_from :: "nat \<Rightarrow> byte list \<Rightarrow> string" where
  "hex_text_from i [] = []"
| "hex_text_from i (b # bs) =
     (if 0 < i \<and> i mod 4 = 0 then [SPACE] else []) @ [hi_digit b, lo_digit b]
       @ hex_text_from (Suc i) bs"

definition hex_text :: "byte list \<Rightarrow> string" where
  "hex_text bs = hex_text_from 0 bs"

definition overwrite :: "nat \<Rightarrow> string \<Rightarrow> string \<Rightarrow> string" where
  "overwrite j s a = take j a @ s @ drop (j + length s) a"

lemma put_overwrite:
  "j < length a \<Longrightarrow> put j c a = Some (overwrite j [c] a)"
  by (simp add: put_def overwrite_def upd_conv_take_nth_drop)

lemma overwrite_overwrite:
  "j + length s \<le> length a \<Longrightarrow>
     overwrite (j + length s) t (overwrite j s a) = overwrite j (s @ t) a"
  by (cases "j < length a"; cases s) (auto simp: overwrite_def min_def add.assoc add.commute [of "length t"])

lemma length_overwrite [simp]: "j + length s \<le> length a \<Longrightarrow> length (overwrite j s a) = length a"
  by (simp add: overwrite_def)

lemma hex_loop_overwrite:
  "j + length (hex_text_from i bs) \<le> length a \<Longrightarrow>
     hex_loop bs i j a = Some (j + length (hex_text_from i bs), overwrite j (hex_text_from i bs) a)"
proof (induction bs i j a rule: hex_loop.induct)
  case (1 i j a)
  then show ?case by (simp add: overwrite_def)
next
  case (2 b bs i j a)
  let ?sep = "if 0 < i \<and> i mod 4 = 0 then [SPACE] else []"
  let ?j = "j + length ?sep"
  let ?a = "overwrite j ?sep a"
  have len: "?j + 2 + length (hex_text_from (Suc i) bs) \<le> length a" using "2.prems" by auto
  have sep: "(if 0 < i \<and> i mod 4 = 0 then map_option (\<lambda>a. (Suc j, a)) (put j SPACE a)
      else Some (j, a)) = Some (?j, ?a)"
    using len by (simp add: put_overwrite) (simp add: overwrite_def)
  have hi: "put ?j (hi_digit b) ?a = Some (overwrite j (?sep @ [hi_digit b]) a)"
    using len overwrite_overwrite [of j ?sep a "[hi_digit b]"] by (subst put_overwrite) auto
  have lo: "put (Suc ?j) (lo_digit b) (overwrite j (?sep @ [hi_digit b]) a)
      = Some (overwrite j (?sep @ [hi_digit b, lo_digit b]) a)"
    using len overwrite_overwrite [of j "?sep @ [hi_digit b]" a "[lo_digit b]"]
    by (subst put_overwrite) auto
  have "hex_loop bs (Suc i) (Suc (Suc ?j)) (overwrite j (?sep @ [hi_digit b, lo_digit b]) a)
      = Some (j + length (hex_text_from i (b # bs)), overwrite j (hex_text_from i (b # bs)) a)"
    using "2.IH" [OF sep refl hi lo] len
      overwrite_overwrite [of j "?sep @ [hi_digit b, lo_digit b]" a "hex_text_from (Suc i) bs"]
    by simp
  then show ?case unfolding hex_loop.simps sep option.case prod.case hi lo .
qed

lemma length_hex_text_from:
  "length (hex_text_from (Suc i) bs) + i div 4 = 2 * length bs + (i + length bs) div 4"
proof (induction bs arbitrary: i)
  case Nil
  then show ?case by simp
next
  case (Cons b bs)
  have "(if Suc i mod 4 = 0 then 1 else 0) + i div 4 = Suc i div 4" by arith
  then show ?case using Cons [of "Suc i"] by (cases "Suc i mod 4 = 0") auto
qed

lemma length_hex_text:
  "length (hex_text bs) = 2 * length bs + (length bs - 1) div 4"
  using length_hex_text_from [of 0 "tl bs"] by (cases bs) (simp_all add: hex_text_def)

lemma hex_text_fits: "length (hex_text bs) < hex_alloc (length bs)"
  using div_le_mono [of "length bs - 1" "length bs" 4]
  by (simp add: length_hex_text hex_alloc_def)

section \<open>The digits\<close>

lemma ascii_map_not_NUL:
  assumes "n < 16"
  shows "ascii_map ! n \<noteq> CHR 0x00 \<and> ascii_map ! n \<noteq> SPACE"
proof -
  have "\<forall>c \<in> set ascii_map. c \<noteq> CHR 0x00 \<and> c \<noteq> SPACE"
    by (simp add: ascii_map_def SPACE_def)
  moreover have "ascii_map ! n \<in> set ascii_map"
    using assms by (intro nth_mem) (simp add: ascii_map_def)
  ultimately show ?thesis by blast
qed

lemma unat_hi: "unat (drop_bit 4 (b AND 0xf0)) = unat b div 16" for b :: byte
proof -
  have "drop_bit 4 (b AND 0xf0) = drop_bit 4 b"
  proof (rule bit_word_eqI)
    fix n assume "n < LENGTH(8)"
    then have "n \<in> {0, 1, 2, 3, 4, 5, 6, 7}" by auto
    then show "bit (drop_bit 4 (b AND 0xf0)) n \<longleftrightarrow> bit (drop_bit 4 b) n"
      by (auto simp: bit_simps dest: bit_imp_le_length)
  qed
  then have "unat (drop_bit 4 (b AND 0xf0)) = drop_bit 4 (unat b)"
    by (simp only: unat_drop_bit_eq)
  then show ?thesis by (simp only: drop_bit_eq_div) simp
qed

lemma unat_lo: "unat (b AND 0xf) = unat b mod 16" for b :: byte
proof -
  have "(0xf :: byte) = mask 4" by (simp add: mask_eq_exp_minus_1)
  then have "unat (b AND 0xf) = unat (take_bit 4 b)" by (simp only: take_bit_eq_mask)
  also have "unat (take_bit 4 b) = take_bit 4 (unat b)" by (rule unsigned_take_bit_eq)
  finally show ?thesis by (simp add: take_bit_eq_mod)
qed

lemma digit_eqs:
  "hi_digit b = ascii_map ! (unat b div 16)" "lo_digit b = ascii_map ! (unat b mod 16)"
  by (simp_all only: hi_digit_def lo_digit_def unat_hi unat_lo)

lemma unat_byte_less: "unat (b :: byte) < 256"
  using unsigned_less [of b] by simp

lemma digits_not_NUL:
  "hi_digit b \<noteq> CHR 0x00" "hi_digit b \<noteq> SPACE" "lo_digit b \<noteq> CHR 0x00" "lo_digit b \<noteq> SPACE"
  using ascii_map_not_NUL [of "unat b div 16"] ascii_map_not_NUL [of "unat b mod 16"]
    unat_byte_less [of b]
  by (simp_all add: digit_eqs)

lemma hex_text_from_not_NUL: "c \<in> set (hex_text_from i bs) \<Longrightarrow> c \<noteq> CHR 0x00"
  by (induction i bs rule: hex_text_from.induct) (auto simp: SPACE_def dest: digits_not_NUL [THEN notE, OF sym] split: if_splits)

text \<open>
  Whatever the fresh buffer holds, every write is inside it and the C string read from it is
  the text.
\<close>

lemma hex_fill_text:
  assumes "length a = hex_alloc (length bs)"
  shows "map_option c_text (hex_fill a bs) = Some (hex_text bs)"
proof -
  let ?t = "hex_text bs"
  have fits: "length ?t < length a" using hex_text_fits [of bs] assms by simp
  then have loop: "hex_loop bs 0 0 a = Some (length ?t, overwrite 0 ?t a)"
    using hex_loop_overwrite [of 0 0 bs a] by (simp add: hex_text_def)
  have "put (length ?t) (CHR 0x00) (overwrite 0 ?t a) = Some (overwrite 0 (?t @ [CHR 0x00]) a)"
    using fits overwrite_overwrite [of 0 ?t a "[CHR 0x00]"] by (simp add: put_overwrite)
  moreover have "c_text (overwrite 0 (?t @ [CHR 0x00]) a) = ?t"
    using hex_text_from_not_NUL [of _ 0 bs]
    by (simp add: c_text_def overwrite_def hex_text_def takeWhile_append2)
  ultimately show ?thesis by (simp add: hex_fill_def loop)
qed

lemma hex_to_ascii_eq: "hex_to_ascii bs = Some (hex_text bs)"
  unfolding hex_to_ascii_def by (rule hex_fill_text) simp

section \<open>Reading it back\<close>

definition to_upper :: "char \<Rightarrow> char" where
  "to_upper c = (let n = of_char c :: nat in if 97 \<le> n \<and> n \<le> 122 then char_of (n - 32) else c)"

text \<open>\<^const>\<open>None\<close> is \<open>exit(1)\<close>: not a hexadecimal digit.\<close>

definition convert :: "char \<Rightarrow> byte option" where
  "convert value =
     (let n = of_char (to_upper value) :: nat in
      if 48 \<le> n \<and> n \<le> 57 then Some (of_nat (n - 48))
      else if 65 \<le> n \<and> n \<le> 70 then Some (of_nat (n - 65) + 0xA)
      else None)"

text \<open>
  The bytes that a line of digits denotes: each pair of digits is the byte
  \<open>(convert (hi) << 4) + convert (lo)\<close>.
\<close>

fun unhex :: "string \<Rightarrow> byte list option" where
  "unhex [] = Some []"
| "unhex [c] = None"
| "unhex (c # d # cs) =
     (case (convert c, convert d, unhex cs) of
        (Some h, Some l, Some bs) \<Rightarrow> Some ((push_bit 4 h + l) # bs)
      | _ \<Rightarrow> None)"

lemma convert_ascii_map: "n < 16 \<Longrightarrow> convert (ascii_map ! n) = Some (of_nat n)"
proof -
  assume "n < 16"
  moreover have "list_all (\<lambda>n. convert (ascii_map ! n) = Some (of_nat n)) [0 ..< 16]"
    by (simp add: upt_rec ascii_map_def convert_def to_upper_def)
  ultimately show ?thesis by (simp add: list_all_iff)
qed

lemma byte_from_digits: "push_bit 4 (of_nat (unat b div 16)) + of_nat (unat b mod 16) = b" for b :: byte
proof -
  have "push_bit 4 (of_nat (unat b div 16)) + of_nat (unat b mod 16)
      = (of_nat (16 * (unat b div 16) + unat b mod 16) :: byte)"
    by (simp only: push_bit_eq_mult of_nat_add of_nat_mult) simp
  also have "\<dots> = of_nat (unat b)" by (simp only: mult_div_mod_eq)
  also have "\<dots> = b" by simp
  finally show ?thesis .
qed

lemma unhex_digits: "unhex (hi_digit b # lo_digit b # cs) = map_option ((#) b) (unhex cs)"
proof -
  have "convert (hi_digit b) = Some (of_nat (unat b div 16))"
    "convert (lo_digit b) = Some (of_nat (unat b mod 16))"
    using unat_byte_less [of b]
    by (simp_all add: digit_eqs convert_ascii_map)
  then show ?thesis by (simp add: byte_from_digits split: option.split)
qed

lemma unhex_hex_text_from: "unhex (filter (\<lambda>c. c \<noteq> SPACE) (hex_text_from i bs)) = Some bs"
proof (induction i bs rule: hex_text_from.induct)
  case (2 i b bs)
  then show ?case by (simp add: digits_not_NUL unhex_digits del: unhex.simps)
qed simp

end
