(* ===== verification/C_Float.thy ===== *)
theory C_Float
  imports Pmd_Prelude
begin

text \<open>
  The floating point the diagnostics need. A value is an \<^typ>\<open>int\<close> that counts units of
  \<open>2 ^ -66\<close>, which represents exactly every \<open>float\<close> and \<open>double\<close> the daemon computes (the
  constants \<open>0.0001\<close> and \<open>0.002\<close> as doubles, their products with 16-bit readings, small
  integers). Rounding is IEEE 754 round to nearest, ties to even, with 24 bits for \<open>float\<close>
  and 53 for \<open>double\<close>; no value is near the limits of either exponent range. Printing with
  \<open>"%4.2f"\<close> rounds the exact binary value to two decimals, ties to even.
\<close>

section \<open>Rounding\<close>

fun bitlen :: "nat \<Rightarrow> nat" where
  "bitlen n = (if n = 0 then 0 else Suc (bitlen (n div 2)))"

declare bitlen.simps [simp del]

text \<open>Quotient rounded to nearest, ties to even.\<close>

definition rne_div :: "nat \<Rightarrow> nat \<Rightarrow> nat" where
  "rne_div m d =
     (let q = m div d; r = m mod d
      in if 2 * r < d \<or> (2 * r = d \<and> even q) then q else Suc q)"

text \<open>\<open>m\<close> rounded to \<open>p\<close> significant bits.\<close>

definition round_sig :: "nat \<Rightarrow> nat \<Rightarrow> nat" where
  "round_sig p m = (let s = bitlen m - p in rne_div m (2 ^ s) * 2 ^ s)"

section \<open>Values\<close>

type_synonym fp = int

definition FP_ONE :: nat where "FP_ONE = 2 ^ 66"

text \<open>The doubles nearest to \<open>0.0001\<close> and \<open>0.002\<close>.\<close>

definition DBL_0_0001 :: nat where "DBL_0_0001 = 7378697629483821"
definition DBL_0_002 :: nat where "DBL_0_002 = 147573952589676416"

text \<open>Conversion of an integer to \<open>float\<close>.\<close>

definition float_of_int :: "int \<Rightarrow> fp" where
  "float_of_int i = sgn i * int (round_sig 24 (nat \<bar>i\<bar>) * FP_ONE)"

text \<open>
  \<open>(float) n * c\<close> for a double constant \<open>c\<close>, assigned to a \<open>float\<close>: the product is
  rounded to \<open>double\<close>, then to \<open>float\<close>. \<open>n\<close> has at most 16 bits, so its own conversion is exact.
\<close>

definition float_scaled :: "nat \<Rightarrow> nat \<Rightarrow> fp" where
  "float_scaled n c = int (round_sig 24 (round_sig 53 (n * c)))"

section \<open>Printing: \<open>"%4.2f"\<close>\<close>

definition hundredths :: "fp \<Rightarrow> nat" where
  "hundredths v = rne_div (100 * nat \<bar>v\<bar>) FP_ONE"

definition pad_left :: "nat \<Rightarrow> string \<Rightarrow> string" where
  "pad_left n s = replicate (n - length s) (CHR '' '') @ s"

definition fmt_4_2f :: "fp \<Rightarrow> string" where
  "fmt_4_2f v =
     pad_left 4
       ((if v < 0 then ''-'' else []) @ dec_of_nat (hundredths v div 100) @ ''.''
         @ [digit_char (hundredths v mod 100 div 10), digit_char (hundredths v mod 10)])"

section \<open>Error bounds\<close>

lemma bitlen_bounds: "0 < n \<Longrightarrow> 2 ^ (bitlen n - 1) \<le> n \<and> n < 2 ^ bitlen n"
proof (induction n rule: bitlen.induct)
  case (1 n)
  show ?case
  proof (cases "n = 1")
    case True
    then show ?thesis by (simp add: bitlen.simps [of "Suc 0"] bitlen.simps [of 0])
  next
    case False
    with 1 have h: "0 < n div 2" and IH: "2 ^ (bitlen (n div 2) - 1) \<le> n div 2"
      "n div 2 < 2 ^ bitlen (n div 2)" by auto
    from h have "0 < bitlen (n div 2)" by (subst bitlen.simps) simp
    then have "2 ^ bitlen (n div 2) = 2 * (2 ^ (bitlen (n div 2) - 1) :: nat)"
      by (cases "bitlen (n div 2)") auto
    with IH "1.prems" show ?thesis
      by (subst (1 2) bitlen.simps) (simp; linarith)
  qed
qed

lemma rne_div_bounds:
  assumes "0 < d"
  shows "2 * m \<le> 2 * (rne_div m d * d) + d" and "2 * (rne_div m d * d) \<le> 2 * m + d"
proof -
  define q r where "q = m div d" and "r = m mod d"
  have m: "q * d + r = m" unfolding q_def r_def by (rule div_mult_mod_eq)
  have r: "r < d" using assms by (simp add: r_def)
  have rne: "rne_div m d = (if 2 * r < d \<or> (2 * r = d \<and> even q) then q else Suc q)"
    by (simp add: rne_div_def q_def r_def Let_def)
  have "2 * m \<le> 2 * (rne_div m d * d) + d \<and> 2 * (rne_div m d * d) \<le> 2 * m + d"
  proof (cases "2 * r < d \<or> (2 * r = d \<and> even q)")
    case True
    then have "2 * r \<le> d" by auto
    then show ?thesis using True m rne by auto
  next
    case False
    then have "d \<le> 2 * r" by auto
    moreover have "rne_div m d = Suc q" using False by (subst rne) (simp only: if_False)
    then have "rne_div m d * d = q * d + d" by simp
    ultimately show ?thesis using m r by linarith
  qed
  then show "2 * m \<le> 2 * (rne_div m d * d) + d" "2 * (rne_div m d * d) \<le> 2 * m + d"
    by auto
qed

lemma rne_div_exact: "0 < d \<Longrightarrow> rne_div (n * d) d = n"
  by (simp add: rne_div_def)

lemma round_sig_small: "m < 2 ^ p \<Longrightarrow> round_sig p m = m"
proof -
  assume m: "m < 2 ^ p"
  have "bitlen m \<le> p"
  proof (cases "m = 0")
    case True
    then show ?thesis by (simp add: bitlen.simps [of 0])
  next
    case False
    then have "2 ^ (bitlen m - 1) < (2 :: nat) ^ p" using bitlen_bounds [of m] m by linarith
    then have "bitlen m - 1 < p" by (rule power_less_imp_less_exp [rotated]) simp
    then show ?thesis by linarith
  qed
  then show ?thesis using rne_div_exact [of 1 m] by (simp add: round_sig_def)
qed

text \<open>Rounding to \<open>p\<close> bits changes a value by at most one part in \<open>2 ^ p\<close>.\<close>

lemma round_sig_error:
  "2 ^ p * m \<le> 2 ^ p * round_sig p m + m"
  "2 ^ p * round_sig p m \<le> 2 ^ p * m + m"
proof -
  let ?s = "bitlen m - p"
  have "2 ^ p * m \<le> 2 ^ p * round_sig p m + m \<and> 2 ^ p * round_sig p m \<le> 2 ^ p * m + m"
  proof (cases "m < 2 ^ p")
    case True
    then show ?thesis by (simp add: round_sig_small)
  next
    case False
    then have m0: "0 < m" by (cases m) auto
    have "(2 :: nat) ^ p < 2 ^ bitlen m" using False bitlen_bounds [OF m0] by linarith
    then have "p < bitlen m" by (rule power_less_imp_less_exp [rotated]) simp
    then have s: "bitlen m - 1 = p + (?s - 1)" "0 < ?s" by linarith+
    then have big: "2 ^ p * 2 ^ (?s - 1) \<le> m"
      using bitlen_bounds [OF m0] by (metis power_add)
    from s have d: "2 ^ ?s = 2 * (2 :: nat) ^ (?s - 1)" by (cases ?s) auto
    let ?e = "(2 :: nat) ^ (?s - 1)" and ?v = "round_sig p m"
    have b: "2 * m \<le> 2 * ?v + 2 * ?e" "2 * ?v \<le> 2 * m + 2 * ?e"
      using rne_div_bounds [of "2 ^ ?s" m] unfolding round_sig_def Let_def d by simp_all
    have "2 ^ p * m \<le> 2 ^ p * (?v + ?e)" "2 ^ p * ?v \<le> 2 ^ p * (m + ?e)"
      using b by simp_all
    then show ?thesis using big by (simp add: algebra_simps)
  qed
  then show "2 ^ p * m \<le> 2 ^ p * round_sig p m + m" "2 ^ p * round_sig p m \<le> 2 ^ p * m + m"
    by auto
qed

text \<open>What is printed for a 16-bit reading is the nearest number of hundredths.\<close>

lemma hundredths_of_nat:
  "200 * v \<le> 2 * (hundredths (int v) * 2 ^ 66) + 2 ^ 66"
  "2 * (hundredths (int v) * 2 ^ 66) \<le> 200 * v + 2 ^ 66"
  using rne_div_bounds [of FP_ONE "100 * v"] by (simp_all add: hundredths_def FP_ONE_def)

lemma float_scaled_nat: "float_scaled n c = int (nat (float_scaled n c))"
  by (simp add: float_scaled_def)

lemma float_scaled_error:
  "2 ^ 22 * (n * c) \<le> 2 ^ 22 * nat (float_scaled n c) + n * c"
  "2 ^ 22 * nat (float_scaled n c) \<le> 2 ^ 22 * (n * c) + n * c"
proof -
  define m where "m = n * c"
  define r where "r = round_sig 53 m"
  define v where "v = round_sig 24 r"
  have r: "2 ^ 53 * m \<le> 2 ^ 53 * r + m" "2 ^ 53 * r \<le> 2 ^ 53 * m + m"
    using round_sig_error [of 53 m] by (simp_all only: r_def)
  have v: "2 ^ 24 * r \<le> 2 ^ 24 * v + r" "2 ^ 24 * v \<le> 2 ^ 24 * r + r"
    using round_sig_error [of 24 r] by (simp_all only: v_def)
  have "nat (float_scaled n c) = v"
    by (simp add: float_scaled_def v_def r_def m_def)
  then show "2 ^ 22 * (n * c) \<le> 2 ^ 22 * nat (float_scaled n c) + n * c"
      "2 ^ 22 * nat (float_scaled n c) \<le> 2 ^ 22 * (n * c) + n * c"
    using r v by (simp_all add: m_def [symmetric])
qed

lemma hundredths_0_0001:
  assumes "n < 2 ^ 16"
  shows "100 * hundredths (float_scaled n DBL_0_0001) \<le> n + 50
       \<and> n \<le> 100 * hundredths (float_scaled n DBL_0_0001) + 50"
proof -
  define v where "v = nat (float_scaled n DBL_0_0001)"
  have e: "2 ^ 22 * (n * DBL_0_0001) \<le> 2 ^ 22 * v + n * DBL_0_0001"
      "2 ^ 22 * v \<le> 2 ^ 22 * (n * DBL_0_0001) + n * DBL_0_0001"
    using float_scaled_error [of n DBL_0_0001] by (simp_all only: v_def)
  have "float_scaled n DBL_0_0001 = int v" unfolding v_def by (rule float_scaled_nat)
  then show ?thesis
    using e hundredths_of_nat [of v] assms by (simp add: DBL_0_0001_def)
qed

lemma hundredths_0_002:
  assumes "n < 2 ^ 16"
  shows "5 * hundredths (float_scaled n DBL_0_002) \<le> n + 2
       \<and> n \<le> 5 * hundredths (float_scaled n DBL_0_002) + 2"
proof -
  define v where "v = nat (float_scaled n DBL_0_002)"
  have e: "2 ^ 22 * (n * DBL_0_002) \<le> 2 ^ 22 * v + n * DBL_0_002"
      "2 ^ 22 * v \<le> 2 ^ 22 * (n * DBL_0_002) + n * DBL_0_002"
    using float_scaled_error [of n DBL_0_002] by (simp_all only: v_def)
  have "float_scaled n DBL_0_002 = int v" unfolding v_def by (rule float_scaled_nat)
  then show ?thesis
    using e hundredths_of_nat [of v] assms by (simp add: DBL_0_002_def)
qed

text \<open>An integer that fits a \<open>float\<close> prints as itself with two zeros.\<close>

lemma float_of_int_exact: "\<bar>i\<bar> < 2 ^ 24 \<Longrightarrow> float_of_int i = i * int FP_ONE"
  using round_sig_small [of "nat \<bar>i\<bar>" 24]
  by (simp add: float_of_int_def nat_less_iff sgn_if)

lemma hundredths_int: "hundredths (i * int FP_ONE) = 100 * nat \<bar>i\<bar>"
proof -
  have "100 * nat \<bar>i * int FP_ONE\<bar> = (100 * nat \<bar>i\<bar>) * FP_ONE"
    by (simp add: abs_mult nat_mult_distrib)
  moreover have "0 < FP_ONE" by (simp add: FP_ONE_def)
  ultimately show ?thesis unfolding hundredths_def by (simp only: rne_div_exact)
qed

lemma length_dec_of_nat_pos: "Suc 0 \<le> length (dec_of_nat n)"
  by (cases "dec_of_nat n") auto

lemma fmt_4_2f_int: "fmt_4_2f (i * int FP_ONE) = dec_of_int i @ ''.00''"
proof -
  have sign: "i * int FP_ONE < 0 \<longleftrightarrow> i < 0"
    by (simp add: FP_ONE_def mult_less_0_iff)
  have "[digit_char 0, digit_char 0] = ''00''" by (simp add: digit_char_0)
  then show ?thesis
    using length_dec_of_nat_pos [of "nat \<bar>i\<bar>"]
    by (auto simp: fmt_4_2f_def hundredths_int sign pad_left_def dec_of_int_def)
qed

end
