(* ===== verification/Pm_Port.thy ===== *)
theory Pm_Port
  imports Pm_Hex C_Float
begin

text \<open>
  The port data of \<open>include/pmd.h.in\<close> and \<open>include/pm_dom.h\<close>: the columns that are
  published to the database, the port structure, and the macros through which every
  component changes a column. The two structures of columns (\<open>struct ovs_module_info\<close>,
  \<open>struct ovs_module_dom_info\<close>) are functions from their member names, since the macros
  take the member as an argument.

  A column is a \<open>char *\<close>: NULL, a pointer to a string constant, or a pointer to allocated
  memory. The distinction matters because some macros call \<open>free\<close> on the old value and some
  do not. Two flags record what the C program cannot observe: \<open>bad_free\<close> is set when \<open>free\<close>
  is called on a string constant, \<open>leaked\<close> when the last pointer to an allocated string is
  overwritten.
\<close>

section \<open>Text constants of other packages\<close>

text \<open>
  Constants of the generated OVSDB headers (\<open>OVSREC_INTERFACE_PM_INFO_*\<close>, written here
  without that prefix, and \<open>INTERFACE_HW_INTF_CONFIG_MAP_*\<close>) and of \<open>config-yaml.h\<close>. Their
  texts are not in this repository: wherever a text is needed it is a parameter
  \<open>cn :: ext_const \<Rightarrow> string\<close>.
\<close>

datatype ext_const =
    CONNECTOR_ABSENT | CONNECTOR_UNKNOWN
  | CONNECTOR_SFP_DAC | CONNECTOR_SFP_SX | CONNECTOR_SFP_LX | CONNECTOR_SFP_CX
  | CONNECTOR_SFP_RJ45 | CONNECTOR_SFP_SR | CONNECTOR_SFP_LR | CONNECTOR_SFP_LRM
  | CONNECTOR_QSFP_LR4 | CONNECTOR_QSFP_SR4 | CONNECTOR_QSFP_CR4
  | CONNECTOR_QSFP28_SR4 | CONNECTOR_QSFP28_LR4 | CONNECTOR_QSFP28_CWDM4
  | CONNECTOR_QSFP28_PSM4 | CONNECTOR_QSFP28_CR4 | CONNECTOR_QSFP28_CLR4
  | CONNECTOR_STATUS_SUPPORTED | CONNECTOR_STATUS_UNRECOGNIZED
  | CABLE_TECHNOLOGY_PASSIVE | CABLE_TECHNOLOGY_ACTIVE
  | INTERFACE_HW_INTF_CONFIG_MAP_ENABLE | INTERFACE_HW_INTF_CONFIG_MAP_ENABLE_TRUE
  | SFPP

section \<open>Columns\<close>

datatype cptr = Static ext_const | Heap string

fun text_of :: "(ext_const \<Rightarrow> string) \<Rightarrow> cptr \<Rightarrow> string" where
  "text_of cn (Static c) = cn c"
| "text_of cn (Heap s) = s"

text \<open>The members of \<open>struct ovs_module_info\<close>.\<close>

datatype mod_field =
    Cable_length | Cable_technology | Connector | Connector_status | Supported_speeds
  | Max_speed | Power_mode | Vendor_name | Vendor_oui | Vendor_part_number
  | Vendor_revision | Vendor_serial_number | A0 | A0_uppers | A2

type_synonym ovs_module_info = "mod_field \<Rightarrow> cptr option"

text \<open>
  The members of \<open>struct ovs_module_dom_info\<close>: 13 quantities, each with a value, four alarm
  or warning flags and four thresholds (\<open>tx1_bias_high_alarm_threshold\<close> is
  \<open>(Tx_lane_bias L1, Threshold High_alarm)\<close>).
\<close>

datatype lane = L1 | L2 | L3 | L4

datatype dom_quantity =
    Temperature | Vcc | Tx_bias | Rx_power | Tx_power
  | Tx_lane_bias lane | Rx_lane_power lane

datatype level = High_alarm | Low_alarm | High_warning | Low_warning

datatype dom_attr = Value | Flag level | Threshold level

type_synonym dom_field = "dom_quantity \<times> dom_attr"
type_synonym ovs_module_dom_info = "dom_field \<Rightarrow> cptr option"

section \<open>Ports\<close>

definition CONNECTOR_SFP_PLUS :: string where "CONNECTOR_SFP_PLUS = ''SFP_PLUS''"
definition CONNECTOR_QSFP_PLUS :: string where "CONNECTOR_QSFP_PLUS = ''QSFP_PLUS''"
definition CONNECTOR_QSFP28 :: string where "CONNECTOR_QSFP28 = ''QSFP28''"
definition MAX_SPLIT_COUNT :: nat where "MAX_SPLIT_COUNT = 4"

text \<open>
  What the daemon uses of the structures of config-yaml: a register operation, the
  description of a port, an i2c device. A NULL connector or reset operation is
  \<^const>\<open>None\<close>; the presence and transmit-disable operations of a port's own connector type
  are dereferenced without a check.
\<close>

record i2c_bit_op =
  op_device :: string
  op_register :: nat
  bit_mask :: "32 word"

record yaml_port =
  yp_name :: string
  yp_pluggable :: bool
  yp_connector :: "string option"
  yp_module_eeprom :: string
  sfpp_mod_present :: i2c_bit_op
  sfpp_tx_disable :: i2c_bit_op
  qsfpp_mod_present :: i2c_bit_op
  qsfpp_reset :: "i2c_bit_op option"
  qsfp28p_mod_present :: i2c_bit_op
  qsfp28p_reset :: "i2c_bit_op option"

record yaml_device =
  dev_name :: string
  dev_bus :: string
  dev_type :: string
  dev_address :: nat
  dev_pre :: "string list"
  dev_post :: "string list"

text \<open>
  \<open>pm_port_t\<close>, with the two members of a \<open>PLATFORM_SIMULATION\<close> build and the two
  observation flags.
\<close>

record pm_port =
  port_instance :: string
  uuid :: "128 word"
  module_device :: yaml_port
  subsystem :: string
  ovs_module_columns :: ovs_module_info
  ovs_module_dom_columns :: ovs_module_dom_info
  module_info_changed :: bool
  hw_enable :: bool
  hw_enable_subport :: "bool list"
  present :: bool
  retry :: bool
  a2_read_requested :: bool
  split_port :: bool
  optical :: bool
  module_data :: "page option"
  port_enable :: byte
  bad_free :: bool
  leaked :: bool

text \<open>
  \<open>strcmp (port->module_device->connector, s) == 0\<close>. The pointer must not be NULL: the
  creation of a port is modelled with that failure (\<open>ovsdb_if_intf_create\<close>), so no port of
  the daemon has a NULL connector.
\<close>

definition connector_is :: "pm_port \<Rightarrow> string \<Rightarrow> bool" where
  "connector_is port s \<longleftrightarrow> yp_connector (module_device port) = Some s"

section \<open>The macros\<close>

definition set_col :: "mod_field \<Rightarrow> cptr option \<Rightarrow> pm_port \<Rightarrow> pm_port" where
  "set_col f v port =
     port\<lparr>ovs_module_columns := (ovs_module_columns port)(f := v), module_info_changed := True\<rparr>"

definition set_dom :: "dom_field \<Rightarrow> cptr option \<Rightarrow> pm_port \<Rightarrow> pm_port" where
  "set_dom f v port =
     port\<lparr>ovs_module_dom_columns := (ovs_module_dom_columns port)(f := v), module_info_changed := True\<rparr>"

definition is_static :: "cptr option \<Rightarrow> bool" where
  "is_static v = (case v of Some (Static c) \<Rightarrow> True | _ \<Rightarrow> False)"

definition is_heap :: "cptr option \<Rightarrow> bool" where
  "is_heap v = (case v of Some (Heap s) \<Rightarrow> True | _ \<Rightarrow> False)"

text \<open>\<open>free (v)\<close>, and a pointer that is overwritten without being freed.\<close>

definition c_free :: "cptr option \<Rightarrow> pm_port \<Rightarrow> pm_port" where
  "c_free v port = port\<lparr>bad_free := bad_free port \<or> is_static v\<rparr>"

definition c_drop :: "cptr option \<Rightarrow> pm_port \<Rightarrow> pm_port" where
  "c_drop v port = port\<lparr>leaked := leaked port \<or> is_heap v\<rparr>"

definition SET_STATIC_STRING :: "mod_field \<Rightarrow> ext_const \<Rightarrow> pm_port \<Rightarrow> pm_port" where
  "SET_STATIC_STRING f c port =
     set_col f (Some (Static c)) (c_drop (ovs_module_columns port f) port)"

definition SET_STRING ::
  "(ext_const \<Rightarrow> string) \<Rightarrow> mod_field \<Rightarrow> string \<Rightarrow> pm_port \<Rightarrow> pm_port" where
  "SET_STRING cn f v port =
     (let old = ovs_module_columns port f in
      if (case old of None \<Rightarrow> True
          | Some p \<Rightarrow> length (text_of cn p) \<noteq> length v \<or> text_of cn p \<noteq> v)
      then set_col f (Some (Heap v)) (c_free old port)
      else port)"

definition SET_INT_STRING ::
  "(ext_const \<Rightarrow> string) \<Rightarrow> mod_field \<Rightarrow> int \<Rightarrow> pm_port \<Rightarrow> pm_port" where
  "SET_INT_STRING cn f v port =
     (let old = ovs_module_columns port f in
      if (case old of None \<Rightarrow> True | Some p \<Rightarrow> strtol0 (text_of cn p) \<noteq> v)
      then set_col f (Some (Heap (dec_of_int v))) (c_free old port)
      else port)"

text \<open>The comparison converts the \<open>long\<close> to \<open>float\<close>.\<close>

definition SET_FLOAT_STRING ::
  "(ext_const \<Rightarrow> string) \<Rightarrow> dom_field \<Rightarrow> fp \<Rightarrow> pm_port \<Rightarrow> pm_port" where
  "SET_FLOAT_STRING cn f v port =
     (let old = ovs_module_dom_columns port f in
      if (case old of None \<Rightarrow> True | Some p \<Rightarrow> float_of_int (strtol0 (text_of cn p)) \<noteq> v)
      then set_dom f (Some (Heap (fmt_4_2f v))) (c_free old port)
      else port)"

definition SET_FLAG_STRING ::
  "(ext_const \<Rightarrow> string) \<Rightarrow> dom_field \<Rightarrow> string \<Rightarrow> pm_port \<Rightarrow> pm_port" where
  "SET_FLAG_STRING cn f v port =
     (let old = ovs_module_dom_columns port f in
      if (case old of None \<Rightarrow> True
          | Some p \<Rightarrow> length (text_of cn p) \<noteq> length v \<or> text_of cn p \<noteq> v)
      then set_dom f (Some (Heap v)) (c_free old port)
      else port)"

definition SET_BOOL_STRING ::
  "(ext_const \<Rightarrow> string) \<Rightarrow> dom_field \<Rightarrow> bool \<Rightarrow> pm_port \<Rightarrow> pm_port" where
  "SET_BOOL_STRING cn f v port =
     (if v then SET_FLAG_STRING cn f ''On'' port else SET_FLAG_STRING cn f ''Off'' port)"

definition SET_BINARY :: "mod_field \<Rightarrow> byte list \<Rightarrow> pm_port \<Rightarrow> pm_port" where
  "SET_BINARY f v port =
     set_col f (map_option Heap (hex_to_ascii v)) (c_free (ovs_module_columns port f) port)"

definition DELETE :: "mod_field \<Rightarrow> pm_port \<Rightarrow> pm_port" where
  "DELETE f port =
     (if ovs_module_columns port f \<noteq> None
      then set_col f None (c_drop (ovs_module_columns port f) port) else port)"

definition DELETE_FREE :: "mod_field \<Rightarrow> pm_port \<Rightarrow> pm_port" where
  "DELETE_FREE f port =
     (if ovs_module_columns port f \<noteq> None
      then set_col f None (c_free (ovs_module_columns port f) port) else port)"

text \<open>Plain assignments to the status members.\<close>

definition set_optical :: "bool \<Rightarrow> pm_port \<Rightarrow> pm_port" where
  "set_optical b port = port\<lparr>optical := b\<rparr>"

definition set_present :: "bool \<Rightarrow> pm_port \<Rightarrow> pm_port" where
  "set_present b port = port\<lparr>present := b\<rparr>"

definition set_retry :: "bool \<Rightarrow> pm_port \<Rightarrow> pm_port" where
  "set_retry b port = port\<lparr>retry := b\<rparr>"

definition set_a2_requested :: "bool \<Rightarrow> pm_port \<Rightarrow> pm_port" where
  "set_a2_requested b port = port\<lparr>a2_read_requested := b\<rparr>"

lemmas setter_defs =
  set_optical_def set_present_def set_retry_def set_a2_requested_def

lemmas macro_defs =
  SET_STATIC_STRING_def SET_STRING_def SET_INT_STRING_def SET_FLOAT_STRING_def
  SET_FLAG_STRING_def SET_BOOL_STRING_def SET_BINARY_def DELETE_def DELETE_FREE_def
  set_col_def set_dom_def c_free_def c_drop_def

end
