(* ===== verification/Port_Invariants.thy ===== *)
theory Port_Invariants
  imports Pm_Port
begin

text \<open>
  What the macros of \<open>include/pmd.h.in\<close> keep. The locales below are the interface between
  the macros and the code that uses them: an invariant of a port that the primitive writes
  keep is kept by every operation built from them. They are interpreted on the ownership
  invariant \<open>mem_ok\<close> and on the frames \<open>config_of\<close> and \<open>status_of\<close>.
\<close>

section \<open>Ownership of the columns\<close>

text \<open>The columns that point to string constants; all others own allocated memory.\<close>

definition static_field :: "mod_field \<Rightarrow> bool" where
  "static_field f \<longleftrightarrow> f \<in> {Connector, Connector_status, Cable_technology, Power_mode}"

text \<open>The columns written by \<^const>\<open>SET_INT_STRING\<close>.\<close>

definition int_field :: "mod_field \<Rightarrow> bool" where
  "int_field f \<longleftrightarrow> f \<in> {Max_speed, Cable_length}"

definition is_int_text :: "string \<Rightarrow> bool" where
  "is_int_text s \<longleftrightarrow> s = dec_of_int (strtol0 s)"

fun col_ok :: "mod_field \<Rightarrow> cptr option \<Rightarrow> bool" where
  "col_ok f None = True"
| "col_ok f (Some (Static c)) = static_field f"
| "col_ok f (Some (Heap s)) = (\<not> static_field f \<and> (int_field f \<longrightarrow> is_int_text s))"

definition mem_ok :: "pm_port \<Rightarrow> bool" where
  "mem_ok port \<longleftrightarrow>
     (\<forall>f. col_ok f (ovs_module_columns port f)) \<and>
     (\<forall>f. \<not> is_static (ovs_module_dom_columns port f)) \<and>
     \<not> bad_free port \<and> \<not> leaked port"

definition long_range :: "int \<Rightarrow> bool" where
  "long_range i \<longleftrightarrow> LONG_MIN \<le> i \<and> i \<le> LONG_MAX"

lemma strtol0_dec_of_int_text: "long_range i \<Longrightarrow> strtol0 (dec_of_int i) = i"
  using strtol0_dec_of_int [of "[]" i] by (simp add: long_range_def ends_number_def)

lemma is_int_text_dec: "long_range i \<Longrightarrow> is_int_text (dec_of_int i)"
  by (simp add: is_int_text_def strtol0_dec_of_int_text)

lemma col_ok_not_static: "col_ok f v \<Longrightarrow> \<not> static_field f \<Longrightarrow> \<not> is_static v"
  by (cases "(f, v)" rule: col_ok.cases) (auto simp: is_static_def)

lemma col_ok_not_heap: "col_ok f v \<Longrightarrow> static_field f \<Longrightarrow> \<not> is_heap v"
  by (cases "(f, v)" rule: col_ok.cases) (auto simp: is_heap_def)

section \<open>Interfaces: invariants of the primitive writes\<close>

definition write_heap :: "mod_field \<Rightarrow> string \<Rightarrow> pm_port \<Rightarrow> pm_port" where
  "write_heap f s port = set_col f (Some (Heap s)) (c_free (ovs_module_columns port f) port)"

definition write_dom :: "dom_field \<Rightarrow> string \<Rightarrow> pm_port \<Rightarrow> pm_port" where
  "write_dom f s port = set_dom f (Some (Heap s)) (c_free (ovs_module_dom_columns port f) port)"

locale column_invariant =
  fixes I :: "pm_port \<Rightarrow> bool"
  assumes keep_static: "static_field f \<Longrightarrow> I p \<Longrightarrow> I (SET_STATIC_STRING f c p)"
    and keep_heap: "\<not> static_field f \<Longrightarrow> (int_field f \<Longrightarrow> is_int_text s) \<Longrightarrow> I p \<Longrightarrow> I (write_heap f s p)"
    and keep_delete: "static_field f \<Longrightarrow> I p \<Longrightarrow> I (DELETE f p)"
    and keep_delete_free: "\<not> static_field f \<Longrightarrow> I p \<Longrightarrow> I (DELETE_FREE f p)"
begin

lemma keep_SET_STRING:
  "\<not> static_field f \<Longrightarrow> \<not> int_field f \<Longrightarrow> I p \<Longrightarrow> I (SET_STRING cn f v p)"
  using keep_heap [of f v p] by (simp add: SET_STRING_def write_heap_def Let_def)

lemma keep_SET_INT_STRING:
  "\<not> static_field f \<Longrightarrow> long_range v \<Longrightarrow> I p \<Longrightarrow> I (SET_INT_STRING cn f v p)"
  using keep_heap [of f "dec_of_int v" p] is_int_text_dec [of v]
  by (simp add: SET_INT_STRING_def write_heap_def Let_def)

lemma keep_SET_BINARY:
  "\<not> static_field f \<Longrightarrow> \<not> int_field f \<Longrightarrow> I p \<Longrightarrow> I (SET_BINARY f bs p)"
  using keep_heap [of f "hex_text bs" p] by (simp add: SET_BINARY_def hex_to_ascii_eq write_heap_def)

lemmas keep_columns =
  keep_static keep_heap keep_delete keep_delete_free
  keep_SET_STRING keep_SET_INT_STRING keep_SET_BINARY

end

locale dom_invariant = column_invariant +
  assumes keep_dom: "I p \<Longrightarrow> I (write_dom f s p)"
begin

lemma keep_SET_FLOAT_STRING: "I p \<Longrightarrow> I (SET_FLOAT_STRING cn f v p)"
  using keep_dom [of p f "fmt_4_2f v"] by (simp add: SET_FLOAT_STRING_def write_dom_def Let_def)

lemma keep_SET_BOOL_STRING: "I p \<Longrightarrow> I (SET_BOOL_STRING cn f b p)"
  using keep_dom [of p f "''On''"] keep_dom [of p f "''Off''"]
  by (simp add: SET_BOOL_STRING_def SET_FLAG_STRING_def write_dom_def Let_def)

lemmas keep_doms = keep_SET_FLOAT_STRING keep_SET_BOOL_STRING

end

locale port_invariant = dom_invariant +
  assumes keep_optical: "I p \<Longrightarrow> I (set_optical b p)"
    and keep_present: "I p \<Longrightarrow> I (set_present b p)"
    and keep_retry: "I p \<Longrightarrow> I (set_retry b p)"
    and keep_a2_requested: "I p \<Longrightarrow> I (set_a2_requested b p)"
begin

lemmas keep_status = keep_optical keep_present keep_retry keep_a2_requested

end

section \<open>The ownership invariant\<close>

lemma col_ok_upd:
  "\<forall>g. col_ok g (cols g) \<Longrightarrow> col_ok f v \<Longrightarrow> \<forall>g. col_ok g ((cols(f := v)) g)"
  by simp

interpretation mem: port_invariant mem_ok
proof unfold_locales
  fix f c p
  assume "static_field f" "mem_ok p"
  then show "mem_ok (SET_STATIC_STRING f c p)"
    using col_ok_not_heap [of f "ovs_module_columns p f"]
    by (auto simp: mem_ok_def SET_STATIC_STRING_def set_col_def c_drop_def)
next
  fix f s p
  assume "\<not> static_field f" "int_field f \<Longrightarrow> is_int_text s" "mem_ok p"
  then show "mem_ok (write_heap f s p)"
    using col_ok_not_static [of f "ovs_module_columns p f"]
    by (auto simp: mem_ok_def write_heap_def set_col_def c_free_def)
next
  fix f p
  assume "static_field f" "mem_ok p"
  then show "mem_ok (DELETE f p)"
    using col_ok_not_heap [of f "ovs_module_columns p f"]
    by (auto simp: mem_ok_def DELETE_def set_col_def c_drop_def)
next
  fix f p
  assume "\<not> static_field f" "mem_ok p"
  then show "mem_ok (DELETE_FREE f p)"
    using col_ok_not_static [of f "ovs_module_columns p f"]
    by (auto simp: mem_ok_def DELETE_FREE_def set_col_def c_free_def)
next
  fix f s p
  assume p: "mem_ok p"
  then have "\<not> is_static (ovs_module_dom_columns p f)" unfolding mem_ok_def by blast
  moreover have "\<not> is_static (Some (Heap s))" by (simp add: is_static_def)
  ultimately show "mem_ok (write_dom f s p)"
    using p by (simp add: mem_ok_def write_dom_def set_dom_def c_free_def del: split_paired_All)
qed (auto simp: mem_ok_def setter_defs)

section \<open>Frames\<close>

text \<open>The configuration of a port: nothing but its creation and the configuration code writes it.\<close>

definition config_of where
  "config_of port =
     (port_instance port, uuid port, module_device port, subsystem port, hw_enable port,
      hw_enable_subport port, split_port port, module_data port, port_enable port)"

text \<open>The status flags: no macro writes them.\<close>

definition status_of where
  "status_of port = (present port, retry port, a2_read_requested port)"

interpretation cfg: port_invariant "\<lambda>p. config_of p = c"
  by unfold_locales (auto simp: config_of_def macro_defs write_heap_def write_dom_def setter_defs)

interpretation sts: dom_invariant "\<lambda>p. status_of p = c"
  by unfold_locales (auto simp: status_of_def macro_defs write_heap_def write_dom_def)

interpretation dom_frame: column_invariant "\<lambda>p. ovs_module_dom_columns p = d"
  by unfold_locales (auto simp: macro_defs write_heap_def)

interpretation opt_frame: dom_invariant "\<lambda>p. optical p = b"
  by unfold_locales (auto simp: macro_defs write_heap_def write_dom_def)

section \<open>What a column reads as\<close>

text \<open>The text of every column, or \<^const>\<open>None\<close> where the pointer is NULL.\<close>

definition col_text :: "(ext_const \<Rightarrow> string) \<Rightarrow> pm_port \<Rightarrow> mod_field \<Rightarrow> string option" where
  "col_text cn port f = map_option (text_of cn) (ovs_module_columns port f)"

definition dom_text :: "(ext_const \<Rightarrow> string) \<Rightarrow> pm_port \<Rightarrow> dom_field \<Rightarrow> string option" where
  "dom_text cn port f = map_option (text_of cn) (ovs_module_dom_columns port f)"

lemma col_text_static [simp]:
  "col_text cn (SET_STATIC_STRING f c p) = (col_text cn p)(f \<mapsto> cn c)"
  by (auto simp: fun_eq_iff col_text_def macro_defs)

lemma col_text_string [simp]:
  "col_text cn (SET_STRING cn f v p) = (col_text cn p)(f \<mapsto> v)"
  by (auto simp: fun_eq_iff col_text_def macro_defs Let_def split: option.splits)

lemma col_text_binary [simp]:
  "col_text cn (SET_BINARY f bs p) = (col_text cn p)(f \<mapsto> hex_text bs)"
  by (auto simp: fun_eq_iff col_text_def macro_defs hex_to_ascii_eq)

lemma col_text_delete [simp]: "col_text cn (DELETE f p) = (col_text cn p)(f := None)"
  by (auto simp: fun_eq_iff col_text_def macro_defs)

lemma col_text_delete_free [simp]: "col_text cn (DELETE_FREE f p) = (col_text cn p)(f := None)"
  by (auto simp: fun_eq_iff col_text_def macro_defs)

lemma col_text_setters [simp]:
  "col_text cn (set_optical b p) = col_text cn p"
  "col_text cn (set_present b p) = col_text cn p"
  "col_text cn (set_retry b p) = col_text cn p"
  "col_text cn (set_a2_requested b p) = col_text cn p"
  by (simp_all add: fun_eq_iff col_text_def setter_defs)

text \<open>
  An integer column that holds the text of an integer holds the text of the new one
  afterwards, also when the write is skipped because the values agree.
\<close>

lemma col_text_int:
  assumes "mem_ok p" and "int_field f"
  shows "col_text cn (SET_INT_STRING cn f v p) = (col_text cn p)(f \<mapsto> dec_of_int v)"
proof (cases "ovs_module_columns p f")
  case None
  then show ?thesis by (auto simp: fun_eq_iff col_text_def macro_defs)
next
  case (Some q)
  from assms have "col_ok f (Some q)" by (metis Some mem_ok_def)
  then obtain s where "q = Heap s" "is_int_text s"
    using assms(2) by (cases q) (auto simp: static_field_def int_field_def)
  then show ?thesis
    using Some by (auto simp: fun_eq_iff col_text_def macro_defs is_int_text_def)
qed

lemma dom_text_bool [simp]:
  "dom_text cn (SET_BOOL_STRING cn f b p) = (dom_text cn p)(f \<mapsto> (if b then ''On'' else ''Off''))"
  by (auto simp: fun_eq_iff dom_text_def macro_defs Let_def split: option.splits)

text \<open>
  A float column is rewritten only when the integer that starts its old text differs from
  the new value.
\<close>

definition float_update :: "string option \<Rightarrow> fp \<Rightarrow> string" where
  "float_update old v =
     (case old of
        None \<Rightarrow> fmt_4_2f v
      | Some s \<Rightarrow> if float_of_int (strtol0 s) \<noteq> v then fmt_4_2f v else s)"

lemma dom_text_float [simp]:
  "dom_text cn (SET_FLOAT_STRING cn f v p) = (dom_text cn p)(f \<mapsto> float_update (dom_text cn p f) v)"
  by (auto simp: fun_eq_iff dom_text_def macro_defs float_update_def Let_def split: option.splits)

lemma changed_static [simp]: "module_info_changed (SET_STATIC_STRING f c p)"
  by (simp add: macro_defs)

lemma changed_binary [simp]: "module_info_changed (SET_BINARY f bs p)"
  by (simp add: macro_defs)

interpretation changed: port_invariant module_info_changed
  by unfold_locales (auto simp: macro_defs write_heap_def write_dom_def setter_defs)

end
