(* ===== verification/Sample_Pages.thy ===== *)
theory Sample_Pages
  imports Port_Invariants
begin

text \<open>
  The module pages of \<open>tests/files\<close> and a port to read them at: the concrete inputs on which
  the properties of the other theories are applied.
\<close>

section \<open>Pages\<close>

definition SFP_DAC_MOLEX :: page where
  "SFP_DAC_MOLEX =
     [0x03, 0x04, 0x21, 0x01, 0x00, 0x00, 0x04, 0x41, 0x84, 0x80, 0xD5, 0x00, 0x67, 0x00, 0x00, 0x00,
      0x00, 0x00, 0x01, 0x00, 0x4D, 0x6F, 0x6C, 0x65, 0x78, 0x20, 0x49, 0x6E, 0x63, 0x2E, 0x20, 0x20,
      0x20, 0x20, 0x20, 0x20, 0x00, 0x00, 0x09, 0x3A, 0x37, 0x34, 0x37, 0x36, 0x34, 0x39, 0x31, 0x32,
      0x34, 0x20, 0x20, 0x20, 0x20, 0x20, 0x20, 0x20, 0x41, 0x31, 0x20, 0x20, 0x01, 0x00, 0x00, 0x8E,
      0x00, 0x00, 0x00, 0x00, 0x33, 0x30, 0x32, 0x33, 0x33, 0x30, 0x30, 0x33, 0x39, 0x20, 0x20, 0x20,
      0x20, 0x20, 0x20, 0x20, 0x31, 0x33, 0x30, 0x31, 0x32, 0x33, 0x20, 0x20, 0x00, 0x00, 0x00, 0x11,
      0x48, 0x33, 0x43, 0x00, 0x00, 0x00, 0x00, 0x00, 0x00, 0x00, 0x00, 0x09, 0x09, 0x00, 0x01, 0x06,
      0x06, 0x06, 0x06, 0x01, 0x00, 0x02, 0x01, 0x00, 0x00, 0x00, 0x00, 0x00, 0x00, 0x00, 0x00, 0xED]"

definition SFP_SR_AVAGO :: page where
  "SFP_SR_AVAGO =
     [0x03, 0x04, 0x07, 0x10, 0x00, 0x00, 0x00, 0x00, 0x00, 0x00, 0x00, 0x06, 0x67, 0x00, 0x00, 0x00,
      0x08, 0x03, 0x00, 0x1E, 0x41, 0x56, 0x41, 0x47, 0x4F, 0x20, 0x20, 0x20, 0x20, 0x20, 0x20, 0x20,
      0x20, 0x20, 0x20, 0x20, 0x00, 0x00, 0x17, 0x6A, 0x41, 0x46, 0x42, 0x52, 0x2D, 0x37, 0x30, 0x33,
      0x53, 0x44, 0x5A, 0x2D, 0x48, 0x50, 0x31, 0x20, 0x47, 0x32, 0x2E, 0x33, 0x03, 0x52, 0x00, 0x1B,
      0x00, 0x1A, 0x00, 0x00, 0x41, 0x41, 0x30, 0x39, 0x33, 0x38, 0x41, 0x30, 0x44, 0x5A, 0x32, 0x20,
      0x20, 0x20, 0x20, 0x20, 0x30, 0x39, 0x30, 0x39, 0x32, 0x30, 0x20, 0x20, 0x68, 0xF0, 0x03, 0x20,
      0x00, 0x00, 0x00, 0xD0, 0x00, 0x81, 0x45, 0x01, 0x34, 0x35, 0x35, 0x38, 0x38, 0x35, 0x2D, 0x30,
      0x30, 0x31, 0x20, 0x20, 0x20, 0x20, 0x00, 0x00, 0xEE, 0xCA, 0xF4, 0xA1, 0xE5, 0x75, 0x98, 0x2B]"

definition QSFP_CR4_MELLANOX :: page where
  "QSFP_CR4_MELLANOX =
     [0x0D, 0x00, 0x23, 0x08, 0x00, 0x00, 0x00, 0x00, 0x00, 0x00, 0x00, 0x05, 0x8D, 0x00, 0x00, 0x00,
      0x00, 0x00, 0x01, 0xA0, 0x4D, 0x65, 0x6C, 0x6C, 0x61, 0x6E, 0x6F, 0x78, 0x20, 0x20, 0x20, 0x20,
      0x20, 0x20, 0x20, 0x20, 0x0F, 0x00, 0x02, 0xC9, 0x36, 0x37, 0x30, 0x37, 0x35, 0x39, 0x2D, 0x42,
      0x32, 0x32, 0x20, 0x20, 0x20, 0x20, 0x20, 0x20, 0x41, 0x31, 0x03, 0x05, 0x07, 0x00, 0x46, 0x21,
      0x00, 0x00, 0x00, 0x00, 0x36, 0x43, 0x32, 0x32, 0x32, 0x39, 0x30, 0x33, 0x43, 0x4D, 0x20, 0x20,
      0x20, 0x20, 0x20, 0x20, 0x31, 0x32, 0x30, 0x37, 0x32, 0x36, 0x20, 0x20, 0x00, 0x00, 0x00, 0x6D,
      0x00, 0x00, 0x00, 0x00, 0x00, 0x00, 0x00, 0x00, 0x00, 0x00, 0x00, 0x00, 0x00, 0x00, 0x00, 0x00,
      0x00, 0x00, 0x00, 0x00, 0x00, 0x00, 0x00, 0x00, 0x00, 0x00, 0x02, 0x00, 0x00, 0x30, 0x00, 0x00]"

definition QSFP_CR4_MOLEX :: page where
  "QSFP_CR4_MOLEX =
     [0x0D, 0x00, 0x21, 0x08, 0x00, 0x00, 0x00, 0x41, 0x80, 0x80, 0xD5, 0x00, 0x00, 0x00, 0x00, 0x00,
      0x00, 0x00, 0x01, 0xA0, 0x4D, 0x6F, 0x6C, 0x65, 0x78, 0x20, 0x49, 0x6E, 0x63, 0x2E, 0x20, 0x20,
      0x20, 0x20, 0x20, 0x20, 0x07, 0x00, 0x09, 0x3A, 0x31, 0x31, 0x31, 0x30, 0x34, 0x30, 0x39, 0x30,
      0x38, 0x33, 0x20, 0x20, 0x20, 0x20, 0x20, 0x20, 0x41, 0x30, 0x00, 0x00, 0x00, 0x00, 0x46, 0xD6,
      0x00, 0x00, 0x00, 0x00, 0x32, 0x31, 0x31, 0x37, 0x33, 0x30, 0x31, 0x31, 0x33, 0x20, 0x20, 0x20,
      0x20, 0x20, 0x20, 0x20, 0x31, 0x32, 0x30, 0x34, 0x32, 0x36, 0x20, 0x20, 0x00, 0x00, 0x00, 0x12,
      0x48, 0x33, 0x43, 0x20, 0x01, 0x00, 0x00, 0x00, 0x00, 0x00, 0x00, 0x00, 0x00, 0x00, 0x00, 0x00,
      0x00, 0x00, 0x00, 0xDF, 0x00, 0x00, 0x00, 0x00, 0x00, 0x00, 0x00, 0x00, 0x00, 0x00, 0x00, 0x00]"

definition QSFP_SR4_AVAGO :: page where
  "QSFP_SR4_AVAGO =
     [0x0D, 0x00, 0x0C, 0x04, 0x00, 0x00, 0x00, 0x00, 0x00, 0x00, 0x00, 0x05, 0x67, 0x00, 0x00, 0x96,
      0x00, 0x00, 0x00, 0x00, 0x41, 0x56, 0x41, 0x47, 0x4F, 0x20, 0x20, 0x20, 0x20, 0x20, 0x20, 0x20,
      0x20, 0x20, 0x20, 0x20, 0x00, 0x00, 0x17, 0x6A, 0x41, 0x46, 0x42, 0x52, 0x2D, 0x37, 0x39, 0x45,
      0x45, 0x50, 0x5A, 0x2D, 0x48, 0x50, 0x31, 0x20, 0x30, 0x31, 0x42, 0x68, 0x07, 0xD0, 0x46, 0x98,
      0x00, 0x00, 0x0F, 0xDE, 0x41, 0x54, 0x41, 0x31, 0x31, 0x34, 0x31, 0x31, 0x30, 0x30, 0x30, 0x30,
      0x30, 0x31, 0x32, 0x20, 0x31, 0x34, 0x30, 0x33, 0x31, 0x30, 0x20, 0x20, 0x08, 0x00, 0x00, 0x9F,
      0x00, 0x96, 0x45, 0x00, 0xD9, 0x7C, 0xD0, 0x48, 0xEA, 0x49, 0x1A, 0x57, 0x37, 0x34, 0x37, 0x36,
      0x39, 0x38, 0x2D, 0x42, 0x32, 0x31, 0x48, 0x50, 0x49, 0x01, 0x01, 0x00, 0x00, 0x00, 0x28, 0x12]"

text \<open>The corrupted sample differs from \<open>SFP_SR_AVAGO\<close> in byte 12.\<close>

definition SFP_SR_AVAGO_CORRUPTED :: page where
  "SFP_SR_AVAGO_CORRUPTED = SFP_SR_AVAGO[12 := 0x63]"

lemma length_sample_pages [simp]:
  "length SFP_DAC_MOLEX = 128" "length SFP_SR_AVAGO = 128" "length SFP_SR_AVAGO_CORRUPTED = 128"
  "length QSFP_CR4_MELLANOX = 128" "length QSFP_CR4_MOLEX = 128" "length QSFP_SR4_AVAGO = 128"
  by (simp_all add: SFP_DAC_MOLEX_def SFP_SR_AVAGO_def SFP_SR_AVAGO_CORRUPTED_def
      QSFP_CR4_MELLANOX_def QSFP_CR4_MOLEX_def QSFP_SR4_AVAGO_def)

section \<open>Ports\<close>

definition sample_bit_op :: i2c_bit_op where
  "sample_bit_op = \<lparr>op_device = ''cpld'', op_register = 16, bit_mask = 1\<rparr>"

definition sample_yaml :: "string \<Rightarrow> yaml_port" where
  "sample_yaml conn =
     \<lparr>yp_name = ''1'', yp_pluggable = True, yp_connector = Some conn,
      yp_module_eeprom = ''eeprom'', sfpp_mod_present = sample_bit_op,
      sfpp_tx_disable = sample_bit_op, qsfpp_mod_present = sample_bit_op,
      qsfpp_reset = Some sample_bit_op, qsfp28p_mod_present = sample_bit_op,
      qsfp28p_reset = None\<rparr>"

text \<open>A port as it is created: no column, nothing read yet.\<close>

definition sample_port :: "string \<Rightarrow> pm_port" where
  "sample_port conn =
     \<lparr>port_instance = ''1'', uuid = 0, module_device = sample_yaml conn, subsystem = ''base'',
      ovs_module_columns = (\<lambda>_. None), ovs_module_dom_columns = (\<lambda>_. None),
      module_info_changed = False, hw_enable = False,
      hw_enable_subport = [False, False, False, False], present = False, retry = False,
      a2_read_requested = False, split_port = False, optical = False, module_data = None,
      port_enable = 0, bad_free = False, leaked = False\<rparr>"

lemma sample_port_simps [simp]:
  "module_device (sample_port conn) = sample_yaml conn"
  "yp_pluggable (sample_yaml conn)" "yp_connector (sample_yaml conn) = Some conn"
  "mem_ok (sample_port conn)"
  by (simp_all add: sample_port_def sample_yaml_def mem_ok_def is_static_def)

lemma col_text_sample_port [simp]: "col_text cn (sample_port conn) = (\<lambda>_. None)"
  by (simp add: sample_port_def col_text_def fun_eq_iff)

lemma dom_text_sample_port [simp]: "dom_text cn (sample_port conn) = (\<lambda>_. None)"
  by (simp add: sample_port_def dom_text_def fun_eq_iff)

end
