(* ===== verification/C_Layout.thy ===== *)
theory C_Layout
  imports Pmd_Prelude
begin

text \<open>
  Layout of C structures. The daemon reads module pages by casting a byte buffer to a
  structure of bit fields (\<open>include/plug.h\<close>, \<open>include/pm_dom.h\<close>), so what a field access
  reads is decided by the compiler's layout rules. They are modelled here as the System V
  ABI and gcc lay structures out on a little-endian machine: members in order of
  declaration, each at the next multiple of its alignment; bit fields of \<open>unsigned char\<close>
  from the least significant bit up, never across a byte; the size of a structure rounded
  up to its alignment.
\<close>

section \<open>Types and their layout\<close>

text \<open>
  A layout lists the scalar leaves of a type (path of the member, bit offset, width in
  bits), its size and its alignment, both in bytes.
\<close>

datatype clayout = CLayout (leaves: "(string \<times> nat \<times> nat) list") (csize: nat) (calign: nat)

datatype cmember = Member clayout | Bits nat

definition c_array :: "nat \<Rightarrow> clayout" where
  "c_array n = CLayout [([], 0, 8 * n)] n 1"

definition c_char :: clayout where
  "c_char = c_array 1"

definition c_ushort :: clayout where
  "c_ushort = CLayout [([], 0, 16)] 2 2"

definition round_up :: "nat \<Rightarrow> nat \<Rightarrow> nat" where
  "round_up x a = (x + a - 1) div a * a"

definition sub_path :: "string \<Rightarrow> string \<Rightarrow> string" where
  "sub_path n s = (if s = [] then n else n @ ''.'' @ s)"

text \<open>Where a member starts when the members before it end at bit \<open>cur\<close>, and where it ends.\<close>

fun member_start :: "cmember \<Rightarrow> nat \<Rightarrow> nat" where
  "member_start (Bits w) cur = (if cur mod 8 + w \<le> 8 then cur else round_up cur 8)"
| "member_start (Member L) cur = round_up cur (8 * calign L)"

fun member_width :: "cmember \<Rightarrow> nat" where
  "member_width (Bits w) = w"
| "member_width (Member L) = 8 * csize L"

fun member_align :: "cmember \<Rightarrow> nat" where
  "member_align (Bits w) = 1"
| "member_align (Member L) = calign L"

fun member_leaves :: "string \<Rightarrow> cmember \<Rightarrow> nat \<Rightarrow> (string \<times> nat \<times> nat) list" where
  "member_leaves n (Bits w) p = [(n, p, w)]"
| "member_leaves n (Member L) p =
     map (\<lambda>l. (sub_path n (fst l), p + fst (snd l), snd (snd l))) (leaves L)"

fun members_end :: "(string \<times> cmember) list \<Rightarrow> nat \<Rightarrow> nat" where
  "members_end [] cur = cur"
| "members_end ((n, m) # ms) cur = members_end ms (member_start m cur + member_width m)"

fun members_leaves :: "(string \<times> cmember) list \<Rightarrow> nat \<Rightarrow> (string \<times> nat \<times> nat) list" where
  "members_leaves [] cur = []"
| "members_leaves ((n, m) # ms) cur =
     member_leaves n m (member_start m cur)
       @ members_leaves ms (member_start m cur + member_width m)"

definition members_align :: "(string \<times> cmember) list \<Rightarrow> nat" where
  "members_align ms = foldr (\<lambda>nm. max (member_align (snd nm))) ms 1"

definition c_struct :: "(string \<times> cmember) list \<Rightarrow> clayout" where
  "c_struct ms =
     CLayout (members_leaves ms 0)
       (round_up (members_end ms 0) (8 * members_align ms) div 8) (members_align ms)"

definition c_union :: "(string \<times> clayout) list \<Rightarrow> clayout" where
  "c_union ms =
     CLayout (concat (map (\<lambda>nl. member_leaves (fst nl) (Member (snd nl)) 0) ms))
       (round_up (foldr (\<lambda>nl. max (csize (snd nl))) ms 0)
         (members_align (map (\<lambda>nl. (fst nl, Member (snd nl))) ms)))
       (members_align (map (\<lambda>nl. (fst nl, Member (snd nl))) ms))"

section \<open>Access to a field\<close>

definition field_pos :: "clayout \<Rightarrow> string \<Rightarrow> (nat \<times> nat) option" where
  "field_pos L f = map_of (leaves L) f"

text \<open>A scalar member of at most one byte, read as an unsigned value.\<close>

definition field :: "clayout \<Rightarrow> string \<Rightarrow> page \<Rightarrow> byte" where
  "field L f pg =
     (case field_pos L f of
        Some (off, w) \<Rightarrow> drop_bit (off mod 8) (pg ! (off div 8)) AND mask w
      | None \<Rightarrow> 0)"

text \<open>A bit field used as a condition.\<close>

definition flag :: "clayout \<Rightarrow> string \<Rightarrow> page \<Rightarrow> bool" where
  "flag L f pg \<longleftrightarrow> field L f pg \<noteq> 0"

text \<open>The bytes of an array member.\<close>

definition field_bytes :: "clayout \<Rightarrow> string \<Rightarrow> page \<Rightarrow> byte list" where
  "field_bytes L f pg =
     (case field_pos L f of
        Some (off, w) \<Rightarrow> take (w div 8) (drop (off div 8) pg)
      | None \<Rightarrow> [])"

lemma flag_at:
  assumes "field_pos L f = Some (off, 1)"
  shows "flag L f pg = bit (pg ! (off div 8)) (off mod 8)"
proof -
  let ?b = "pg ! (off div 8)" and ?n = "off mod 8"
  have "drop_bit ?n ?b AND mask 1 = 0 \<longleftrightarrow> \<not> bit ?b ?n"
    by (simp add: mask_eq_exp_minus_1 bit_iff_odd_drop_bit and_one_eq odd_iff_mod_2_eq_one)
  then show ?thesis using assms by (simp add: flag_def field_def)
qed

text \<open>Unfolding a layout to its list of leaves.\<close>

lemmas layout_defs =
  c_struct_def c_union_def c_array_def c_char_def c_ushort_def round_up_def sub_path_def
  members_align_def

text \<open>Looking a path up in an evaluated layout, with only the rules it needs.\<close>

lemmas lookup_simps =
  field_pos_def clayout.sel map_of.simps fst_conv snd_conv fun_upd_apply list.inject list.distinct
  char.inject if_True if_False simp_thms

lemma and_mask_byte [simp]: "(b :: byte) AND mask 8 = b"
  by (rule bit_word_eqI) (simp add: bit_and_iff bit_mask_iff)

section \<open>Layouts are sound\<close>

text \<open>
  No leaf ends after the end of the type, and a leaf of at most eight bits never crosses a
  byte: with that, an access reads inside a buffer of the structure's size.
\<close>

definition layout_ok :: "clayout \<Rightarrow> bool" where
  "layout_ok L \<longleftrightarrow> 0 < calign L \<and>
     (\<forall>(f, off, w) \<in> set (leaves L).
        off + w \<le> 8 * csize L \<and> (w \<le> 8 \<longrightarrow> off mod 8 + w \<le> 8))"

definition member_ok :: "cmember \<Rightarrow> bool" where
  "member_ok m = (case m of Bits w \<Rightarrow> 0 < w \<and> w \<le> 8 | Member L \<Rightarrow> layout_ok L)"

lemma round_up_ge: "0 < a \<Longrightarrow> x \<le> round_up x a"
proof -
  assume "0 < a"
  then have "(x + a - 1) mod a < a" by simp
  moreover have "(x + a - 1) div a * a + (x + a - 1) mod a = x + a - 1"
    by (rule div_mult_mod_eq)
  ultimately show ?thesis unfolding round_up_def by linarith
qed

lemma round_up_dvd: "a dvd round_up x a"
  by (simp add: round_up_def)

lemma layout_ok_c_array: "layout_ok (c_array n)"
  by (auto simp: layout_ok_def c_array_def)

lemma layout_ok_c_char: "layout_ok c_char"
  by (simp add: c_char_def layout_ok_c_array)

lemma layout_ok_c_ushort: "layout_ok c_ushort"
  by (auto simp: layout_ok_def c_ushort_def)

lemma layout_okD:
  "layout_ok L \<Longrightarrow> (f, off, w) \<in> set (leaves L) \<Longrightarrow> off + w \<le> 8 * csize L"
  "layout_ok L \<Longrightarrow> (f, off, w) \<in> set (leaves L) \<Longrightarrow> w \<le> 8 \<Longrightarrow> off mod 8 + w \<le> 8"
  by (auto simp: layout_ok_def)

lemma member_ok_simps [simp]:
  "member_ok (Bits w) \<longleftrightarrow> 0 < w \<and> w \<le> 8"
  "member_ok (Member L) \<longleftrightarrow> layout_ok L"
  by (simp_all add: member_ok_def)

lemma round_up_8_mod: "round_up x (8 * a) mod 8 = 0"
  by (simp add: round_up_def mod_mult_eq mult.commute mult.left_commute)

lemma member_start_ge: "member_ok m \<Longrightarrow> cur \<le> member_start m cur"
  by (cases m) (auto simp: layout_ok_def round_up_ge)

lemma members_end_ge:
  "\<forall>(n, m) \<in> set ms. member_ok m \<Longrightarrow> cur \<le> members_end ms cur"
proof (induction ms cur rule: members_end.induct)
  case (1 cur)
  then show ?case by simp
next
  case (2 n m ms cur)
  then have "cur \<le> member_start m cur + member_width m"
    by (auto intro: member_start_ge trans_le_add1)
  also have "\<dots> \<le> members_end ms (member_start m cur + member_width m)"
    using 2 by auto
  finally show ?case by simp
qed

text \<open>The leaves of one member end inside it and, up to a byte wide, never cross a byte.\<close>

lemma member_leaves_ok:
  assumes m: "member_ok m" and leaf: "(f, off, w) \<in> set (member_leaves n m (member_start m cur))"
  shows "off + w \<le> member_start m cur + member_width m \<and> (w \<le> 8 \<longrightarrow> off mod 8 + w \<le> 8)"
proof (cases m)
  case (Bits b)
  then show ?thesis using m leaf round_up_8_mod [of cur 1] by auto
next
  case (Member L)
  then obtain g off' where l: "(g, off', w) \<in> set (leaves L)"
      and off: "off = round_up cur (8 * calign L) + off'"
    using leaf by auto
  have "off mod 8 = off' mod 8"
    using off round_up_8_mod [of cur "calign L"] by (metis add_0 mod_add_left_eq)
  then show ?thesis
    using Member m off layout_okD [of L, OF _ l] by auto
qed

lemma members_leaves_ok:
  "\<forall>(n, m) \<in> set ms. member_ok m \<Longrightarrow> (f, off, w) \<in> set (members_leaves ms cur) \<Longrightarrow>
     off + w \<le> members_end ms cur \<and> (w \<le> 8 \<longrightarrow> off mod 8 + w \<le> 8)"
proof (induction ms cur rule: members_leaves.induct)
  case (1 cur)
  then show ?case by simp
next
  case (2 n m ms cur)
  let ?p = "member_start m cur + member_width m"
  have e: "?p \<le> members_end ms ?p" using 2 by (intro members_end_ge) auto
  from "2.prems"(2) consider
      (here) "(f, off, w) \<in> set (member_leaves n m (member_start m cur))"
    | (later) "(f, off, w) \<in> set (members_leaves ms ?p)"
    by auto
  then show ?case
  proof cases
    case here
    then show ?thesis using member_leaves_ok [of m f off w n cur] "2.prems"(1) e by auto
  next
    case later
    then show ?thesis using 2 by auto
  qed
qed

lemma members_align_pos: "0 < members_align ms"
  by (induction ms) (auto simp: members_align_def)

text \<open>A structure, or a union, of sound members is sound.\<close>

lemma layout_ok_c_struct:
  assumes "\<forall>(n, m) \<in> set ms. member_ok m"
  shows "layout_ok (c_struct ms)"
proof -
  let ?a = "members_align ms" and ?e = "members_end ms 0"
  have "8 dvd round_up ?e (8 * ?a)" by (simp add: round_up_8_mod mod_0_imp_dvd)
  then have "?e \<le> 8 * csize (c_struct ms)"
    using round_up_ge [of "8 * ?a" ?e] members_align_pos [of ms] by (simp add: c_struct_def)
  then show ?thesis
    using members_leaves_ok [OF assms, of _ _ _ 0] members_align_pos [of ms]
    by (fastforce simp: layout_ok_def c_struct_def intro: order_trans)
qed

lemma foldr_csize_ge: "(n, L) \<in> set ms \<Longrightarrow> csize L \<le> foldr (\<lambda>nl. max (csize (snd nl))) ms 0"
  by (induction ms) auto

lemma layout_ok_c_union:
  assumes "\<forall>(n, L) \<in> set ms. layout_ok L"
  shows "layout_ok (c_union ms)"
proof -
  let ?a = "members_align (map (\<lambda>nl. (fst nl, Member (snd nl))) ms)"
  let ?s = "foldr (\<lambda>nl. max (csize (snd nl))) ms 0"
  have "off + w \<le> 8 * round_up ?s ?a \<and> (w \<le> 8 \<longrightarrow> off mod 8 + w \<le> 8)"
    if "(n, L) \<in> set ms" "(f, off, w) \<in> set (leaves L)" for n L f off w
  proof -
    have "layout_ok L" using assms that(1) by auto
    moreover have "csize L \<le> round_up ?s ?a"
      using foldr_csize_ge [OF that(1)] round_up_ge [OF members_align_pos] order_trans by blast
    ultimately show ?thesis using layout_okD [of L, OF _ that(2)] by auto
  qed
  then show ?thesis
    using members_align_pos by (fastforce simp: layout_ok_def c_union_def round_up_def [of 0])
qed

lemmas layout_ok_basic = layout_ok_c_array layout_ok_c_char layout_ok_c_ushort

text \<open>
  An access to a field of a sound layout stays inside a buffer of the structure's size.
\<close>

lemma field_in_bounds:
  assumes "layout_ok L" and "field_pos L f = Some (off, w)" and "0 < w"
  shows "off div 8 < csize L"
  using layout_okD(1) [OF assms(1) map_of_SomeD [OF assms(2) [unfolded field_pos_def]]] assms(3)
  by linarith

lemma length_field_bytes:
  assumes "layout_ok L" and "field_pos L f = Some (8 * b, 8 * n)" and "length pg = csize L"
  shows "length (field_bytes L f pg) = n"
  using layout_okD(1) [OF assms(1) map_of_SomeD [OF assms(2) [unfolded field_pos_def]]] assms(2,3)
  by (simp add: field_bytes_def)

end
