(* ===== verification/Plug_Layout.thy ===== *)
theory Plug_Layout
  imports C_Layout
begin

text \<open>
  The structures of \<open>include/plug.h\<close>: the serial ID pages (A0 page of an SFP+, upper page 0
  of a QSFP), member by member, and the constants of that header. A page is read with
  \<^const>\<open>field\<close>, \<^const>\<open>flag\<close> and \<^const>\<open>field_bytes\<close> at the member's path, as the code
  reads it through a pointer to the structure.
\<close>

section \<open>Constants\<close>

definition PM_VENDOR_NAME_LEN :: nat where "PM_VENDOR_NAME_LEN = 16"
definition PM_VENDOR_OUI_LEN :: nat where "PM_VENDOR_OUI_LEN = 3"
definition PM_VENDOR_PN_LEN :: nat where "PM_VENDOR_PN_LEN = 16"
definition PM_VENDOR_SN_LEN :: nat where "PM_VENDOR_SN_LEN = 16"
definition PM_SFP_VENDOR_REV_LEN :: nat where "PM_SFP_VENDOR_REV_LEN = 4"
definition PM_QSFP_VENDOR_REV_LEN :: nat where "PM_QSFP_VENDOR_REV_LEN = 2"
definition PM_SERIAL_ID_VENDOR_AREA_LEN :: nat where "PM_SERIAL_ID_VENDOR_AREA_LEN = 32"
definition PM_CONNECTOR_COPPER_PIGTAIL :: byte where "PM_CONNECTOR_COPPER_PIGTAIL = 0x21"
definition SFP_SERIAL_ID_OFFSET :: nat where "SFP_SERIAL_ID_OFFSET = 0"
definition QSFP_SERIAL_ID_OFFSET :: nat where "QSFP_SERIAL_ID_OFFSET = 128"
definition QSFP_DISABLE_OFFSET :: nat where "QSFP_DISABLE_OFFSET = 86"

lemmas plug_consts =
  PM_VENDOR_NAME_LEN_def PM_VENDOR_OUI_LEN_def PM_VENDOR_PN_LEN_def PM_VENDOR_SN_LEN_def
  PM_SFP_VENDOR_REV_LEN_def PM_QSFP_VENDOR_REV_LEN_def PM_SERIAL_ID_VENDOR_AREA_LEN_def

section \<open>SFP+ structures\<close>

definition pm_date_code_t :: clayout where
  "pm_date_code_t = c_struct [
     (''year'', Member (c_array 2)), (''month'', Member (c_array 2)), (''day'', Member (c_array 2)),
     (''lot_code'', Member (c_array 2))]"

definition pm_sfp_serial_id_transceiver_t :: clayout where
  "pm_sfp_serial_id_transceiver_t = c_struct [
     (''ib_1x_copper_passive'', Bits 1), (''ib_1x_copper_active'', Bits 1), (''ib_1x_lx'', Bits 1),
     (''ib_1x_sx'', Bits 1), (''enet_10gbase_sr'', Bits 1), (''enet_10gbase_lr'', Bits 1),
     (''enet_10gbase_lrm'', Bits 1), (''enet_10gbase_er'', Bits 1), (''oc_48_short'', Bits 1),
     (''oc_48_intermediate'', Bits 1), (''oc_48_long'', Bits 1), (''sonet_reach_specifier'', Bits 2),
     (''oc_192'', Bits 1), (''escon_smf_1310nm_laser'', Bits 1), (''escon_mmf_1310nm_led'', Bits 1),
     (''oc_3_multi_short'', Bits 1), (''oc_3_single_intermdiate'', Bits 1),
     (''oc_3_single_long'', Bits 1), (''reserved_4'', Bits 1), (''oc_12_multi_short'', Bits 1),
     (''oc_12_single_intermdiate'', Bits 1), (''oc_12_single_long'', Bits 1),
     (''reserved_3'', Bits 1), (''enet_1000base_sx'', Bits 1), (''enet_1000base_lx'', Bits 1),
     (''enet_1000base_cx'', Bits 1), (''enet_1000base_t'', Bits 1),
     (''enet_100base_lx_lx10'', Bits 1), (''enet_100base_fx'', Bits 1), (''enet_base_bx10'', Bits 1),
     (''enet_base_px'', Bits 1), (''fc_electrical_inter_enclosure'', Bits 1),
     (''fc_longwave_laser_lc'', Bits 1), (''fc_shortwave_laser_linear_rx'', Bits 1),
     (''fc_length_medium'', Bits 1), (''fc_length_long'', Bits 1),
     (''fc_length_intermediate'', Bits 1), (''fc_length_short'', Bits 1),
     (''fc_length_very_long'', Bits 1), (''reserved_7'', Bits 1), (''reserved_7_1'', Bits 1),
     (''cable_technology_passive'', Bits 1), (''cable_technology_active'', Bits 1),
     (''fc_longwave_laser_ll'', Bits 1), (''fc_shortwave_laser_ofc'', Bits 1),
     (''fc_shortwave_laser'', Bits 1), (''fc_electrical_intra_enclosure'', Bits 1),
     (''fc_media_single_mode'', Bits 1), (''reserved_8'', Bits 1),
     (''fc_media_multi_mode_5000cm'', Bits 1), (''fc_media_multi_mode_6250cm'', Bits 1),
     (''fc_media_video_coax'', Bits 1), (''fc_media_miniature_coax'', Bits 1),
     (''fc_media_shielded_twisted_pair'', Bits 1), (''fc_media_twin_axial_pair'', Bits 1),
     (''fc_speed_100'', Bits 1), (''reserved_11'', Bits 1), (''fc_speed_200'', Bits 1),
     (''fc_speed_3200'', Bits 1), (''fc_speed_400'', Bits 1), (''fc_speed_1600'', Bits 1),
     (''fc_speed_800'', Bits 1), (''fc_speed_1200'', Bits 1)]"

definition pm_sfp_options_t :: clayout where
  "pm_sfp_options_t = c_struct [
     (''linear_receiver_output'', Bits 1), (''power_class'', Bits 1),
     (''cooled_transceiver'', Bits 1), (''retimer_or_cdr'', Bits 1),
     (''paging_implementation'', Bits 1), (''high_power_level_declaration'', Bits 1),
     (''reserved_0'', Bits 2), (''reserved_2'', Bits 1), (''loss_of_signal'', Bits 1),
     (''loss_of_signal_inverted'', Bits 1), (''tx_fault'', Bits 1), (''tx_disable'', Bits 1),
     (''rate_select'', Bits 1), (''tunable_transmitter'', Bits 1),
     (''receiver_decision_threshold'', Bits 1)]"

definition pm_sfp_diag_monitoring_type_t :: clayout where
  "pm_sfp_diag_monitoring_type_t = c_struct [
     (''reserved'', Bits 2), (''addr_change_required'', Bits 1),
     (''power_measurement_type'', Bits 1), (''externally_calibrated'', Bits 1),
     (''internally_calibrated'', Bits 1), (''implemented_digital'', Bits 1), (''legacy'', Bits 1)]"

definition pm_sfp_enhanced_options_t :: clayout where
  "pm_sfp_enhanced_options_t = c_struct [
     (''reserved'', Bits 1), (''sff8431_rate_select'', Bits 1), (''sff8079_appl_select'', Bits 1),
     (''soft_rate_select'', Bits 1), (''soft_rx_los'', Bits 1), (''soft_tx_fault'', Bits 1),
     (''soft_tx_disable'', Bits 1), (''alarm_warning_flags'', Bits 1)]"

definition pm_sfp_serial_id_t :: clayout where
  "pm_sfp_serial_id_t = c_struct [
     (''identifier'', Member c_char), (''ext_identifier'', Member c_char),
     (''connector'', Member c_char), (''transceiver'', Member pm_sfp_serial_id_transceiver_t),
     (''encoding'', Member c_char), (''bit_rate_nominal'', Member c_char),
     (''rate_identifier'', Member c_char), (''length_smf_9um_in_km'', Member c_char),
     (''length_smf_9um_in_100m'', Member c_char), (''length_mmf_50um_om2'', Member c_char),
     (''length_mmf_62_5um_om1'', Member c_char), (''length_copper'', Member c_char),
     (''length_mmf_50um_om3'', Member c_char),
     (''vendor_name'', Member (c_array PM_VENDOR_NAME_LEN)), (''transceiver_2'', Member c_char),
     (''vendor_oui'', Member (c_array PM_VENDOR_OUI_LEN)),
     (''vendor_part_number'', Member (c_array PM_VENDOR_PN_LEN)),
     (''vendor_revision'', Member (c_array PM_SFP_VENDOR_REV_LEN)),
     (''laser_wavelength'', Member c_ushort), (''reserved_3'', Member c_char),
     (''check_code_for_base'', Member c_char), (''options'', Member pm_sfp_options_t),
     (''bit_rate_max_margin'', Member c_char), (''bit_rate_min_margin'', Member c_char),
     (''vendor_serial_number'', Member (c_array PM_VENDOR_SN_LEN)),
     (''vendor_date_code'', Member pm_date_code_t),
     (''diag_monitor_type'', Member pm_sfp_diag_monitoring_type_t),
     (''enhanced_options'', Member pm_sfp_enhanced_options_t),
     (''sff8472_compliance'', Member c_char), (''check_code_for_extended'', Member c_char),
     (''vendor_area'', Member (c_array PM_SERIAL_ID_VENDOR_AREA_LEN))]"

section \<open>QSFP structures\<close>

definition pm_qsfp_ext_indentifier_t :: clayout where
  "pm_qsfp_ext_indentifier_t = c_struct [
     (''reserved_129_1'', Bits 2), (''cdr_present_in_rx'', Bits 1), (''cdr_present_in_tx'', Bits 1),
     (''clei_code_present'', Bits 1), (''reserved_129_5'', Bits 1), (''power_class'', Bits 2)]"

definition pm_qsfp_spec_compliance_t :: clayout where
  "pm_qsfp_spec_compliance_t = c_struct [
     (''enet_40g_xlppi'', Bits 1), (''enet_40gbase_lr4'', Bits 1), (''enet_40gbase_sr4'', Bits 1),
     (''enet_40gbase_cr4'', Bits 1), (''enet_10gbase_sr'', Bits 1), (''enet_10gbase_lr'', Bits 1),
     (''enet_10gbase_lrm'', Bits 1), (''enet_extended'', Bits 1), (''oc_48_short'', Bits 1),
     (''oc_48_intermediate'', Bits 1), (''oc_48_long'', Bits 1), (''sonet_40g_otn'', Bits 1),
     (''reserved_132_4'', Bits 1), (''reserved_132_5'', Bits 1), (''reserved_132_6'', Bits 1),
     (''reserved_132_7'', Bits 1), (''reserved_133_0'', Bits 1), (''reserved_133_1'', Bits 1),
     (''reserved_133_2'', Bits 1), (''reserved_133_3'', Bits 1), (''sas_3_0g'', Bits 1),
     (''sas_6_0g'', Bits 1), (''reserved_133_6'', Bits 1), (''reserved_133_7'', Bits 1),
     (''enet_1000base_sx'', Bits 1), (''enet_1000base_lx'', Bits 1), (''enet_1000base_cx'', Bits 1),
     (''enet_1000base_t'', Bits 1), (''reserved_134_4'', Bits 1), (''reserved_134_5'', Bits 1),
     (''reserved_134_6'', Bits 1), (''reserved_134_7'', Bits 1),
     (''fc_electrical_inter_enclosure_el'', Bits 1), (''fc_longwave_laser_lc'', Bits 1),
     (''reserved_135_2'', Bits 1), (''fc_length_medium'', Bits 1), (''fc_length_long'', Bits 1),
     (''fc_length_intermediate'', Bits 1), (''fc_length_short'', Bits 1),
     (''fc_length_very_long'', Bits 1), (''reserved_136_0'', Bits 1), (''reserved_136_1'', Bits 1),
     (''reserved_136_2'', Bits 1), (''reserved_136_3'', Bits 1), (''fc_longwave_laser_ll'', Bits 1),
     (''fc_shortwave_laser_ofc_sl'', Bits 1), (''fc_shortwave_laser_sn'', Bits 1),
     (''fc_electrical_intra_enclosure'', Bits 1), (''fc_media_single_mode_sm'', Bits 1),
     (''fc_media_multi_mode_50um_om3'', Bits 1), (''fc_media_multi_mode_50m_m5'', Bits 1),
     (''fc_media_multi_mode_6250cm_m6'', Bits 1), (''fc_media_video_coax_tv'', Bits 1),
     (''fc_media_miniature_coax_mi'', Bits 1), (''fc_media_shielded_twisted_pair_tp'', Bits 1),
     (''fc_media_twin_axial_pair_tw'', Bits 1), (''fc_speed_100'', Bits 1),
     (''reserved_138_1'', Bits 1), (''fc_speed_200'', Bits 1), (''reserved_138_3'', Bits 1),
     (''fc_speed_400'', Bits 1), (''fc_speed_1600'', Bits 1), (''fc_speed_800'', Bits 1),
     (''fc_speed_1200'', Bits 1)]"

definition pm_qsfp_rate_select_t :: clayout where
  "pm_qsfp_rate_select_t = c_struct [
     (''version_1'', Bits 1), (''reserved_141_1'', Bits 1), (''reserved_141_2'', Bits 1),
     (''reserved_141_3'', Bits 1), (''reserved_141_4'', Bits 1), (''reserved_141_5'', Bits 1),
     (''reserved_141_6'', Bits 1), (''reserved_141_7'', Bits 1)]"

definition pm_qsfp_device_tech_t :: clayout where
  "pm_qsfp_device_tech_t = c_struct [
     (''transmitter_tunable'', Bits 1), (''apd_detector'', Bits 1), (''cooled_transmitter'', Bits 1),
     (''active_wavelength_control'', Bits 1), (''transmitter_tech'', Bits 4)]"

definition pm_qsfp_ib_compliance_t :: clayout where
  "pm_qsfp_ib_compliance_t = c_struct [
     (''sdr'', Bits 1), (''ddr'', Bits 1), (''qdr'', Bits 1), (''fdr'', Bits 1), (''edr'', Bits 1),
     (''reserved_164_5'', Bits 1), (''reserved_164_6'', Bits 1), (''reserved_164_7'', Bits 1)]"

definition pm_qsfp_wavelength_t :: clayout where
  "pm_qsfp_wavelength_t = c_union [
     (''laser_wavelength'', c_ushort),
     (''copper_attenuation'', (c_struct [(''at_2_5_ghz'', Member c_char), (''at_5_0_ghz'', Member c_char)]))]"

definition pm_qsfp_options_t :: clayout where
  "pm_qsfp_options_t = c_struct [
     (''ext_compliance_code'', Member c_char), (''rx_output_amplitude'', Bits 1),
     (''reserved_193_1'', Bits 1), (''reserved_193_2'', Bits 1), (''reserved_193_3'', Bits 1),
     (''reserved_193_4'', Bits 1), (''reserved_193_5'', Bits 1), (''reserved_193_6'', Bits 1),
     (''reserved_193_7'', Bits 1), (''tx_squelch'', Bits 1), (''tx_squelch_disable'', Bits 1),
     (''rx_output_disable'', Bits 1), (''rx_squelch_disable'', Bits 1), (''reserved_194_4'', Bits 1),
     (''reserved_194_5'', Bits 1), (''reserved_194_6'', Bits 1), (''reserved_194_7'', Bits 1),
     (''reserved_195_0'', Bits 1), (''loss_of_signal'', Bits 1), (''tx_squelch_pave'', Bits 1),
     (''tx_fault'', Bits 1), (''tx_disable'', Bits 1), (''rate_select'', Bits 1),
     (''memory_page_1'', Bits 1), (''memory_page_2'', Bits 1)]"

definition pm_qsfp_diag_monitoring_type_t :: clayout where
  "pm_qsfp_diag_monitoring_type_t = c_struct [
     (''reserved_220_0'', Bits 1), (''reserved_220_1'', Bits 1), (''reserved_220_2'', Bits 1),
     (''average_input_optical_power'', Bits 1), (''reserved_220_4'', Bits 1),
     (''reserved_220_5'', Bits 1), (''reserved_220_6'', Bits 1), (''reserved_220_7'', Bits 1)]"

definition pm_qsfp_enhanced_options_t :: clayout where
  "pm_qsfp_enhanced_options_t = c_struct [
     (''reserved_221_0'', Bits 1), (''reserved_221_1'', Bits 1),
     (''application_rate_selection'', Bits 1), (''rate_selection_supported'', Bits 1),
     (''reserved_221_4'', Bits 1), (''reserved_221_5'', Bits 1), (''reserved_221_6'', Bits 1),
     (''reserved_221_7'', Bits 1)]"

definition pm_qsfp_serial_id_t :: clayout where
  "pm_qsfp_serial_id_t = c_struct [
     (''identifier'', Member c_char), (''ext_identifier'', Member pm_qsfp_ext_indentifier_t),
     (''connector'', Member c_char), (''spec_compliance'', Member pm_qsfp_spec_compliance_t),
     (''encoding'', Member c_char), (''bit_rate_nominal'', Member c_char),
     (''rate_select'', Member pm_qsfp_rate_select_t), (''length_smf_in_km'', Member c_char),
     (''length_om3_in_2m'', Member c_char), (''length_om2_in_m'', Member c_char),
     (''length_om1_in_m'', Member c_char), (''length_copper_in_m'', Member c_char),
     (''device_tech'', Member pm_qsfp_device_tech_t),
     (''vendor_name'', Member (c_array PM_VENDOR_NAME_LEN)),
     (''ib_compliance'', Member pm_qsfp_ib_compliance_t),
     (''vendor_oui'', Member (c_array PM_VENDOR_OUI_LEN)),
     (''vendor_part_number'', Member (c_array PM_VENDOR_PN_LEN)),
     (''vendor_revision'', Member (c_array PM_QSFP_VENDOR_REV_LEN)),
     (''wavelength'', Member pm_qsfp_wavelength_t), (''wavelength_tolerance'', Member c_ushort),
     (''max_case_temperature'', Member c_char), (''check_code_for_base'', Member c_char),
     (''options'', Member pm_qsfp_options_t),
     (''vendor_serial_number'', Member (c_array PM_VENDOR_SN_LEN)),
     (''vendor_date_code'', Member pm_date_code_t),
     (''diag_monitor_type'', Member pm_qsfp_diag_monitoring_type_t),
     (''enhanced_options'', Member pm_qsfp_enhanced_options_t), (''reserved_222'', Member c_char),
     (''check_code_for_extended'', Member c_char),
     (''vendor_area'', Member (c_array PM_SERIAL_ID_VENDOR_AREA_LEN))]"

section \<open>The layouts, evaluated\<close>

text \<open>Numerals are kept as they are while the layouts are computed.\<close>

declare One_nat_def [simp del]
declare layout_defs [simp]
declare plug_consts [simp]

lemmas pm_date_code_t_eval [simp] = pm_date_code_t_def [simplified]
lemmas pm_sfp_serial_id_transceiver_t_eval [simp] = pm_sfp_serial_id_transceiver_t_def [simplified]
lemmas pm_sfp_options_t_eval [simp] = pm_sfp_options_t_def [simplified]
lemmas pm_sfp_diag_monitoring_type_t_eval [simp] = pm_sfp_diag_monitoring_type_t_def [simplified]
lemmas pm_sfp_enhanced_options_t_eval [simp] = pm_sfp_enhanced_options_t_def [simplified]
lemmas pm_sfp_serial_id_t_eval [simp] = pm_sfp_serial_id_t_def [simplified]
lemmas pm_qsfp_ext_indentifier_t_eval [simp] = pm_qsfp_ext_indentifier_t_def [simplified]
lemmas pm_qsfp_spec_compliance_t_eval [simp] = pm_qsfp_spec_compliance_t_def [simplified]
lemmas pm_qsfp_rate_select_t_eval [simp] = pm_qsfp_rate_select_t_def [simplified]
lemmas pm_qsfp_device_tech_t_eval [simp] = pm_qsfp_device_tech_t_def [simplified]
lemmas pm_qsfp_ib_compliance_t_eval [simp] = pm_qsfp_ib_compliance_t_def [simplified]
lemmas pm_qsfp_wavelength_t_eval [simp] = pm_qsfp_wavelength_t_def [simplified]
lemmas pm_qsfp_options_t_eval [simp] = pm_qsfp_options_t_def [simplified]
lemmas pm_qsfp_diag_monitoring_type_t_eval [simp] = pm_qsfp_diag_monitoring_type_t_def [simplified]
lemmas pm_qsfp_enhanced_options_t_eval [simp] = pm_qsfp_enhanced_options_t_def [simplified]
lemmas pm_qsfp_serial_id_t_eval [simp] = pm_qsfp_serial_id_t_def [simplified]

lemma sfp_serial_id_pos:
  "field_pos pm_sfp_serial_id_t ''connector'' = Some (16, 8)"
  "field_pos pm_sfp_serial_id_t ''bit_rate_nominal'' = Some (96, 8)"
  "field_pos pm_sfp_serial_id_t ''length_copper'' = Some (144, 8)"
  "field_pos pm_sfp_serial_id_t ''check_code_for_base'' = Some (504, 8)"
  "field_pos pm_sfp_serial_id_t ''check_code_for_extended'' = Some (760, 8)"
  "field_pos pm_sfp_serial_id_t ''transceiver.enet_10gbase_sr'' = Some (28, 1)"
  "field_pos pm_sfp_serial_id_t ''transceiver.enet_10gbase_lr'' = Some (29, 1)"
  "field_pos pm_sfp_serial_id_t ''transceiver.enet_10gbase_lrm'' = Some (30, 1)"
  "field_pos pm_sfp_serial_id_t ''transceiver.enet_1000base_sx'' = Some (48, 1)"
  "field_pos pm_sfp_serial_id_t ''transceiver.enet_1000base_lx'' = Some (49, 1)"
  "field_pos pm_sfp_serial_id_t ''transceiver.enet_1000base_cx'' = Some (50, 1)"
  "field_pos pm_sfp_serial_id_t ''transceiver.enet_1000base_t'' = Some (51, 1)"
  "field_pos pm_sfp_serial_id_t ''transceiver.cable_technology_passive'' = Some (66, 1)"
  "field_pos pm_sfp_serial_id_t ''transceiver.cable_technology_active'' = Some (67, 1)"
  "field_pos pm_sfp_serial_id_t ''diag_monitor_type.addr_change_required'' = Some (738, 1)"
  "field_pos pm_sfp_serial_id_t ''diag_monitor_type.power_measurement_type'' = Some (739, 1)"
  "field_pos pm_sfp_serial_id_t ''diag_monitor_type.internally_calibrated'' = Some (741, 1)"
  "field_pos pm_sfp_serial_id_t ''diag_monitor_type.implemented_digital'' = Some (742, 1)"
  "field_pos pm_sfp_serial_id_t ''vendor_name'' = Some (160, 128)"
  "field_pos pm_sfp_serial_id_t ''vendor_oui'' = Some (296, 24)"
  "field_pos pm_sfp_serial_id_t ''vendor_part_number'' = Some (320, 128)"
  "field_pos pm_sfp_serial_id_t ''vendor_revision'' = Some (448, 32)"
  "field_pos pm_sfp_serial_id_t ''vendor_serial_number'' = Some (544, 128)"
  by (simp_all only: pm_sfp_serial_id_t_eval lookup_simps)

lemma sfp_serial_id_size: "csize pm_sfp_serial_id_t = 128"
  by simp

lemma qsfp_serial_id_pos:
  "field_pos pm_qsfp_serial_id_t ''check_code_for_base'' = Some (504, 8)"
  "field_pos pm_qsfp_serial_id_t ''check_code_for_extended'' = Some (760, 8)"
  "field_pos pm_qsfp_serial_id_t ''options.ext_compliance_code'' = Some (512, 8)"
  "field_pos pm_qsfp_serial_id_t ''spec_compliance.enet_40gbase_lr4'' = Some (25, 1)"
  "field_pos pm_qsfp_serial_id_t ''spec_compliance.enet_40gbase_sr4'' = Some (26, 1)"
  "field_pos pm_qsfp_serial_id_t ''spec_compliance.enet_40gbase_cr4'' = Some (27, 1)"
  "field_pos pm_qsfp_serial_id_t ''spec_compliance.enet_extended'' = Some (31, 1)"
  "field_pos pm_qsfp_serial_id_t ''diag_monitor_type.average_input_optical_power'' = Some (739, 1)"
  "field_pos pm_qsfp_serial_id_t ''vendor_name'' = Some (160, 128)"
  "field_pos pm_qsfp_serial_id_t ''vendor_oui'' = Some (296, 24)"
  "field_pos pm_qsfp_serial_id_t ''vendor_part_number'' = Some (320, 128)"
  "field_pos pm_qsfp_serial_id_t ''vendor_revision'' = Some (448, 16)"
  "field_pos pm_qsfp_serial_id_t ''vendor_serial_number'' = Some (544, 128)"
  by (simp_all only: pm_qsfp_serial_id_t_eval lookup_simps)

lemma qsfp_serial_id_size: "csize pm_qsfp_serial_id_t = 128"
  by simp

declare pm_date_code_t_eval [simp del]
declare pm_sfp_serial_id_transceiver_t_eval [simp del]
declare pm_sfp_options_t_eval [simp del]
declare pm_sfp_diag_monitoring_type_t_eval [simp del]
declare pm_sfp_enhanced_options_t_eval [simp del]
declare pm_sfp_serial_id_t_eval [simp del]
declare pm_qsfp_ext_indentifier_t_eval [simp del]
declare pm_qsfp_spec_compliance_t_eval [simp del]
declare pm_qsfp_rate_select_t_eval [simp del]
declare pm_qsfp_device_tech_t_eval [simp del]
declare pm_qsfp_ib_compliance_t_eval [simp del]
declare pm_qsfp_wavelength_t_eval [simp del]
declare pm_qsfp_options_t_eval [simp del]
declare pm_qsfp_diag_monitoring_type_t_eval [simp del]
declare pm_qsfp_enhanced_options_t_eval [simp del]
declare pm_qsfp_serial_id_t_eval [simp del]
declare layout_defs [simp del]
declare plug_consts [simp del]
declare One_nat_def [simp]

section \<open>The layouts are sound\<close>

lemma layout_ok_pm_date_code_t: "layout_ok pm_date_code_t"
  unfolding pm_date_code_t_def
  by (rule layout_ok_c_struct) (simp add: layout_ok_basic)

lemma layout_ok_pm_sfp_serial_id_transceiver_t: "layout_ok pm_sfp_serial_id_transceiver_t"
  unfolding pm_sfp_serial_id_transceiver_t_def
  by (rule layout_ok_c_struct) (simp add: layout_ok_basic)

lemma layout_ok_pm_sfp_options_t: "layout_ok pm_sfp_options_t"
  unfolding pm_sfp_options_t_def
  by (rule layout_ok_c_struct) (simp add: layout_ok_basic)

lemma layout_ok_pm_sfp_diag_monitoring_type_t: "layout_ok pm_sfp_diag_monitoring_type_t"
  unfolding pm_sfp_diag_monitoring_type_t_def
  by (rule layout_ok_c_struct) (simp add: layout_ok_basic)

lemma layout_ok_pm_sfp_enhanced_options_t: "layout_ok pm_sfp_enhanced_options_t"
  unfolding pm_sfp_enhanced_options_t_def
  by (rule layout_ok_c_struct) (simp add: layout_ok_basic)

lemma layout_ok_pm_sfp_serial_id_t: "layout_ok pm_sfp_serial_id_t"
  unfolding pm_sfp_serial_id_t_def
  by (rule layout_ok_c_struct) (simp add: layout_ok_basic layout_ok_pm_date_code_t layout_ok_pm_sfp_serial_id_transceiver_t layout_ok_pm_sfp_options_t layout_ok_pm_sfp_diag_monitoring_type_t layout_ok_pm_sfp_enhanced_options_t)

lemma layout_ok_pm_qsfp_ext_indentifier_t: "layout_ok pm_qsfp_ext_indentifier_t"
  unfolding pm_qsfp_ext_indentifier_t_def
  by (rule layout_ok_c_struct) (simp add: layout_ok_basic)

lemma layout_ok_pm_qsfp_spec_compliance_t: "layout_ok pm_qsfp_spec_compliance_t"
  unfolding pm_qsfp_spec_compliance_t_def
  by (rule layout_ok_c_struct) (simp add: layout_ok_basic)

lemma layout_ok_pm_qsfp_rate_select_t: "layout_ok pm_qsfp_rate_select_t"
  unfolding pm_qsfp_rate_select_t_def
  by (rule layout_ok_c_struct) (simp add: layout_ok_basic)

lemma layout_ok_pm_qsfp_device_tech_t: "layout_ok pm_qsfp_device_tech_t"
  unfolding pm_qsfp_device_tech_t_def
  by (rule layout_ok_c_struct) (simp add: layout_ok_basic)

lemma layout_ok_pm_qsfp_ib_compliance_t: "layout_ok pm_qsfp_ib_compliance_t"
  unfolding pm_qsfp_ib_compliance_t_def
  by (rule layout_ok_c_struct) (simp add: layout_ok_basic)

lemma layout_ok_pm_qsfp_wavelength_t: "layout_ok pm_qsfp_wavelength_t"
  unfolding pm_qsfp_wavelength_t_def
  by (intro layout_ok_c_union) (auto simp: layout_ok_basic intro!: layout_ok_c_struct)

lemma layout_ok_pm_qsfp_options_t: "layout_ok pm_qsfp_options_t"
  unfolding pm_qsfp_options_t_def
  by (rule layout_ok_c_struct) (simp add: layout_ok_basic)

lemma layout_ok_pm_qsfp_diag_monitoring_type_t: "layout_ok pm_qsfp_diag_monitoring_type_t"
  unfolding pm_qsfp_diag_monitoring_type_t_def
  by (rule layout_ok_c_struct) (simp add: layout_ok_basic)

lemma layout_ok_pm_qsfp_enhanced_options_t: "layout_ok pm_qsfp_enhanced_options_t"
  unfolding pm_qsfp_enhanced_options_t_def
  by (rule layout_ok_c_struct) (simp add: layout_ok_basic)

lemma layout_ok_pm_qsfp_serial_id_t: "layout_ok pm_qsfp_serial_id_t"
  unfolding pm_qsfp_serial_id_t_def
  by (rule layout_ok_c_struct) (simp add: layout_ok_basic layout_ok_pm_date_code_t layout_ok_pm_qsfp_ext_indentifier_t layout_ok_pm_qsfp_spec_compliance_t layout_ok_pm_qsfp_rate_select_t layout_ok_pm_qsfp_device_tech_t layout_ok_pm_qsfp_ib_compliance_t layout_ok_pm_qsfp_wavelength_t layout_ok_pm_qsfp_options_t layout_ok_pm_qsfp_diag_monitoring_type_t layout_ok_pm_qsfp_enhanced_options_t)

section \<open>Field accesses as byte accesses\<close>

lemma sfp_serial_id_bytes [layout_simps]:
  "field pm_sfp_serial_id_t ''connector'' pg = pg ! 2"
  "field pm_sfp_serial_id_t ''bit_rate_nominal'' pg = pg ! 12"
  "field pm_sfp_serial_id_t ''length_copper'' pg = pg ! 18"
  "field pm_sfp_serial_id_t ''check_code_for_base'' pg = pg ! 63"
  "field pm_sfp_serial_id_t ''check_code_for_extended'' pg = pg ! 95"
  by (simp_all add: field_def sfp_serial_id_pos)

lemma sfp_serial_id_flags [layout_simps]:
  "flag pm_sfp_serial_id_t ''transceiver.enet_10gbase_sr'' pg = bit (pg ! 3) 4"
  "flag pm_sfp_serial_id_t ''transceiver.enet_10gbase_lr'' pg = bit (pg ! 3) 5"
  "flag pm_sfp_serial_id_t ''transceiver.enet_10gbase_lrm'' pg = bit (pg ! 3) 6"
  "flag pm_sfp_serial_id_t ''transceiver.enet_1000base_sx'' pg = bit (pg ! 6) 0"
  "flag pm_sfp_serial_id_t ''transceiver.enet_1000base_lx'' pg = bit (pg ! 6) 1"
  "flag pm_sfp_serial_id_t ''transceiver.enet_1000base_cx'' pg = bit (pg ! 6) 2"
  "flag pm_sfp_serial_id_t ''transceiver.enet_1000base_t'' pg = bit (pg ! 6) 3"
  "flag pm_sfp_serial_id_t ''transceiver.cable_technology_passive'' pg = bit (pg ! 8) 2"
  "flag pm_sfp_serial_id_t ''transceiver.cable_technology_active'' pg = bit (pg ! 8) 3"
  "flag pm_sfp_serial_id_t ''diag_monitor_type.addr_change_required'' pg = bit (pg ! 92) 2"
  "flag pm_sfp_serial_id_t ''diag_monitor_type.power_measurement_type'' pg = bit (pg ! 92) 3"
  "flag pm_sfp_serial_id_t ''diag_monitor_type.internally_calibrated'' pg = bit (pg ! 92) 5"
  "flag pm_sfp_serial_id_t ''diag_monitor_type.implemented_digital'' pg = bit (pg ! 92) 6"
  by (simp_all add: flag_at sfp_serial_id_pos)

lemma sfp_serial_id_arrays [layout_simps]:
  "field_bytes pm_sfp_serial_id_t ''vendor_name'' pg = take 16 (drop 20 pg)"
  "field_bytes pm_sfp_serial_id_t ''vendor_oui'' pg = take 3 (drop 37 pg)"
  "field_bytes pm_sfp_serial_id_t ''vendor_part_number'' pg = take 16 (drop 40 pg)"
  "field_bytes pm_sfp_serial_id_t ''vendor_revision'' pg = take 4 (drop 56 pg)"
  "field_bytes pm_sfp_serial_id_t ''vendor_serial_number'' pg = take 16 (drop 68 pg)"
  by (simp_all add: field_bytes_def sfp_serial_id_pos)

lemma qsfp_serial_id_bytes [layout_simps]:
  "field pm_qsfp_serial_id_t ''check_code_for_base'' pg = pg ! 63"
  "field pm_qsfp_serial_id_t ''check_code_for_extended'' pg = pg ! 95"
  "field pm_qsfp_serial_id_t ''options.ext_compliance_code'' pg = pg ! 64"
  by (simp_all add: field_def qsfp_serial_id_pos)

lemma qsfp_serial_id_flags [layout_simps]:
  "flag pm_qsfp_serial_id_t ''spec_compliance.enet_40gbase_lr4'' pg = bit (pg ! 3) 1"
  "flag pm_qsfp_serial_id_t ''spec_compliance.enet_40gbase_sr4'' pg = bit (pg ! 3) 2"
  "flag pm_qsfp_serial_id_t ''spec_compliance.enet_40gbase_cr4'' pg = bit (pg ! 3) 3"
  "flag pm_qsfp_serial_id_t ''spec_compliance.enet_extended'' pg = bit (pg ! 3) 7"
  "flag pm_qsfp_serial_id_t ''diag_monitor_type.average_input_optical_power'' pg = bit (pg ! 92) 3"
  by (simp_all add: flag_at qsfp_serial_id_pos)

lemma qsfp_serial_id_arrays [layout_simps]:
  "field_bytes pm_qsfp_serial_id_t ''vendor_name'' pg = take 16 (drop 20 pg)"
  "field_bytes pm_qsfp_serial_id_t ''vendor_oui'' pg = take 3 (drop 37 pg)"
  "field_bytes pm_qsfp_serial_id_t ''vendor_part_number'' pg = take 16 (drop 40 pg)"
  "field_bytes pm_qsfp_serial_id_t ''vendor_revision'' pg = take 2 (drop 56 pg)"
  "field_bytes pm_qsfp_serial_id_t ''vendor_serial_number'' pg = take 16 (drop 68 pg)"
  by (simp_all add: field_bytes_def qsfp_serial_id_pos)

end
