(* ===== verification/Dom_Layout.thy ===== *)
theory Dom_Layout
  imports C_Layout
begin

text \<open>
  The structures of \<open>include/pm_dom.h\<close>: the diagnostic (A2) page of an SFP+ and the lower
  page of a QSFP, member by member. The thresholds, measured values and alarm bits are read
  with \<^const>\<open>field\<close> and \<^const>\<open>flag\<close>.
\<close>

section \<open>Constants\<close>

definition PASSWORD_LEN :: nat where "PASSWORD_LEN = 4"
definition SINGLE_PRECISION_FLOATING_POINT_DATA_LEN :: nat where "SINGLE_PRECISION_FLOATING_POINT_DATA_LEN = 4"
definition FIXED_DECIMAL_DATA_LEN :: nat where "FIXED_DECIMAL_DATA_LEN = 2"

lemmas dom_consts =
  PASSWORD_LEN_def SINGLE_PRECISION_FLOATING_POINT_DATA_LEN_def FIXED_DECIMAL_DATA_LEN_def

section \<open>SFP+ and QSFP diagnostic pages\<close>

definition pm_sfp_status_control_bits_t :: clayout where
  "pm_sfp_status_control_bits_t = c_struct [
     (''data_ready_bar'', Bits 1), (''los'', Bits 1), (''tx_fault'', Bits 1),
     (''soft_rx_rate_select'', Bits 1), (''rx_rate_select_state'', Bits 1),
     (''reserved_110_5'', Bits 1), (''soft_tx_disable'', Bits 1), (''tx_disable_status'', Bits 1),
     (''reserved_111'', Member c_char)]"

definition pm_sfp_alarm_warning_bits_t :: clayout where
  "pm_sfp_alarm_warning_bits_t = c_struct [
     (''tx_pwr_low_alarm'', Bits 1), (''tx_pwr_high_alarm'', Bits 1),
     (''tx_bias_low_alarm'', Bits 1), (''tx_bias_high_alarm'', Bits 1), (''vcc_low_alarm'', Bits 1),
     (''vcc_high_alarm'', Bits 1), (''temp_low_alarm'', Bits 1), (''temp_high_alarm'', Bits 1),
     (''reserved_113_0'', Bits 1), (''reserved_113_1'', Bits 1), (''reserved_113_2'', Bits 1),
     (''reserved_113_3'', Bits 1), (''reserved_113_4'', Bits 1), (''reserved_113_5'', Bits 1),
     (''rx_pwr_low_alarm'', Bits 1), (''rx_pwr_high_alarm'', Bits 1),
     (''reserved_114'', Member c_char), (''reserved_115'', Member c_char),
     (''tx_pwr_low_warning'', Bits 1), (''tx_pwr_high_warning'', Bits 1),
     (''tx_bias_low_warning'', Bits 1), (''tx_bias_high_warning'', Bits 1),
     (''vcc_low_warning'', Bits 1), (''vcc_high_warning'', Bits 1), (''temp_low_warning'', Bits 1),
     (''temp_high_warning'', Bits 1), (''reserved_117_0'', Bits 1), (''reserved_117_1'', Bits 1),
     (''reserved_117_2'', Bits 1), (''reserved_117_3'', Bits 1), (''reserved_117_4'', Bits 1),
     (''reserved_117_5'', Bits 1), (''rx_pwr_low_warning'', Bits 1),
     (''rx_pwr_high_warning'', Bits 1), (''reserved_118'', Member c_char),
     (''reserved_119'', Member c_char)]"

definition pm_sfp_password_t :: clayout where
  "pm_sfp_password_t = c_struct [
     (''reserved_120'', Member c_char), (''reserved_121'', Member c_char),
     (''reserved_122'', Member c_char), (''password_byte_3'', Member c_char),
     (''password_byte_2'', Member c_char), (''password_byte_1'', Member c_char),
     (''password_byte_0'', Member c_char)]"

definition pm_sfp_dom_t :: clayout where
  "pm_sfp_dom_t = c_struct [
     (''temp_high_alarm_msb'', Member c_char), (''temp_high_alarm_lsb'', Member c_char),
     (''temp_low_alarm_msb'', Member c_char), (''temp_low_alarm_lsb'', Member c_char),
     (''temp_high_warning_msb'', Member c_char), (''temp_high_warning_lsb'', Member c_char),
     (''temp_low_warning_msb'', Member c_char), (''temp_low_warning_lsb'', Member c_char),
     (''voltage_high_alarm_msb'', Member c_char), (''voltage_high_alarm_lsb'', Member c_char),
     (''voltage_low_alarm_msb'', Member c_char), (''voltage_low_alarm_lsb'', Member c_char),
     (''voltage_high_warning_msb'', Member c_char), (''voltage_high_warning_lsb'', Member c_char),
     (''voltage_low_warning_msb'', Member c_char), (''voltage_low_warning_lsb'', Member c_char),
     (''bias_high_alarm_msb'', Member c_char), (''bias_high_alarm_lsb'', Member c_char),
     (''bias_low_alarm_msb'', Member c_char), (''bias_low_alarm_lsb'', Member c_char),
     (''bias_high_warning_msb'', Member c_char), (''bias_high_warning_lsb'', Member c_char),
     (''bias_low_warning_msb'', Member c_char), (''bias_low_warning_lsb'', Member c_char),
     (''tx_power_high_alarm_msb'', Member c_char), (''tx_power_high_alarm_lsb'', Member c_char),
     (''tx_power_low_alarm_msb'', Member c_char), (''tx_power_low_alarm_lsb'', Member c_char),
     (''tx_power_high_warning_msb'', Member c_char), (''tx_power_high_warning_lsb'', Member c_char),
     (''tx_power_low_warning_msb'', Member c_char), (''tx_power_low_warning_lsb'', Member c_char),
     (''rx_power_high_alarm_msb'', Member c_char), (''rx_power_high_alarm_lsb'', Member c_char),
     (''rx_power_low_alarm_msb'', Member c_char), (''rx_power_low_alarm_lsb'', Member c_char),
     (''rx_power_high_warning_msb'', Member c_char), (''rx_power_high_warning_lsb'', Member c_char),
     (''rx_power_low_warning_msb'', Member c_char), (''rx_power_low_warning_lsb'', Member c_char),
     (''reserved_40'', Member c_char), (''reserved_41'', Member c_char),
     (''reserved_42'', Member c_char), (''reserved_43'', Member c_char),
     (''reserved_44'', Member c_char), (''reserved_45'', Member c_char),
     (''reserved_46'', Member c_char), (''reserved_47'', Member c_char),
     (''reserved_48'', Member c_char), (''reserved_49'', Member c_char),
     (''reserved_50'', Member c_char), (''reserved_51'', Member c_char),
     (''reserved_52'', Member c_char), (''reserved_53'', Member c_char),
     (''reserved_54'', Member c_char), (''reserved_55'', Member c_char),
     (''rx_pwr4'', Member (c_array SINGLE_PRECISION_FLOATING_POINT_DATA_LEN)),
     (''rx_pwr3'', Member (c_array SINGLE_PRECISION_FLOATING_POINT_DATA_LEN)),
     (''rx_pwr2'', Member (c_array SINGLE_PRECISION_FLOATING_POINT_DATA_LEN)),
     (''rx_pwr1'', Member (c_array SINGLE_PRECISION_FLOATING_POINT_DATA_LEN)),
     (''rx_pwr0'', Member (c_array SINGLE_PRECISION_FLOATING_POINT_DATA_LEN)),
     (''current_tx_slope'', Member (c_array FIXED_DECIMAL_DATA_LEN)),
     (''current_tx_offset'', Member (c_array FIXED_DECIMAL_DATA_LEN)),
     (''power_tx_slope'', Member (c_array FIXED_DECIMAL_DATA_LEN)),
     (''power_tx_offset'', Member (c_array FIXED_DECIMAL_DATA_LEN)),
     (''temperature_slope'', Member (c_array FIXED_DECIMAL_DATA_LEN)),
     (''temperature_offset'', Member (c_array FIXED_DECIMAL_DATA_LEN)),
     (''voltage_slope'', Member (c_array FIXED_DECIMAL_DATA_LEN)),
     (''voltage_offset'', Member (c_array FIXED_DECIMAL_DATA_LEN)), (''reserved_92'', Member c_char),
     (''reserved_93'', Member c_char), (''reserved_94'', Member c_char),
     (''checksum'', Member c_char), (''temperature_msb'', Member c_char),
     (''temperature_lsb'', Member c_char), (''vcc_msb'', Member c_char),
     (''vcc_lsb'', Member c_char), (''tx_bias_msb'', Member c_char),
     (''tx_bias_lsb'', Member c_char), (''tx_power_msb'', Member c_char),
     (''tx_power_lsb'', Member c_char), (''rx_power_msb'', Member c_char),
     (''rx_power_lsb'', Member c_char), (''reserved_106'', Member c_char),
     (''reserved_107'', Member c_char), (''reserved_108'', Member c_char),
     (''reserved_109'', Member c_char),
     (''status_control_bits'', Member pm_sfp_status_control_bits_t),
     (''alarm_warning_bits'', Member pm_sfp_alarm_warning_bits_t),
     (''password'', Member pm_sfp_password_t), (''eeprom_select'', Member c_char)]"

definition pm_qsfp_status_indicators_t :: clayout where
  "pm_qsfp_status_indicators_t = c_struct [
     (''reserved_1'', Member c_char), (''data_not_ready'', Bits 1), (''intl'', Bits 1),
     (''reserved_2_2'', Bits 1), (''reserved_2_3'', Bits 1), (''reserved_2_4'', Bits 1),
     (''reserved_2_5'', Bits 1), (''reserved_2_6'', Bits 1), (''reserved_2_7'', Bits 1)]"

definition pm_qsfp_interrupt_flags_t :: clayout where
  "pm_qsfp_interrupt_flags_t = c_struct [
     (''latched_rx1_los_indicator'', Bits 1), (''latched_rx2_los_indicator'', Bits 1),
     (''latched_rx3_los_indicator'', Bits 1), (''latched_rx4_los_indicator'', Bits 1),
     (''latched_tx1_los_indicator'', Bits 1), (''latched_tx2_los_indicator'', Bits 1),
     (''latched_tx3_los_indicator'', Bits 1), (''latched_tx4_los_indicator'', Bits 1),
     (''latched_tx1_fault_indicator'', Bits 1), (''latched_tx2_fault_indicator'', Bits 1),
     (''latched_tx3_fault_indicator'', Bits 1), (''latched_tx4_fault_indicator'', Bits 1),
     (''reserved_4_4'', Bits 1), (''reserved_4_5'', Bits 1), (''reserved_4_6'', Bits 1),
     (''reserved_4_7'', Bits 1), (''reserved_5'', Member c_char), (''reserved_6_0'', Bits 1),
     (''reserved_6_1'', Bits 1), (''reserved_6_2'', Bits 1), (''reserved_6_3'', Bits 1),
     (''latched_temp_low_warning'', Bits 1), (''latched_temp_high_warning'', Bits 1),
     (''latched_temp_low_alarm'', Bits 1), (''latched_temp_high_alarm'', Bits 1),
     (''reserved_7_0'', Bits 1), (''reserved_7_1'', Bits 1), (''reserved_7_2'', Bits 1),
     (''reserved_7_3'', Bits 1), (''latched_vcc_low_warning'', Bits 1),
     (''latched_vcc_high_warning'', Bits 1), (''latched_vcc_low_alarm'', Bits 1),
     (''latched_vcc_high_alarm'', Bits 1), (''reserved_8'', Member c_char),
     (''latched_rx2_power_low_warning'', Bits 1), (''latched_rx2_power_high_warning'', Bits 1),
     (''latched_rx2_power_low_alarm'', Bits 1), (''latched_rx2_power_high_alarm'', Bits 1),
     (''latched_rx1_power_low_warning'', Bits 1), (''latched_rx1_power_high_warning'', Bits 1),
     (''latched_rx1_power_low_alarm'', Bits 1), (''latched_rx1_power_high_alarm'', Bits 1),
     (''latched_rx4_power_low_warning'', Bits 1), (''latched_rx4_power_high_warning'', Bits 1),
     (''latched_rx4_power_low_alarm'', Bits 1), (''latched_rx4_power_high_alarm'', Bits 1),
     (''latched_rx3_power_low_warning'', Bits 1), (''latched_rx3_power_high_warning'', Bits 1),
     (''latched_rx3_power_low_alarm'', Bits 1), (''latched_rx3_power_high_alarm'', Bits 1),
     (''latched_tx2_bias_low_warning'', Bits 1), (''latched_tx2_bias_high_warning'', Bits 1),
     (''latched_tx2_bias_low_alarm'', Bits 1), (''latched_tx2_bias_high_alarm'', Bits 1),
     (''latched_tx1_bias_low_warning'', Bits 1), (''latched_tx1_bias_high_warning'', Bits 1),
     (''latched_tx1_bias_low_alarm'', Bits 1), (''latched_tx1_bias_high_alarm'', Bits 1),
     (''latched_tx4_bias_low_warning'', Bits 1), (''latched_tx4_bias_high_warning'', Bits 1),
     (''latched_tx4_bias_low_alarm'', Bits 1), (''latched_tx4_bias_high_alarm'', Bits 1),
     (''latched_tx3_bias_low_warning'', Bits 1), (''latched_tx3_bias_high_warning'', Bits 1),
     (''latched_tx3_bias_low_alarm'', Bits 1), (''latched_tx3_bias_high_alarm'', Bits 1),
     (''reserved_13'', Member c_char), (''reserved_14'', Member c_char),
     (''reserved_15'', Member c_char), (''reserved_16'', Member c_char),
     (''reserved_17'', Member c_char), (''reserved_18'', Member c_char),
     (''reserved_19'', Member c_char), (''reserved_20'', Member c_char),
     (''reserved_21'', Member c_char)]"

definition pm_qsfp_module_monitors_t :: clayout where
  "pm_qsfp_module_monitors_t = c_struct [
     (''temp_msb'', Member c_char), (''temp_lsb'', Member c_char), (''reserved_24'', Member c_char),
     (''reserved_25'', Member c_char), (''voltage_msb'', Member c_char),
     (''voltage_lsb'', Member c_char), (''reserved_28'', Member c_char),
     (''reserved_29'', Member c_char), (''reserved_30'', Member c_char),
     (''reserved_31'', Member c_char), (''reserved_32'', Member c_char),
     (''reserved_33'', Member c_char)]"

definition pm_qsfp_channel_monitors_t :: clayout where
  "pm_qsfp_channel_monitors_t = c_struct [
     (''rx1_power_msb'', Member c_char), (''rx1_power_lsb'', Member c_char),
     (''rx2_power_msb'', Member c_char), (''rx2_power_lsb'', Member c_char),
     (''rx3_power_msb'', Member c_char), (''rx3_power_lsb'', Member c_char),
     (''rx4_power_msb'', Member c_char), (''rx4_power_lsb'', Member c_char),
     (''tx1_bias_msb'', Member c_char), (''tx1_bias_lsb'', Member c_char),
     (''tx2_bias_msb'', Member c_char), (''tx2_bias_lsb'', Member c_char),
     (''tx3_bias_msb'', Member c_char), (''tx3_bias_lsb'', Member c_char),
     (''tx4_bias_msb'', Member c_char), (''tx4_bias_lsb'', Member c_char),
     (''reserved_50'', Member c_char), (''reserved_51'', Member c_char),
     (''reserved_52'', Member c_char), (''reserved_53'', Member c_char),
     (''reserved_54'', Member c_char), (''reserved_55'', Member c_char),
     (''reserved_56'', Member c_char), (''reserved_57'', Member c_char),
     (''reserved_58'', Member c_char), (''reserved_59'', Member c_char),
     (''reserved_60'', Member c_char), (''reserved_61'', Member c_char),
     (''reserved_62'', Member c_char), (''reserved_63'', Member c_char),
     (''reserved_64'', Member c_char), (''reserved_65'', Member c_char),
     (''reserved_66'', Member c_char), (''reserved_67'', Member c_char),
     (''reserved_68'', Member c_char), (''reserved_69'', Member c_char),
     (''reserved_70'', Member c_char), (''reserved_71'', Member c_char),
     (''reserved_72'', Member c_char), (''reserved_73'', Member c_char),
     (''reserved_74'', Member c_char), (''reserved_75'', Member c_char),
     (''reserved_76'', Member c_char), (''reserved_77'', Member c_char),
     (''reserved_78'', Member c_char), (''reserved_79'', Member c_char),
     (''reserved_80'', Member c_char), (''reserved_81'', Member c_char)]"

definition pm_qsfp_control_t :: clayout where
  "pm_qsfp_control_t = c_struct [
     (''tx1_disable'', Bits 1), (''tx2_disable'', Bits 1), (''tx3_disable'', Bits 1),
     (''tx4_disable'', Bits 1), (''reserved_86_4'', Bits 1), (''reserved_86_5'', Bits 1),
     (''reserved_86_6'', Bits 1), (''reserved_86_7'', Bits 1), (''rx1_rate_select_lsb'', Bits 1),
     (''rx1_rate_select_msb'', Bits 1), (''rx2_rate_select_lsb'', Bits 1),
     (''rx2_rate_select_msb'', Bits 1), (''rx3_rate_select_lsb'', Bits 1),
     (''rx3_rate_select_msb'', Bits 1), (''rx4_rate_select_lsb'', Bits 1),
     (''rx4_rate_select_msb'', Bits 1), (''tx1_rate_select_lsb'', Bits 1),
     (''tx1_rate_select_msb'', Bits 1), (''tx2_rate_select_lsb'', Bits 1),
     (''tx2_rate_select_msb'', Bits 1), (''tx3_rate_select_lsb'', Bits 1),
     (''tx3_rate_select_msb'', Bits 1), (''tx4_rate_select_lsb'', Bits 1),
     (''tx4_rate_select_msb'', Bits 1), (''rx4_application_select'', Member c_char),
     (''rx3_application_select'', Member c_char), (''rx2_application_select'', Member c_char),
     (''rx1_application_select'', Member c_char), (''power_override'', Bits 1),
     (''power_set'', Bits 1), (''reserved_93_2'', Bits 1), (''reserved_93_3'', Bits 1),
     (''reserved_93_4'', Bits 1), (''reserved_93_5'', Bits 1), (''reserved_93_6'', Bits 1),
     (''reserved_93_7'', Bits 1), (''tx4_application_select'', Member c_char),
     (''tx3_application_select'', Member c_char), (''tx2_application_select'', Member c_char),
     (''tx1_application_select'', Member c_char)]"

definition pm_qsfp_module_and_channel_masks_t :: clayout where
  "pm_qsfp_module_and_channel_masks_t = c_struct [
     (''masking_bit_rx1_los_indicator'', Bits 1), (''masking_bit_rx2_los_indicator'', Bits 1),
     (''masking_bit_rx3_los_indicator'', Bits 1), (''masking_bit_rx4_los_indicator'', Bits 1),
     (''masking_bit_tx1_los_indicator'', Bits 1), (''masking_bit_tx2_los_indicator'', Bits 1),
     (''masking_bit_tx3_los_indicator'', Bits 1), (''masking_bit_tx4_los_indicator'', Bits 1),
     (''masking_bit_tx1_fault_indicator'', Bits 1), (''masking_bit_tx2_fault_indicator'', Bits 1),
     (''masking_bit_tx3_fault_indicator'', Bits 1), (''masking_bit_tx4_fault_indicator'', Bits 1),
     (''reserved_101_4'', Bits 1), (''reserved_101_5'', Bits 1), (''reserved_101_6'', Bits 1),
     (''reserved_101_7'', Bits 1), (''reserved_102'', Member c_char), (''reserved_103_0'', Bits 1),
     (''reserved_103_1'', Bits 1), (''reserved_103_2'', Bits 1), (''reserved_103_3'', Bits 1),
     (''masking_bit_low_temp_warning'', Bits 1), (''masking_bit_high_temp_warning'', Bits 1),
     (''masking_bit_low_temp_alarm'', Bits 1), (''masking_bit_high_temp_alarm'', Bits 1),
     (''reserved_104_0'', Bits 1), (''reserved_104_1'', Bits 1), (''reserved_104_2'', Bits 1),
     (''reserved_104_3'', Bits 1), (''masking_bit_low_vcc_warning'', Bits 1),
     (''masking_bit_high_vcc_warning'', Bits 1), (''masking_bit_low_vcc_alarm'', Bits 1),
     (''masking_bit_high_vcc_alarm'', Bits 1), (''reserved_105'', Member c_char),
     (''reserved_106'', Member c_char)]"

definition pm_qsfp_password_change_entry_area_t :: clayout where
  "pm_qsfp_password_change_entry_area_t = c_struct [
     (''password_change_entry_area'', Member (c_array PASSWORD_LEN))]"

definition pm_qsfp_password_entry_area_t :: clayout where
  "pm_qsfp_password_entry_area_t = c_struct [
     (''password_entry_area'', Member (c_array PASSWORD_LEN))]"

definition pm_qsfp_dom_t :: clayout where
  "pm_qsfp_dom_t = c_struct [
     (''indentifier'', Member c_char), (''status'', Member pm_qsfp_status_indicators_t),
     (''interrupt_flags'', Member pm_qsfp_interrupt_flags_t),
     (''module_monitors'', Member pm_qsfp_module_monitors_t),
     (''channel_monitors'', Member pm_qsfp_channel_monitors_t),
     (''reserved_82'', Member (c_array 4)), (''control'', Member pm_qsfp_control_t),
     (''reserved_98'', Member (c_array 2)),
     (''module_and_channel_masks'', Member pm_qsfp_module_and_channel_masks_t),
     (''reserved_107'', Member (c_array 12)),
     (''password_change_entry_area'', Member pm_qsfp_password_change_entry_area_t),
     (''password_entry_area'', Member pm_qsfp_password_entry_area_t),
     (''page_select_btye'', Member c_char)]"

section \<open>The layouts, evaluated\<close>

text \<open>Numerals are kept as they are while the layouts are computed.\<close>

declare One_nat_def [simp del]
declare layout_defs [simp]
declare dom_consts [simp]

lemmas pm_sfp_status_control_bits_t_eval [simp] = pm_sfp_status_control_bits_t_def [simplified]
lemmas pm_sfp_alarm_warning_bits_t_eval [simp] = pm_sfp_alarm_warning_bits_t_def [simplified]
lemmas pm_sfp_password_t_eval [simp] = pm_sfp_password_t_def [simplified]
lemmas pm_sfp_dom_t_eval [simp] = pm_sfp_dom_t_def [simplified]
lemmas pm_qsfp_status_indicators_t_eval [simp] = pm_qsfp_status_indicators_t_def [simplified]
lemmas pm_qsfp_interrupt_flags_t_eval [simp] = pm_qsfp_interrupt_flags_t_def [simplified]
lemmas pm_qsfp_module_monitors_t_eval [simp] = pm_qsfp_module_monitors_t_def [simplified]
lemmas pm_qsfp_channel_monitors_t_eval [simp] = pm_qsfp_channel_monitors_t_def [simplified]
lemmas pm_qsfp_control_t_eval [simp] = pm_qsfp_control_t_def [simplified]
lemmas pm_qsfp_module_and_channel_masks_t_eval [simp] = pm_qsfp_module_and_channel_masks_t_def [simplified]
lemmas pm_qsfp_password_change_entry_area_t_eval [simp] = pm_qsfp_password_change_entry_area_t_def [simplified]
lemmas pm_qsfp_password_entry_area_t_eval [simp] = pm_qsfp_password_entry_area_t_def [simplified]
lemmas pm_qsfp_dom_t_eval [simp] = pm_qsfp_dom_t_def [simplified]

lemma sfp_dom_pos:
  "field_pos pm_sfp_dom_t ''temp_high_alarm_msb'' = Some (0, 8)"
  "field_pos pm_sfp_dom_t ''temp_high_alarm_lsb'' = Some (8, 8)"
  "field_pos pm_sfp_dom_t ''temp_low_alarm_msb'' = Some (16, 8)"
  "field_pos pm_sfp_dom_t ''temp_low_alarm_lsb'' = Some (24, 8)"
  "field_pos pm_sfp_dom_t ''temp_high_warning_msb'' = Some (32, 8)"
  "field_pos pm_sfp_dom_t ''temp_high_warning_lsb'' = Some (40, 8)"
  "field_pos pm_sfp_dom_t ''temp_low_warning_msb'' = Some (48, 8)"
  "field_pos pm_sfp_dom_t ''temp_low_warning_lsb'' = Some (56, 8)"
  "field_pos pm_sfp_dom_t ''voltage_high_alarm_msb'' = Some (64, 8)"
  "field_pos pm_sfp_dom_t ''voltage_high_alarm_lsb'' = Some (72, 8)"
  "field_pos pm_sfp_dom_t ''voltage_low_alarm_msb'' = Some (80, 8)"
  "field_pos pm_sfp_dom_t ''voltage_low_alarm_lsb'' = Some (88, 8)"
  "field_pos pm_sfp_dom_t ''voltage_high_warning_msb'' = Some (96, 8)"
  "field_pos pm_sfp_dom_t ''voltage_high_warning_lsb'' = Some (104, 8)"
  "field_pos pm_sfp_dom_t ''voltage_low_warning_msb'' = Some (112, 8)"
  "field_pos pm_sfp_dom_t ''voltage_low_warning_lsb'' = Some (120, 8)"
  "field_pos pm_sfp_dom_t ''bias_high_alarm_msb'' = Some (128, 8)"
  "field_pos pm_sfp_dom_t ''bias_high_alarm_lsb'' = Some (136, 8)"
  "field_pos pm_sfp_dom_t ''bias_low_alarm_msb'' = Some (144, 8)"
  "field_pos pm_sfp_dom_t ''bias_low_alarm_lsb'' = Some (152, 8)"
  "field_pos pm_sfp_dom_t ''bias_high_warning_msb'' = Some (160, 8)"
  "field_pos pm_sfp_dom_t ''bias_high_warning_lsb'' = Some (168, 8)"
  "field_pos pm_sfp_dom_t ''bias_low_warning_msb'' = Some (176, 8)"
  "field_pos pm_sfp_dom_t ''bias_low_warning_lsb'' = Some (184, 8)"
  "field_pos pm_sfp_dom_t ''tx_power_high_alarm_msb'' = Some (192, 8)"
  "field_pos pm_sfp_dom_t ''tx_power_high_alarm_lsb'' = Some (200, 8)"
  "field_pos pm_sfp_dom_t ''tx_power_low_alarm_msb'' = Some (208, 8)"
  "field_pos pm_sfp_dom_t ''tx_power_low_alarm_lsb'' = Some (216, 8)"
  "field_pos pm_sfp_dom_t ''tx_power_high_warning_msb'' = Some (224, 8)"
  "field_pos pm_sfp_dom_t ''tx_power_high_warning_lsb'' = Some (232, 8)"
  "field_pos pm_sfp_dom_t ''tx_power_low_warning_msb'' = Some (240, 8)"
  "field_pos pm_sfp_dom_t ''tx_power_low_warning_lsb'' = Some (248, 8)"
  "field_pos pm_sfp_dom_t ''rx_power_high_alarm_msb'' = Some (256, 8)"
  "field_pos pm_sfp_dom_t ''rx_power_high_alarm_lsb'' = Some (264, 8)"
  "field_pos pm_sfp_dom_t ''rx_power_low_alarm_msb'' = Some (272, 8)"
  "field_pos pm_sfp_dom_t ''rx_power_low_alarm_lsb'' = Some (280, 8)"
  "field_pos pm_sfp_dom_t ''rx_power_high_warning_msb'' = Some (288, 8)"
  "field_pos pm_sfp_dom_t ''rx_power_high_warning_lsb'' = Some (296, 8)"
  "field_pos pm_sfp_dom_t ''rx_power_low_warning_msb'' = Some (304, 8)"
  "field_pos pm_sfp_dom_t ''rx_power_low_warning_lsb'' = Some (312, 8)"
  "field_pos pm_sfp_dom_t ''temperature_msb'' = Some (768, 8)"
  "field_pos pm_sfp_dom_t ''temperature_lsb'' = Some (776, 8)"
  "field_pos pm_sfp_dom_t ''vcc_msb'' = Some (784, 8)"
  "field_pos pm_sfp_dom_t ''vcc_lsb'' = Some (792, 8)"
  "field_pos pm_sfp_dom_t ''tx_bias_msb'' = Some (800, 8)"
  "field_pos pm_sfp_dom_t ''tx_bias_lsb'' = Some (808, 8)"
  "field_pos pm_sfp_dom_t ''tx_power_msb'' = Some (816, 8)"
  "field_pos pm_sfp_dom_t ''tx_power_lsb'' = Some (824, 8)"
  "field_pos pm_sfp_dom_t ''rx_power_msb'' = Some (832, 8)"
  "field_pos pm_sfp_dom_t ''rx_power_lsb'' = Some (840, 8)"
  "field_pos pm_sfp_dom_t ''alarm_warning_bits.tx_pwr_low_alarm'' = Some (896, 1)"
  "field_pos pm_sfp_dom_t ''alarm_warning_bits.tx_pwr_high_alarm'' = Some (897, 1)"
  "field_pos pm_sfp_dom_t ''alarm_warning_bits.tx_bias_low_alarm'' = Some (898, 1)"
  "field_pos pm_sfp_dom_t ''alarm_warning_bits.tx_bias_high_alarm'' = Some (899, 1)"
  "field_pos pm_sfp_dom_t ''alarm_warning_bits.vcc_low_alarm'' = Some (900, 1)"
  "field_pos pm_sfp_dom_t ''alarm_warning_bits.vcc_high_alarm'' = Some (901, 1)"
  "field_pos pm_sfp_dom_t ''alarm_warning_bits.temp_low_alarm'' = Some (902, 1)"
  "field_pos pm_sfp_dom_t ''alarm_warning_bits.temp_high_alarm'' = Some (903, 1)"
  "field_pos pm_sfp_dom_t ''alarm_warning_bits.rx_pwr_low_alarm'' = Some (910, 1)"
  "field_pos pm_sfp_dom_t ''alarm_warning_bits.rx_pwr_high_alarm'' = Some (911, 1)"
  "field_pos pm_sfp_dom_t ''alarm_warning_bits.tx_pwr_low_warning'' = Some (928, 1)"
  "field_pos pm_sfp_dom_t ''alarm_warning_bits.tx_pwr_high_warning'' = Some (929, 1)"
  "field_pos pm_sfp_dom_t ''alarm_warning_bits.tx_bias_low_warning'' = Some (930, 1)"
  "field_pos pm_sfp_dom_t ''alarm_warning_bits.tx_bias_high_warning'' = Some (931, 1)"
  "field_pos pm_sfp_dom_t ''alarm_warning_bits.vcc_low_warning'' = Some (932, 1)"
  "field_pos pm_sfp_dom_t ''alarm_warning_bits.vcc_high_warning'' = Some (933, 1)"
  "field_pos pm_sfp_dom_t ''alarm_warning_bits.temp_low_warning'' = Some (934, 1)"
  "field_pos pm_sfp_dom_t ''alarm_warning_bits.temp_high_warning'' = Some (935, 1)"
  "field_pos pm_sfp_dom_t ''alarm_warning_bits.rx_pwr_low_warning'' = Some (942, 1)"
  "field_pos pm_sfp_dom_t ''alarm_warning_bits.rx_pwr_high_warning'' = Some (943, 1)"
  by (simp_all only: pm_sfp_dom_t_eval lookup_simps)

lemma sfp_dom_size: "csize pm_sfp_dom_t = 128"
  by simp

lemma qsfp_dom_pos:
  "field_pos pm_qsfp_dom_t ''module_monitors.temp_msb'' = Some (176, 8)"
  "field_pos pm_qsfp_dom_t ''module_monitors.temp_lsb'' = Some (184, 8)"
  "field_pos pm_qsfp_dom_t ''module_monitors.voltage_msb'' = Some (208, 8)"
  "field_pos pm_qsfp_dom_t ''module_monitors.voltage_lsb'' = Some (216, 8)"
  "field_pos pm_qsfp_dom_t ''channel_monitors.rx1_power_msb'' = Some (272, 8)"
  "field_pos pm_qsfp_dom_t ''channel_monitors.rx1_power_lsb'' = Some (280, 8)"
  "field_pos pm_qsfp_dom_t ''channel_monitors.rx2_power_msb'' = Some (288, 8)"
  "field_pos pm_qsfp_dom_t ''channel_monitors.rx2_power_lsb'' = Some (296, 8)"
  "field_pos pm_qsfp_dom_t ''channel_monitors.rx3_power_msb'' = Some (304, 8)"
  "field_pos pm_qsfp_dom_t ''channel_monitors.rx3_power_lsb'' = Some (312, 8)"
  "field_pos pm_qsfp_dom_t ''channel_monitors.rx4_power_msb'' = Some (320, 8)"
  "field_pos pm_qsfp_dom_t ''channel_monitors.rx4_power_lsb'' = Some (328, 8)"
  "field_pos pm_qsfp_dom_t ''channel_monitors.tx1_bias_msb'' = Some (336, 8)"
  "field_pos pm_qsfp_dom_t ''channel_monitors.tx1_bias_lsb'' = Some (344, 8)"
  "field_pos pm_qsfp_dom_t ''channel_monitors.tx2_bias_msb'' = Some (352, 8)"
  "field_pos pm_qsfp_dom_t ''channel_monitors.tx2_bias_lsb'' = Some (360, 8)"
  "field_pos pm_qsfp_dom_t ''channel_monitors.tx3_bias_msb'' = Some (368, 8)"
  "field_pos pm_qsfp_dom_t ''channel_monitors.tx3_bias_lsb'' = Some (376, 8)"
  "field_pos pm_qsfp_dom_t ''channel_monitors.tx4_bias_msb'' = Some (384, 8)"
  "field_pos pm_qsfp_dom_t ''channel_monitors.tx4_bias_lsb'' = Some (392, 8)"
  "field_pos pm_qsfp_dom_t ''interrupt_flags.latched_rx1_power_low_warning'' = Some (76, 1)"
  "field_pos pm_qsfp_dom_t ''interrupt_flags.latched_rx1_power_high_warning'' = Some (77, 1)"
  "field_pos pm_qsfp_dom_t ''interrupt_flags.latched_rx1_power_low_alarm'' = Some (78, 1)"
  "field_pos pm_qsfp_dom_t ''interrupt_flags.latched_rx1_power_high_alarm'' = Some (79, 1)"
  "field_pos pm_qsfp_dom_t ''interrupt_flags.latched_rx2_power_low_warning'' = Some (72, 1)"
  "field_pos pm_qsfp_dom_t ''interrupt_flags.latched_rx2_power_high_warning'' = Some (73, 1)"
  "field_pos pm_qsfp_dom_t ''interrupt_flags.latched_rx2_power_low_alarm'' = Some (74, 1)"
  "field_pos pm_qsfp_dom_t ''interrupt_flags.latched_rx2_power_high_alarm'' = Some (75, 1)"
  "field_pos pm_qsfp_dom_t ''interrupt_flags.latched_rx3_power_low_warning'' = Some (84, 1)"
  "field_pos pm_qsfp_dom_t ''interrupt_flags.latched_rx3_power_high_warning'' = Some (85, 1)"
  "field_pos pm_qsfp_dom_t ''interrupt_flags.latched_rx3_power_low_alarm'' = Some (86, 1)"
  "field_pos pm_qsfp_dom_t ''interrupt_flags.latched_rx3_power_high_alarm'' = Some (87, 1)"
  "field_pos pm_qsfp_dom_t ''interrupt_flags.latched_rx4_power_low_warning'' = Some (80, 1)"
  "field_pos pm_qsfp_dom_t ''interrupt_flags.latched_rx4_power_high_warning'' = Some (81, 1)"
  "field_pos pm_qsfp_dom_t ''interrupt_flags.latched_rx4_power_low_alarm'' = Some (82, 1)"
  "field_pos pm_qsfp_dom_t ''interrupt_flags.latched_rx4_power_high_alarm'' = Some (83, 1)"
  "field_pos pm_qsfp_dom_t ''interrupt_flags.latched_tx1_bias_low_warning'' = Some (92, 1)"
  "field_pos pm_qsfp_dom_t ''interrupt_flags.latched_tx1_bias_high_warning'' = Some (93, 1)"
  "field_pos pm_qsfp_dom_t ''interrupt_flags.latched_tx1_bias_low_alarm'' = Some (94, 1)"
  "field_pos pm_qsfp_dom_t ''interrupt_flags.latched_tx1_bias_high_alarm'' = Some (95, 1)"
  "field_pos pm_qsfp_dom_t ''interrupt_flags.latched_tx2_bias_low_warning'' = Some (88, 1)"
  "field_pos pm_qsfp_dom_t ''interrupt_flags.latched_tx2_bias_high_warning'' = Some (89, 1)"
  "field_pos pm_qsfp_dom_t ''interrupt_flags.latched_tx2_bias_low_alarm'' = Some (90, 1)"
  "field_pos pm_qsfp_dom_t ''interrupt_flags.latched_tx2_bias_high_alarm'' = Some (91, 1)"
  "field_pos pm_qsfp_dom_t ''interrupt_flags.latched_tx3_bias_low_warning'' = Some (100, 1)"
  "field_pos pm_qsfp_dom_t ''interrupt_flags.latched_tx3_bias_high_warning'' = Some (101, 1)"
  "field_pos pm_qsfp_dom_t ''interrupt_flags.latched_tx3_bias_low_alarm'' = Some (102, 1)"
  "field_pos pm_qsfp_dom_t ''interrupt_flags.latched_tx3_bias_high_alarm'' = Some (103, 1)"
  "field_pos pm_qsfp_dom_t ''interrupt_flags.latched_tx4_bias_low_warning'' = Some (96, 1)"
  "field_pos pm_qsfp_dom_t ''interrupt_flags.latched_tx4_bias_high_warning'' = Some (97, 1)"
  "field_pos pm_qsfp_dom_t ''interrupt_flags.latched_tx4_bias_low_alarm'' = Some (98, 1)"
  "field_pos pm_qsfp_dom_t ''interrupt_flags.latched_tx4_bias_high_alarm'' = Some (99, 1)"
  by (simp_all only: pm_qsfp_dom_t_eval lookup_simps)

lemma qsfp_dom_size: "csize pm_qsfp_dom_t = 128"
  by simp

declare pm_sfp_status_control_bits_t_eval [simp del]
declare pm_sfp_alarm_warning_bits_t_eval [simp del]
declare pm_sfp_password_t_eval [simp del]
declare pm_sfp_dom_t_eval [simp del]
declare pm_qsfp_status_indicators_t_eval [simp del]
declare pm_qsfp_interrupt_flags_t_eval [simp del]
declare pm_qsfp_module_monitors_t_eval [simp del]
declare pm_qsfp_channel_monitors_t_eval [simp del]
declare pm_qsfp_control_t_eval [simp del]
declare pm_qsfp_module_and_channel_masks_t_eval [simp del]
declare pm_qsfp_password_change_entry_area_t_eval [simp del]
declare pm_qsfp_password_entry_area_t_eval [simp del]
declare pm_qsfp_dom_t_eval [simp del]
declare layout_defs [simp del]
declare dom_consts [simp del]
declare One_nat_def [simp]

section \<open>The layouts are sound\<close>

lemma layout_ok_pm_sfp_status_control_bits_t: "layout_ok pm_sfp_status_control_bits_t"
  unfolding pm_sfp_status_control_bits_t_def
  by (rule layout_ok_c_struct) (simp add: layout_ok_basic)

lemma layout_ok_pm_sfp_alarm_warning_bits_t: "layout_ok pm_sfp_alarm_warning_bits_t"
  unfolding pm_sfp_alarm_warning_bits_t_def
  by (rule layout_ok_c_struct) (simp add: layout_ok_basic)

lemma layout_ok_pm_sfp_password_t: "layout_ok pm_sfp_password_t"
  unfolding pm_sfp_password_t_def
  by (rule layout_ok_c_struct) (simp add: layout_ok_basic)

lemma layout_ok_pm_sfp_dom_t: "layout_ok pm_sfp_dom_t"
  unfolding pm_sfp_dom_t_def
  by (rule layout_ok_c_struct) (simp add: layout_ok_basic layout_ok_pm_sfp_status_control_bits_t layout_ok_pm_sfp_alarm_warning_bits_t layout_ok_pm_sfp_password_t)

lemma layout_ok_pm_qsfp_status_indicators_t: "layout_ok pm_qsfp_status_indicators_t"
  unfolding pm_qsfp_status_indicators_t_def
  by (rule layout_ok_c_struct) (simp add: layout_ok_basic)

lemma layout_ok_pm_qsfp_interrupt_flags_t: "layout_ok pm_qsfp_interrupt_flags_t"
  unfolding pm_qsfp_interrupt_flags_t_def
  by (rule layout_ok_c_struct) (simp add: layout_ok_basic)

lemma layout_ok_pm_qsfp_module_monitors_t: "layout_ok pm_qsfp_module_monitors_t"
  unfolding pm_qsfp_module_monitors_t_def
  by (rule layout_ok_c_struct) (simp add: layout_ok_basic)

lemma layout_ok_pm_qsfp_channel_monitors_t: "layout_ok pm_qsfp_channel_monitors_t"
  unfolding pm_qsfp_channel_monitors_t_def
  by (rule layout_ok_c_struct) (simp add: layout_ok_basic)

lemma layout_ok_pm_qsfp_control_t: "layout_ok pm_qsfp_control_t"
  unfolding pm_qsfp_control_t_def
  by (rule layout_ok_c_struct) (simp add: layout_ok_basic)

lemma layout_ok_pm_qsfp_module_and_channel_masks_t: "layout_ok pm_qsfp_module_and_channel_masks_t"
  unfolding pm_qsfp_module_and_channel_masks_t_def
  by (rule layout_ok_c_struct) (simp add: layout_ok_basic)

lemma layout_ok_pm_qsfp_password_change_entry_area_t: "layout_ok pm_qsfp_password_change_entry_area_t"
  unfolding pm_qsfp_password_change_entry_area_t_def
  by (rule layout_ok_c_struct) (simp add: layout_ok_basic)

lemma layout_ok_pm_qsfp_password_entry_area_t: "layout_ok pm_qsfp_password_entry_area_t"
  unfolding pm_qsfp_password_entry_area_t_def
  by (rule layout_ok_c_struct) (simp add: layout_ok_basic)

lemma layout_ok_pm_qsfp_dom_t: "layout_ok pm_qsfp_dom_t"
  unfolding pm_qsfp_dom_t_def
  by (rule layout_ok_c_struct) (simp add: layout_ok_basic layout_ok_pm_qsfp_status_indicators_t layout_ok_pm_qsfp_interrupt_flags_t layout_ok_pm_qsfp_module_monitors_t layout_ok_pm_qsfp_channel_monitors_t layout_ok_pm_qsfp_control_t layout_ok_pm_qsfp_module_and_channel_masks_t layout_ok_pm_qsfp_password_change_entry_area_t layout_ok_pm_qsfp_password_entry_area_t)

section \<open>Field accesses as byte accesses\<close>

lemma sfp_dom_bytes [layout_simps]:
  "field pm_sfp_dom_t ''temp_high_alarm_msb'' pg = pg ! 0"
  "field pm_sfp_dom_t ''temp_high_alarm_lsb'' pg = pg ! 1"
  "field pm_sfp_dom_t ''temp_low_alarm_msb'' pg = pg ! 2"
  "field pm_sfp_dom_t ''temp_low_alarm_lsb'' pg = pg ! 3"
  "field pm_sfp_dom_t ''temp_high_warning_msb'' pg = pg ! 4"
  "field pm_sfp_dom_t ''temp_high_warning_lsb'' pg = pg ! 5"
  "field pm_sfp_dom_t ''temp_low_warning_msb'' pg = pg ! 6"
  "field pm_sfp_dom_t ''temp_low_warning_lsb'' pg = pg ! 7"
  "field pm_sfp_dom_t ''voltage_high_alarm_msb'' pg = pg ! 8"
  "field pm_sfp_dom_t ''voltage_high_alarm_lsb'' pg = pg ! 9"
  "field pm_sfp_dom_t ''voltage_low_alarm_msb'' pg = pg ! 10"
  "field pm_sfp_dom_t ''voltage_low_alarm_lsb'' pg = pg ! 11"
  "field pm_sfp_dom_t ''voltage_high_warning_msb'' pg = pg ! 12"
  "field pm_sfp_dom_t ''voltage_high_warning_lsb'' pg = pg ! 13"
  "field pm_sfp_dom_t ''voltage_low_warning_msb'' pg = pg ! 14"
  "field pm_sfp_dom_t ''voltage_low_warning_lsb'' pg = pg ! 15"
  "field pm_sfp_dom_t ''bias_high_alarm_msb'' pg = pg ! 16"
  "field pm_sfp_dom_t ''bias_high_alarm_lsb'' pg = pg ! 17"
  "field pm_sfp_dom_t ''bias_low_alarm_msb'' pg = pg ! 18"
  "field pm_sfp_dom_t ''bias_low_alarm_lsb'' pg = pg ! 19"
  "field pm_sfp_dom_t ''bias_high_warning_msb'' pg = pg ! 20"
  "field pm_sfp_dom_t ''bias_high_warning_lsb'' pg = pg ! 21"
  "field pm_sfp_dom_t ''bias_low_warning_msb'' pg = pg ! 22"
  "field pm_sfp_dom_t ''bias_low_warning_lsb'' pg = pg ! 23"
  "field pm_sfp_dom_t ''tx_power_high_alarm_msb'' pg = pg ! 24"
  "field pm_sfp_dom_t ''tx_power_high_alarm_lsb'' pg = pg ! 25"
  "field pm_sfp_dom_t ''tx_power_low_alarm_msb'' pg = pg ! 26"
  "field pm_sfp_dom_t ''tx_power_low_alarm_lsb'' pg = pg ! 27"
  "field pm_sfp_dom_t ''tx_power_high_warning_msb'' pg = pg ! 28"
  "field pm_sfp_dom_t ''tx_power_high_warning_lsb'' pg = pg ! 29"
  "field pm_sfp_dom_t ''tx_power_low_warning_msb'' pg = pg ! 30"
  "field pm_sfp_dom_t ''tx_power_low_warning_lsb'' pg = pg ! 31"
  "field pm_sfp_dom_t ''rx_power_high_alarm_msb'' pg = pg ! 32"
  "field pm_sfp_dom_t ''rx_power_high_alarm_lsb'' pg = pg ! 33"
  "field pm_sfp_dom_t ''rx_power_low_alarm_msb'' pg = pg ! 34"
  "field pm_sfp_dom_t ''rx_power_low_alarm_lsb'' pg = pg ! 35"
  "field pm_sfp_dom_t ''rx_power_high_warning_msb'' pg = pg ! 36"
  "field pm_sfp_dom_t ''rx_power_high_warning_lsb'' pg = pg ! 37"
  "field pm_sfp_dom_t ''rx_power_low_warning_msb'' pg = pg ! 38"
  "field pm_sfp_dom_t ''rx_power_low_warning_lsb'' pg = pg ! 39"
  "field pm_sfp_dom_t ''temperature_msb'' pg = pg ! 96"
  "field pm_sfp_dom_t ''temperature_lsb'' pg = pg ! 97"
  "field pm_sfp_dom_t ''vcc_msb'' pg = pg ! 98"
  "field pm_sfp_dom_t ''vcc_lsb'' pg = pg ! 99"
  "field pm_sfp_dom_t ''tx_bias_msb'' pg = pg ! 100"
  "field pm_sfp_dom_t ''tx_bias_lsb'' pg = pg ! 101"
  "field pm_sfp_dom_t ''tx_power_msb'' pg = pg ! 102"
  "field pm_sfp_dom_t ''tx_power_lsb'' pg = pg ! 103"
  "field pm_sfp_dom_t ''rx_power_msb'' pg = pg ! 104"
  "field pm_sfp_dom_t ''rx_power_lsb'' pg = pg ! 105"
  by (simp_all add: field_def sfp_dom_pos)

lemma sfp_dom_flags [layout_simps]:
  "flag pm_sfp_dom_t ''alarm_warning_bits.tx_pwr_low_alarm'' pg = bit (pg ! 112) 0"
  "flag pm_sfp_dom_t ''alarm_warning_bits.tx_pwr_high_alarm'' pg = bit (pg ! 112) 1"
  "flag pm_sfp_dom_t ''alarm_warning_bits.tx_bias_low_alarm'' pg = bit (pg ! 112) 2"
  "flag pm_sfp_dom_t ''alarm_warning_bits.tx_bias_high_alarm'' pg = bit (pg ! 112) 3"
  "flag pm_sfp_dom_t ''alarm_warning_bits.vcc_low_alarm'' pg = bit (pg ! 112) 4"
  "flag pm_sfp_dom_t ''alarm_warning_bits.vcc_high_alarm'' pg = bit (pg ! 112) 5"
  "flag pm_sfp_dom_t ''alarm_warning_bits.temp_low_alarm'' pg = bit (pg ! 112) 6"
  "flag pm_sfp_dom_t ''alarm_warning_bits.temp_high_alarm'' pg = bit (pg ! 112) 7"
  "flag pm_sfp_dom_t ''alarm_warning_bits.rx_pwr_low_alarm'' pg = bit (pg ! 113) 6"
  "flag pm_sfp_dom_t ''alarm_warning_bits.rx_pwr_high_alarm'' pg = bit (pg ! 113) 7"
  "flag pm_sfp_dom_t ''alarm_warning_bits.tx_pwr_low_warning'' pg = bit (pg ! 116) 0"
  "flag pm_sfp_dom_t ''alarm_warning_bits.tx_pwr_high_warning'' pg = bit (pg ! 116) 1"
  "flag pm_sfp_dom_t ''alarm_warning_bits.tx_bias_low_warning'' pg = bit (pg ! 116) 2"
  "flag pm_sfp_dom_t ''alarm_warning_bits.tx_bias_high_warning'' pg = bit (pg ! 116) 3"
  "flag pm_sfp_dom_t ''alarm_warning_bits.vcc_low_warning'' pg = bit (pg ! 116) 4"
  "flag pm_sfp_dom_t ''alarm_warning_bits.vcc_high_warning'' pg = bit (pg ! 116) 5"
  "flag pm_sfp_dom_t ''alarm_warning_bits.temp_low_warning'' pg = bit (pg ! 116) 6"
  "flag pm_sfp_dom_t ''alarm_warning_bits.temp_high_warning'' pg = bit (pg ! 116) 7"
  "flag pm_sfp_dom_t ''alarm_warning_bits.rx_pwr_low_warning'' pg = bit (pg ! 117) 6"
  "flag pm_sfp_dom_t ''alarm_warning_bits.rx_pwr_high_warning'' pg = bit (pg ! 117) 7"
  by (simp_all add: flag_at sfp_dom_pos)

lemma qsfp_dom_bytes [layout_simps]:
  "field pm_qsfp_dom_t ''module_monitors.temp_msb'' pg = pg ! 22"
  "field pm_qsfp_dom_t ''module_monitors.temp_lsb'' pg = pg ! 23"
  "field pm_qsfp_dom_t ''module_monitors.voltage_msb'' pg = pg ! 26"
  "field pm_qsfp_dom_t ''module_monitors.voltage_lsb'' pg = pg ! 27"
  "field pm_qsfp_dom_t ''channel_monitors.rx1_power_msb'' pg = pg ! 34"
  "field pm_qsfp_dom_t ''channel_monitors.rx1_power_lsb'' pg = pg ! 35"
  "field pm_qsfp_dom_t ''channel_monitors.rx2_power_msb'' pg = pg ! 36"
  "field pm_qsfp_dom_t ''channel_monitors.rx2_power_lsb'' pg = pg ! 37"
  "field pm_qsfp_dom_t ''channel_monitors.rx3_power_msb'' pg = pg ! 38"
  "field pm_qsfp_dom_t ''channel_monitors.rx3_power_lsb'' pg = pg ! 39"
  "field pm_qsfp_dom_t ''channel_monitors.rx4_power_msb'' pg = pg ! 40"
  "field pm_qsfp_dom_t ''channel_monitors.rx4_power_lsb'' pg = pg ! 41"
  "field pm_qsfp_dom_t ''channel_monitors.tx1_bias_msb'' pg = pg ! 42"
  "field pm_qsfp_dom_t ''channel_monitors.tx1_bias_lsb'' pg = pg ! 43"
  "field pm_qsfp_dom_t ''channel_monitors.tx2_bias_msb'' pg = pg ! 44"
  "field pm_qsfp_dom_t ''channel_monitors.tx2_bias_lsb'' pg = pg ! 45"
  "field pm_qsfp_dom_t ''channel_monitors.tx3_bias_msb'' pg = pg ! 46"
  "field pm_qsfp_dom_t ''channel_monitors.tx3_bias_lsb'' pg = pg ! 47"
  "field pm_qsfp_dom_t ''channel_monitors.tx4_bias_msb'' pg = pg ! 48"
  "field pm_qsfp_dom_t ''channel_monitors.tx4_bias_lsb'' pg = pg ! 49"
  by (simp_all add: field_def qsfp_dom_pos)

lemma qsfp_dom_flags [layout_simps]:
  "flag pm_qsfp_dom_t ''interrupt_flags.latched_rx1_power_low_warning'' pg = bit (pg ! 9) 4"
  "flag pm_qsfp_dom_t ''interrupt_flags.latched_rx1_power_high_warning'' pg = bit (pg ! 9) 5"
  "flag pm_qsfp_dom_t ''interrupt_flags.latched_rx1_power_low_alarm'' pg = bit (pg ! 9) 6"
  "flag pm_qsfp_dom_t ''interrupt_flags.latched_rx1_power_high_alarm'' pg = bit (pg ! 9) 7"
  "flag pm_qsfp_dom_t ''interrupt_flags.latched_rx2_power_low_warning'' pg = bit (pg ! 9) 0"
  "flag pm_qsfp_dom_t ''interrupt_flags.latched_rx2_power_high_warning'' pg = bit (pg ! 9) 1"
  "flag pm_qsfp_dom_t ''interrupt_flags.latched_rx2_power_low_alarm'' pg = bit (pg ! 9) 2"
  "flag pm_qsfp_dom_t ''interrupt_flags.latched_rx2_power_high_alarm'' pg = bit (pg ! 9) 3"
  "flag pm_qsfp_dom_t ''interrupt_flags.latched_rx3_power_low_warning'' pg = bit (pg ! 10) 4"
  "flag pm_qsfp_dom_t ''interrupt_flags.latched_rx3_power_high_warning'' pg = bit (pg ! 10) 5"
  "flag pm_qsfp_dom_t ''interrupt_flags.latched_rx3_power_low_alarm'' pg = bit (pg ! 10) 6"
  "flag pm_qsfp_dom_t ''interrupt_flags.latched_rx3_power_high_alarm'' pg = bit (pg ! 10) 7"
  "flag pm_qsfp_dom_t ''interrupt_flags.latched_rx4_power_low_warning'' pg = bit (pg ! 10) 0"
  "flag pm_qsfp_dom_t ''interrupt_flags.latched_rx4_power_high_warning'' pg = bit (pg ! 10) 1"
  "flag pm_qsfp_dom_t ''interrupt_flags.latched_rx4_power_low_alarm'' pg = bit (pg ! 10) 2"
  "flag pm_qsfp_dom_t ''interrupt_flags.latched_rx4_power_high_alarm'' pg = bit (pg ! 10) 3"
  "flag pm_qsfp_dom_t ''interrupt_flags.latched_tx1_bias_low_warning'' pg = bit (pg ! 11) 4"
  "flag pm_qsfp_dom_t ''interrupt_flags.latched_tx1_bias_high_warning'' pg = bit (pg ! 11) 5"
  "flag pm_qsfp_dom_t ''interrupt_flags.latched_tx1_bias_low_alarm'' pg = bit (pg ! 11) 6"
  "flag pm_qsfp_dom_t ''interrupt_flags.latched_tx1_bias_high_alarm'' pg = bit (pg ! 11) 7"
  "flag pm_qsfp_dom_t ''interrupt_flags.latched_tx2_bias_low_warning'' pg = bit (pg ! 11) 0"
  "flag pm_qsfp_dom_t ''interrupt_flags.latched_tx2_bias_high_warning'' pg = bit (pg ! 11) 1"
  "flag pm_qsfp_dom_t ''interrupt_flags.latched_tx2_bias_low_alarm'' pg = bit (pg ! 11) 2"
  "flag pm_qsfp_dom_t ''interrupt_flags.latched_tx2_bias_high_alarm'' pg = bit (pg ! 11) 3"
  "flag pm_qsfp_dom_t ''interrupt_flags.latched_tx3_bias_low_warning'' pg = bit (pg ! 12) 4"
  "flag pm_qsfp_dom_t ''interrupt_flags.latched_tx3_bias_high_warning'' pg = bit (pg ! 12) 5"
  "flag pm_qsfp_dom_t ''interrupt_flags.latched_tx3_bias_low_alarm'' pg = bit (pg ! 12) 6"
  "flag pm_qsfp_dom_t ''interrupt_flags.latched_tx3_bias_high_alarm'' pg = bit (pg ! 12) 7"
  "flag pm_qsfp_dom_t ''interrupt_flags.latched_tx4_bias_low_warning'' pg = bit (pg ! 12) 0"
  "flag pm_qsfp_dom_t ''interrupt_flags.latched_tx4_bias_high_warning'' pg = bit (pg ! 12) 1"
  "flag pm_qsfp_dom_t ''interrupt_flags.latched_tx4_bias_low_alarm'' pg = bit (pg ! 12) 2"
  "flag pm_qsfp_dom_t ''interrupt_flags.latched_tx4_bias_high_alarm'' pg = bit (pg ! 12) 3"
  by (simp_all add: flag_at qsfp_dom_pos)

end
