(* ===== verification/Base_Props.thy ===== *)
theory Base_Props
  imports Sample_Pages Plug_Layout Dom_Layout
begin

text \<open>
  The properties of the layers below the components: the page structures, the hexadecimal
  dump, the column macros.
\<close>

section \<open>Structures\<close>

definition page_layouts :: "clayout list" where
  "page_layouts = [pm_sfp_serial_id_t, pm_qsfp_serial_id_t, pm_sfp_dom_t, pm_qsfp_dom_t]"

lemma page_layouts_ok: "L \<in> set page_layouts \<Longrightarrow> layout_ok L \<and> csize L = 128"
  by (auto simp: page_layouts_def layout_ok_pm_sfp_serial_id_t layout_ok_pm_qsfp_serial_id_t
      layout_ok_pm_sfp_dom_t layout_ok_pm_qsfp_dom_t sfp_serial_id_size qsfp_serial_id_size
      sfp_dom_size qsfp_dom_size)

text \<open>
C31: the four page structures overlay a buffer of 128 bytes: each has exactly that size, every
member lies within it, none of up to eight bits crosses a byte, and the two serial id structures
have their checksums at the bytes 63 and 95 that \<open>sfpp_sum_verify\<close> compares.
\<close>

theorem page_structures_fit:
  "(\<forall>L \<in> set page_layouts. csize L = 128 \<and>
      (\<forall>f off w. field_pos L f = Some (off, w) \<longrightarrow>
         off + w \<le> 8 * 128 \<and> (w \<le> 8 \<longrightarrow> off mod 8 + w \<le> 8))) \<and>
   (\<forall>L \<in> {pm_sfp_serial_id_t, pm_qsfp_serial_id_t}. \<forall>pg.
      field L ''check_code_for_base'' pg = pg ! 63 \<and>
      field L ''check_code_for_extended'' pg = pg ! 95)"
proof (intro conjI ballI allI impI)
  fix L f off w
  assume L: "L \<in> set page_layouts"
  then show "csize L = 128" using page_layouts_ok by blast
  assume "field_pos L f = Some (off, w)"
  then have leaf: "(f, off, w) \<in> set (leaves L)" unfolding field_pos_def by (rule map_of_SomeD)
  show "off + w \<le> 8 * 128" using layout_okD(1) [OF _ leaf] page_layouts_ok [OF L] by simp
  show "off mod 8 + w \<le> 8" if "w \<le> 8" using layout_okD(2) [OF _ leaf that] page_layouts_ok [OF L] by simp
qed (auto simp: layout_simps)

theorem page_structures_fit_witness:
  "csize pm_sfp_dom_t = 128 \<and> field pm_qsfp_serial_id_t ''check_code_for_base'' SFP_DAC_MOLEX = 0x8E"
proof -
  have "pm_sfp_dom_t \<in> set page_layouts" by (simp add: page_layouts_def)
  then show ?thesis
    using page_structures_fit [THEN conjunct1] page_structures_fit [THEN conjunct2, THEN bspec, of pm_qsfp_serial_id_t]
    by (simp add: SFP_DAC_MOLEX_def)
qed

section \<open>The dump of a page\<close>

text \<open>
C32: \<open>hex_to_ascii\<close> is safe and loses nothing: whatever the freshly allocated buffer holds, no
write is outside it, the string that is read from it is the hexadecimal text of the page, and
reading that text back digit by digit, as \<open>atoc.c\<close> does, gives the page.
\<close>

theorem hex_to_ascii_round_trip:
  "\<exists>s. hex_to_ascii page = Some s \<and> length s < hex_alloc (length page) \<and>
     unhex (filter (\<lambda>c. c \<noteq> SPACE) s) = Some page \<and>
     (\<forall>fresh. length fresh = hex_alloc (length page) \<longrightarrow>
        map_option c_text (hex_fill fresh page) = Some s)"
  using hex_text_fits [of page] unhex_hex_text_from [of 0 page]
  by (intro exI [of _ "hex_text page"]) (simp add: hex_to_ascii_eq hex_fill_text, simp add: hex_text_def)

theorem hex_to_ascii_round_trip_witness:
  "\<exists>s. hex_to_ascii [0x3A, 0x07] = Some s \<and>
     map_option c_text (hex_fill ''abcde'' [0x3A, 0x07]) = Some s"
  using hex_to_ascii_round_trip [of "[0x3A, 0x07]"] by (auto simp: hex_alloc_def)

section \<open>Integer columns\<close>

text \<open>
\<open>SET_INT_STRING\<close> leaves the text of the new value in the column, whether it writes or
skips the write because the old text reads as that value, and touches no other column.
\<close>

theorem set_int_string_exact:
  assumes "mem_ok port" and "int_field f"
  shows "col_text cn (SET_INT_STRING cn f v port) = (col_text cn port)(f \<mapsto> dec_of_int v)"
  by (rule col_text_int [OF assms])

theorem set_int_string_exact_witness:
  "col_text (\<lambda>_. ''x'') (SET_INT_STRING (\<lambda>_. ''x'') Max_speed 40000 (sample_port CONNECTOR_QSFP28)) Max_speed
     = Some (dec_of_int 40000)"
  using set_int_string_exact [of "sample_port CONNECTOR_QSFP28" Max_speed "\<lambda>_. ''x''" 40000]
  by (simp add: int_field_def)

end
