(* ===== verification/Pm_Detect.thy ===== *)
theory Pm_Detect
  imports Port_Invariants Plug_Layout
begin

text \<open>
  \<open>src/pm_detect.c\<close>: what a serial id page says about a module. \<open>pm_parse\<close> classifies the
  module and writes the columns of the port, \<open>sfpp_sum_verify\<close> checks the two checksums of
  the page. \<open>pm_delete_all_data\<close> of \<open>src/plug.c\<close> is here because \<open>pm_parse\<close> calls it.

  The parser is compared with a description of the page by byte offsets (SFF-8472, SFF-8636):
  the columns after a parse are a function of the page, whatever they were before.
\<close>

section \<open>Building blocks\<close>

definition pm_delete_all_data :: "pm_port \<Rightarrow> pm_port" where
  "pm_delete_all_data =
     stmts [
       DELETE Connector_status,
       DELETE_FREE Supported_speeds,
       DELETE Cable_technology,
       DELETE_FREE Cable_length,
       DELETE_FREE Max_speed,
       DELETE Power_mode,
       DELETE_FREE Vendor_name,
       DELETE_FREE Vendor_oui,
       DELETE_FREE Vendor_part_number,
       DELETE_FREE Vendor_revision,
       DELETE_FREE Vendor_serial_number,
       DELETE_FREE A0,
       DELETE_FREE A2,
       DELETE_FREE A0_uppers]"

text \<open>
  The loop of \<open>set_supported_speeds\<close>: every round prints the text so far, a separator from
  the second round on, and the next speed, into a new string.
\<close>

fun speeds_loop :: "nat \<Rightarrow> string option \<Rightarrow> int list \<Rightarrow> string option" where
  "speeds_loop idx speeds [] = speeds"
| "speeds_loop idx speeds (speed # args) =
     speeds_loop (Suc idx)
       (Some ((case speeds of None \<Rightarrow> '''' | Some s \<Rightarrow> s)
          @ (if idx = 0 then '''' else [SPACE]) @ dec_of_int speed)) args"

definition set_supported_speeds :: "int list \<Rightarrow> pm_port \<Rightarrow> pm_port" where
  "set_supported_speeds args port =
     (let port = (if ovs_module_columns port Supported_speeds \<noteq> None
                  then c_free (ovs_module_columns port Supported_speeds) port else port)
      in set_col Supported_speeds (map_option Heap (speeds_loop 0 None args)) port)"

text \<open>\<open>snprintf (buf, n, ...)\<close> keeps at most \<open>n - 1\<close> characters.\<close>

definition snprintf_n :: "nat \<Rightarrow> string \<Rightarrow> string" where
  "snprintf_n n s = take (n - 1) s"

definition pm_oui_format :: "byte list \<Rightarrow> string" where
  "pm_oui_format binary_oui =
     snprintf_n (PM_VENDOR_OUI_LEN * 3)
       (hex02 (binary_oui ! 0) @ ''-'' @ hex02 (binary_oui ! 1) @ ''-'' @ hex02 (binary_oui ! 2))"

text \<open>
  \<open>while (idx > 0 && SPACE == buf[idx]) { buf[idx] = 0; idx--; }\<close>
\<close>

fun strip_loop :: "nat \<Rightarrow> byte list \<Rightarrow> byte list" where
  "strip_loop 0 buf = buf"
| "strip_loop (Suc i) buf =
     (if buf ! Suc i = 0x20 then strip_loop i (buf[Suc i := 0]) else buf)"

text \<open>A text field: copied, NUL-terminated, trailing spaces stripped, read as a C string.\<close>

definition text_field :: "nat \<Rightarrow> byte list \<Rightarrow> string" where
  "text_field len src = c_string (strip_loop (len - 1) (take len src @ [0]))"

section \<open>\<open>pm_parse\<close>\<close>

definition SFP_BIT_RATE_NOMINAL_10G :: byte where "SFP_BIT_RATE_NOMINAL_10G = 0x64"

text \<open>The block that every module type without cable data has.\<close>

definition parse_type ::
  "(ext_const \<Rightarrow> string) \<Rightarrow> bool \<Rightarrow> ext_const \<Rightarrow> ext_const \<Rightarrow> int \<Rightarrow> pm_port \<Rightarrow> pm_port" where
  "parse_type cn opt conn status speed =
     stmts [
       set_optical opt,
       SET_STATIC_STRING Connector conn,
       SET_STATIC_STRING Connector_status status,
       SET_INT_STRING cn Max_speed speed,
       set_supported_speeds [speed],
       DELETE Cable_technology,
       DELETE_FREE Cable_length]"

definition parse_sfp_dac :: "(ext_const \<Rightarrow> string) \<Rightarrow> page \<Rightarrow> pm_port \<Rightarrow> pm_port" where
  "parse_sfp_dac cn pg =
     (let speed = (if field pm_sfp_serial_id_t ''bit_rate_nominal'' pg \<ge> SFP_BIT_RATE_NOMINAL_10G
                   then 10000 else 1000);
          cable_tech =
            (if flag pm_sfp_serial_id_t ''transceiver.cable_technology_active'' pg
             then CABLE_TECHNOLOGY_ACTIVE
             else if flag pm_sfp_serial_id_t ''transceiver.cable_technology_passive'' pg
             then CABLE_TECHNOLOGY_PASSIVE
             else CABLE_TECHNOLOGY_PASSIVE)
      in stmts [
           set_optical False,
           SET_STATIC_STRING Connector CONNECTOR_SFP_DAC,
           SET_STATIC_STRING Connector_status CONNECTOR_STATUS_SUPPORTED,
           SET_INT_STRING cn Max_speed speed,
           set_supported_speeds [speed],
           SET_STATIC_STRING Cable_technology cable_tech,
           SET_INT_STRING cn Cable_length (uint (field pm_sfp_serial_id_t ''length_copper'' pg))])"

definition parse_sfp_media :: "(ext_const \<Rightarrow> string) \<Rightarrow> page \<Rightarrow> pm_port \<Rightarrow> pm_port" where
  "parse_sfp_media cn pg port =
     (let fl = (\<lambda>f. flag pm_sfp_serial_id_t f pg);
          sup = CONNECTOR_STATUS_SUPPORTED in
      if PM_CONNECTOR_COPPER_PIGTAIL = field pm_sfp_serial_id_t ''connector'' pg
      then parse_sfp_dac cn pg port
      else if fl ''transceiver.enet_1000base_sx''
      then parse_type cn True CONNECTOR_SFP_SX sup 1000 port
      else if fl ''transceiver.enet_1000base_lx''
      then parse_type cn True CONNECTOR_SFP_LX sup 1000 port
      else if fl ''transceiver.enet_1000base_cx''
      then parse_type cn False CONNECTOR_SFP_CX sup 1000 port
      else if fl ''transceiver.enet_1000base_t''
      then parse_type cn False CONNECTOR_SFP_RJ45 sup 1000 port
      else if fl ''transceiver.enet_10gbase_sr''
      then parse_type cn True CONNECTOR_SFP_SR sup 10000 port
      else if fl ''transceiver.enet_10gbase_lr''
      then parse_type cn True CONNECTOR_SFP_LR sup 10000 port
      else if fl ''transceiver.enet_10gbase_lrm''
      then parse_type cn True CONNECTOR_SFP_LRM sup 10000 port
      else parse_type cn False CONNECTOR_UNKNOWN CONNECTOR_STATUS_UNRECOGNIZED 0 port)"

definition parse_qsfp_plus_media :: "(ext_const \<Rightarrow> string) \<Rightarrow> page \<Rightarrow> pm_port \<Rightarrow> pm_port" where
  "parse_qsfp_plus_media cn pg port =
     (let fl = (\<lambda>f. flag pm_qsfp_serial_id_t f pg);
          sup = CONNECTOR_STATUS_SUPPORTED in
      if fl ''spec_compliance.enet_40gbase_lr4''
      then parse_type cn True CONNECTOR_QSFP_LR4 sup 40000 port
      else if fl ''spec_compliance.enet_40gbase_sr4''
      then parse_type cn True CONNECTOR_QSFP_SR4 sup 40000 port
      else if fl ''spec_compliance.enet_40gbase_cr4''
      then parse_type cn False CONNECTOR_QSFP_CR4 sup 40000 port
      else parse_type cn False CONNECTOR_UNKNOWN CONNECTOR_STATUS_UNRECOGNIZED 0 port)"

text \<open>\<open>PM_QSFP_EXT_COMPLIANCE_CODE_*\<close> of \<open>include/plug.h\<close>, those the parser compares with.\<close>

definition EXT_COMPLIANCE_CODE_100GBASE_SR4 :: byte where "EXT_COMPLIANCE_CODE_100GBASE_SR4 = 0x02"
definition EXT_COMPLIANCE_CODE_100GBASE_LR4 :: byte where "EXT_COMPLIANCE_CODE_100GBASE_LR4 = 0x03"
definition EXT_COMPLIANCE_CODE_100GBASE_CWDM4 :: byte where "EXT_COMPLIANCE_CODE_100GBASE_CWDM4 = 0x06"
definition EXT_COMPLIANCE_CODE_100GBASE_PSM4 :: byte where "EXT_COMPLIANCE_CODE_100GBASE_PSM4 = 0x07"
definition EXT_COMPLIANCE_CODE_100GBASE_CR4 :: byte where "EXT_COMPLIANCE_CODE_100GBASE_CR4 = 0x0B"
definition EXT_COMPLIANCE_CODE_100GBASE_CLR4 :: byte where "EXT_COMPLIANCE_CODE_100GBASE_CLR4 = 0x17"

lemmas ext_compliance_codes =
  EXT_COMPLIANCE_CODE_100GBASE_SR4_def EXT_COMPLIANCE_CODE_100GBASE_LR4_def
  EXT_COMPLIANCE_CODE_100GBASE_CWDM4_def EXT_COMPLIANCE_CODE_100GBASE_PSM4_def
  EXT_COMPLIANCE_CODE_100GBASE_CR4_def EXT_COMPLIANCE_CODE_100GBASE_CLR4_def

definition parse_qsfp28_media :: "(ext_const \<Rightarrow> string) \<Rightarrow> page \<Rightarrow> pm_port \<Rightarrow> pm_port" where
  "parse_qsfp28_media cn pg port =
     (let fl = (\<lambda>f. flag pm_qsfp_serial_id_t f pg);
          sup = CONNECTOR_STATUS_SUPPORTED;
          code = field pm_qsfp_serial_id_t ''options.ext_compliance_code'' pg in
      if fl ''spec_compliance.enet_extended''
      then
       (if code = EXT_COMPLIANCE_CODE_100GBASE_SR4
        then parse_type cn True CONNECTOR_QSFP28_SR4 sup 100000 port
        else if code = EXT_COMPLIANCE_CODE_100GBASE_LR4
        then parse_type cn True CONNECTOR_QSFP28_LR4 sup 100000 port
        else if code = EXT_COMPLIANCE_CODE_100GBASE_CWDM4
        then parse_type cn True CONNECTOR_QSFP28_CWDM4 sup 100000 port
        else if code = EXT_COMPLIANCE_CODE_100GBASE_PSM4
        then parse_type cn True CONNECTOR_QSFP28_PSM4 sup 100000 port
        else if code = EXT_COMPLIANCE_CODE_100GBASE_CR4
        then parse_type cn False CONNECTOR_QSFP28_CR4 sup 100000 port
        else if code = EXT_COMPLIANCE_CODE_100GBASE_CLR4
        then parse_type cn True CONNECTOR_QSFP28_CLR4 sup 100000 port
        else parse_type cn False CONNECTOR_UNKNOWN CONNECTOR_STATUS_UNRECOGNIZED 0 port)
      else
       (if fl ''spec_compliance.enet_40gbase_lr4''
        then parse_type cn True CONNECTOR_QSFP_LR4 sup 40000 port
        else if fl ''spec_compliance.enet_40gbase_sr4''
        then parse_type cn True CONNECTOR_QSFP_SR4 sup 40000 port
        else if fl ''spec_compliance.enet_40gbase_cr4''
        then parse_type cn False CONNECTOR_QSFP_CR4 sup 40000 port
        else parse_type cn False CONNECTOR_UNKNOWN CONNECTOR_STATUS_UNRECOGNIZED 0 port))"

text \<open>The vendor data and the page itself; the two page structures share the code, each with its fields.\<close>

definition parse_vendor ::
  "(ext_const \<Rightarrow> string) \<Rightarrow> clayout \<Rightarrow> nat \<Rightarrow> page \<Rightarrow> pm_port \<Rightarrow> pm_port" where
  "parse_vendor cn L rev_len pg =
     stmts [
       DELETE Power_mode,
       SET_STRING cn Vendor_name (text_field PM_VENDOR_NAME_LEN (field_bytes L ''vendor_name'' pg)),
       SET_STRING cn Vendor_oui (pm_oui_format (field_bytes L ''vendor_oui'' pg)),
       SET_STRING cn Vendor_part_number
         (text_field PM_VENDOR_PN_LEN (field_bytes L ''vendor_part_number'' pg)),
       SET_STRING cn Vendor_revision (text_field rev_len (field_bytes L ''vendor_revision'' pg)),
       SET_STRING cn Vendor_serial_number
         (text_field PM_VENDOR_SN_LEN (field_bytes L ''vendor_serial_number'' pg)),
       SET_BINARY A0 (take (csize L) pg)]"

definition parse_sfp_vendor :: "(ext_const \<Rightarrow> string) \<Rightarrow> page \<Rightarrow> pm_port \<Rightarrow> pm_port" where
  "parse_sfp_vendor cn = parse_vendor cn pm_sfp_serial_id_t PM_SFP_VENDOR_REV_LEN"

definition parse_qsfp_vendor :: "(ext_const \<Rightarrow> string) \<Rightarrow> page \<Rightarrow> pm_port \<Rightarrow> pm_port" where
  "parse_qsfp_vendor cn = parse_vendor cn pm_qsfp_serial_id_t PM_QSFP_VENDOR_REV_LEN"

text \<open>The code of the QSFP28 case is a copy of the one above.\<close>

definition parse_qsfp28_vendor :: "(ext_const \<Rightarrow> string) \<Rightarrow> page \<Rightarrow> pm_port \<Rightarrow> pm_port" where
  "parse_qsfp28_vendor cn = parse_vendor cn pm_qsfp_serial_id_t PM_QSFP_VENDOR_REV_LEN"

definition pm_parse :: "(ext_const \<Rightarrow> string) \<Rightarrow> page \<Rightarrow> pm_port \<Rightarrow> int \<times> pm_port" where
  "pm_parse cn pg port =
     (if \<not> yp_pluggable (module_device port) then (0, port)
      else if yp_connector (module_device port) = None then (- 1, port)
      else if connector_is port CONNECTOR_SFP_PLUS
      then (0, parse_sfp_vendor cn pg (parse_sfp_media cn pg port))
      else if connector_is port CONNECTOR_QSFP_PLUS
      then (0, parse_qsfp_vendor cn pg (parse_qsfp_plus_media cn pg port))
      else if connector_is port CONNECTOR_QSFP28
      then (0, parse_qsfp28_vendor cn pg (parse_qsfp28_media cn pg port))
      else (- 1, SET_STATIC_STRING Connector CONNECTOR_UNKNOWN (pm_delete_all_data port)))"

section \<open>Checksums\<close>

text \<open>The loop of \<open>pm_byte_sum\<close>, from \<open>idx\<close>, with \<open>n\<close> rounds to go; the sum is an \<open>unsigned char\<close>.\<close>

fun byte_sum_loop :: "page \<Rightarrow> nat \<Rightarrow> nat \<Rightarrow> byte \<Rightarrow> byte" where
  "byte_sum_loop block idx 0 value = value"
| "byte_sum_loop block idx (Suc n) value = byte_sum_loop block (Suc idx) n (value + block ! idx)"

definition pm_byte_sum :: "page \<Rightarrow> nat \<Rightarrow> nat \<Rightarrow> nat \<Rightarrow> int" where
  "pm_byte_sum block start stop offset =
     (if byte_sum_loop block start (Suc stop - start) 0 \<noteq> block ! offset then 1 else 0)"

definition sfpp_sum_verify :: "page \<Rightarrow> int" where
  "sfpp_sum_verify pg = pm_byte_sum pg 0 62 63 + pm_byte_sum pg 64 94 95"

section \<open>Text fields\<close>

text \<open>
  What the stripping loop computes: the trailing spaces of the field without its first
  character are dropped, so that an all-space field keeps one space.
\<close>

definition strip_trailing :: "byte list \<Rightarrow> byte list" where
  "strip_trailing bs = rev (dropWhile (\<lambda>b. b = 0x20) (rev bs))"

definition strip_spaces :: "byte list \<Rightarrow> byte list" where
  "strip_spaces bs = (case bs of [] \<Rightarrow> [] | b # cs \<Rightarrow> b # strip_trailing cs)"

lemma strip_loop_eq:
  "strip_loop (length cs) (b # cs @ zs) =
     b # strip_trailing cs @ replicate (length cs - length (strip_trailing cs)) 0 @ zs"
proof (induction cs arbitrary: zs rule: rev_induct)
  case Nil
  then show ?case by (simp add: strip_trailing_def)
next
  case (snoc c cs)
  have len: "length (strip_trailing cs) \<le> length cs"
    using length_dropWhile_le [of _ "rev cs"] by (simp add: strip_trailing_def)
  show ?case
  proof (cases "c = 0x20")
    case True
    then have "strip_loop (length (cs @ [c])) (b # (cs @ [c]) @ zs)
        = strip_loop (length cs) (b # cs @ 0 # zs)"
      by (simp add: nth_append)
    also have "\<dots> = b # strip_trailing cs
        @ replicate (length cs - length (strip_trailing cs)) 0 @ 0 # zs"
      by (rule snoc)
    also have "replicate (length cs - length (strip_trailing cs)) 0 @ 0 # zs
        = replicate (Suc (length cs) - length (strip_trailing cs)) (0 :: byte) @ zs"
      using len by (simp add: Suc_diff_le replicate_app_Cons_same)
    finally show ?thesis using True by (simp add: strip_trailing_def)
  next
    case False
    then show ?thesis by (simp add: nth_append strip_trailing_def)
  qed
qed

lemma c_string_append_zeros: "c_string (bs @ replicate n 0 @ [0]) = c_string bs"
  by (induction bs; cases n) (simp_all add: c_string_Cons)

lemma text_field_eq:
  assumes "length bs = n" and "0 < n"
  shows "text_field n bs = c_string (strip_spaces bs)"
proof -
  obtain b cs where bs: "bs = b # cs" using assms by (cases bs) auto
  have "strip_loop (n - 1) (bs @ [0])
      = b # strip_trailing cs @ replicate (length cs - length (strip_trailing cs)) 0 @ [0]"
    using strip_loop_eq [of cs b "[0]"] assms bs by auto
  then show ?thesis
    using c_string_append_zeros [of "b # strip_trailing cs"] assms(1) bs
    by (simp add: text_field_def strip_spaces_def)
qed

lemma length_hex02 [simp]: "length (hex02 b) = 2"
  by (simp add: hex02_def)

text \<open>The buffer of the OUI is long enough: nothing is cut off.\<close>

lemma pm_oui_format_full:
  "pm_oui_format oui = hex02 (oui ! 0) @ ''-'' @ hex02 (oui ! 1) @ ''-'' @ hex02 (oui ! 2)"
  by (simp add: pm_oui_format_def snprintf_n_def PM_VENDOR_OUI_LEN_def)

section \<open>What the operations keep\<close>

lemma set_supported_speeds_single:
  "set_supported_speeds [v] port = write_heap Supported_speeds (dec_of_int v) port"
  by (simp add: set_supported_speeds_def write_heap_def c_free_def is_static_def)

text \<open>The separators: a list of speeds is printed with one space between two speeds.\<close>

definition speeds_text :: "int list \<Rightarrow> string" where
  "speeds_text vs = concat (map (\<lambda>v. SPACE # dec_of_int v) vs)"

lemma speeds_loop_more: "speeds_loop (Suc i) (Some s) vs = Some (s @ speeds_text vs)"
  by (induction vs arbitrary: i s) (simp_all add: speeds_text_def)

lemma set_supported_speeds_eq:
  "set_supported_speeds (v # vs) port =
     write_heap Supported_speeds (dec_of_int v @ speeds_text vs) port"
  by (simp add: set_supported_speeds_def write_heap_def c_free_def is_static_def speeds_loop_more)

lemma plain_fields [simp]:
  "static_field Connector" "static_field Connector_status" "static_field Cable_technology"
  "static_field Power_mode"
  "\<not> static_field Cable_length" "\<not> static_field Supported_speeds" "\<not> static_field Max_speed"
  "\<not> static_field Vendor_name" "\<not> static_field Vendor_oui" "\<not> static_field Vendor_part_number"
  "\<not> static_field Vendor_revision" "\<not> static_field Vendor_serial_number"
  "\<not> static_field A0" "\<not> static_field A0_uppers" "\<not> static_field A2"
  "int_field Max_speed" "int_field Cable_length" "\<not> int_field Supported_speeds"
  "\<not> int_field Vendor_name" "\<not> int_field Vendor_oui" "\<not> int_field Vendor_part_number"
  "\<not> int_field Vendor_revision" "\<not> int_field Vendor_serial_number"
  "\<not> int_field A0" "\<not> int_field A0_uppers" "\<not> int_field A2"
  by (simp_all add: static_field_def int_field_def)

lemma long_range_speeds [simp]:
  "long_range 0" "long_range 1000" "long_range 10000" "long_range 40000" "long_range 100000"
  by (simp_all add: long_range_def LONG_MIN_def LONG_MAX_def)

lemma long_range_byte [simp]: "long_range (uint (b :: byte))"
proof -
  have "long_range x" if "0 \<le> x" "x < 256" for x
    using that by (simp add: long_range_def LONG_MIN_def LONG_MAX_def)
  moreover have "uint b < 256" using uint_bounded [of b] by simp
  ultimately show ?thesis using uint_ge_0 by blast
qed

context column_invariant
begin

lemma keep_delete_all: "I p \<Longrightarrow> I (pm_delete_all_data p)"
  by (simp add: pm_delete_all_data_def keep_delete keep_delete_free)

lemma keep_speeds: "I p \<Longrightarrow> I (set_supported_speeds (v # vs) p)"
  using keep_heap [of Supported_speeds "dec_of_int v @ speeds_text vs" p]
  by (simp add: set_supported_speeds_eq)

lemma keep_parse_vendor: "I p \<Longrightarrow> I (parse_vendor cn L n pg p)"
  by (simp add: parse_vendor_def keep_columns)

lemma keep_parse_type:
  assumes "\<And>b p. I p \<Longrightarrow> I (set_optical b p)"
  shows "long_range v \<Longrightarrow> I p \<Longrightarrow> I (parse_type cn b c s v p)"
  by (simp add: parse_type_def assms keep_columns keep_speeds)

lemma keep_parse_sfp_dac:
  assumes "\<And>b p. I p \<Longrightarrow> I (set_optical b p)"
  shows "I p \<Longrightarrow> I (parse_sfp_dac cn pg p)"
  by (simp add: parse_sfp_dac_def assms keep_columns keep_speeds)

lemma keep_pm_parse:
  assumes opt: "\<And>b p. I p \<Longrightarrow> I (set_optical b p)" and "I p"
  shows "I (snd (pm_parse cn pg p))"
proof -
  have "I (parse_sfp_media cn pg p)" "I (parse_qsfp_plus_media cn pg p)"
    "I (parse_qsfp28_media cn pg p)"
    using \<open>I p\<close> opt
    by (simp_all add: parse_sfp_media_def parse_qsfp_plus_media_def parse_qsfp28_media_def Let_def
        keep_parse_type keep_parse_sfp_dac)
  then show ?thesis
    using \<open>I p\<close>
    by (simp add: pm_parse_def parse_sfp_vendor_def parse_qsfp_vendor_def parse_qsfp28_vendor_def
        keep_parse_vendor
        keep_delete_all keep_static)
qed

end

end
