(* ===== verification/Detect_Spec.thy ===== *)
theory Detect_Spec
  imports Pm_Detect
begin

text \<open>
  A description of a serial id page by byte offsets (SFF-8472 for SFP+, SFF-8636 for QSFP+
  and QSFP28), independent of the parser, and the proof that \<open>pm_parse\<close> publishes it.
\<close>

section \<open>The media of a page\<close>

datatype media =
  Media (media_connector: ext_const) (media_optical: bool) (media_speed: int)
    (media_cable: "(ext_const \<times> int) option")

definition media_status :: "media \<Rightarrow> ext_const" where
  "media_status m =
     (if media_connector m = CONNECTOR_UNKNOWN then CONNECTOR_STATUS_UNRECOGNIZED
      else CONNECTOR_STATUS_SUPPORTED)"

definition unknown_media :: media where
  "unknown_media = Media CONNECTOR_UNKNOWN False 0 None"

text \<open>A table of compliance bits: the first entry (byte, bit) that is set decides.\<close>

definition first_set :: "((nat \<times> nat) \<times> media) list \<Rightarrow> page \<Rightarrow> media" where
  "first_set table pg =
     (case find (\<lambda>((i, b), m). bit (pg ! i) b) table of Some (_, m) \<Rightarrow> m | None \<Rightarrow> unknown_media)"

definition sfp_table :: "((nat \<times> nat) \<times> media) list" where
  "sfp_table =
     [((6, 0), Media CONNECTOR_SFP_SX True 1000 None),
      ((6, 1), Media CONNECTOR_SFP_LX True 1000 None),
      ((6, 2), Media CONNECTOR_SFP_CX False 1000 None),
      ((6, 3), Media CONNECTOR_SFP_RJ45 False 1000 None),
      ((3, 4), Media CONNECTOR_SFP_SR True 10000 None),
      ((3, 5), Media CONNECTOR_SFP_LR True 10000 None),
      ((3, 6), Media CONNECTOR_SFP_LRM True 10000 None)]"

definition qsfp_table :: "((nat \<times> nat) \<times> media) list" where
  "qsfp_table =
     [((3, 1), Media CONNECTOR_QSFP_LR4 True 40000 None),
      ((3, 2), Media CONNECTOR_QSFP_SR4 True 40000 None),
      ((3, 3), Media CONNECTOR_QSFP_CR4 False 40000 None)]"

definition extended_table :: "byte \<Rightarrow> media option" where
  "extended_table = map_of
     [(0x02, Media CONNECTOR_QSFP28_SR4 True 100000 None),
      (0x03, Media CONNECTOR_QSFP28_LR4 True 100000 None),
      (0x06, Media CONNECTOR_QSFP28_CWDM4 True 100000 None),
      (0x07, Media CONNECTOR_QSFP28_PSM4 True 100000 None),
      (0x0B, Media CONNECTOR_QSFP28_CR4 False 100000 None),
      (0x17, Media CONNECTOR_QSFP28_CLR4 True 100000 None)]"

text \<open>
  Byte 2 of an SFP+ page is the connector code (0x21 a copper pigtail), byte 8 the cable
  technology (bit 3 active), byte 12 the bit rate in units of 100 Mb/s, byte 18 the length of
  the copper cable. Bit 7 of byte 3 of a QSFP page announces the extended compliance code, byte
  64 of the page (192 of the module).
\<close>

definition sff8472_media :: "page \<Rightarrow> media" where
  "sff8472_media pg =
     (if pg ! 2 = 0x21
      then Media CONNECTOR_SFP_DAC False (if 100 \<le> uint (pg ! 12) then 10000 else 1000)
             (Some (if bit (pg ! 8) 3 then CABLE_TECHNOLOGY_ACTIVE else CABLE_TECHNOLOGY_PASSIVE,
                    uint (pg ! 18)))
      else first_set sfp_table pg)"

definition sff8636_media :: "bool \<Rightarrow> page \<Rightarrow> media" where
  "sff8636_media qsfp28 pg =
     (if qsfp28 \<and> bit (pg ! 3) 7
      then (case extended_table (pg ! 64) of Some m \<Rightarrow> m | None \<Rightarrow> unknown_media)
      else first_set qsfp_table pg)"

definition page_media :: "string \<Rightarrow> page \<Rightarrow> media" where
  "page_media conn pg =
     (if conn = CONNECTOR_SFP_PLUS then sff8472_media pg
      else sff8636_media (conn = CONNECTOR_QSFP28) pg)"

definition known_connector :: "string \<Rightarrow> bool" where
  "known_connector conn \<longleftrightarrow> conn \<in> {CONNECTOR_SFP_PLUS, CONNECTOR_QSFP_PLUS, CONNECTOR_QSFP28}"

section \<open>The columns of a page\<close>

fun page_column ::
  "(ext_const \<Rightarrow> string) \<Rightarrow> string \<Rightarrow> page \<Rightarrow> (mod_field \<Rightarrow> string option) \<Rightarrow> mod_field \<Rightarrow> string option"
where
  "page_column cn conn pg old Connector = Some (cn (media_connector (page_media conn pg)))"
| "page_column cn conn pg old Connector_status = Some (cn (media_status (page_media conn pg)))"
| "page_column cn conn pg old Max_speed = Some (dec_of_int (media_speed (page_media conn pg)))"
| "page_column cn conn pg old Supported_speeds = Some (dec_of_int (media_speed (page_media conn pg)))"
| "page_column cn conn pg old Cable_technology =
     map_option (\<lambda>(t, l). cn t) (media_cable (page_media conn pg))"
| "page_column cn conn pg old Cable_length =
     map_option (\<lambda>(t, l). dec_of_int l) (media_cable (page_media conn pg))"
| "page_column cn conn pg old Power_mode = None"
| "page_column cn conn pg old Vendor_name = Some (c_string (strip_spaces (take 16 (drop 20 pg))))"
| "page_column cn conn pg old Vendor_oui =
     Some (hex02 (pg ! 37) @ ''-'' @ hex02 (pg ! 38) @ ''-'' @ hex02 (pg ! 39))"
| "page_column cn conn pg old Vendor_part_number =
     Some (c_string (strip_spaces (take 16 (drop 40 pg))))"
| "page_column cn conn pg old Vendor_revision =
     Some (c_string (strip_spaces (take (if conn = CONNECTOR_SFP_PLUS then 4 else 2) (drop 56 pg))))"
| "page_column cn conn pg old Vendor_serial_number =
     Some (c_string (strip_spaces (take 16 (drop 68 pg))))"
| "page_column cn conn pg old A0 = Some (hex_text pg)"
| "page_column cn conn pg old A0_uppers = old A0_uppers"
| "page_column cn conn pg old A2 = old A2"

section \<open>What the parts of the parser write\<close>

lemmas mem_opt = mem.keep_parse_type [OF mem.keep_optical] mem.keep_parse_sfp_dac [OF mem.keep_optical]

lemma col_text_speeds [simp]:
  "col_text cn (set_supported_speeds [v] p) = (col_text cn p)(Supported_speeds \<mapsto> dec_of_int v)"
  by (auto simp: fun_eq_iff col_text_def set_supported_speeds_single write_heap_def set_col_def
      c_free_def)

lemma col_text_delete_all:
  "col_text cn (pm_delete_all_data p) = (\<lambda>f. if f = Connector then col_text cn p f else None)"
proof
  fix f
  show "col_text cn (pm_delete_all_data p) f = (if f = Connector then col_text cn p f else None)"
    unfolding pm_delete_all_data_def stmts_Cons stmts_Nil col_text_delete col_text_delete_free
    by (cases f) (simp_all only: fun_upd_apply mod_field.distinct simp_thms if_True if_False)
qed

text \<open>The columns that a media determines.\<close>

definition media_columns ::
  "(ext_const \<Rightarrow> string) \<Rightarrow> media \<Rightarrow> (mod_field \<Rightarrow> string option) \<Rightarrow> mod_field \<Rightarrow> string option"
where
  "media_columns cn m cols = cols(
     Connector \<mapsto> cn (media_connector m),
     Connector_status \<mapsto> cn (media_status m),
     Max_speed \<mapsto> dec_of_int (media_speed m),
     Supported_speeds \<mapsto> dec_of_int (media_speed m),
     Cable_technology := map_option (\<lambda>(t, l). cn t) (media_cable m),
     Cable_length := map_option (\<lambda>(t, l). dec_of_int l) (media_cable m))"

text \<open>The port \<open>p'\<close> is \<open>p\<close> with a media written to it.\<close>

definition media_written :: "(ext_const \<Rightarrow> string) \<Rightarrow> media \<Rightarrow> pm_port \<Rightarrow> pm_port \<Rightarrow> bool" where
  "media_written cn m p p' \<longleftrightarrow>
     col_text cn p' = media_columns cn m (col_text cn p) \<and> optical p' = media_optical m \<and> mem_ok p'"

lemma media_written_type:
  assumes "mem_ok p" and "long_range v" and "st = media_status (Media c b v None)"
  shows "media_written cn (Media c b v None) p (parse_type cn b c st v p)"
proof -
  have ok: "mem_ok (SET_STATIC_STRING Connector_status st
      (SET_STATIC_STRING Connector c (set_optical b p)))"
    using assms(1) by (simp add: mem.keep_status mem.keep_columns)
  then have "col_text cn (parse_type cn b c st v p) = media_columns cn (Media c b v None) (col_text cn p)"
    by (simp add: parse_type_def col_text_int media_columns_def assms(3))
  moreover have "optical (parse_type cn b c st v p) = b"
    unfolding parse_type_def stmts_Cons stmts_Nil using assms(2)
    by (intro opt_frame.keep_columns opt_frame.keep_speeds) (simp_all add: set_optical_def)
  ultimately show ?thesis
    using mem_opt(1) [of v p cn b c st] assms(1,2) by (simp add: media_written_def)
qed

lemma bit_rate_10G: "(0x64 :: byte) \<le> b \<longleftrightarrow> 100 \<le> uint b"
  by (simp add: word_le_def)

lemma media_written_dac:
  assumes p: "mem_ok p" and "pg ! 2 = 0x21"
  shows "media_written cn (sff8472_media pg) p (parse_sfp_dac cn pg p)"
proof -
  let ?v = "media_speed (sff8472_media pg)"
  let ?p1 = "SET_STATIC_STRING Connector_status CONNECTOR_STATUS_SUPPORTED
      (SET_STATIC_STRING Connector CONNECTOR_SFP_DAC (set_optical False p))"
  let ?p2 = "\<lambda>t. SET_STATIC_STRING Cable_technology t
      (set_supported_speeds [?v] (SET_INT_STRING cn Max_speed ?v ?p1))"
  have ok1: "mem_ok ?p1" using p by (simp add: mem.keep_status mem.keep_columns)
  have ok2: "mem_ok (?p2 t)" for t
    using ok1 assms(2) by (simp add: mem.keep_columns mem.keep_speeds sff8472_media_def)
  have speed: "?v = (if 0x64 \<le> pg ! 12 then 10000 else 1000)"
    using assms(2) by (simp add: sff8472_media_def bit_rate_10G)
  have "col_text cn (parse_sfp_dac cn pg p) = media_columns cn (sff8472_media pg) (col_text cn p)"
    using assms(2) ok1 ok2 [unfolded speed]
    by (simp add: parse_sfp_dac_def layout_simps SFP_BIT_RATE_NOMINAL_10G_def col_text_int
        media_columns_def media_status_def Let_def) (simp add: sff8472_media_def bit_rate_10G)
  moreover have "optical (parse_sfp_dac cn pg p) = False"
    unfolding parse_sfp_dac_def Let_def stmts_Cons stmts_Nil
    by (intro opt_frame.keep_columns opt_frame.keep_speeds) (simp_all add: set_optical_def)
  ultimately show ?thesis
    using mem_opt(2) [of p cn pg] p assms(2) by (simp add: media_written_def sff8472_media_def)
qed

lemma first_set_Nil: "first_set [] pg = unknown_media"
  by (simp add: first_set_def)

lemma first_set_Cons:
  "first_set (((i, b), m) # t) pg = (if bit (pg ! i) b then m else first_set t pg)"
  by (simp add: first_set_def)

lemma media_written_unknown:
  "mem_ok p \<Longrightarrow> media_written cn unknown_media p
     (parse_type cn False CONNECTOR_UNKNOWN CONNECTOR_STATUS_UNRECOGNIZED 0 p)"
  unfolding unknown_media_def by (rule media_written_type) (simp_all add: media_status_def)

lemma media_written_sfp:
  assumes "mem_ok p"
  shows "media_written cn (sff8472_media pg) p (parse_sfp_media cn pg p)"
proof (cases "pg ! 2 = 0x21")
  case True
  then have "parse_sfp_media cn pg p = parse_sfp_dac cn pg p"
    by (simp add: parse_sfp_media_def layout_simps PM_CONNECTOR_COPPER_PIGTAIL_def)
  then show ?thesis using media_written_dac [of p pg cn] assms True by simp
next
  case False
  then show ?thesis
    using assms
    by (simp add: parse_sfp_media_def Let_def layout_simps PM_CONNECTOR_COPPER_PIGTAIL_def
        sff8472_media_def sfp_table_def first_set_Cons first_set_Nil media_written_type
        media_status_def media_written_unknown)
qed

lemma media_written_qsfp_plus:
  "mem_ok p \<Longrightarrow> media_written cn (sff8636_media False pg) p (parse_qsfp_plus_media cn pg p)"
  by (simp add: parse_qsfp_plus_media_def Let_def layout_simps
      sff8636_media_def qsfp_table_def first_set_Cons first_set_Nil
      media_written_type media_status_def media_written_unknown)

lemma media_written_qsfp28:
  "mem_ok p \<Longrightarrow> media_written cn (sff8636_media True pg) p (parse_qsfp28_media cn pg p)"
  by (simp add: parse_qsfp28_media_def Let_def layout_simps ext_compliance_codes extended_table_def
      sff8636_media_def qsfp_table_def first_set_Cons first_set_Nil
      media_written_type media_status_def media_written_unknown)

section \<open>The vendor data\<close>

lemma col_text_vendor:
  "col_text cn (parse_vendor cn L n pg p) = (col_text cn p)(
     Power_mode := None,
     Vendor_name \<mapsto> text_field PM_VENDOR_NAME_LEN (field_bytes L ''vendor_name'' pg),
     Vendor_oui \<mapsto> pm_oui_format (field_bytes L ''vendor_oui'' pg),
     Vendor_part_number \<mapsto> text_field PM_VENDOR_PN_LEN (field_bytes L ''vendor_part_number'' pg),
     Vendor_revision \<mapsto> text_field n (field_bytes L ''vendor_revision'' pg),
     Vendor_serial_number \<mapsto> text_field PM_VENDOR_SN_LEN (field_bytes L ''vendor_serial_number'' pg),
     A0 \<mapsto> hex_text (take (csize L) pg))"
  by (simp add: parse_vendor_def)

text \<open>The texts of the vendor fields of a page of either structure.\<close>

lemma vendor_fields:
  assumes "length pg = 128"
  shows
    "text_field 16 (take 16 (drop 20 pg)) = c_string (strip_spaces (take 16 (drop 20 pg)))"
    "text_field 16 (take 16 (drop 40 pg)) = c_string (strip_spaces (take 16 (drop 40 pg)))"
    "text_field 16 (take 16 (drop 68 pg)) = c_string (strip_spaces (take 16 (drop 68 pg)))"
    "text_field 4 (take 4 (drop 56 pg)) = c_string (strip_spaces (take 4 (drop 56 pg)))"
    "text_field 2 (take 2 (drop 56 pg)) = c_string (strip_spaces (take 2 (drop 56 pg)))"
    "pm_oui_format (take 3 (drop 37 pg)) =
       hex02 (pg ! 37) @ ''-'' @ hex02 (pg ! 38) @ ''-'' @ hex02 (pg ! 39)"
  using assms by (simp_all add: text_field_eq pm_oui_format_full)

lemma connector_names [simp]:
  "CONNECTOR_QSFP_PLUS \<noteq> CONNECTOR_SFP_PLUS" "CONNECTOR_QSFP28 \<noteq> CONNECTOR_SFP_PLUS"
  "CONNECTOR_QSFP28 \<noteq> CONNECTOR_QSFP_PLUS" "CONNECTOR_SFP_PLUS \<noteq> CONNECTOR_QSFP_PLUS"
  "CONNECTOR_SFP_PLUS \<noteq> CONNECTOR_QSFP28" "CONNECTOR_QSFP_PLUS \<noteq> CONNECTOR_QSFP28"
  by (simp_all add: CONNECTOR_SFP_PLUS_def CONNECTOR_QSFP_PLUS_def CONNECTOR_QSFP28_def)

lemma page_column_eqI:
  assumes "media_written cn (page_media conn pg) p p'" and "length pg = 128"
    and "L = (if conn = CONNECTOR_SFP_PLUS then pm_sfp_serial_id_t else pm_qsfp_serial_id_t)"
    and "n = (if conn = CONNECTOR_SFP_PLUS then 4 else 2)"
  shows "col_text cn (parse_vendor cn L n pg p') f = page_column cn conn pg (col_text cn p) f"
  using assms(1)
  by (cases f)
    (simp_all add: assms(2-4) col_text_vendor media_written_def media_columns_def layout_simps
      vendor_fields plug_consts sfp_serial_id_size qsfp_serial_id_size)

text \<open>The connector decides which part of the parser runs.\<close>

lemma pm_parse_cases:
  assumes "yp_pluggable (module_device port)"
  shows
    "yp_connector (module_device port) = Some CONNECTOR_SFP_PLUS \<Longrightarrow>
       pm_parse cn pg port = (0, parse_sfp_vendor cn pg (parse_sfp_media cn pg port))"
    "yp_connector (module_device port) = Some CONNECTOR_QSFP_PLUS \<Longrightarrow>
       pm_parse cn pg port = (0, parse_qsfp_vendor cn pg (parse_qsfp_plus_media cn pg port))"
    "yp_connector (module_device port) = Some CONNECTOR_QSFP28 \<Longrightarrow>
       pm_parse cn pg port = (0, parse_qsfp28_vendor cn pg (parse_qsfp28_media cn pg port))"
  using assms by (simp_all add: pm_parse_def connector_is_def)

lemma optical_vendor: "optical (parse_vendor cn L n pg p) = optical p"
  by (rule opt_frame.keep_parse_vendor) simp

text \<open>The parse of a page at a port with a known connector.\<close>

lemma pm_parse_known:
  assumes port: "mem_ok port" "yp_pluggable (module_device port)"
      "yp_connector (module_device port) = Some conn" "known_connector conn"
    and pg: "length pg = 128"
  obtains p' L n where
    "pm_parse cn pg port = (0, parse_vendor cn L n pg p')"
    "media_written cn (page_media conn pg) port p'"
    "L = (if conn = CONNECTOR_SFP_PLUS then pm_sfp_serial_id_t else pm_qsfp_serial_id_t)"
    "n = (if conn = CONNECTOR_SFP_PLUS then 4 else 2)"
proof -
  consider "conn = CONNECTOR_SFP_PLUS" | "conn = CONNECTOR_QSFP_PLUS" | "conn = CONNECTOR_QSFP28"
    using port(4) by (auto simp: known_connector_def)
  then show ?thesis
  proof cases
    case 1
    then show ?thesis
      using port
      by (intro that [of _ _ "parse_sfp_media cn pg port"])
        (simp_all add: pm_parse_cases parse_sfp_vendor_def PM_SFP_VENDOR_REV_LEN_def
          page_media_def media_written_sfp)
  next
    case 2
    then show ?thesis
      using port
      by (intro that [of _ _ "parse_qsfp_plus_media cn pg port"])
        (simp_all add: pm_parse_cases parse_qsfp_vendor_def parse_qsfp28_vendor_def PM_QSFP_VENDOR_REV_LEN_def
          page_media_def media_written_qsfp_plus)
  next
    case 3
    then show ?thesis
      using port
      by (intro that [of _ _ "parse_qsfp28_media cn pg port"])
        (simp_all add: pm_parse_cases parse_qsfp_vendor_def parse_qsfp28_vendor_def PM_QSFP_VENDOR_REV_LEN_def
          page_media_def media_written_qsfp28)
  qed
qed

end
