(* ===== verification/Detect_Props.thy ===== *)
theory Detect_Props
  imports Detect_Spec Sample_Pages
begin

text \<open>The properties of \<open>src/pm_detect.c\<close>.\<close>

section \<open>The published columns\<close>

lemma pm_parse_columns_lemma:
  assumes "mem_ok port" and "yp_pluggable (module_device port)"
    and "yp_connector (module_device port) = Some conn" and "known_connector conn"
    and "length pg = 128"
  shows "fst (pm_parse cn pg port) = 0"
    and "col_text cn (snd (pm_parse cn pg port)) = page_column cn conn pg (col_text cn port)"
    and "optical (snd (pm_parse cn pg port)) = media_optical (page_media conn pg)"
proof -
  obtain p' L n where *: "pm_parse cn pg port = (0, parse_vendor cn L n pg p')"
    "media_written cn (page_media conn pg) port p'"
    "L = (if conn = CONNECTOR_SFP_PLUS then pm_sfp_serial_id_t else pm_qsfp_serial_id_t)"
    "n = (if conn = CONNECTOR_SFP_PLUS then 4 else 2)"
    using pm_parse_known [OF assms] by metis
  then show "fst (pm_parse cn pg port) = 0"
    and "col_text cn (snd (pm_parse cn pg port)) = page_column cn conn pg (col_text cn port)"
    and "optical (snd (pm_parse cn pg port)) = media_optical (page_media conn pg)"
    using page_column_eqI [OF *(2) assms(5) *(3,4)]
    by (auto simp: fun_eq_iff optical_vendor media_written_def)
qed

lemma known_connectors [simp]:
  "known_connector CONNECTOR_SFP_PLUS" "known_connector CONNECTOR_QSFP_PLUS"
  "known_connector CONNECTOR_QSFP28"
  by (simp_all add: known_connector_def)

lemmas page_eval =
  page_media_def sff8472_media_def sff8636_media_def first_set_def sfp_table_def qsfp_table_def
  extended_table_def unknown_media_def media_status_def strip_spaces_def strip_trailing_def
  c_string_def char_of_byte_def char_of_def bit_0

text \<open>
C5: at a pluggable port with a known connector, \<open>pm_parse\<close> returns 0 and leaves every column
with the text that the page's description by byte offsets gives it (media, speed, cable data,
vendor data, dump of the page), whatever the columns held before; only \<open>a2\<close> and
\<open>a0_uppers\<close>, which another page holds, keep their texts; the port is optical exactly when
the media is.
\<close>

theorem pm_parse_publishes_page:
  assumes "mem_ok port" and "yp_pluggable (module_device port)"
    and "yp_connector (module_device port) = Some conn" and "known_connector conn"
    and "length pg = 128"
  shows "fst (pm_parse cn pg port) = 0 \<and>
    col_text cn (snd (pm_parse cn pg port)) = page_column cn conn pg (col_text cn port) \<and>
    optical (snd (pm_parse cn pg port)) = media_optical (page_media conn pg)"
  using pm_parse_columns_lemma [OF assms] by blast

theorem pm_parse_publishes_page_witness:
  "fst (pm_parse (\<lambda>_. '''') SFP_DAC_MOLEX (sample_port CONNECTOR_SFP_PLUS)) = 0 \<and>
   col_text (\<lambda>_. '''') (snd (pm_parse (\<lambda>_. '''') SFP_DAC_MOLEX (sample_port CONNECTOR_SFP_PLUS)))
     Max_speed = Some (dec_of_int 10000)"
  using pm_parse_publishes_page [of "sample_port CONNECTOR_SFP_PLUS" CONNECTOR_SFP_PLUS
      SFP_DAC_MOLEX "\<lambda>_. ''''"]
  by (simp add: SFP_DAC_MOLEX_def page_media_def sff8472_media_def)

text \<open>The columns of the sample modules, for any texts of the external constants.\<close>

definition sample_text :: "(ext_const \<Rightarrow> string) \<Rightarrow> string \<Rightarrow> page \<Rightarrow> mod_field \<Rightarrow> string option" where
  "sample_text cn conn pg = col_text cn (snd (pm_parse cn pg (sample_port conn)))"

lemma sample_text_eq:
  "known_connector conn \<Longrightarrow> length pg = 128 \<Longrightarrow>
     sample_text cn conn pg = page_column cn conn pg (\<lambda>_. None)"
  using pm_parse_columns_lemma(2) [of "sample_port conn" conn pg cn] by (simp add: sample_text_def)

text \<open>
The sample modules of \<open>tests/files\<close> (for SFP+ a direct attach cable and an optical
module, for QSFP+ two copper cables and an optical module) are published with the columns that
\<open>tests/test_pmd.py\<close> expects.
\<close>

theorem sample_modules:
  "map (sample_text cn CONNECTOR_SFP_PLUS SFP_DAC_MOLEX)
     [Connector, Connector_status, Max_speed, Supported_speeds, Cable_technology, Cable_length,
      Vendor_name, Vendor_oui, Vendor_part_number, Vendor_revision, Vendor_serial_number]
   = [Some (cn CONNECTOR_SFP_DAC), Some (cn CONNECTOR_STATUS_SUPPORTED), Some ''10000'',
      Some ''10000'', Some (cn CABLE_TECHNOLOGY_PASSIVE), Some ''1'', Some ''Molex Inc.'',
      Some ''00-09-3a'', Some ''747649124'', Some ''A1'', Some ''302330039''] \<and>
   map (sample_text cn CONNECTOR_SFP_PLUS SFP_SR_AVAGO)
     [Connector, Connector_status, Max_speed, Supported_speeds, Cable_technology, Cable_length,
      Vendor_name, Vendor_oui, Vendor_part_number, Vendor_revision, Vendor_serial_number]
   = [Some (cn CONNECTOR_SFP_SR), Some (cn CONNECTOR_STATUS_SUPPORTED), Some ''10000'',
      Some ''10000'', None, None, Some ''AVAGO'',
      Some ''00-17-6a'', Some ''AFBR-703SDZ-HP1'', Some ''G2.3'', Some ''AA0938A0DZ2''] \<and>
   map (sample_text cn CONNECTOR_QSFP_PLUS QSFP_CR4_MELLANOX)
     [Connector, Max_speed, Vendor_name, Vendor_oui, Vendor_part_number, Vendor_revision,
      Vendor_serial_number]
   = [Some (cn CONNECTOR_QSFP_CR4), Some ''40000'', Some ''Mellanox'', Some ''00-02-c9'',
      Some ''670759-B22'', Some ''A1'', Some ''6C222903CM''] \<and>
   map (sample_text cn CONNECTOR_QSFP_PLUS QSFP_CR4_MOLEX)
     [Connector, Max_speed, Vendor_name, Vendor_oui, Vendor_part_number, Vendor_revision,
      Vendor_serial_number]
   = [Some (cn CONNECTOR_QSFP_CR4), Some ''40000'', Some ''Molex Inc.'', Some ''00-09-3a'',
      Some ''1110409083'', Some ''A0'', Some ''211730113''] \<and>
   map (sample_text cn CONNECTOR_QSFP_PLUS QSFP_SR4_AVAGO)
     [Connector, Max_speed, Vendor_name, Vendor_oui, Vendor_part_number, Vendor_revision,
      Vendor_serial_number]
   = [Some (cn CONNECTOR_QSFP_SR4), Some ''40000'', Some ''AVAGO'', Some ''00-17-6a'',
      Some ''AFBR-79EEPZ-HP1'', Some ''01'', Some ''ATA114110000012'']"
  by (simp add: sample_text_eq)
    (simp add: SFP_DAC_MOLEX_def SFP_SR_AVAGO_def QSFP_CR4_MELLANOX_def QSFP_CR4_MOLEX_def
      QSFP_SR4_AVAGO_def page_eval hex02_def hex_digit_lower_def dec_of_int_def dec_of_nat.simps
      digit_char_def)

section \<open>Consistency of a media\<close>

lemma extended_table_cases:
  "extended_table b = Some m \<Longrightarrow>
     media_speed m = 100000 \<and> media_connector m \<noteq> CONNECTOR_UNKNOWN \<and> media_cable m = None"
  by (auto simp: extended_table_def split: if_splits)

lemma page_media_consistent:
  "media_speed (page_media conn pg) \<in> {0, 1000, 10000, 40000, 100000} \<and>
   (media_speed (page_media conn pg) = 0 \<longleftrightarrow> media_connector (page_media conn pg) = CONNECTOR_UNKNOWN) \<and>
   (media_cable (page_media conn pg) \<noteq> None \<longleftrightarrow>
      media_connector (page_media conn pg) = CONNECTOR_SFP_DAC)"
  by (auto simp: page_media_def sff8472_media_def sff8636_media_def sfp_table_def qsfp_table_def
      first_set_Cons first_set_Nil unknown_media_def extended_table_def split: option.splits)

text \<open>
C17: the status of a parsed module is never at odds with its type: the speed is one of five,
it is 0 exactly when the connector is published as unknown and the status as unrecognized, the
list of supported speeds is the maximal speed, and cable data are published only for a direct
attach cable.
\<close>

theorem pm_parse_consistent:
  assumes "mem_ok port" and "yp_pluggable (module_device port)"
    and "yp_connector (module_device port) = Some conn" and "known_connector conn"
    and "length pg = 128"
  shows "\<exists>c v. let cols = col_text cn (snd (pm_parse cn pg port)) in
    cols Connector = Some (cn c) \<and> cols Max_speed = Some (dec_of_int v) \<and>
    cols Supported_speeds = cols Max_speed \<and> v \<in> {0, 1000, 10000, 40000, 100000} \<and>
    (v = 0 \<longleftrightarrow> c = CONNECTOR_UNKNOWN) \<and>
    cols Connector_status = Some (cn (if v = 0 then CONNECTOR_STATUS_UNRECOGNIZED
                                      else CONNECTOR_STATUS_SUPPORTED)) \<and>
    (cols Cable_length \<noteq> None \<longleftrightarrow> c = CONNECTOR_SFP_DAC) \<and>
    (cols Cable_technology \<noteq> None \<longleftrightarrow> c = CONNECTOR_SFP_DAC)"
  using page_media_consistent [of conn pg] pm_parse_columns_lemma(2) [OF assms, of cn]
  by (intro exI [of _ "media_connector (page_media conn pg)"]
      exI [of _ "media_speed (page_media conn pg)"])
    (auto simp: media_status_def Let_def)

theorem pm_parse_consistent_witness:
  "\<exists>c v. let cols = col_text (\<lambda>_. ''x'') (snd (pm_parse (\<lambda>_. ''x'') QSFP_SR4_AVAGO
      (sample_port CONNECTOR_QSFP28))) in
    cols Connector = Some ''x'' \<and> cols Max_speed = Some (dec_of_int v) \<and> (v = 0 \<longleftrightarrow> c = CONNECTOR_UNKNOWN)"
  using pm_parse_consistent [of "sample_port CONNECTOR_QSFP28" CONNECTOR_QSFP28 QSFP_SR4_AVAGO
      "\<lambda>_. ''x''"]
  by (auto simp: Let_def)

section \<open>A connector that is not known\<close>

text \<open>
A port that is not pluggable is left alone, with result 0; at a pluggable port whose
connector is none of the three known, \<open>pm_parse\<close> fails and deletes every column but the
connector, which becomes unknown.
\<close>

theorem pm_parse_other:
  "(\<not> yp_pluggable (module_device port) \<longrightarrow> pm_parse cn pg port = (0, port)) \<and>
   (yp_pluggable (module_device port) \<and> yp_connector (module_device port) = Some conn \<and>
      \<not> known_connector conn \<longrightarrow>
      fst (pm_parse cn pg port) = - 1 \<and>
      col_text cn (snd (pm_parse cn pg port)) = [Connector \<mapsto> cn CONNECTOR_UNKNOWN])"
proof (intro conjI impI)
  assume "\<not> yp_pluggable (module_device port)"
  then show "pm_parse cn pg port = (0, port)" by (simp add: pm_parse_def)
next
  assume "yp_pluggable (module_device port) \<and> yp_connector (module_device port) = Some conn \<and>
    \<not> known_connector conn"
  then have *: "pm_parse cn pg port =
      (- 1, SET_STATIC_STRING Connector CONNECTOR_UNKNOWN (pm_delete_all_data port))"
    by (simp add: pm_parse_def connector_is_def known_connector_def)
  then show "fst (pm_parse cn pg port) = - 1" by simp
  show "col_text cn (snd (pm_parse cn pg port)) = [Connector \<mapsto> cn CONNECTOR_UNKNOWN]"
    unfolding * by (simp add: col_text_delete_all fun_eq_iff)
qed

lemma XFP_not_known: "\<not> known_connector ''XFP''"
  by (simp add: known_connector_def CONNECTOR_SFP_PLUS_def CONNECTOR_QSFP_PLUS_def CONNECTOR_QSFP28_def)

theorem pm_parse_other_witness:
  "fst (pm_parse (\<lambda>_. '''') SFP_SR_AVAGO (sample_port ''XFP'')) = - 1"
  by (rule pm_parse_other [where conn = "''XFP''", THEN conjunct2, THEN mp, THEN conjunct1])
    (simp only: sample_port_simps XFP_not_known simp_thms)

section \<open>Safety and frame\<close>

lemma pm_parse_mem_ok: "mem_ok p \<Longrightarrow> mem_ok (snd (pm_parse cn pg p))"
  by (rule mem.keep_pm_parse) (rule mem.keep_optical)

lemma pm_parse_config: "config_of (snd (pm_parse cn pg p)) = config_of p"
  by (rule cfg.keep_pm_parse) (simp_all add: cfg.keep_optical)

lemma pm_parse_status: "status_of (snd (pm_parse cn pg p)) = status_of p"
  by (rule sts.keep_pm_parse) (simp_all add: status_of_def set_optical_def)

lemma pm_parse_dom: "ovs_module_dom_columns (snd (pm_parse cn pg p)) = ovs_module_dom_columns p"
  by (rule dom_frame.keep_pm_parse) (simp_all add: set_optical_def)

text \<open>
C18: \<open>pm_parse\<close> is memory safe for every page and connector: with columns that point to a
constant or to allocated memory according to their kind, it never frees a constant, never
drops allocated memory, and leaves such columns; it writes neither the configuration of the
port nor its status flags nor its diagnostic columns.
\<close>

theorem pm_parse_safe:
  assumes "mem_ok port"
  shows "mem_ok (snd (pm_parse cn pg port)) \<and>
    config_of (snd (pm_parse cn pg port)) = config_of port \<and>
    status_of (snd (pm_parse cn pg port)) = status_of port \<and>
    ovs_module_dom_columns (snd (pm_parse cn pg port)) = ovs_module_dom_columns port"
  using pm_parse_mem_ok [OF assms] pm_parse_config pm_parse_status pm_parse_dom by simp

theorem pm_parse_safe_witness:
  "mem_ok (snd (pm_parse (\<lambda>_. ''x'') SFP_SR_AVAGO (sample_port CONNECTOR_SFP_PLUS)))"
  using pm_parse_safe [of "sample_port CONNECTOR_SFP_PLUS" "\<lambda>_. ''x''" SFP_SR_AVAGO] by simp

section \<open>Checksums\<close>

lemma byte_sum_loop_eq:
  "byte_sum_loop pg i n v = v + sum_list (map (\<lambda>k. pg ! k) [i ..< i + n])"
proof (induction n arbitrary: i v)
  case 0
  then show ?case by simp
next
  case (Suc n)
  have "[i ..< i + Suc n] = i # [Suc i ..< Suc i + n]" by (simp add: upt_rec)
  then show ?case using Suc [of "Suc i"] by (simp add: add.assoc)
qed

lemma uint_sum_list: "uint (sum_list (ws :: byte list)) = sum_list (map uint ws) mod 256"
  by (induction ws) (simp_all add: uint_word_ariths mod_add_right_eq)

text \<open>One check: the sum of the bytes, modulo 256.\<close>

lemma pm_byte_sum_eq:
  assumes "start \<le> Suc stop"
  shows "pm_byte_sum pg start stop off =
    (if sum_list (map (\<lambda>k. uint (pg ! k)) [start ..< Suc stop]) mod 256 = uint (pg ! off)
     then 0 else 1)"
proof -
  have "byte_sum_loop pg start (Suc stop - start) 0 = sum_list (map ((!) pg) [start ..< Suc stop])"
    using assms by (simp add: byte_sum_loop_eq)
  then have "uint (byte_sum_loop pg start (Suc stop - start) 0)
      = sum_list (map (\<lambda>k. uint (pg ! k)) [start ..< Suc stop]) mod 256"
    by (simp add: uint_sum_list comp_def)
  then show ?thesis unfolding pm_byte_sum_def word_uint_eq_iff by simp
qed

text \<open>The sum of the bytes \<open>a \<le> k < b\<close> of a page, as an integer.\<close>

definition page_sum :: "page \<Rightarrow> nat \<Rightarrow> nat \<Rightarrow> int" where
  "page_sum pg a b = sum_list (map (\<lambda>k. uint (pg ! k)) [a ..< b])"

definition base_ok :: "page \<Rightarrow> bool" where
  "base_ok pg \<longleftrightarrow> page_sum pg 0 63 mod 256 = uint (pg ! 63)"

definition ext_ok :: "page \<Rightarrow> bool" where
  "ext_ok pg \<longleftrightarrow> page_sum pg 64 95 mod 256 = uint (pg ! 95)"

lemma sfpp_sum_verify_eq:
  "sfpp_sum_verify pg = (if base_ok pg then 0 else 1) + (if ext_ok pg then 0 else 1)"
  by (simp add: sfpp_sum_verify_def pm_byte_sum_eq base_ok_def ext_ok_def page_sum_def
      del: upt_Suc upt_rec_numeral)

lemma page_sum_upd:
  assumes "a \<le> i" and "i < b" and "b \<le> length pg"
  shows "page_sum (pg[i := v]) a b = page_sum pg a b + uint v - uint (pg ! i)"
proof -
  have split: "[a ..< b] = [a ..< i] @ i # [Suc i ..< b]"
    using assms(1,2) upt_add_eq_append [of a i "b - i"] by (simp add: upt_conv_Cons)
  have *: "map (\<lambda>k. uint (pg[i := v] ! k)) [a ..< i] = map (\<lambda>k. uint (pg ! k)) [a ..< i]"
    and **: "map (\<lambda>k. uint (pg[i := v] ! k)) [Suc i ..< b] = map (\<lambda>k. uint (pg ! k)) [Suc i ..< b]"
    by simp_all
  show ?thesis
    using assms unfolding page_sum_def split map_append list.map * ** by simp
qed

lemma page_sum_upd_other:
  "i < a \<or> b \<le> i \<Longrightarrow> page_sum (pg[i := v]) a b = page_sum pg a b"
  unfolding page_sum_def by (intro arg_cong [where f = sum_list] map_cong refl) auto

lemma uint_byte_mod:
  fixes x y :: byte
  assumes "(s + uint x - uint y) mod 256 = s mod 256"
  shows "x = y"
proof -
  have "256 dvd uint x - uint y"
    using assms by (simp add: mod_eq_dvd_iff)
  then have "uint x mod 256 = uint y mod 256" by (simp add: mod_eq_dvd_iff)
  moreover have "uint z mod 256 = uint z" for z :: byte
    using uint_bounded [of z] by simp
  ultimately show ?thesis by (simp add: word_uint_eq_iff)
qed

text \<open>A change of one byte that a sum covers, or of the check byte, breaks the check.\<close>

lemma sum_upd_breaks:
  assumes "b \<le> length pg" and "c < length pg" and "c \<notin> {a ..< b}" and "i \<in> {a ..< b} \<union> {c}"
    and ok: "page_sum pg a b mod 256 = uint (pg ! c)" and "v \<noteq> pg ! i"
  shows "page_sum (pg[i := v]) a b mod 256 \<noteq> uint (pg[i := v] ! c)"
proof (cases "i = c")
  case True
  then have "page_sum (pg[i := v]) a b = page_sum pg a b"
    using assms(3) by (intro page_sum_upd_other) auto
  then show ?thesis using True assms(2,6) ok by (simp add: word_uint_eq_iff)
next
  case False
  then have i: "a \<le> i" "i < b" using assms(4) by auto
  show ?thesis
  proof
    assume "page_sum (pg[i := v]) a b mod 256 = uint (pg[i := v] ! c)"
    then have "(page_sum pg a b + uint v - uint (pg ! i)) mod 256 = page_sum pg a b mod 256"
      using False i assms(1) ok by (simp add: page_sum_upd)
    then show False using assms(6) uint_byte_mod by blast
  qed
qed

text \<open>
The checksum routine counts the failing checks: its 8-bit sums, which wrap around, agree
with the sums of the bytes 0..62 and 64..94 as integers modulo 256, each compared with its
check byte (63 and 95).
\<close>

theorem sfpp_sum_verify_spec:
  "sfpp_sum_verify pg =
     (if (\<Sum>k = 0..<63. uint (pg ! k)) mod 256 = uint (pg ! 63) then 0 else 1) +
     (if (\<Sum>k = 64..<95. uint (pg ! k)) mod 256 = uint (pg ! 95) then 0 else 1)"
  by (simp only: sfpp_sum_verify_eq base_ok_def ext_ok_def page_sum_def
      interv_sum_list_conv_sum_set_nat set_upt)

text \<open>
C23: a page that passes both checks fails after any change of a single byte of the checked
area (0..95).
\<close>

theorem sfpp_sum_verify_detects:
  assumes "length pg = 128" and "sfpp_sum_verify pg = 0" and "i < 96" and "v \<noteq> pg ! i"
  shows "sfpp_sum_verify (pg[i := v]) = 1"
proof -
  have ok: "base_ok pg" "ext_ok pg"
    using assms(2) by (simp_all add: sfpp_sum_verify_eq split: if_splits)
  consider "i \<in> {0 ..< 63} \<union> {63}" | "i \<in> {64 ..< 95} \<union> {95}" using assms(3) by force
  then show ?thesis
  proof cases
    case 1
    then have "\<not> base_ok (pg[i := v])"
      using sum_upd_breaks [of 63 pg 63 0 i v] assms ok by (simp add: base_ok_def)
    moreover have "ext_ok (pg[i := v])"
      using 1 ok assms(1) by (auto simp: ext_ok_def page_sum_upd_other)
    ultimately show ?thesis by (simp add: sfpp_sum_verify_eq)
  next
    case 2
    then have "\<not> ext_ok (pg[i := v])"
      using sum_upd_breaks [of 95 pg 95 64 i v] assms ok by (simp add: ext_ok_def)
    moreover have "base_ok (pg[i := v])"
      using 2 ok assms(1) by (auto simp: base_ok_def page_sum_upd_other)
    ultimately show ?thesis by (simp add: sfpp_sum_verify_eq)
  qed
qed

text \<open>The sample pages: the intact ones pass.\<close>

lemma byte_sum_loop_numeral:
  "byte_sum_loop pg i (numeral k) v = byte_sum_loop pg (Suc i) (pred_numeral k) (v + pg ! i)"
  by (simp add: numeral_eq_Suc)

lemma sample_checks:
  "sfpp_sum_verify SFP_SR_AVAGO = 0" "sfpp_sum_verify SFP_DAC_MOLEX = 0"
  by (simp_all add: sfpp_sum_verify_def pm_byte_sum_def byte_sum_loop_numeral SFP_SR_AVAGO_def
      SFP_DAC_MOLEX_def)

theorem sfpp_sum_verify_detects_witness:
  "sfpp_sum_verify SFP_SR_AVAGO_CORRUPTED = 1"
  unfolding SFP_SR_AVAGO_CORRUPTED_def
  by (rule sfpp_sum_verify_detects) (simp_all only: sample_checks length_sample_pages,
    simp_all add: SFP_SR_AVAGO_def)

end
