(* ===== verification/Pm_Dom.thy ===== *)
theory Pm_Dom
  imports Pm_Detect Dom_Layout
begin

text \<open>
  \<open>src/pm_dom.c\<close>: the diagnostic page of a module. \<open>set_a2_read_request\<close> decides from the
  serial id page whether the module has diagnostics, \<open>pm_set_a2\<close> publishes them. The sections
  of \<open>pm_set_a2\<close> are one definition each, statement by statement.
\<close>

section \<open>Is there a diagnostic page?\<close>

definition set_a2_read_request :: "page \<Rightarrow> pm_port \<Rightarrow> pm_port" where
  "set_a2_read_request pg port =
     (let s = (\<lambda>n. flag pm_sfp_serial_id_t n pg); q = (\<lambda>n. flag pm_qsfp_serial_id_t n pg) in
      if connector_is port CONNECTOR_SFP_PLUS then
        (if s ''diag_monitor_type.implemented_digital'' \<and>
            s ''diag_monitor_type.internally_calibrated'' \<and>
            s ''diag_monitor_type.power_measurement_type'' \<and>
            \<not> s ''diag_monitor_type.addr_change_required''
         then set_a2_requested True port else port)
      else if connector_is port CONNECTOR_QSFP_PLUS \<or> connector_is port CONNECTOR_QSFP28 then
        (if q ''diag_monitor_type.average_input_optical_power''
         then set_a2_requested True port else port)
      else port)"

section \<open>Readings\<close>

text \<open>
  \<open>msb + (float)(lsb / 256)\<close>: the most significant byte is a signed \<open>char\<close>, the division
  is one of integers, the sum of two small integers is exact as a \<open>float\<close>.
\<close>

definition temperature_reading :: "byte \<Rightarrow> byte \<Rightarrow> fp" where
  "temperature_reading msb lsb = float_of_int (sint msb) + float_of_int (uint lsb div 256)"

text \<open>\<open>(float)(msb << 8 | lsb) * c\<close>, both bytes unsigned.\<close>

definition scaled_reading :: "byte \<Rightarrow> byte \<Rightarrow> nat \<Rightarrow> fp" where
  "scaled_reading msb lsb c = float_scaled (push_bit 8 (unat msb) OR unat lsb) c"

section \<open>SFP+\<close>

definition sfp_temperature :: "(ext_const \<Rightarrow> string) \<Rightarrow> page \<Rightarrow> pm_port \<Rightarrow> pm_port" where
  "sfp_temperature cn pg =
     (let f = (\<lambda>n. field pm_sfp_dom_t n pg); b = (\<lambda>n. flag pm_sfp_dom_t n pg)
      in stmts [
           SET_FLOAT_STRING cn (Temperature, Value)
             (temperature_reading (f ''temperature_msb'') (f ''temperature_lsb'')),
           SET_BOOL_STRING cn (Temperature, Flag High_alarm)
             (b ''alarm_warning_bits.temp_high_alarm''),
           SET_BOOL_STRING cn (Temperature, Flag Low_alarm)
             (b ''alarm_warning_bits.temp_low_alarm''),
           SET_BOOL_STRING cn (Temperature, Flag High_warning)
             (b ''alarm_warning_bits.temp_high_warning''),
           SET_BOOL_STRING cn (Temperature, Flag Low_warning)
             (b ''alarm_warning_bits.temp_low_warning''),
           SET_FLOAT_STRING cn (Temperature, Threshold High_alarm)
             (temperature_reading (f ''temp_high_alarm_msb'') (f ''temp_high_alarm_lsb'')),
           SET_FLOAT_STRING cn (Temperature, Threshold Low_alarm)
             (temperature_reading (f ''temp_low_alarm_msb'') (f ''temp_low_alarm_lsb'')),
           SET_FLOAT_STRING cn (Temperature, Threshold High_warning)
             (temperature_reading (f ''temp_high_warning_msb'') (f ''temp_high_warning_lsb'')),
           SET_FLOAT_STRING cn (Temperature, Threshold Low_warning)
             (temperature_reading (f ''temp_low_warning_msb'') (f ''temp_low_warning_lsb''))])"

definition sfp_vcc :: "(ext_const \<Rightarrow> string) \<Rightarrow> page \<Rightarrow> pm_port \<Rightarrow> pm_port" where
  "sfp_vcc cn pg =
     (let f = (\<lambda>n. field pm_sfp_dom_t n pg); b = (\<lambda>n. flag pm_sfp_dom_t n pg)
      in stmts [
           SET_FLOAT_STRING cn (Vcc, Value)
             (scaled_reading (f ''vcc_msb'') (f ''vcc_lsb'') DBL_0_0001),
           SET_BOOL_STRING cn (Vcc, Flag High_alarm) (b ''alarm_warning_bits.vcc_high_alarm''),
           SET_BOOL_STRING cn (Vcc, Flag Low_alarm) (b ''alarm_warning_bits.vcc_low_alarm''),
           SET_BOOL_STRING cn (Vcc, Flag High_warning) (b ''alarm_warning_bits.vcc_high_warning''),
           SET_BOOL_STRING cn (Vcc, Flag Low_warning) (b ''alarm_warning_bits.vcc_low_warning''),
           SET_FLOAT_STRING cn (Vcc, Threshold High_alarm)
             (scaled_reading (f ''voltage_high_alarm_msb'') (f ''voltage_high_alarm_lsb'') DBL_0_0001),
           SET_FLOAT_STRING cn (Vcc, Threshold Low_alarm)
             (scaled_reading (f ''voltage_low_alarm_msb'') (f ''voltage_low_alarm_lsb'') DBL_0_0001),
           SET_FLOAT_STRING cn (Vcc, Threshold High_warning)
             (scaled_reading (f ''voltage_high_warning_msb'') (f ''voltage_high_warning_lsb'') DBL_0_0001),
           SET_FLOAT_STRING cn (Vcc, Threshold Low_warning)
             (scaled_reading (f ''voltage_low_warning_msb'') (f ''voltage_low_warning_lsb'') DBL_0_0001)])"

definition sfp_tx_bias :: "(ext_const \<Rightarrow> string) \<Rightarrow> page \<Rightarrow> pm_port \<Rightarrow> pm_port" where
  "sfp_tx_bias cn pg =
     (let f = (\<lambda>n. field pm_sfp_dom_t n pg); b = (\<lambda>n. flag pm_sfp_dom_t n pg)
      in stmts [
           SET_FLOAT_STRING cn (Tx_bias, Value)
             (scaled_reading (f ''tx_bias_msb'') (f ''tx_bias_lsb'') DBL_0_002),
           SET_BOOL_STRING cn (Tx_bias, Flag High_alarm)
             (b ''alarm_warning_bits.tx_bias_high_alarm''),
           SET_BOOL_STRING cn (Tx_bias, Flag Low_alarm)
             (b ''alarm_warning_bits.tx_bias_low_alarm''),
           SET_BOOL_STRING cn (Tx_bias, Flag High_warning)
             (b ''alarm_warning_bits.tx_bias_high_warning''),
           SET_BOOL_STRING cn (Tx_bias, Flag Low_warning)
             (b ''alarm_warning_bits.tx_bias_low_warning''),
           SET_FLOAT_STRING cn (Tx_bias, Threshold High_alarm)
             (scaled_reading (f ''bias_high_alarm_msb'') (f ''bias_high_alarm_lsb'') DBL_0_002),
           SET_FLOAT_STRING cn (Tx_bias, Threshold Low_alarm)
             (scaled_reading (f ''bias_low_alarm_msb'') (f ''bias_low_alarm_lsb'') DBL_0_002),
           SET_FLOAT_STRING cn (Tx_bias, Threshold High_warning)
             (scaled_reading (f ''bias_high_warning_msb'') (f ''bias_high_warning_lsb'') DBL_0_002),
           SET_FLOAT_STRING cn (Tx_bias, Threshold Low_warning)
             (scaled_reading (f ''bias_low_warning_msb'') (f ''bias_low_warning_lsb'') DBL_0_002)])"

definition sfp_rx_power :: "(ext_const \<Rightarrow> string) \<Rightarrow> page \<Rightarrow> pm_port \<Rightarrow> pm_port" where
  "sfp_rx_power cn pg =
     (let f = (\<lambda>n. field pm_sfp_dom_t n pg); b = (\<lambda>n. flag pm_sfp_dom_t n pg)
      in stmts [
           SET_FLOAT_STRING cn (Rx_power, Value)
             (scaled_reading (f ''rx_power_msb'') (f ''rx_power_lsb'') DBL_0_0001),
           SET_BOOL_STRING cn (Rx_power, Flag High_alarm)
             (b ''alarm_warning_bits.rx_pwr_high_alarm''),
           SET_BOOL_STRING cn (Rx_power, Flag Low_alarm)
             (b ''alarm_warning_bits.rx_pwr_low_alarm''),
           SET_BOOL_STRING cn (Rx_power, Flag High_warning)
             (b ''alarm_warning_bits.rx_pwr_high_warning''),
           SET_BOOL_STRING cn (Rx_power, Flag Low_warning)
             (b ''alarm_warning_bits.rx_pwr_low_warning''),
           SET_FLOAT_STRING cn (Rx_power, Threshold High_alarm)
             (scaled_reading (f ''rx_power_high_alarm_msb'') (f ''rx_power_high_alarm_lsb'') DBL_0_0001),
           SET_FLOAT_STRING cn (Rx_power, Threshold Low_alarm)
             (scaled_reading (f ''rx_power_low_alarm_msb'') (f ''rx_power_low_alarm_lsb'') DBL_0_0001),
           SET_FLOAT_STRING cn (Rx_power, Threshold High_warning)
             (scaled_reading (f ''rx_power_high_warning_msb'') (f ''rx_power_high_warning_lsb'') DBL_0_0001),
           SET_FLOAT_STRING cn (Rx_power, Threshold Low_warning)
             (scaled_reading (f ''rx_power_low_warning_msb'') (f ''rx_power_low_warning_lsb'') DBL_0_0001)])"

definition sfp_tx_power :: "(ext_const \<Rightarrow> string) \<Rightarrow> page \<Rightarrow> pm_port \<Rightarrow> pm_port" where
  "sfp_tx_power cn pg =
     (let f = (\<lambda>n. field pm_sfp_dom_t n pg); b = (\<lambda>n. flag pm_sfp_dom_t n pg)
      in stmts [
           SET_FLOAT_STRING cn (Tx_power, Value)
             (scaled_reading (f ''tx_power_msb'') (f ''tx_power_lsb'') DBL_0_0001),
           SET_BOOL_STRING cn (Tx_power, Flag High_alarm)
             (b ''alarm_warning_bits.tx_pwr_high_alarm''),
           SET_BOOL_STRING cn (Tx_power, Flag Low_alarm)
             (b ''alarm_warning_bits.tx_pwr_low_alarm''),
           SET_BOOL_STRING cn (Tx_power, Flag High_warning)
             (b ''alarm_warning_bits.tx_pwr_high_warning''),
           SET_BOOL_STRING cn (Tx_power, Flag Low_warning)
             (b ''alarm_warning_bits.tx_pwr_low_warning''),
           SET_FLOAT_STRING cn (Tx_power, Threshold High_alarm)
             (scaled_reading (f ''tx_power_high_alarm_msb'') (f ''tx_power_high_alarm_lsb'') DBL_0_0001),
           SET_FLOAT_STRING cn (Tx_power, Threshold Low_alarm)
             (scaled_reading (f ''tx_power_low_alarm_msb'') (f ''tx_power_low_alarm_lsb'') DBL_0_0001),
           SET_FLOAT_STRING cn (Tx_power, Threshold High_warning)
             (scaled_reading (f ''tx_power_high_warning_msb'') (f ''tx_power_high_warning_lsb'') DBL_0_0001),
           SET_FLOAT_STRING cn (Tx_power, Threshold Low_warning)
             (scaled_reading (f ''tx_power_low_warning_msb'') (f ''tx_power_low_warning_lsb'') DBL_0_0001)])"


definition sfp_a2 :: "(ext_const \<Rightarrow> string) \<Rightarrow> page \<Rightarrow> pm_port \<Rightarrow> pm_port" where
  "sfp_a2 cn pg =
     stmts [
       sfp_temperature cn pg, sfp_vcc cn pg, sfp_tx_bias cn pg, sfp_rx_power cn pg,
       sfp_tx_power cn pg, SET_BINARY A2 (take (csize pm_sfp_dom_t) pg)]"

section \<open>QSFP+ and QSFP28\<close>

definition qsfp_monitors :: "(ext_const \<Rightarrow> string) \<Rightarrow> page \<Rightarrow> pm_port \<Rightarrow> pm_port" where
  "qsfp_monitors cn pg =
     (let f = (\<lambda>n. field pm_qsfp_dom_t n pg); b = (\<lambda>n. flag pm_qsfp_dom_t n pg)
      in stmts [
           SET_FLOAT_STRING cn (Temperature, Value)
             (temperature_reading (f ''module_monitors.temp_msb'') (f ''module_monitors.temp_lsb'')),
           SET_FLOAT_STRING cn (Vcc, Value)
             (scaled_reading (f ''module_monitors.voltage_msb'') (f ''module_monitors.voltage_lsb'') DBL_0_0001)])"

definition qsfp_lane1 :: "(ext_const \<Rightarrow> string) \<Rightarrow> page \<Rightarrow> pm_port \<Rightarrow> pm_port" where
  "qsfp_lane1 cn pg =
     (let f = (\<lambda>n. field pm_qsfp_dom_t n pg); b = (\<lambda>n. flag pm_qsfp_dom_t n pg)
      in stmts [
           SET_FLOAT_STRING cn (Tx_lane_bias L1, Value)
             (scaled_reading (f ''channel_monitors.tx1_bias_msb'') (f ''channel_monitors.tx1_bias_lsb'') DBL_0_002),
           SET_BOOL_STRING cn (Tx_lane_bias L1, Flag High_alarm)
             (b ''interrupt_flags.latched_tx1_bias_high_alarm''),
           SET_BOOL_STRING cn (Tx_lane_bias L1, Flag Low_alarm)
             (b ''interrupt_flags.latched_tx1_bias_low_alarm''),
           SET_BOOL_STRING cn (Tx_lane_bias L1, Flag High_warning)
             (b ''interrupt_flags.latched_tx1_bias_high_warning''),
           SET_BOOL_STRING cn (Tx_lane_bias L1, Flag Low_warning)
             (b ''interrupt_flags.latched_tx1_bias_low_warning''),
           SET_FLOAT_STRING cn (Rx_lane_power L1, Value)
             (scaled_reading (f ''channel_monitors.rx1_power_msb'') (f ''channel_monitors.rx1_power_lsb'') DBL_0_0001),
           SET_BOOL_STRING cn (Rx_lane_power L1, Flag High_alarm)
             (b ''interrupt_flags.latched_rx1_power_high_alarm''),
           SET_BOOL_STRING cn (Rx_lane_power L1, Flag Low_alarm)
             (b ''interrupt_flags.latched_rx1_power_low_alarm''),
           SET_BOOL_STRING cn (Rx_lane_power L1, Flag High_warning)
             (b ''interrupt_flags.latched_rx1_power_high_warning''),
           SET_BOOL_STRING cn (Rx_lane_power L1, Flag Low_warning)
             (b ''interrupt_flags.latched_rx1_power_low_warning'')])"

definition qsfp_lane2 :: "(ext_const \<Rightarrow> string) \<Rightarrow> page \<Rightarrow> pm_port \<Rightarrow> pm_port" where
  "qsfp_lane2 cn pg =
     (let f = (\<lambda>n. field pm_qsfp_dom_t n pg); b = (\<lambda>n. flag pm_qsfp_dom_t n pg)
      in stmts [
           SET_FLOAT_STRING cn (Tx_lane_bias L2, Value)
             (scaled_reading (f ''channel_monitors.tx2_bias_msb'') (f ''channel_monitors.tx2_bias_lsb'') DBL_0_002),
           SET_BOOL_STRING cn (Tx_lane_bias L2, Flag High_alarm)
             (b ''interrupt_flags.latched_tx2_bias_high_alarm''),
           SET_BOOL_STRING cn (Tx_lane_bias L2, Flag Low_alarm)
             (b ''interrupt_flags.latched_tx2_bias_low_alarm''),
           SET_BOOL_STRING cn (Tx_lane_bias L2, Flag High_warning)
             (b ''interrupt_flags.latched_tx2_bias_high_warning''),
           SET_BOOL_STRING cn (Tx_lane_bias L2, Flag Low_warning)
             (b ''interrupt_flags.latched_tx2_bias_low_warning''),
           SET_FLOAT_STRING cn (Rx_lane_power L2, Value)
             (scaled_reading (f ''channel_monitors.rx2_power_msb'') (f ''channel_monitors.rx2_power_lsb'') DBL_0_0001),
           SET_BOOL_STRING cn (Rx_lane_power L2, Flag High_alarm)
             (b ''interrupt_flags.latched_rx2_power_high_alarm''),
           SET_BOOL_STRING cn (Rx_lane_power L2, Flag Low_alarm)
             (b ''interrupt_flags.latched_rx2_power_low_alarm''),
           SET_BOOL_STRING cn (Rx_lane_power L2, Flag High_warning)
             (b ''interrupt_flags.latched_rx2_power_high_warning''),
           SET_BOOL_STRING cn (Rx_lane_power L2, Flag Low_warning)
             (b ''interrupt_flags.latched_rx2_power_low_warning'')])"

definition qsfp_lane3 :: "(ext_const \<Rightarrow> string) \<Rightarrow> page \<Rightarrow> pm_port \<Rightarrow> pm_port" where
  "qsfp_lane3 cn pg =
     (let f = (\<lambda>n. field pm_qsfp_dom_t n pg); b = (\<lambda>n. flag pm_qsfp_dom_t n pg)
      in stmts [
           SET_FLOAT_STRING cn (Tx_lane_bias L3, Value)
             (scaled_reading (f ''channel_monitors.tx3_bias_msb'') (f ''channel_monitors.tx3_bias_lsb'') DBL_0_002),
           SET_BOOL_STRING cn (Tx_lane_bias L3, Flag High_alarm)
             (b ''interrupt_flags.latched_tx3_bias_high_alarm''),
           SET_BOOL_STRING cn (Tx_lane_bias L3, Flag Low_alarm)
             (b ''interrupt_flags.latched_tx3_bias_low_alarm''),
           SET_BOOL_STRING cn (Tx_lane_bias L3, Flag High_warning)
             (b ''interrupt_flags.latched_tx3_bias_high_warning''),
           SET_BOOL_STRING cn (Tx_lane_bias L3, Flag Low_warning)
             (b ''interrupt_flags.latched_tx3_bias_low_warning''),
           SET_FLOAT_STRING cn (Rx_lane_power L3, Value)
             (scaled_reading (f ''channel_monitors.rx3_power_msb'') (f ''channel_monitors.rx3_power_lsb'') DBL_0_0001),
           SET_BOOL_STRING cn (Rx_lane_power L3, Flag High_alarm)
             (b ''interrupt_flags.latched_rx3_power_high_alarm''),
           SET_BOOL_STRING cn (Rx_lane_power L3, Flag Low_alarm)
             (b ''interrupt_flags.latched_rx3_power_low_alarm''),
           SET_BOOL_STRING cn (Rx_lane_power L3, Flag High_warning)
             (b ''interrupt_flags.latched_rx3_power_high_warning''),
           SET_BOOL_STRING cn (Rx_lane_power L3, Flag Low_warning)
             (b ''interrupt_flags.latched_rx3_power_low_warning'')])"

definition qsfp_lane4 :: "(ext_const \<Rightarrow> string) \<Rightarrow> page \<Rightarrow> pm_port \<Rightarrow> pm_port" where
  "qsfp_lane4 cn pg =
     (let f = (\<lambda>n. field pm_qsfp_dom_t n pg); b = (\<lambda>n. flag pm_qsfp_dom_t n pg)
      in stmts [
           SET_FLOAT_STRING cn (Tx_lane_bias L4, Value)
             (scaled_reading (f ''channel_monitors.tx4_bias_msb'') (f ''channel_monitors.tx4_bias_lsb'') DBL_0_002),
           SET_BOOL_STRING cn (Tx_lane_bias L4, Flag High_alarm)
             (b ''interrupt_flags.latched_tx4_bias_high_alarm''),
           SET_BOOL_STRING cn (Tx_lane_bias L4, Flag Low_alarm)
             (b ''interrupt_flags.latched_tx4_bias_low_alarm''),
           SET_BOOL_STRING cn (Tx_lane_bias L4, Flag High_warning)
             (b ''interrupt_flags.latched_tx4_bias_high_warning''),
           SET_BOOL_STRING cn (Tx_lane_bias L4, Flag Low_warning)
             (b ''interrupt_flags.latched_tx4_bias_low_warning''),
           SET_FLOAT_STRING cn (Rx_lane_power L4, Value)
             (scaled_reading (f ''channel_monitors.rx4_power_msb'') (f ''channel_monitors.rx4_power_lsb'') DBL_0_0001),
           SET_BOOL_STRING cn (Rx_lane_power L4, Flag High_alarm)
             (b ''interrupt_flags.latched_rx4_power_high_alarm''),
           SET_BOOL_STRING cn (Rx_lane_power L4, Flag Low_alarm)
             (b ''interrupt_flags.latched_rx4_power_low_alarm''),
           SET_BOOL_STRING cn (Rx_lane_power L4, Flag High_warning)
             (b ''interrupt_flags.latched_rx4_power_high_warning''),
           SET_BOOL_STRING cn (Rx_lane_power L4, Flag Low_warning)
             (b ''interrupt_flags.latched_rx4_power_low_warning'')])"

definition qsfp_a2 :: "(ext_const \<Rightarrow> string) \<Rightarrow> page \<Rightarrow> pm_port \<Rightarrow> pm_port" where
  "qsfp_a2 cn pg =
     stmts [
       qsfp_monitors cn pg, qsfp_lane1 cn pg, qsfp_lane2 cn pg, qsfp_lane3 cn pg,
       qsfp_lane4 cn pg, SET_BINARY A2 (take (csize pm_qsfp_dom_t) pg)]"

section \<open>\<open>pm_set_a2\<close>\<close>

definition pm_set_a2 :: "(ext_const \<Rightarrow> string) \<Rightarrow> page \<Rightarrow> pm_port \<Rightarrow> pm_port" where
  "pm_set_a2 cn pg port =
     (if \<not> yp_pluggable (module_device port) then port
      else if yp_connector (module_device port) = None then port
      else if connector_is port CONNECTOR_SFP_PLUS then sfp_a2 cn pg port
      else if connector_is port CONNECTOR_QSFP_PLUS then qsfp_a2 cn pg port
      else if connector_is port CONNECTOR_QSFP28 then qsfp_a2 cn pg port
      else SET_STATIC_STRING Connector CONNECTOR_UNKNOWN port)"

lemmas sfp_a2_defs =
  sfp_temperature_def sfp_vcc_def sfp_tx_bias_def sfp_rx_power_def sfp_tx_power_def

lemmas qsfp_a2_defs =
  qsfp_monitors_def qsfp_lane1_def qsfp_lane2_def qsfp_lane3_def qsfp_lane4_def

section \<open>What the operations keep\<close>

context dom_invariant
begin

lemma keep_sfp_parts:
  assumes "I p"
  shows "I (sfp_temperature cn pg p)" "I (sfp_vcc cn pg p)" "I (sfp_tx_bias cn pg p)"
    "I (sfp_rx_power cn pg p)" "I (sfp_tx_power cn pg p)"
  unfolding sfp_a2_defs Let_def stmts_Cons stmts_Nil by (intro keep_doms assms)+

lemma keep_qsfp_parts:
  assumes "I p"
  shows "I (qsfp_monitors cn pg p)" "I (qsfp_lane1 cn pg p)" "I (qsfp_lane2 cn pg p)"
    "I (qsfp_lane3 cn pg p)" "I (qsfp_lane4 cn pg p)"
  unfolding qsfp_a2_defs Let_def stmts_Cons stmts_Nil by (intro keep_doms assms)+

lemma keep_pm_set_a2:
  assumes "I p"
  shows "I (pm_set_a2 cn pg p)"
proof -
  have "I (sfp_a2 cn pg p)" "I (qsfp_a2 cn pg p)"
    unfolding sfp_a2_def qsfp_a2_def stmts_Cons stmts_Nil
    by (intro keep_SET_BINARY keep_sfp_parts keep_qsfp_parts assms; simp)+
  then show ?thesis using assms by (simp add: pm_set_a2_def keep_static)
qed

end

end
