(* ===== verification/Dom_Spec.thy ===== *)
theory Dom_Spec
  imports Pm_Dom Sample_Pages Detect_Spec
begin

text \<open>
  The diagnostic pages by byte offsets (SFF-8472 page A2h, SFF-8636 lower page), and the
  proof that \<open>pm_set_a2\<close> publishes what they describe. The properties of \<open>src/pm_dom.c\<close>.
\<close>

section \<open>The map of a diagnostic page\<close>

text \<open>
  Where a column comes from: a signed number of degrees in one byte, a 16-bit number of units
  of a tenth of a microwatt or millivolt (1/10000), or of two microamperes (1/500), or a bit.
\<close>

datatype source = Degrees nat | Per_10000 nat | Per_500 nat | Bit nat nat

text \<open>SFP+: values from byte 96, thresholds from byte 0, flags in bytes 112, 113, 116, 117.\<close>

fun level_index :: "level \<Rightarrow> nat" where
  "level_index High_alarm = 0"
| "level_index Low_alarm = 1"
| "level_index High_warning = 2"
| "level_index Low_warning = 3"

text \<open>The byte of a flag of the first group and its bit: alarms first, high before low.\<close>

fun flag_byte :: "level \<Rightarrow> nat" where
  "flag_byte High_alarm = 112"
| "flag_byte Low_alarm = 112"
| "flag_byte High_warning = 116"
| "flag_byte Low_warning = 116"

fun is_low :: "level \<Rightarrow> nat" where
  "is_low High_alarm = 0"
| "is_low Low_alarm = 1"
| "is_low High_warning = 0"
| "is_low Low_warning = 1"

fun sfp_source :: "dom_field \<Rightarrow> source option" where
  "sfp_source (Temperature, Value) = Some (Degrees 96)"
| "sfp_source (Vcc, Value) = Some (Per_10000 98)"
| "sfp_source (Tx_bias, Value) = Some (Per_500 100)"
| "sfp_source (Tx_power, Value) = Some (Per_10000 102)"
| "sfp_source (Rx_power, Value) = Some (Per_10000 104)"
| "sfp_source (Temperature, Threshold l) = Some (Degrees (2 * level_index l))"
| "sfp_source (Vcc, Threshold l) = Some (Per_10000 (8 + 2 * level_index l))"
| "sfp_source (Tx_bias, Threshold l) = Some (Per_500 (16 + 2 * level_index l))"
| "sfp_source (Tx_power, Threshold l) = Some (Per_10000 (24 + 2 * level_index l))"
| "sfp_source (Rx_power, Threshold l) = Some (Per_10000 (32 + 2 * level_index l))"
| "sfp_source (Temperature, Flag l) = Some (Bit (flag_byte l) (7 - is_low l))"
| "sfp_source (Vcc, Flag l) = Some (Bit (flag_byte l) (5 - is_low l))"
| "sfp_source (Tx_bias, Flag l) = Some (Bit (flag_byte l) (3 - is_low l))"
| "sfp_source (Tx_power, Flag l) = Some (Bit (flag_byte l) (1 - is_low l))"
| "sfp_source (Rx_power, Flag l) = Some (Bit (flag_byte l + 1) (7 - is_low l))"
| "sfp_source (Tx_lane_bias n, a) = None"
| "sfp_source (Rx_lane_power n, a) = None"

text \<open>
  QSFP: temperature and voltage in bytes 22 and 26 without flags or thresholds, per lane the
  received power from byte 34 and the bias current from byte 42, flags from byte 9 and 11, two
  lanes per byte, the odd lane in the upper half.
\<close>

fun lane_index :: "lane \<Rightarrow> nat" where
  "lane_index L1 = 0" | "lane_index L2 = 1" | "lane_index L3 = 2" | "lane_index L4 = 3"

definition lane_flag :: "nat \<Rightarrow> lane \<Rightarrow> level \<Rightarrow> source" where
  "lane_flag base n l =
     Bit (base + lane_index n div 2) ((if even (lane_index n) then 7 else 3) - level_index l)"

fun qsfp_source :: "dom_field \<Rightarrow> source option" where
  "qsfp_source (Temperature, Value) = Some (Degrees 22)"
| "qsfp_source (Vcc, Value) = Some (Per_10000 26)"
| "qsfp_source (Tx_lane_bias n, Value) = Some (Per_500 (42 + 2 * lane_index n))"
| "qsfp_source (Rx_lane_power n, Value) = Some (Per_10000 (34 + 2 * lane_index n))"
| "qsfp_source (Tx_lane_bias n, Flag l) = Some (lane_flag 11 n l)"
| "qsfp_source (Rx_lane_power n, Flag l) = Some (lane_flag 9 n l)"
| "qsfp_source (_, _) = None"

definition dom_source :: "string \<Rightarrow> dom_field \<Rightarrow> source option" where
  "dom_source conn = (if conn = CONNECTOR_SFP_PLUS then sfp_source else qsfp_source)"

text \<open>The value that a source has on a page.\<close>

fun source_fp :: "page \<Rightarrow> source \<Rightarrow> fp" where
  "source_fp pg (Degrees i) = temperature_reading (pg ! i) (pg ! Suc i)"
| "source_fp pg (Per_10000 i) = scaled_reading (pg ! i) (pg ! Suc i) DBL_0_0001"
| "source_fp pg (Per_500 i) = scaled_reading (pg ! i) (pg ! Suc i) DBL_0_002"
| "source_fp pg (Bit i b) = 0"

fun source_text :: "page \<Rightarrow> string option \<Rightarrow> source \<Rightarrow> string" where
  "source_text pg old (Bit i b) = (if bit (pg ! i) b then ''On'' else ''Off'')"
| "source_text pg old s = float_update old (source_fp pg s)"

definition dom_column ::
  "string \<Rightarrow> page \<Rightarrow> (dom_field \<Rightarrow> string option) \<Rightarrow> dom_field \<Rightarrow> string option" where
  "dom_column conn pg old fld =
     (case dom_source conn fld of
        None \<Rightarrow> old fld
      | Some s \<Rightarrow> Some (source_text pg (old fld) s))"

section \<open>What the parts of \<open>pm_set_a2\<close> write\<close>

text \<open>
  A part of \<open>pm_set_a2\<close> that writes the columns of the quantities \<open>Q\<close> as a map of sources says.
\<close>

definition writes ::
  "(dom_field \<Rightarrow> source option) \<Rightarrow> dom_quantity set \<Rightarrow> page
     \<Rightarrow> (dom_field \<Rightarrow> string option) \<Rightarrow> (dom_field \<Rightarrow> string option) \<Rightarrow> bool" where
  "writes src Q pg old new \<longleftrightarrow>
     (\<forall>q a. new (q, a) =
        (case if q \<in> Q then src (q, a) else None of
           None \<Rightarrow> old (q, a)
         | Some s \<Rightarrow> Some (source_text pg (old (q, a)) s)))"

lemma writes_trans:
  assumes "writes src Q pg a b" and "writes src R pg b c" and "Q \<inter> R = {}"
  shows "writes src (Q \<union> R) pg a c"
  unfolding writes_def
proof (intro allI)
  fix q t
  show "c (q, t) = (case if q \<in> Q \<union> R then src (q, t) else None of
      None \<Rightarrow> a (q, t) | Some s \<Rightarrow> Some (source_text pg (a (q, t)) s))"
    using assms by (cases "q \<in> Q"; cases "q \<in> R") (auto simp: writes_def split: option.splits)
qed

lemma dom_attr_all: "(\<forall>a. P a) \<longleftrightarrow>
  P Value \<and> (P (Flag High_alarm) \<and> P (Flag Low_alarm) \<and> P (Flag High_warning) \<and> P (Flag Low_warning)) \<and>
  P (Threshold High_alarm) \<and> P (Threshold Low_alarm) \<and> P (Threshold High_warning) \<and>
  P (Threshold Low_warning)"
proof -
  have "P (Flag l)" if "P (Flag High_alarm)" "P (Flag Low_alarm)" "P (Flag High_warning)"
    "P (Flag Low_warning)" for l using that by (cases l) auto
  moreover have "P (Threshold l)" if "P (Threshold High_alarm)" "P (Threshold Low_alarm)"
    "P (Threshold High_warning)" "P (Threshold Low_warning)" for l using that by (cases l) auto
  moreover have "P a" if "P Value" "\<And>l. P (Flag l)" "\<And>l. P (Threshold l)" for a
    using that by (cases a) auto
  ultimately show ?thesis by blast
qed

lemma writes_single:
  assumes "\<forall>a. new (q, a) =
      (case src (q, a) of None \<Rightarrow> old (q, a) | Some s \<Rightarrow> Some (source_text pg (old (q, a)) s))"
    and "\<And>r a. r \<noteq> q \<Longrightarrow> new (r, a) = old (r, a)"
  shows "writes src {q} pg old new"
  using assms by (auto simp: writes_def)

lemma writes_sfp_parts:
  "writes sfp_source {Temperature} pg (dom_text cn p) (dom_text cn (sfp_temperature cn pg p))"
  "writes sfp_source {Vcc} pg (dom_text cn p) (dom_text cn (sfp_vcc cn pg p))"
  "writes sfp_source {Tx_bias} pg (dom_text cn p) (dom_text cn (sfp_tx_bias cn pg p))"
  "writes sfp_source {Rx_power} pg (dom_text cn p) (dom_text cn (sfp_rx_power cn pg p))"
  "writes sfp_source {Tx_power} pg (dom_text cn p) (dom_text cn (sfp_tx_power cn pg p))"
  by (rule writes_single; simp add: sfp_a2_defs Let_def layout_simps dom_attr_all)+

lemma writes_two:
  assumes "\<forall>a. new (q, a) =
      (case src (q, a) of None \<Rightarrow> old (q, a) | Some s \<Rightarrow> Some (source_text pg (old (q, a)) s))"
    and "\<forall>a. new (r, a) =
      (case src (r, a) of None \<Rightarrow> old (r, a) | Some s \<Rightarrow> Some (source_text pg (old (r, a)) s))"
    and "\<And>t a. t \<noteq> q \<Longrightarrow> t \<noteq> r \<Longrightarrow> new (t, a) = old (t, a)"
  shows "writes src {q, r} pg old new"
  using assms by (auto simp: writes_def)

lemma writes_qsfp_parts:
  "writes qsfp_source {Temperature, Vcc} pg (dom_text cn p) (dom_text cn (qsfp_monitors cn pg p))"
  "writes qsfp_source {Tx_lane_bias L1, Rx_lane_power L1} pg (dom_text cn p)
     (dom_text cn (qsfp_lane1 cn pg p))"
  "writes qsfp_source {Tx_lane_bias L2, Rx_lane_power L2} pg (dom_text cn p)
     (dom_text cn (qsfp_lane2 cn pg p))"
  "writes qsfp_source {Tx_lane_bias L3, Rx_lane_power L3} pg (dom_text cn p)
     (dom_text cn (qsfp_lane3 cn pg p))"
  "writes qsfp_source {Tx_lane_bias L4, Rx_lane_power L4} pg (dom_text cn p)
     (dom_text cn (qsfp_lane4 cn pg p))"
  by (rule writes_two; simp add: qsfp_a2_defs Let_def layout_simps dom_attr_all lane_flag_def)+

lemma dom_text_binary [simp]: "dom_text cn (SET_BINARY f bs p) = dom_text cn p"
  by (simp add: dom_text_def fun_eq_iff macro_defs)

lemma writes_sfp:
  "writes sfp_source {Temperature, Vcc, Tx_bias, Rx_power, Tx_power} pg
     (dom_text cn p) (dom_text cn (sfp_a2 cn pg p))"
  using writes_trans [OF writes_trans [OF writes_trans [OF writes_trans
      [OF writes_sfp_parts(1) writes_sfp_parts(2)] writes_sfp_parts(3)] writes_sfp_parts(4)]
      writes_sfp_parts(5), of pg cn p]
  by (simp add: sfp_a2_def insert_commute)

lemma writes_qsfp:
  "writes qsfp_source ({Temperature, Vcc} \<union> {Tx_lane_bias L1, Rx_lane_power L1} \<union>
      {Tx_lane_bias L2, Rx_lane_power L2} \<union> {Tx_lane_bias L3, Rx_lane_power L3} \<union>
      {Tx_lane_bias L4, Rx_lane_power L4}) pg
     (dom_text cn p) (dom_text cn (qsfp_a2 cn pg p))"
  unfolding qsfp_a2_def stmts_Cons stmts_Nil dom_text_binary
  by (rule writes_trans [OF writes_trans [OF writes_trans [OF writes_trans
      [OF writes_qsfp_parts(1) writes_qsfp_parts(2)] writes_qsfp_parts(3)] writes_qsfp_parts(4)]
      writes_qsfp_parts(5)]) simp_all

text \<open>A part that writes all quantities that have a source writes all columns that have one.\<close>

lemma writes_all:
  assumes "writes src Q pg old new" and "\<And>q a. q \<notin> Q \<Longrightarrow> src (q, a) = None"
  shows "new = (\<lambda>fld. case src fld of None \<Rightarrow> old fld | Some s \<Rightarrow> Some (source_text pg (old fld) s))"
proof
  fix fld :: dom_field
  obtain q a where fld: "fld = (q, a)" by (cases fld)
  show "new fld = (case src fld of None \<Rightarrow> old fld | Some s \<Rightarrow> Some (source_text pg (old fld) s))"
    unfolding fld using assms by (cases "q \<in> Q") (auto simp: writes_def)
qed

lemma sfp_source_None: "q \<notin> {Temperature, Vcc, Tx_bias, Rx_power, Tx_power} \<Longrightarrow> sfp_source (q, a) = None"
  by (cases q) auto

lemma qsfp_source_None:
  "q \<notin> {Temperature, Vcc} \<union> {Tx_lane_bias L1, Rx_lane_power L1} \<union>
      {Tx_lane_bias L2, Rx_lane_power L2} \<union> {Tx_lane_bias L3, Rx_lane_power L3} \<union>
      {Tx_lane_bias L4, Rx_lane_power L4} \<Longrightarrow> qsfp_source (q, a) = None"
proof (cases q)
  case (Tx_lane_bias n)
  assume "q \<notin> {Temperature, Vcc} \<union> {Tx_lane_bias L1, Rx_lane_power L1} \<union>
      {Tx_lane_bias L2, Rx_lane_power L2} \<union> {Tx_lane_bias L3, Rx_lane_power L3} \<union>
      {Tx_lane_bias L4, Rx_lane_power L4}"
  then show ?thesis using Tx_lane_bias by (cases n) auto
next
  case (Rx_lane_power n)
  assume "q \<notin> {Temperature, Vcc} \<union> {Tx_lane_bias L1, Rx_lane_power L1} \<union>
      {Tx_lane_bias L2, Rx_lane_power L2} \<union> {Tx_lane_bias L3, Rx_lane_power L3} \<union>
      {Tx_lane_bias L4, Rx_lane_power L4}"
  then show ?thesis using Rx_lane_power by (cases n) auto
qed auto

lemma pm_set_a2_cases:
  assumes "yp_pluggable (module_device port)" and "yp_connector (module_device port) = Some conn"
    and "known_connector conn"
  shows "pm_set_a2 cn pg port = (if conn = CONNECTOR_SFP_PLUS then sfp_a2 cn pg port
                                 else qsfp_a2 cn pg port)"
  using assms by (auto simp: pm_set_a2_def connector_is_def known_connector_def)

lemma pm_set_a2_dom:
  assumes "yp_pluggable (module_device port)" and "yp_connector (module_device port) = Some conn"
    and "known_connector conn"
  shows "dom_text cn (pm_set_a2 cn pg port) = dom_column conn pg (dom_text cn port)"
proof -
  have "dom_text cn (sfp_a2 cn pg port) = (\<lambda>fld. case sfp_source fld of None \<Rightarrow> dom_text cn port fld
      | Some s \<Rightarrow> Some (source_text pg (dom_text cn port fld) s))"
    by (rule writes_all [OF writes_sfp sfp_source_None])
  moreover have "dom_text cn (qsfp_a2 cn pg port) = (\<lambda>fld. case qsfp_source fld of
      None \<Rightarrow> dom_text cn port fld | Some s \<Rightarrow> Some (source_text pg (dom_text cn port fld) s))"
    by (rule writes_all [OF writes_qsfp qsfp_source_None])
  ultimately show ?thesis
    by (simp add: pm_set_a2_cases [OF assms] dom_column_def dom_source_def fun_eq_iff)
qed

lemma col_text_doms [simp]:
  "col_text cn (SET_FLOAT_STRING cn f v p) = col_text cn p"
  "col_text cn (SET_BOOL_STRING cn f b p) = col_text cn p"
  by (auto simp: col_text_def fun_eq_iff macro_defs Let_def)

lemma pm_set_a2_cols:
  assumes "yp_pluggable (module_device port)" and "yp_connector (module_device port) = Some conn"
    and "known_connector conn" and "length pg = 128"
  shows "col_text cn (pm_set_a2 cn pg port) = (col_text cn port)(A2 \<mapsto> hex_text pg)"
proof -
  have "col_text cn (sfp_a2 cn pg port) = (col_text cn port)(A2 \<mapsto> hex_text pg)"
    using assms(4) by (simp add: sfp_a2_def sfp_a2_defs Let_def sfp_dom_size)
  moreover have "col_text cn (qsfp_a2 cn pg port) = (col_text cn port)(A2 \<mapsto> hex_text pg)"
    using assms(4) by (simp add: qsfp_a2_def qsfp_a2_defs Let_def qsfp_dom_size)
  ultimately show ?thesis using pm_set_a2_cases [OF assms(1-3)] by simp
qed

end
