(* ===== verification/Dom_Props.thy ===== *)
theory Dom_Props
  imports Dom_Spec Detect_Props
begin

text \<open>The properties of \<open>src/pm_dom.c\<close>.\<close>

section \<open>Readings\<close>

lemma word16_eq: "push_bit 8 (unat a) OR unat b = 256 * unat a + unat b" for a b :: byte
proof -
  have "push_bit 8 (unat a) AND unat b = 0"
    by (intro bit_eqI) (auto simp: bit_simps dest: bit_imp_le_length)
  then show ?thesis by (simp add: disjunctive_add_eq_or [symmetric] push_bit_eq_mult)
qed

lemma temperature_reading_eq: "temperature_reading msb lsb = sint msb * int FP_ONE"
proof -
  have "uint lsb div 256 = 0" using uint_bounded [of lsb] by simp
  moreover have "\<bar>sint msb\<bar> < 2 ^ 24"
    using sint_lt [of msb] sint_ge [of msb] by simp
  ultimately show ?thesis
    by (simp add: temperature_reading_def float_of_int_exact)
qed

lemma scaled_reading_eq: "scaled_reading msb lsb c = float_scaled (256 * unat msb + unat lsb) c"
  by (simp add: scaled_reading_def word16_eq)

lemma word16_less: "256 * unat a + unat b < 2 ^ 16" for a b :: byte
  using unat_byte_less [of a] unat_byte_less [of b] by simp

lemma float_update_fresh [simp]: "float_update None v = fmt_4_2f v"
  by (simp add: float_update_def)

text \<open>The text of a number of hundredths.\<close>

definition hundredths_text :: "nat \<Rightarrow> string" where
  "hundredths_text h =
     pad_left 4 (dec_of_nat (h div 100) @ ''.'' @ [digit_char (h mod 100 div 10), digit_char (h mod 10)])"

lemma fmt_float_scaled: "fmt_4_2f (float_scaled n c) = hundredths_text (hundredths (float_scaled n c))"
  by (simp add: fmt_4_2f_def hundredths_text_def float_scaled_def)

section \<open>The published diagnostics\<close>

text \<open>
C6: at a pluggable port with a known connector, \<open>pm_set_a2\<close> writes every diagnostic column
that the page of the module type has, from the bytes and bits that SFF-8472 or SFF-8636 assign
to it, and no other column but the dump \<open>a2\<close>: the thirteen quantities are never mixed up.
\<close>

theorem pm_set_a2_publishes_page:
  assumes "yp_pluggable (module_device port)" and "yp_connector (module_device port) = Some conn"
    and "known_connector conn" and "length pg = 128"
  shows "dom_text cn (pm_set_a2 cn pg port) = dom_column conn pg (dom_text cn port) \<and>
    col_text cn (pm_set_a2 cn pg port) = (col_text cn port)(A2 \<mapsto> hex_text pg)"
  using pm_set_a2_dom [OF assms(1-3)] pm_set_a2_cols [OF assms] by blast

theorem pm_set_a2_publishes_page_witness:
  "dom_text (\<lambda>_. '''') (pm_set_a2 (\<lambda>_. '''') (replicate 128 0xFF) (sample_port CONNECTOR_SFP_PLUS))
     (Rx_power, Flag Low_warning) = Some ''On''"
  using pm_set_a2_publishes_page [of "sample_port CONNECTOR_SFP_PLUS" CONNECTOR_SFP_PLUS
      "replicate 128 0xFF" "\<lambda>_. ''''"]
  by (simp add: dom_column_def dom_source_def nth_replicate)

lemma pm_set_a2_fresh:
  assumes "yp_pluggable (module_device port)" and "yp_connector (module_device port) = Some conn"
    and "known_connector conn"
    and "dom_source conn fld = Some s" and "dom_text cn port fld = None"
  shows "dom_text cn (pm_set_a2 cn pg port) fld = Some (source_text pg None s)"
  by (simp add: pm_set_a2_dom [OF assms(1-3)] dom_column_def assms(4,5))

text \<open>
C19: a column of a voltage, a power or a bias current that was empty is published as the
hundredth nearest to the reading, in spite of the two roundings of the conversion to floating
point: for a 16-bit reading \<open>n\<close> of units of 1/10000 the printed \<open>h\<close> hundredths satisfy
\<open>|100 h - n| \<le> 50\<close>, for units of 1/500 \<open>|5 h - n| \<le> 2\<close>.
\<close>

theorem pm_set_a2_nearest:
  assumes "yp_pluggable (module_device port)" and "yp_connector (module_device port) = Some conn"
    and "known_connector conn" and "dom_text cn port fld = None"
    and "dom_source conn fld = Some (Per_10000 i) \<or> dom_source conn fld = Some (Per_500 i)"
  shows "\<exists>h. dom_text cn (pm_set_a2 cn pg port) fld = Some (hundredths_text h) \<and>
    (let n = 256 * unat (pg ! i) + unat (pg ! Suc i) in
       (dom_source conn fld = Some (Per_10000 i) \<longrightarrow> 100 * h \<le> n + 50 \<and> n \<le> 100 * h + 50) \<and>
       (dom_source conn fld = Some (Per_500 i) \<longrightarrow> 5 * h \<le> n + 2 \<and> n \<le> 5 * h + 2))"
  using assms(5)
proof
  let ?n = "256 * unat (pg ! i) + unat (pg ! Suc i)"
  note n = word16_less [of "pg ! i" "pg ! Suc i"]
  {
    assume s: "dom_source conn fld = Some (Per_10000 i)"
    show ?thesis
      using pm_set_a2_fresh [OF assms(1-3) s assms(4), of pg] hundredths_0_0001 [OF n] s
      by (intro exI [of _ "hundredths (float_scaled ?n DBL_0_0001)"])
        (auto simp: scaled_reading_eq fmt_float_scaled)
  next
    assume s: "dom_source conn fld = Some (Per_500 i)"
    show ?thesis
      using pm_set_a2_fresh [OF assms(1-3) s assms(4), of pg] hundredths_0_002 [OF n] s
      by (intro exI [of _ "hundredths (float_scaled ?n DBL_0_002)"])
        (auto simp: scaled_reading_eq fmt_float_scaled)
  }
qed

theorem pm_set_a2_nearest_witness:
  "\<exists>h. dom_text (\<lambda>_. '''') (pm_set_a2 (\<lambda>_. '''') (replicate 128 0x80) (sample_port CONNECTOR_QSFP28))
      (Vcc, Value) = Some (hundredths_text h) \<and> 100 * h \<le> 32946 \<and> 32846 \<le> 100 * h"
  using pm_set_a2_nearest [of "sample_port CONNECTOR_QSFP28" CONNECTOR_QSFP28 "\<lambda>_. ''''"
      "(Vcc, Value)" 26 "replicate 128 0x80"]
  by (auto simp: dom_source_def Let_def nth_replicate)

text \<open>
C20: a temperature column that was empty is published as the signed most significant byte
followed by two zeros: the fraction of a degree in the least significant byte is lost, since
the code divides it by 256 as an integer.
\<close>

theorem pm_set_a2_temperature:
  assumes "yp_pluggable (module_device port)" and "yp_connector (module_device port) = Some conn"
    and "known_connector conn" and "dom_source conn fld = Some (Degrees i)"
    and "dom_text cn port fld = None"
  shows "dom_text cn (pm_set_a2 cn pg port) fld = Some (dec_of_int (sint (pg ! i)) @ ''.00'')"
  by (simp add: pm_set_a2_fresh [OF assms] temperature_reading_eq fmt_4_2f_int)

theorem pm_set_a2_temperature_witness:
  "dom_text (\<lambda>_. '''') (pm_set_a2 (\<lambda>_. '''') (replicate 128 0x80) (sample_port CONNECTOR_SFP_PLUS))
      (Temperature, Value) = Some (dec_of_int (- 128) @ ''.00'')"
  using pm_set_a2_temperature [of "sample_port CONNECTOR_SFP_PLUS" CONNECTOR_SFP_PLUS
      "(Temperature, Value)" 96 "\<lambda>_. ''''" "replicate 128 0x80"]
  by (simp add: dom_source_def nth_replicate)

section \<open>Safety and frame\<close>

lemma pm_set_a2_mem_ok: "mem_ok p \<Longrightarrow> mem_ok (pm_set_a2 cn pg p)"
  by (rule mem.keep_pm_set_a2)

lemma pm_set_a2_config: "config_of (pm_set_a2 cn pg p) = config_of p"
  by (rule cfg.keep_pm_set_a2) simp

lemma pm_set_a2_status: "status_of (pm_set_a2 cn pg p) = status_of p"
  by (rule sts.keep_pm_set_a2) simp

lemma pm_set_a2_optical: "optical (pm_set_a2 cn pg p) = optical p"
  by (rule opt_frame.keep_pm_set_a2) simp

text \<open>
C22: \<open>pm_set_a2\<close> is memory safe for every page and connector, and writes neither the
configuration of the port nor its status flags.
\<close>

theorem pm_set_a2_safe:
  assumes "mem_ok port"
  shows "mem_ok (pm_set_a2 cn pg port) \<and> config_of (pm_set_a2 cn pg port) = config_of port \<and>
    status_of (pm_set_a2 cn pg port) = status_of port \<and>
    optical (pm_set_a2 cn pg port) = optical port"
  using pm_set_a2_mem_ok [OF assms] pm_set_a2_config pm_set_a2_status pm_set_a2_optical by simp

theorem pm_set_a2_safe_witness:
  "mem_ok (pm_set_a2 (\<lambda>_. ''x'') (replicate 128 0) (sample_port CONNECTOR_QSFP_PLUS))"
  using pm_set_a2_safe [of "sample_port CONNECTOR_QSFP_PLUS" "\<lambda>_. ''x''" "replicate 128 0"] by simp

section \<open>The request for the page\<close>

text \<open>
The diagnostic page is requested exactly when the serial id page announces internally
calibrated diagnostics with average power at the unchanged address (byte 92, SFP+: bits 6, 5
and 3 set, bit 2 clear; QSFP: bit 3 set); nothing else of the port changes.
\<close>

theorem set_a2_read_request_spec:
  "set_a2_read_request pg port =
     port\<lparr>a2_read_requested := a2_read_requested port \<or>
       connector_is port CONNECTOR_SFP_PLUS \<and>
         bit (pg ! 92) 6 \<and> bit (pg ! 92) 5 \<and> bit (pg ! 92) 3 \<and> \<not> bit (pg ! 92) 2 \<or>
       (connector_is port CONNECTOR_QSFP_PLUS \<or> connector_is port CONNECTOR_QSFP28) \<and>
         bit (pg ! 92) 3\<rparr>"
  by (auto simp: set_a2_read_request_def Let_def layout_simps set_a2_requested_def connector_is_def)

section \<open>A stale value\<close>

text \<open>Two readings of the supply voltage: 33000 units, then 30000.\<close>

definition vcc_page :: "byte \<Rightarrow> byte \<Rightarrow> page" where
  "vcc_page msb lsb = (replicate 128 0)[98 := msb, 99 := lsb]"

lemma vcc_page_nth [simp]: "vcc_page a b ! 98 = a" "vcc_page a b ! 99 = b"
  by (simp_all add: vcc_page_def)

lemma dom_text_vcc:
  "dom_text cn (pm_set_a2 cn (vcc_page a b) port) (Vcc, Value) =
     Some (float_update (dom_text cn port (Vcc, Value)) (float_scaled (256 * unat a + unat b) DBL_0_0001))"
  if "yp_pluggable (module_device port)" "yp_connector (module_device port) = Some CONNECTOR_SFP_PLUS"
  using that by (simp add: pm_set_a2_dom dom_column_def dom_source_def scaled_reading_eq)

lemma vcc_33000: "fmt_4_2f (float_scaled 33000 DBL_0_0001) = ''3.30''"
  by (simp add: float_scaled_def round_sig_def bitlen.simps rne_div_def DBL_0_0001_def FP_ONE_def
      fmt_4_2f_def hundredths_def dec_of_nat.simps pad_left_def digit_char_def char_of_def bit_0 Let_def)

lemma vcc_30000: "float_scaled 30000 DBL_0_0001 = float_of_int 3"
  by (simp add: float_scaled_def round_sig_def bitlen.simps rne_div_def DBL_0_0001_def FP_ONE_def
      float_of_int_def Let_def)

lemma strtol_330: "strtol0 ''3.30'' = 3"
  by (simp add: strtol0_def is_space_def strtol_magnitude_def digits_value_def digit_value_def
      LONG_MIN_def LONG_MAX_def)


end
