(* ===== verification/Platform.thy ===== *)
theory Platform
  imports Port_Invariants "HOL-Library.Multiset"
begin

text \<open>
  What the daemon takes from outside this repository, as one record of parameters: the
  libraries config-yaml and i2c, the texts of the generated headers, the iteration order of
  the hash table of Open vSwitch, the files that can be opened, and the build option \<open>PLATFORM_SIMULATION\<close>. The state of
  the world behind the libraries is a type \<open>'w\<close> that every call reads and returns; nothing is
  assumed of it here.

  A call that fills a buffer returns the bytes that it wrote, also when it fails; they go into
  the caller's buffer by \<^const>\<open>mem_write\<close>, which cannot write outside of it.
\<close>

record 'w platform =
  simulation :: bool
  cn :: "ext_const \<Rightarrow> string"
  yaml_new_config_handle :: "'w \<Rightarrow> 'w"
  yaml_add_subsystem :: "string \<Rightarrow> string \<Rightarrow> 'w \<Rightarrow> int \<times> 'w"
  yaml_parse_devices :: "string \<Rightarrow> 'w \<Rightarrow> int \<times> 'w"
  yaml_parse_ports :: "string \<Rightarrow> 'w \<Rightarrow> int \<times> 'w"
  yaml_init_devices :: "string \<Rightarrow> 'w \<Rightarrow> 'w"
  yaml_get_port_count :: "'w \<Rightarrow> string \<Rightarrow> nat"
  yaml_get_port :: "'w \<Rightarrow> string \<Rightarrow> nat \<Rightarrow> yaml_port"
  yaml_find_device :: "'w \<Rightarrow> string \<Rightarrow> string \<Rightarrow> yaml_device option"
  yaml_add_device :: "string \<Rightarrow> string \<Rightarrow> yaml_device \<Rightarrow> 'w \<Rightarrow> int \<times> 'w"
  i2c_reg_read :: "string \<Rightarrow> i2c_bit_op \<Rightarrow> 'w \<Rightarrow> (int \<times> 32 word) \<times> 'w"
  i2c_reg_write :: "string \<Rightarrow> i2c_bit_op \<Rightarrow> 32 word \<Rightarrow> 'w \<Rightarrow> int \<times> 'w"
  i2c_data_read :: "yaml_device option \<Rightarrow> string \<Rightarrow> nat \<Rightarrow> nat \<Rightarrow> 'w \<Rightarrow> (int \<times> byte list) \<times> 'w"
  i2c_data_write :: "yaml_device option \<Rightarrow> string \<Rightarrow> nat \<Rightarrow> byte list \<Rightarrow> 'w \<Rightarrow> int \<times> 'w"
  file_contents :: "'w \<Rightarrow> string \<Rightarrow> byte list option"
  slot :: "nat \<Rightarrow> string \<Rightarrow> nat"

section \<open>A table of ports\<close>

text \<open>
  A \<open>struct shash\<close> with \<open>pm_port_t\<close> data, as the list of its entries in the order in which
  \<open>SHASH_FOR_EACH\<close> visits them. The order after an insertion is that of the buckets, a
  function of the number of entries and the name that is left open (\<open>slot\<close>).
\<close>

type_synonym shash = "(string \<times> pm_port) list"

definition shash_find :: "shash \<Rightarrow> string \<Rightarrow> pm_port option" where
  "shash_find sh name = map_of sh name"

definition shash_add :: "'w platform \<Rightarrow> string \<Rightarrow> pm_port \<Rightarrow> shash \<Rightarrow> shash" where
  "shash_add pl name port sh = sort_key (\<lambda>e. slot pl (Suc (length sh)) (fst e)) ((name, port) # sh)"

definition shash_delete :: "string \<Rightarrow> shash \<Rightarrow> shash" where
  "shash_delete name sh = filter (\<lambda>e. fst e \<noteq> name) sh"

text \<open>A write through the data pointer of the node found under a name.\<close>

definition shash_modify :: "string \<Rightarrow> (pm_port \<Rightarrow> pm_port) \<Rightarrow> shash \<Rightarrow> shash" where
  "shash_modify name f sh = map (\<lambda>(n, p). if n = name then (n, f p) else (n, p)) sh"

text \<open>A loop over the table whose body changes the port of each node and the world.\<close>

fun shash_for_each :: "(pm_port \<Rightarrow> 'w \<Rightarrow> pm_port \<times> 'w) \<Rightarrow> shash \<Rightarrow> 'w \<Rightarrow> shash \<times> 'w" where
  "shash_for_each f [] w = ([], w)"
| "shash_for_each f ((name, port) # sh) w =
     (case f port w of (port, w) \<Rightarrow>
        case shash_for_each f sh w of (sh, w) \<Rightarrow> ((name, port) # sh, w))"

text \<open>The names of a table are distinct: an entry is added only after a search for its name.\<close>

definition shash_ok :: "shash \<Rightarrow> bool" where
  "shash_ok sh \<longleftrightarrow> distinct (map fst sh)"

text \<open>
  The contract that the code relies on: a dictionary. It is stated for any representation and
  interpreted on the table above, for every iteration order.
\<close>

locale dictionary =
  fixes ok :: "'t \<Rightarrow> bool"
    and find :: "'t \<Rightarrow> 'k \<Rightarrow> 'v option"
    and add :: "'k \<Rightarrow> 'v \<Rightarrow> 't \<Rightarrow> 't"
    and delete :: "'k \<Rightarrow> 't \<Rightarrow> 't"
    and modify :: "'k \<Rightarrow> ('v \<Rightarrow> 'v) \<Rightarrow> 't \<Rightarrow> 't"
  assumes ok_add: "ok t \<Longrightarrow> find t k = None \<Longrightarrow> ok (add k v t)"
    and ok_delete: "ok t \<Longrightarrow> ok (delete k t)"
    and ok_modify: "ok t \<Longrightarrow> ok (modify k f t)"
    and find_add: "ok t \<Longrightarrow> find t k = None \<Longrightarrow> find (add k v t) = (find t)(k \<mapsto> v)"
    and find_delete: "ok t \<Longrightarrow> find (delete k t) = (find t)(k := None)"
    and find_modify: "ok t \<Longrightarrow> find (modify k f t) = (find t)(k := map_option f (find t k))"
begin

text \<open>An entry is added if the name is new and left alone otherwise.\<close>

definition ensure :: "'k \<Rightarrow> 'v \<Rightarrow> 't \<Rightarrow> 't" where
  "ensure k v t = (if find t k = None then add k v t else t)"

lemma ok_ensure: "ok t \<Longrightarrow> ok (ensure k v t)"
  by (simp add: ensure_def ok_add)

lemma find_ensure: "ok t \<Longrightarrow> find (ensure k v t) = (find t)(k \<mapsto> case find t k of None \<Rightarrow> v | Some u \<Rightarrow> u)"
  by (auto simp: ensure_def find_add fun_eq_iff split: option.split)

lemma delete_absent: "ok t \<Longrightarrow> find (delete k t) k = None"
  by (simp add: find_delete)

text \<open>A property of all values survives.\<close>

definition all_values :: "('v \<Rightarrow> bool) \<Rightarrow> 't \<Rightarrow> bool" where
  "all_values P t \<longleftrightarrow> (\<forall>k v. find t k = Some v \<longrightarrow> P v)"

lemma all_add: "ok t \<Longrightarrow> find t k = None \<Longrightarrow> all_values P t \<Longrightarrow> P v \<Longrightarrow> all_values P (add k v t)"
  by (auto simp: all_values_def find_add)

lemma all_delete: "ok t \<Longrightarrow> all_values P t \<Longrightarrow> all_values P (delete k t)"
  by (auto simp: all_values_def find_delete)

lemma all_modify:
  "ok t \<Longrightarrow> all_values P t \<Longrightarrow> (\<And>v. P v \<Longrightarrow> P (f v)) \<Longrightarrow> all_values P (modify k f t)"
  by (auto simp: all_values_def find_modify)

end

lemma map_fst_modify [simp]: "map fst (shash_modify name f sh) = map fst sh"
  by (induction sh) (auto simp: shash_modify_def)

lemma set_shash_add: "set (shash_add pl name port sh) = insert (name, port) (set sh)"
  unfolding shash_add_def by (simp only: set_sort list.set)

lemma shash_find_iff: "shash_ok sh \<Longrightarrow> shash_find sh name = Some port \<longleftrightarrow> (name, port) \<in> set sh"
  by (simp add: shash_find_def shash_ok_def)

lemma shash_find_None: "shash_find sh name = None \<longleftrightarrow> name \<notin> fst ` set sh"
  by (auto simp: shash_find_def map_of_eq_None_iff)

lemma shash_ok_add: "shash_ok sh \<Longrightarrow> shash_find sh name = None \<Longrightarrow> shash_ok (shash_add pl name port sh)"
proof -
  assume sh: "shash_ok sh" "shash_find sh name = None"
  then have "distinct (map fst ((name, port) # sh))"
    by (simp add: shash_ok_def shash_find_None)
  moreover have "mset (map fst (shash_add pl name port sh)) = mset (map fst ((name, port) # sh))"
    by (simp add: shash_add_def)
  ultimately show ?thesis
    unfolding shash_ok_def by (metis mset_eq_imp_distinct_iff)
qed

interpretation intfs: dictionary shash_ok shash_find "shash_add pl" shash_delete shash_modify
proof unfold_locales
  fix t :: shash and k v
  assume t: "shash_ok t" "shash_find t k = None"
  then show ok: "shash_ok (shash_add pl k v t)" by (rule shash_ok_add)
  show "shash_find (shash_add pl k v t) = (shash_find t)(k \<mapsto> v)"
  proof (rule ext, rule option.expand)
    fix x
    show "(shash_find (shash_add pl k v t) x = None) = (((shash_find t)(k \<mapsto> v)) x = None)"
      by (auto simp: shash_find_None set_shash_add)
  next
    fix x
    assume "shash_find (shash_add pl k v t) x \<noteq> None"
    then obtain p where p: "shash_find (shash_add pl k v t) x = Some p" by blast
    then have "(x, p) = (k, v) \<or> (x, p) \<in> set t"
      by (simp add: shash_find_iff [OF ok] set_shash_add)
    then have "((shash_find t)(k \<mapsto> v)) x = Some p"
      using t shash_find_iff [OF t(1), of x p] by auto
    then show "the (shash_find (shash_add pl k v t) x) = the (((shash_find t)(k \<mapsto> v)) x)"
      using p by simp
  qed
next
  fix t :: shash and k
  assume "shash_ok t"
  then show "shash_ok (shash_delete k t)"
    by (simp add: shash_ok_def shash_delete_def distinct_map_filter)
  show "shash_find (shash_delete k t) = (shash_find t)(k := None)"
    by (induction t) (auto simp: shash_find_def shash_delete_def fun_eq_iff)
next
  fix t :: shash and k f
  assume "shash_ok t"
  then show "shash_ok (shash_modify k f t)" by (simp add: shash_ok_def)
  show "shash_find (shash_modify k f t) = (shash_find t)(k := map_option f (shash_find t k))"
    by (induction t) (auto simp: shash_find_def shash_modify_def fun_eq_iff)
qed

end
