(* ===== verification/Plug.thy ===== *)
theory Plug
  imports Platform Pm_Detect Pm_Dom
begin

text \<open>
  \<open>src/plug.c\<close>: access to the modules. Reading the state of a port (presence, serial id page
  with checksum and parse, diagnostic page, with a shared number of retries), enabling and
  disabling transmitters, resetting, and the insertion and removal of simulated modules.

  A \<open>goto\<close> that retries is a recursion on the number of retries left.
\<close>

section \<open>Presence\<close>

definition presence_op :: "pm_port \<Rightarrow> i2c_bit_op option" where
  "presence_op port =
     (if connector_is port CONNECTOR_SFP_PLUS then Some (sfpp_mod_present (module_device port))
      else if connector_is port CONNECTOR_QSFP_PLUS then Some (qsfpp_mod_present (module_device port))
      else if connector_is port CONNECTOR_QSFP28 then Some (qsfp28p_mod_present (module_device port))
      else None)"

fun presence_retry ::
  "'w platform \<Rightarrow> pm_port \<Rightarrow> i2c_bit_op \<Rightarrow> nat \<Rightarrow> 'w \<Rightarrow> bool \<times> 'w" where
  "presence_retry pl port reg_op retry_count w =
     (case i2c_reg_read pl (subsystem port) reg_op w of ((rc, result), w) \<Rightarrow>
        if rc \<noteq> 0 then
          (case retry_count of Suc n \<Rightarrow> presence_retry pl port reg_op n w | 0 \<Rightarrow> (False, w))
        else (result \<noteq> 0, w))"

declare presence_retry.simps [simp del]

definition pm_get_presence :: "'w platform \<Rightarrow> pm_port \<Rightarrow> 'w \<Rightarrow> bool \<times> 'w" where
  "pm_get_presence pl port w =
     (if simulation pl then (module_data port \<noteq> None, w)
      else case presence_op port of
        None \<Rightarrow> (False, w)
      | Some reg_op \<Rightarrow> presence_retry pl port reg_op 2 w)"

section \<open>Reading the pages\<close>

text \<open>
  The result, and the bytes written to the caller's buffer. In a simulation build the page is
  copied from \<open>module_data\<close>, which is not NULL after \<^const>\<open>pm_get_presence\<close> has succeeded.
\<close>

definition pm_read_a0 :: "'w platform \<Rightarrow> pm_port \<Rightarrow> nat \<Rightarrow> 'w \<Rightarrow> (int \<times> byte list) \<times> 'w" where
  "pm_read_a0 pl port offset w =
     (if simulation pl then ((0, take (csize pm_sfp_serial_id_t) (the (module_data port))), w)
      else
        let device = yaml_find_device pl w (subsystem port) (yp_module_eeprom (module_device port))
        in case i2c_data_read pl device (subsystem port) offset (csize pm_sfp_serial_id_t) w of
             ((rc, data), w) \<Rightarrow> ((if rc \<noteq> 0 then - 1 else 0, data), w))"

text \<open>
  The name of the device of the diagnostic page. The buffer has 1024 bytes: \<open>strncpy\<close> copies
  the name, whose length the bound of \<open>strncat\<close> does not take into account, so that the model
  is the code for names of at most 1019 characters.
\<close>

definition a2_device_name :: "pm_port \<Rightarrow> string" where
  "a2_device_name port =
     (if connector_is port CONNECTOR_SFP_PLUS then yp_module_eeprom (module_device port) @ ''_dom''
      else yp_module_eeprom (module_device port))"

definition pm_read_a2 :: "'w platform \<Rightarrow> pm_port \<Rightarrow> 'w \<Rightarrow> (int \<times> byte list) \<times> 'w" where
  "pm_read_a2 pl port w =
     (if simulation pl then ((- 1, []), w)
      else
        let device = yaml_find_device pl w (subsystem port) (a2_device_name port)
        in case i2c_data_read pl device (subsystem port) 0 (csize pm_sfp_dom_t) w of
             ((rc, data), w) \<Rightarrow> ((if rc \<noteq> 0 then - 1 else 0, data), w))"

section \<open>Reset\<close>

datatype clear_reset_t = SET_RESET | CLEAR_RESET

definition reset_op :: "pm_port \<Rightarrow> i2c_bit_op option" where
  "reset_op port =
     (if connector_is port CONNECTOR_QSFP_PLUS then qsfpp_reset (module_device port)
      else if connector_is port CONNECTOR_QSFP28 then qsfp28p_reset (module_device port)
      else None)"

definition pm_reset :: "'w platform \<Rightarrow> pm_port \<Rightarrow> clear_reset_t \<Rightarrow> 'w \<Rightarrow> 'w" where
  "pm_reset pl port clear w =
     (case reset_op port of
        None \<Rightarrow> w
      | Some reg_op \<Rightarrow>
          snd (i2c_reg_write pl (subsystem port) reg_op (if clear = CLEAR_RESET then 0 else 0xff) w))"

text \<open>The sleeps of one and ten milliseconds have no effect on the state.\<close>

definition pm_clear_reset :: "'w platform \<Rightarrow> pm_port \<Rightarrow> 'w \<Rightarrow> 'w" where
  "pm_clear_reset pl port w = pm_reset pl port CLEAR_RESET w"

definition pm_reset_port :: "'w platform \<Rightarrow> pm_port \<Rightarrow> 'w \<Rightarrow> 'w" where
  "pm_reset_port pl port w = pm_clear_reset pl port (pm_reset pl port SET_RESET w)"

section \<open>\<open>pm_read_module_state\<close>\<close>

text \<open>The end of the branches that give up: failed read, failed checksum.\<close>

definition module_absent :: "pm_port \<Rightarrow> pm_port" where
  "module_absent port =
     (if present port \<or> ovs_module_columns port Connector = None
      then stmts [
        set_present False,
        pm_delete_all_data,
        SET_STATIC_STRING Connector CONNECTOR_ABSENT,
        SET_STATIC_STRING Connector_status CONNECTOR_STATUS_UNRECOGNIZED] port
      else port)"

definition read_failed :: "pm_port \<Rightarrow> pm_port" where
  "read_failed =
     stmts [
       pm_delete_all_data,
       set_present True,
       set_retry True,
       SET_STATIC_STRING Connector CONNECTOR_UNKNOWN,
       SET_STATIC_STRING Connector_status CONNECTOR_STATUS_UNRECOGNIZED]"

definition checksum_failed :: "pm_port \<Rightarrow> pm_port" where
  "checksum_failed =
     stmts [
       set_present True,
       set_retry True,
       pm_delete_all_data,
       SET_STATIC_STRING Connector CONNECTOR_UNKNOWN,
       SET_STATIC_STRING Connector_status CONNECTOR_STATUS_UNRECOGNIZED]"

text \<open>\<open>pm_parse\<close> of a verified page, with the updates that depend on its result.\<close>

definition parse_verified :: "(ext_const \<Rightarrow> string) \<Rightarrow> page \<Rightarrow> pm_port \<Rightarrow> pm_port" where
  "parse_verified texts a0 port =
     (case pm_parse texts a0 port of (rc, port) \<Rightarrow>
        if rc = 0
        then set_a2_read_request a0 (set_retry False (set_present True port))
        else set_retry True port)"

text \<open>
  From the label \<open>retry_read\<close> to the test of \<open>a2_read_requested\<close>: either the function returns
  a result, or it goes on with the number of retries left.
\<close>

datatype flow = Return int | Go_on nat

fun read_a0_part ::
  "'w platform \<Rightarrow> nat \<Rightarrow> nat \<Rightarrow> page \<Rightarrow> pm_port \<Rightarrow> 'w \<Rightarrow> flow \<times> pm_port \<times> 'w" where
  "read_a0_part pl offset retry_count a0 port w =
     (case pm_get_presence pl port w of (is_present, w) \<Rightarrow>
        if \<not> is_present then (Return 0, module_absent port, w)
        else if \<not> present port \<or> retry port then
          (case pm_read_a0 pl port offset w of ((rc, data), w) \<Rightarrow>
             let a0 = mem_write a0 data in
             if rc \<noteq> 0 then
               (case retry_count of
                  Suc n \<Rightarrow> read_a0_part pl offset n a0 port (pm_reset_port pl port w)
                | 0 \<Rightarrow> (Return (- 1), read_failed port, w))
             else if sfpp_sum_verify a0 \<noteq> 0 then
               (case retry_count of
                  Suc n \<Rightarrow> read_a0_part pl offset n a0 port (pm_reset_port pl port w)
                | 0 \<Rightarrow> (Return (- 1), checksum_failed port, w))
             else (Go_on retry_count, parse_verified (cn pl) a0 port, w))
        else (Go_on retry_count, port, w))"

declare read_a0_part.simps [simp del]

text \<open>From the label \<open>retry_read_a2\<close> to the end: the page that is published, the retries.\<close>

fun read_a2_part :: "'w platform \<Rightarrow> nat \<Rightarrow> page \<Rightarrow> pm_port \<Rightarrow> 'w \<Rightarrow> page \<times> 'w" where
  "read_a2_part pl retry_count a2 port w =
     (case pm_read_a2 pl port w of ((rc, data), w) \<Rightarrow>
        let a2 = mem_write a2 data in
        if rc \<noteq> 0 then
          (case retry_count of
             Suc n \<Rightarrow> read_a2_part pl n a2 port w
           | 0 \<Rightarrow> (replicate (csize pm_sfp_dom_t) 0xff, w))
        else (a2, w))"

declare read_a2_part.simps [simp del]

definition serial_id_offset :: "pm_port \<Rightarrow> nat option" where
  "serial_id_offset port =
     (if connector_is port CONNECTOR_SFP_PLUS then Some SFP_SERIAL_ID_OFFSET
      else if connector_is port CONNECTOR_QSFP_PLUS \<or> connector_is port CONNECTOR_QSFP28
      then Some QSFP_SERIAL_ID_OFFSET
      else None)"

definition pm_read_module_state :: "'w platform \<Rightarrow> pm_port \<Rightarrow> 'w \<Rightarrow> int \<times> pm_port \<times> 'w" where
  "pm_read_module_state pl port w =
     (case serial_id_offset port of
        None \<Rightarrow> (- 1, port, w)
      | Some offset \<Rightarrow>
          (case read_a0_part pl offset 2 (replicate (csize pm_sfp_serial_id_t) 0) port w of
             (Return rc, port, w) \<Rightarrow> (rc, port, w)
           | (Go_on retry_count, port, w) \<Rightarrow>
               if \<not> a2_read_requested port then (0, port, w)
               else (case read_a2_part pl retry_count (replicate (csize pm_sfp_dom_t) 0) port w of
                       (a2, w) \<Rightarrow>
                         (0, set_a2_requested False (pm_set_a2 (cn pl) a2 port), w))))"

definition pm_read_port_state :: "'w platform \<Rightarrow> pm_port option \<Rightarrow> 'w \<Rightarrow> int \<times> pm_port option \<times> 'w" where
  "pm_read_port_state pl port_p w =
     (case port_p of
        None \<Rightarrow> (0, None, w)
      | Some port \<Rightarrow> (case pm_read_module_state pl port w of (rc, port, w) \<Rightarrow> (0, Some port, w)))"

definition pm_read_state :: "'w platform \<Rightarrow> shash \<Rightarrow> 'w \<Rightarrow> int \<times> shash \<times> 'w" where
  "pm_read_state pl ovs_intfs w =
     (case shash_for_each
             (\<lambda>port w. case pm_read_port_state pl (Some port) w of (rc, p, w) \<Rightarrow> (the p, w))
             ovs_intfs w of
        (ovs_intfs, w) \<Rightarrow> (0, ovs_intfs, w))"

section \<open>Enabling and disabling\<close>

text \<open>\<open>for (idx...) if (!hw_enable_subport[idx]) data |= (1 << idx)\<close>\<close>

fun subport_mask :: "bool list \<Rightarrow> nat \<Rightarrow> byte \<Rightarrow> byte" where
  "subport_mask [] idx data = data"
| "subport_mask (enabled # rest) idx data =
     subport_mask rest (Suc idx) (if \<not> enabled then data OR push_bit idx 1 else data)"

definition qsfp_disable_data :: "pm_port \<Rightarrow> byte" where
  "qsfp_disable_data port =
     (if split_port port then subport_mask (take MAX_SPLIT_COUNT (hw_enable_subport port)) 0 0x00
      else if \<not> hw_enable port then 0x0f else 0x00)"

definition pm_configure_qsfp :: "'w platform \<Rightarrow> pm_port \<Rightarrow> 'w \<Rightarrow> pm_port \<times> 'w" where
  "pm_configure_qsfp pl port w =
     (if simulation pl then (port\<lparr>port_enable := qsfp_disable_data port\<rparr>, w)
      else if \<not> present port then (port, w)
      else if \<not> optical port then (port, w)
      else
        let device = yaml_find_device pl w (subsystem port) (yp_module_eeprom (module_device port))
        in (port, snd (i2c_data_write pl device (subsystem port) QSFP_DISABLE_OFFSET
                         [qsfp_disable_data port] w)))"

definition is_qsfp :: "pm_port \<Rightarrow> bool" where
  "is_qsfp port \<longleftrightarrow> connector_is port CONNECTOR_QSFP_PLUS \<or> connector_is port CONNECTOR_QSFP28"

definition pm_configure_port :: "'w platform \<Rightarrow> pm_port \<Rightarrow> 'w \<Rightarrow> pm_port \<times> 'w" where
  "pm_configure_port pl port w =
     (if is_qsfp port then pm_configure_qsfp pl port w
      else if simulation pl then (port\<lparr>port_enable := (if hw_enable port then 1 else 0)\<rparr>, w)
      else
        let reg_op = sfpp_tx_disable (module_device port);
            data = (if hw_enable port then 0 else bit_mask reg_op)
        in (port, snd (i2c_reg_write pl (subsystem port) reg_op data w)))"

definition pm_set_enabled :: "'w platform \<Rightarrow> shash \<Rightarrow> 'w \<Rightarrow> int \<times> shash \<times> 'w" where
  "pm_set_enabled pl ovs_intfs w =
     (case shash_for_each (pm_configure_port pl) ovs_intfs w of (ovs_intfs, w) \<Rightarrow> (0, ovs_intfs, w))"

section \<open>Simulated modules\<close>

text \<open>
  The old page is freed before the file is opened: a failed insertion removes the module. The
  reply is the text put into the dynamic string.
\<close>

definition set_module_data :: "page option \<Rightarrow> pm_port \<Rightarrow> pm_port" where
  "set_module_data d port = port\<lparr>module_data := d\<rparr>"

definition pmd_sim_insert ::
  "'w platform \<Rightarrow> string \<Rightarrow> string \<Rightarrow> shash \<Rightarrow> 'w \<Rightarrow> int \<times> string \<times> shash" where
  "pmd_sim_insert pl name file ovs_intfs w =
     (case shash_find ovs_intfs name of
        None \<Rightarrow> (- 1, ''No such interface'', ovs_intfs)
      | Some port \<Rightarrow>
          let ovs_intfs = (if module_data port \<noteq> None
                           then shash_modify name (set_module_data None) ovs_intfs else ovs_intfs)
          in case file_contents pl w file of
               None \<Rightarrow> (- 1, ''Can't open file'', ovs_intfs)
             | Some bytes \<Rightarrow>
                 if length bytes < csize pm_sfp_serial_id_t
                 then (- 1, ''Unable to read data'', ovs_intfs)
                 else (0, ''Pluggable module inserted'',
                       shash_modify name
                         (set_module_data (Some (take (csize pm_sfp_serial_id_t) bytes))) ovs_intfs))"

definition pmd_sim_remove :: "string \<Rightarrow> shash \<Rightarrow> int \<times> string \<times> shash" where
  "pmd_sim_remove name ovs_intfs =
     (case shash_find ovs_intfs name of
        None \<Rightarrow> (- 1, ''No such interface'', ovs_intfs)
      | Some port \<Rightarrow>
          if module_data port = None
          then (- 1, ''Pluggable module not present'', ovs_intfs)
          else (0, ''Pluggable module removed'', shash_modify name (set_module_data None) ovs_intfs))"

end
