(* ===== verification/Plug_Lemmas.thy ===== *)
theory Plug_Lemmas
  imports Plug Detect_Props Dom_Props
begin

text \<open>
  Lemmas on \<open>src/plug.c\<close>: what reading the state of a module keeps, what it leaves in the
  columns on each of its ways, how the loops over the table of ports act on each entry.
\<close>

section \<open>Invariants of a port\<close>

context port_invariant
begin

lemma keep_module_absent: "I p \<Longrightarrow> I (module_absent p)"
  by (simp add: module_absent_def keep_columns keep_status keep_delete_all)

lemma keep_read_failed: "I p \<Longrightarrow> I (read_failed p)"
  by (simp add: read_failed_def keep_columns keep_status keep_delete_all)

lemma keep_checksum_failed: "I p \<Longrightarrow> I (checksum_failed p)"
  by (simp add: checksum_failed_def keep_columns keep_status keep_delete_all)

lemma keep_read_request: "I p \<Longrightarrow> I (set_a2_read_request pg p)"
  by (simp add: set_a2_read_request_def Let_def keep_status)

lemma keep_parse_verified: "I p \<Longrightarrow> I (parse_verified texts pg p)"
  using keep_pm_parse [OF keep_optical, of p texts pg]
  by (auto simp: parse_verified_def keep_status keep_read_request split: prod.split)

lemma keep_read_a0_part: "I p \<Longrightarrow> I (fst (snd (read_a0_part pl off n a0 p w)))"
proof (induction pl off n a0 p w rule: read_a0_part.induct)
  case (1 pl off n a0 p w)
  then show ?case
    by (subst read_a0_part.simps)
      (auto simp: Let_def keep_module_absent keep_read_failed keep_checksum_failed
        keep_parse_verified split: prod.split nat.split)
qed

lemma keep_read_module_state:
  assumes "I p"
  shows "I (fst (snd (pm_read_module_state pl p w)))"
proof (cases "serial_id_offset p")
  case None
  then show ?thesis using assms by (simp add: pm_read_module_state_def)
next
  case (Some off)
  let ?a0 = "replicate (csize pm_sfp_serial_id_t) 0"
  obtain fl p' w' where r: "read_a0_part pl off 2 ?a0 p w = (fl, p', w')"
    by (metis prod_cases3)
  then have "I p'" using keep_read_a0_part [OF assms, of pl off 2 ?a0 w] by simp
  then show ?thesis
    using Some r
    by (auto simp: pm_read_module_state_def keep_pm_set_a2 keep_status split: flow.split prod.split)
qed

end

section \<open>The loops over the table\<close>

lemma shash_for_each_names: "map fst (fst (shash_for_each f sh w)) = map fst sh"
  by (induction f sh w rule: shash_for_each.induct) (auto split: prod.splits)

lemma shash_for_each_ok: "shash_ok sh \<Longrightarrow> shash_ok (fst (shash_for_each f sh w))"
  by (simp add: shash_ok_def shash_for_each_names)

text \<open>Every entry is the body's result on the entry of the same name, in some world.\<close>

lemma shash_for_each_entry:
  "(name, port) \<in> set (fst (shash_for_each f sh w)) \<Longrightarrow>
     \<exists>p v. (name, p) \<in> set sh \<and> port = fst (f p v)"
proof (induction f sh w rule: shash_for_each.induct)
  case (1 f w)
  then show ?case by simp
next
  case (2 f n p sh w)
  obtain p' w' where f: "f p w = (p', w')" by fastforce
  obtain sh' w'' where r: "shash_for_each f sh w' = (sh', w'')" by fastforce
  from 2 f r have "(name, port) = (n, p') \<or> (name, port) \<in> set sh'" by auto
  then show ?case
  proof
    assume "(name, port) = (n, p')"
    then show ?thesis using f by (intro exI [of _ p] exI [of _ w]) simp
  next
    assume "(name, port) \<in> set sh'"
    then show ?thesis using 2(1) [OF f [symmetric]] r by auto
  qed
qed

lemma shash_for_each_all:
  assumes "\<And>p w. P p \<Longrightarrow> P (fst (f p w))" and "\<forall>(n, p) \<in> set sh. P p"
  shows "\<forall>(n, p) \<in> set (fst (shash_for_each f sh w)). P p"
proof (intro ballI, clarify)
  fix name port
  assume "(name, port) \<in> set (fst (shash_for_each f sh w))"
  from shash_for_each_entry [OF this] obtain p v where "(name, p) \<in> set sh" "port = fst (f p v)"
    by blast
  then show "P port" using assms by auto
qed

section \<open>Presence\<close>

text \<open>What the register says after at most three reads.\<close>

lemma presence_retry_ok:
  "i2c_reg_read pl (subsystem port) op w = ((0, r), w') \<Longrightarrow> presence_retry pl port op n w = (r \<noteq> 0, w')"
  by (simp add: presence_retry.simps)

lemma presence_retry_fail:
  "i2c_reg_read pl (subsystem port) op w = ((rc, r), w') \<Longrightarrow> rc \<noteq> 0 \<Longrightarrow>
     presence_retry pl port op n w =
       (case n of 0 \<Rightarrow> (False, w') | Suc m \<Rightarrow> presence_retry pl port op m w')"
  by (simp add: presence_retry.simps)

section \<open>The ends of \<open>pm_read_module_state\<close>\<close>

lemma col_text_request [simp]: "col_text texts (set_a2_read_request pg p) = col_text texts p"
  by (simp add: set_a2_read_request_def Let_def)

lemma col_text_failed:
  "col_text texts (read_failed p) =
     [Connector \<mapsto> texts CONNECTOR_UNKNOWN, Connector_status \<mapsto> texts CONNECTOR_STATUS_UNRECOGNIZED]"
  "col_text texts (checksum_failed p) =
     [Connector \<mapsto> texts CONNECTOR_UNKNOWN, Connector_status \<mapsto> texts CONNECTOR_STATUS_UNRECOGNIZED]"
  by (auto simp: read_failed_def checksum_failed_def col_text_delete_all fun_eq_iff)

lemma col_text_absent:
  "col_text texts (module_absent p) =
     (if present p \<or> ovs_module_columns p Connector = None
      then [Connector \<mapsto> texts CONNECTOR_ABSENT, Connector_status \<mapsto> texts CONNECTOR_STATUS_UNRECOGNIZED]
      else col_text texts p)"
  by (auto simp: module_absent_def col_text_delete_all fun_eq_iff)

lemma status_setters [simp]:
  "status_of (set_present b p) = (b, retry p, a2_read_requested p)"
  "status_of (set_retry b p) = (present p, b, a2_read_requested p)"
  "status_of (set_a2_requested b p) = (present p, retry p, b)"
  by (simp_all add: status_of_def setter_defs)

lemma status_simps [simp]:
  "present (set_present b p) = b" "retry (set_present b p) = retry p"
  "a2_read_requested (set_present b p) = a2_read_requested p"
  "present (set_retry b p) = present p" "retry (set_retry b p) = b"
  "a2_read_requested (set_retry b p) = a2_read_requested p"
  "present (set_a2_requested b p) = present p" "retry (set_a2_requested b p) = retry p"
  "a2_read_requested (set_a2_requested b p) = b"
  by (simp_all add: setter_defs)

lemma status_of_eq:
  "status_of p = status_of q \<longleftrightarrow>
     present p = present q \<and> retry p = retry q \<and> a2_read_requested p = a2_read_requested q"
  by (auto simp: status_of_def)

lemma status_delete_all: "status_of (pm_delete_all_data p) = status_of p"
  by (rule sts.keep_delete_all) simp

lemma status_static: "static_field f \<Longrightarrow> status_of (SET_STATIC_STRING f c p) = status_of p"
  by (rule sts.keep_static) simp_all

lemmas status_frames =
  status_delete_all [unfolded status_of_eq] status_static [unfolded status_of_eq]
  pm_parse_status [unfolded status_of_eq] pm_set_a2_status [unfolded status_of_eq]

lemma status_failed [simp]:
  "present (read_failed p)" "retry (read_failed p)"
  "a2_read_requested (read_failed p) = a2_read_requested p"
  "present (checksum_failed p)" "retry (checksum_failed p)"
  "a2_read_requested (checksum_failed p) = a2_read_requested p"
  by (simp_all add: read_failed_def checksum_failed_def status_frames)

lemma status_absent [simp]:
  "\<not> present (module_absent p)"
  "retry (module_absent p) = retry p"
  "a2_read_requested (module_absent p) = a2_read_requested p"
  by (simp_all add: module_absent_def status_frames)

lemma status_request [simp]:
  "present (set_a2_read_request pg p) = present p" "retry (set_a2_read_request pg p) = retry p"
  by (simp_all add: set_a2_read_request_def Let_def setter_defs)

section \<open>The ways through the first part\<close>

definition verified :: "page \<Rightarrow> bool" where
  "verified pg \<longleftrightarrow> length pg = 128 \<and> sfpp_sum_verify pg = 0"

text \<open>Whether the serial id page is to be read.\<close>

definition wants_a0 :: "pm_port \<Rightarrow> bool" where
  "wants_a0 port \<longleftrightarrow> \<not> present port \<or> retry port"

text \<open>
  The possible results of the first part: no module; a module that could not be read; a page
  that passed both checksums and was parsed; a module that is known already.
\<close>

fun a0_result :: "(ext_const \<Rightarrow> string) \<Rightarrow> nat \<Rightarrow> pm_port \<Rightarrow> flow \<Rightarrow> pm_port \<Rightarrow> bool" where
  "a0_result texts n p (Return rc) p' \<longleftrightarrow>
     rc = 0 \<and> p' = module_absent p \<or>
     rc = - 1 \<and> wants_a0 p \<and> (p' = read_failed p \<or> p' = checksum_failed p)"
| "a0_result texts n p (Go_on m) p' \<longleftrightarrow>
     m \<le> n \<and>
     (\<not> wants_a0 p \<and> p' = p \<or>
      wants_a0 p \<and> (\<exists>pg. verified pg \<and> p' = parse_verified texts pg p))"

lemma a0_result_mono: "a0_result texts n p fl p' \<Longrightarrow> n \<le> m \<Longrightarrow> a0_result texts m p fl p'"
  by (cases fl) auto

lemma read_a0_part_result:
  "length a0 = 128 \<Longrightarrow>
     a0_result (cn pl) n p (fst (read_a0_part pl off n a0 p w)) (fst (snd (read_a0_part pl off n a0 p w)))"
proof (induction pl off n a0 p w rule: read_a0_part.induct)
  case (1 pl off n a0 p w)
  obtain pr w1 where pr: "pm_get_presence pl p w = (pr, w1)" by fastforce
  obtain rc data w2 where rd: "pm_read_a0 pl p off w1 = ((rc, data), w2)"
    by (metis prod_cases3 surj_pair)
  note unfold = read_a0_part.simps [of pl off n a0 p w] pr rd
  show ?case
  proof (cases "pr \<and> wants_a0 p \<and> (rc \<noteq> 0 \<or> sfpp_sum_verify (mem_write a0 data) \<noteq> 0) \<and> n \<noteq> 0")
    case True
    then obtain m where n: "n = Suc m" by (cases n) auto
    let ?r = "read_a0_part pl off m (mem_write a0 data) p (pm_reset_port pl p w2)"
    have "read_a0_part pl off n a0 p w = ?r"
      unfolding unfold using True n by (auto simp: wants_a0_def Let_def rd)
    moreover have "a0_result (cn pl) m p (fst ?r) (fst (snd ?r))"
      using "1.IH" [OF pr [symmetric] _ _ rd [symmetric] refl refl] True n "1.prems"
      by (cases "rc \<noteq> 0") (auto simp: wants_a0_def)
    ultimately show ?thesis using n by (auto intro: a0_result_mono)
  next
    case False
    then show ?thesis
      using "1.prems" by (auto simp: unfold wants_a0_def Let_def verified_def split: nat.split
          intro!: exI [of _ "mem_write a0 data"])
  qed
qed

text \<open>The diagnostic page that is published has the size of the buffer.\<close>

lemma length_read_a2_part:
  "length a2 = 128 \<Longrightarrow> length (fst (read_a2_part pl n a2 p w)) = 128"
proof (induction pl n a2 p w rule: read_a2_part.induct)
  case (1 pl n a2 p w)
  then show ?case
    by (subst read_a2_part.simps) (auto simp: Let_def sfp_dom_size split: prod.split nat.split)
qed

end
