(* ===== verification/Port_States.thy ===== *)
theory Port_States
  imports Plug_Lemmas
begin

text \<open>
  The life of a port as a state machine of four states, and the proof that
  \<open>pm_read_module_state\<close> implements it: every column of a port is at any time determined by
  its abstract state, and reading the module takes one abstract step.
\<close>

section \<open>The abstract machine\<close>

text \<open>
  A port that has just been created; no module; a module whose page cannot be read or fails
  its checksums; a module with a verified page, and the text of its diagnostic page if that was
  published.
\<close>

datatype port_state = Fresh | Absent | Unreadable | Module page "string option"

fun identified :: "port_state \<Rightarrow> bool" where
  "identified (Module pg a2) = True"
| "identified _ = False"

definition a2_text_ok :: "string option \<Rightarrow> bool" where
  "a2_text_ok a2 \<longleftrightarrow> a2 = None \<or> (\<exists>d. length d = 128 \<and> a2 = Some (hex_text d))"

inductive port_step :: "port_state \<Rightarrow> port_state \<Rightarrow> bool" where
  removed: "port_step st Absent"
| unreadable: "\<not> identified st \<Longrightarrow> port_step st Unreadable"
| inserted: "\<not> identified st \<Longrightarrow> verified pg \<Longrightarrow> a2_text_ok a2 \<Longrightarrow> port_step st (Module pg a2)"
| unchanged: "port_step (Module pg a2) (Module pg a2)"

inductive_cases port_step_ModuleE: "port_step (Module pg a2) st"
inductive_simps port_step_to_Module: "port_step st (Module pg a2)"
inductive_simps port_step_from_Module: "port_step (Module pg a2) st"

section \<open>The columns of a state\<close>

fun state_columns :: "(ext_const \<Rightarrow> string) \<Rightarrow> string \<Rightarrow> port_state \<Rightarrow> mod_field \<Rightarrow> string option" where
  "state_columns texts conn Fresh = (\<lambda>_. None)"
| "state_columns texts conn Absent =
     [Connector \<mapsto> texts CONNECTOR_ABSENT, Connector_status \<mapsto> texts CONNECTOR_STATUS_UNRECOGNIZED]"
| "state_columns texts conn Unreadable =
     [Connector \<mapsto> texts CONNECTOR_UNKNOWN, Connector_status \<mapsto> texts CONNECTOR_STATUS_UNRECOGNIZED]"
| "state_columns texts conn (Module pg a2) = (page_column texts conn pg (\<lambda>_. None))(A2 := a2)"

text \<open>The status flags of a state.\<close>

fun state_flags :: "string \<Rightarrow> port_state \<Rightarrow> pm_port \<Rightarrow> bool" where
  "state_flags conn Fresh p \<longleftrightarrow> \<not> present p"
| "state_flags conn Absent p \<longleftrightarrow> \<not> present p"
| "state_flags conn Unreadable p \<longleftrightarrow> present p \<and> retry p"
| "state_flags conn (Module pg a2) p \<longleftrightarrow>
     present p \<and> \<not> retry p \<and> verified pg \<and> optical p = media_optical (page_media conn pg)"

definition in_state :: "(ext_const \<Rightarrow> string) \<Rightarrow> string \<Rightarrow> port_state \<Rightarrow> pm_port \<Rightarrow> bool" where
  "in_state texts conn st p \<longleftrightarrow> col_text texts p = state_columns texts conn st \<and> state_flags conn st p"

text \<open>A port that the daemon manages, between two of its calls.\<close>

definition managed :: "string \<Rightarrow> pm_port \<Rightarrow> bool" where
  "managed conn p \<longleftrightarrow>
     mem_ok p \<and> yp_pluggable (module_device p) \<and> yp_connector (module_device p) = Some conn \<and>
     known_connector conn \<and> \<not> a2_read_requested p"

lemma state_flags_wants_a0: "state_flags conn st p \<Longrightarrow> wants_a0 p \<longleftrightarrow> \<not> identified st"
  by (cases st) (auto simp: wants_a0_def)

lemma not_identified_A0_uppers: "\<not> identified st \<Longrightarrow> state_columns texts conn st A0_uppers = None"
  by (cases st) auto

lemma not_identified_A2: "\<not> identified st \<Longrightarrow> state_columns texts conn st A2 = None"
  by (cases st) auto

text \<open>Only these columns of the old port are left after a parse.\<close>

lemma page_column_old:
  "old A0_uppers = None \<Longrightarrow> old A2 = None \<Longrightarrow>
     page_column texts conn pg old = page_column texts conn pg (\<lambda>_. None)"
proof
  fix f
  assume "old A0_uppers = None" "old A2 = None"
  then show "page_column texts conn pg old f = page_column texts conn pg (\<lambda>_. None) f"
    by (cases f) simp_all
qed

lemma managed_cong:
  "managed conn p \<Longrightarrow> mem_ok q \<Longrightarrow> config_of q = config_of p \<Longrightarrow> \<not> a2_read_requested q \<Longrightarrow> managed conn q"
  by (simp add: managed_def config_of_def)

lemma managed_offset: "managed conn p \<Longrightarrow> \<exists>off. serial_id_offset p = Some off"
  by (auto simp: managed_def known_connector_def serial_id_offset_def connector_is_def)

section \<open>Parsing a verified page\<close>

lemma parse_verified_state:
  assumes "managed conn p" and "in_state texts conn st p" and "\<not> identified st" and "verified pg"
  shows "col_text texts (parse_verified texts pg p) = page_column texts conn pg (\<lambda>_. None)"
    and "present (parse_verified texts pg p)" and "\<not> retry (parse_verified texts pg p)"
    and "optical (parse_verified texts pg p) = media_optical (page_media conn pg)"
proof -
  let ?q = "snd (pm_parse texts pg p)"
  have m: "mem_ok p" "yp_pluggable (module_device p)"
      "yp_connector (module_device p) = Some conn" "known_connector conn" "length pg = 128"
    using assms(1,4) by (simp_all add: managed_def verified_def)
  note parse = pm_parse_columns_lemma [OF m, of texts]
  have eq: "parse_verified texts pg p = set_a2_read_request pg (set_retry False (set_present True ?q))"
    using parse(1) by (cases "pm_parse texts pg p") (simp add: parse_verified_def)
  have "col_text texts p A0_uppers = None" "col_text texts p A2 = None"
    using assms(2,3) by (simp_all add: in_state_def not_identified_A0_uppers not_identified_A2)
  then show "col_text texts (parse_verified texts pg p) = page_column texts conn pg (\<lambda>_. None)"
    using parse(2) page_column_old [of "col_text texts p" texts conn pg] by (simp add: eq)
  show "present (parse_verified texts pg p)" "\<not> retry (parse_verified texts pg p)"
    by (simp_all add: eq)
  show "optical (parse_verified texts pg p) = media_optical (page_media conn pg)"
    using parse(3) by (simp add: eq set_a2_read_request_def Let_def setter_defs)
qed

lemma config_set_retry: "config_of (set_retry b p) = config_of p"
  by (rule cfg.keep_retry) simp

text \<open>The second part: the diagnostic page is published and the request is cleared.\<close>

definition publish_a2 :: "(ext_const \<Rightarrow> string) \<Rightarrow> page \<Rightarrow> pm_port \<Rightarrow> pm_port" where
  "publish_a2 texts a2 p = set_a2_requested False (pm_set_a2 texts a2 p)"

lemma publish_a2_text:
  assumes "yp_pluggable (module_device p)" and "yp_connector (module_device p) = Some conn"
    and "known_connector conn" and "length a2 = 128"
  shows "col_text texts (publish_a2 texts a2 p) = (col_text texts p)(A2 \<mapsto> hex_text a2)"
    and "present (publish_a2 texts a2 p) = present p" and "retry (publish_a2 texts a2 p) = retry p"
    and "\<not> a2_read_requested (publish_a2 texts a2 p)"
    and "optical (publish_a2 texts a2 p) = optical p"
  using pm_set_a2_cols [OF assms, of texts]
  by (simp_all add: publish_a2_def status_frames pm_set_a2_optical)
    (simp add: set_a2_requested_def pm_set_a2_optical)

lemma publish_a2_keeps:
  "mem_ok p \<Longrightarrow> mem_ok (publish_a2 texts a2 p)" "config_of (publish_a2 texts a2 p) = config_of p"
proof -
  show "mem_ok p \<Longrightarrow> mem_ok (publish_a2 texts a2 p)"
    by (simp add: publish_a2_def mem.keep_pm_set_a2 mem.keep_a2_requested)
  have "config_of (set_a2_requested False (pm_set_a2 texts a2 p)) = config_of p"
    by (intro cfg.keep_a2_requested pm_set_a2_config)
  then show "config_of (publish_a2 texts a2 p) = config_of p" by (simp add: publish_a2_def)
qed

section \<open>The results of \<open>pm_read_module_state\<close>\<close>

lemma pm_read_module_state_cases:
  assumes "managed conn p" and "pm_read_module_state pl p w = (rc, p', w')"
  obtains (absent) "rc = 0" "p' = module_absent p"
  | (failed) "rc = - 1" "wants_a0 p" "p' = read_failed p \<or> p' = checksum_failed p"
  | (known) "rc = 0" "\<not> wants_a0 p" "p' = p"
  | (parsed) pg where "rc = 0" "wants_a0 p" "verified pg" "p' = parse_verified (cn pl) pg p"
      "\<not> a2_read_requested p'"
  | (published) pg d where "rc = 0" "wants_a0 p" "verified pg" "length d = 128"
      "p' = publish_a2 (cn pl) d (parse_verified (cn pl) pg p)"
proof -
  obtain off where off: "serial_id_offset p = Some off" using managed_offset [OF assms(1)] by blast
  let ?a0 = "replicate (csize pm_sfp_serial_id_t) 0 :: page"
  let ?a2 = "replicate (csize pm_sfp_dom_t) 0 :: page"
  obtain fl q v where r: "read_a0_part pl off 2 ?a0 p w = (fl, q, v)" by (metis prod_cases3)
  have res: "a0_result (cn pl) 2 p fl q"
    using read_a0_part_result [of ?a0 pl 2 p off w] r by (simp add: sfp_serial_id_size)
  have no_request: "\<not> a2_read_requested p" using assms(1) by (simp add: managed_def)
  show ?thesis
  proof (cases fl)
    case (Return c)
    then have "rc = c" "p' = q" using assms(2) off r by (simp_all add: pm_read_module_state_def)
    then show ?thesis using res Return absent failed by auto
  next
    case (Go_on m)
    obtain d u where d: "read_a2_part pl m ?a2 q v = (d, u)" by fastforce
    have len: "length d = 128" using length_read_a2_part [of ?a2 pl m q v] d by (simp add: sfp_dom_size)
    have p': "rc = 0 \<and> p' = (if a2_read_requested q then publish_a2 (cn pl) d q else q)"
      using assms(2) off r Go_on d by (auto simp: pm_read_module_state_def publish_a2_def split: if_splits)
    show ?thesis
    proof (cases "wants_a0 p")
      case False
      then show ?thesis using res Go_on p' no_request known by simp
    next
      case True
      then obtain pg where "verified pg" "q = parse_verified (cn pl) pg p" using res Go_on by auto
      then show ?thesis using p' True len parsed published by (cases "a2_read_requested q") auto
    qed
  qed
qed

text \<open>The whole of the port's data survives, and no request is left.\<close>

lemma pm_read_module_state_managed:
  assumes "managed conn p"
  shows "managed conn (fst (snd (pm_read_module_state pl p w)))"
proof -
  obtain rc p' w' where r: "pm_read_module_state pl p w = (rc, p', w')" by (metis prod_cases3)
  have "mem_ok p" "\<not> a2_read_requested p" using assms by (simp_all add: managed_def)
  moreover have "mem_ok p'" using mem.keep_read_module_state [of p pl w] r \<open>mem_ok p\<close> by simp
  moreover have "config_of p' = config_of p"
    using cfg.keep_read_module_state [of p "config_of p" pl w] r by simp
  moreover have "\<not> a2_read_requested p'"
    using assms r
  proof (cases rule: pm_read_module_state_cases)
    case absent
    then show ?thesis using \<open>\<not> a2_read_requested p\<close> by simp
  next
    case failed
    then show ?thesis using \<open>\<not> a2_read_requested p\<close> by auto
  next
    case known
    then show ?thesis using \<open>\<not> a2_read_requested p\<close> by simp
  next
    case (published pg d)
    then show ?thesis by (simp add: publish_a2_def)
  qed
  ultimately show ?thesis using managed_cong [OF assms, of p'] r by simp
qed

section \<open>The simulation\<close>

lemma in_state_absent:
  assumes "in_state texts conn st p"
  shows "in_state texts conn Absent (module_absent p)"
proof (cases "present p \<or> ovs_module_columns p Connector = None")
  case True
  then show ?thesis by (simp add: in_state_def col_text_absent)
next
  case False
  then have "col_text texts p Connector \<noteq> None" by (simp add: col_text_def)
  then have "st = Absent" using assms False by (cases st) (auto simp: in_state_def)
  then show ?thesis using assms False by (simp add: in_state_def col_text_absent)
qed

lemma in_state_failed:
  "in_state texts conn Unreadable (read_failed p)" "in_state texts conn Unreadable (checksum_failed p)"
  by (simp_all add: in_state_def col_text_failed)

lemma in_state_module:
  assumes "col_text texts p = page_column texts conn pg (\<lambda>_. None)" and "present p" and "\<not> retry p"
    and "optical p = media_optical (page_media conn pg)" and "verified pg"
  shows "in_state texts conn (Module pg None) p"
  using assms by (auto simp: in_state_def fun_upd_idem)

definition state_result :: "port_state \<Rightarrow> int" where
  "state_result st = (if st = Unreadable then - 1 else 0)"

lemma read_module_simulation:
  assumes "managed conn p" and "in_state (cn pl) conn st p"
  shows "\<exists>st'. port_step st st' \<and> fst (pm_read_module_state pl p w) = state_result st' \<and>
    in_state (cn pl) conn st' (fst (snd (pm_read_module_state pl p w)))"
proof -
  obtain rc p' w' where r: "pm_read_module_state pl p w = (rc, p', w')" by (metis prod_cases3)
  have wants: "wants_a0 p \<longleftrightarrow> \<not> identified st"
    using assms(2) state_flags_wants_a0 [of conn st p] by (simp add: in_state_def)
  have "\<exists>st'. port_step st st' \<and> rc = state_result st' \<and> in_state (cn pl) conn st' p'"
    using assms(1) r
  proof (cases rule: pm_read_module_state_cases)
    case absent
    then show ?thesis using in_state_absent [OF assms(2)] removed [of st]
      by (intro exI [of _ Absent]) (simp add: state_result_def)
  next
    case failed
    then show ?thesis using in_state_failed [of "cn pl" conn p] wants unreadable [of st]
      by (intro exI [of _ Unreadable]) (auto simp: state_result_def)
  next
    case known
    then obtain pg a2 where "st = Module pg a2" using wants by (cases st) auto
    then show ?thesis using known assms(2) unchanged [of pg a2]
      by (intro exI [of _ st]) (simp add: state_result_def)
  next
    case (parsed pg)
    then have new: "\<not> identified st" using wants by simp
    have "in_state (cn pl) conn (Module pg None) p'"
      using parse_verified_state [OF assms new parsed(3)] parsed(3,4) by (simp add: in_state_module)
    moreover have "port_step st (Module pg None)"
      using new parsed(3) by (simp add: inserted a2_text_ok_def)
    ultimately show ?thesis using parsed(1)
      by (intro exI [of _ "Module pg None"]) (simp add: state_result_def)
  next
    case (published pg d)
    then have new: "\<not> identified st" using wants by simp
    let ?q = "parse_verified (cn pl) pg p"
    have "config_of ?q = config_of p" by (rule cfg.keep_parse_verified) simp
    then have q: "yp_pluggable (module_device ?q)" "yp_connector (module_device ?q) = Some conn"
      "known_connector conn" using assms(1) by (simp_all add: managed_def config_of_def)
    have "in_state (cn pl) conn (Module pg (Some (hex_text d))) p'"
      using parse_verified_state [OF assms new published(3)] published(3,5)
        publish_a2_text [OF q published(4)]
      by (simp add: in_state_def)
    moreover have "port_step st (Module pg (Some (hex_text d)))"
      using new published(3,4) by (intro inserted) (auto simp: a2_text_ok_def)
    ultimately show ?thesis using published(1)
      by (intro exI [of _ "Module pg (Some (hex_text d))"]) (simp add: state_result_def)
  qed
  then show ?thesis using r by simp
qed

end
