(* ===== verification/Plug_Props.thy ===== *)
theory Plug_Props
  imports Port_States
begin

text \<open>The properties of \<open>src/plug.c\<close>, with a concrete platform on which they are applied.\<close>

section \<open>A platform\<close>

text \<open>
  The world is the log of the accesses. All accesses succeed; a module with page \<open>pg\<close> is
  always present.
\<close>

datatype i2c_event =
  Reg_read i2c_bit_op | Reg_write i2c_bit_op "32 word" | Data_read nat | Data_write nat "byte list"

definition sample_platform :: "bool \<Rightarrow> page \<Rightarrow> i2c_event list platform" where
  "sample_platform sim pg =
     \<lparr>simulation = sim, cn = (\<lambda>_. ''''),
      yaml_new_config_handle = (\<lambda>w. w),
      yaml_add_subsystem = (\<lambda>_ _ w. (0, w)),
      yaml_parse_devices = (\<lambda>_ w. (0, w)),
      yaml_parse_ports = (\<lambda>_ w. (0, w)),
      yaml_init_devices = (\<lambda>_ w. w),
      yaml_get_port_count = (\<lambda>_ _. 1),
      yaml_get_port = (\<lambda>_ _ _. sample_yaml CONNECTOR_SFP_PLUS),
      yaml_find_device = (\<lambda>_ _ _. None),
      yaml_add_device = (\<lambda>_ _ _ w. (0, w)),
      i2c_reg_read = (\<lambda>_ op w. ((0, 1), w @ [Reg_read op])),
      i2c_reg_write = (\<lambda>_ op v w. (0, w @ [Reg_write op v])),
      i2c_data_read = (\<lambda>_ _ off n w. ((0, take n pg), w @ [Data_read off])),
      i2c_data_write = (\<lambda>_ _ off bs w. (0, w @ [Data_write off bs])),
      file_contents = (\<lambda>_ _. Some pg),
      slot = (\<lambda>_ _. 0)\<rparr>"

lemma sample_port_ok [simp]:
  "managed conn (sample_port conn) \<longleftrightarrow> known_connector conn"
  "in_state texts conn Fresh (sample_port conn)"
  by (simp_all add: managed_def in_state_def) (simp_all add: sample_port_def)

lemma sample_verified [simp]: "verified SFP_SR_AVAGO" "verified SFP_DAC_MOLEX"
  by (simp_all add: verified_def sample_checks)

section \<open>The life of a port\<close>

text \<open>
C3: reading the state of a module implements the abstract port machine: in whatever way the
hardware answers, a port whose columns are those of an abstract state ends with the columns and
flags of a successor of that state (removed, unreadable, newly identified by a page that passed
both checksums, or unchanged), the result is -1 exactly when the module is unreadable, and the
port stays one that the daemon manages.
\<close>

theorem pm_read_module_state_simulation:
  assumes "managed conn port" and "in_state (cn pl) conn st port"
  shows "\<exists>st'. port_step st st' \<and> fst (pm_read_module_state pl port w) = state_result st' \<and>
    in_state (cn pl) conn st' (fst (snd (pm_read_module_state pl port w))) \<and>
    managed conn (fst (snd (pm_read_module_state pl port w)))"
  using read_module_simulation [OF assms, of w] pm_read_module_state_managed [OF assms(1), of pl w]
  by blast

theorem pm_read_module_state_simulation_witness:
  "\<exists>st'. port_step Fresh st' \<and>
     in_state (\<lambda>_. '''') CONNECTOR_SFP_PLUS st'
       (fst (snd (pm_read_module_state (sample_platform False SFP_SR_AVAGO)
          (sample_port CONNECTOR_SFP_PLUS) [])))"
  using pm_read_module_state_simulation [of CONNECTOR_SFP_PLUS "sample_port CONNECTOR_SFP_PLUS"
      "sample_platform False SFP_SR_AVAGO" Fresh "[]"]
  by (auto simp: sample_platform_def)

text \<open>
C24: no call of \<open>pm_read_module_state\<close>, on any port and platform, frees a string constant,
leaks a column or writes the configuration of the port.
\<close>

theorem pm_read_module_state_safe:
  assumes "mem_ok port"
  shows "mem_ok (fst (snd (pm_read_module_state pl port w))) \<and>
    config_of (fst (snd (pm_read_module_state pl port w))) = config_of port"
  using mem.keep_read_module_state [OF assms, of pl w]
    cfg.keep_read_module_state [of port "config_of port" pl w] by simp

theorem pm_read_module_state_safe_witness:
  "mem_ok (fst (snd (pm_read_module_state (sample_platform True SFP_SR_AVAGO) (sample_port ''XFP'') [])))"
  using pm_read_module_state_safe [of "sample_port ''XFP''" "sample_platform True SFP_SR_AVAGO" "[]"]
  by simp

section \<open>An insertion\<close>

lemma presence_now:
  assumes "\<not> simulation pl" and "presence_op p = Some op"
    and "i2c_reg_read pl (subsystem p) op w = ((0, r), w1)"
  shows "pm_get_presence pl p w = (r \<noteq> 0, w1)"
  using assms by (simp add: pm_get_presence_def presence_retry_ok)

lemma managed_presence_op: "managed conn p \<Longrightarrow> \<exists>op. presence_op p = Some op"
  by (auto simp: managed_def known_connector_def presence_op_def connector_is_def)

lemma read_a0_part_good:
  assumes "pm_get_presence pl p w = (True, w1)" and "wants_a0 p"
    and "pm_read_a0 pl p off w1 = ((0, pg), w2)" and "verified pg" and "length a0 = 128"
  shows "read_a0_part pl off n a0 p w = (Go_on n, parse_verified (cn pl) pg p, w2)"
  using assms by (subst read_a0_part.simps) (auto simp: verified_def wants_a0_def Let_def)

lemma read_module_good:
  assumes p: "managed conn p" "in_state (cn pl) conn st p" "\<not> identified st"
    and hw: "pm_get_presence pl p w = (True, w1)"
      "\<And>off. serial_id_offset p = Some off \<Longrightarrow> pm_read_a0 pl p off w1 = ((0, pg), w2)"
    and pg: "verified pg"
  shows "fst (pm_read_module_state pl p w) = 0 \<and>
    (\<exists>a2. in_state (cn pl) conn (Module pg a2) (fst (snd (pm_read_module_state pl p w))))"
proof -
  obtain off where off: "serial_id_offset p = Some off" using managed_offset [OF p(1)] by blast
  let ?a0 = "replicate (csize pm_sfp_serial_id_t) 0 :: page" and ?q = "parse_verified (cn pl) pg p"
  have wants: "wants_a0 p"
    using p(2,3) state_flags_wants_a0 [of conn st p] by (simp add: in_state_def)
  have r: "read_a0_part pl off 2 ?a0 p w = (Go_on 2, ?q, w2)"
    using read_a0_part_good [OF hw(1) wants hw(2) [OF off] pg] by (simp add: sfp_serial_id_size)
  obtain d u where d: "read_a2_part pl 2 (replicate (csize pm_sfp_dom_t) 0) ?q w2 = (d, u)" by fastforce
  have len: "length d = 128"
    using length_read_a2_part [of "replicate (csize pm_sfp_dom_t) 0" pl 2 ?q w2] d
    by (simp add: sfp_dom_size)
  have res: "pm_read_module_state pl p w =
      (if a2_read_requested ?q then (0, publish_a2 (cn pl) d ?q, u) else (0, ?q, w2))"
    using off r d by (simp add: pm_read_module_state_def publish_a2_def)
  have "config_of ?q = config_of p" by (rule cfg.keep_parse_verified) simp
  then have q: "yp_pluggable (module_device ?q)" "yp_connector (module_device ?q) = Some conn"
    "known_connector conn" using p(1) by (simp_all add: managed_def config_of_def)
  have "in_state (cn pl) conn (Module pg None) ?q"
    using parse_verified_state [OF p pg] pg by (simp add: in_state_module)
  moreover have "in_state (cn pl) conn (Module pg (Some (hex_text d))) (publish_a2 (cn pl) d ?q)"
    using parse_verified_state [OF p pg] pg publish_a2_text [OF q len] by (simp add: in_state_def)
  ultimately show ?thesis using res by (cases "a2_read_requested ?q") auto
qed

text \<open>
C15: a readable module is identified at once: when the presence register and the serial id page
of a port that is not yet identified can be read, and the page passes its checksums, one call
of \<open>pm_read_module_state\<close> returns 0 and publishes that page.
\<close>

theorem pm_read_module_state_identifies:
  assumes "managed conn port" and "in_state (cn pl) conn st port" and "\<not> identified st"
    and "\<not> simulation pl" and "presence_op port = Some op"
    and "i2c_reg_read pl (subsystem port) op w = ((0, r), w1)" and "r \<noteq> 0"
    and "serial_id_offset port = Some off"
    and "i2c_data_read pl (yaml_find_device pl w1 (subsystem port) (yp_module_eeprom (module_device port)))
           (subsystem port) off 128 w1 = ((0, pg), w2)"
    and "verified pg"
  shows "fst (pm_read_module_state pl port w) = 0 \<and>
    (\<exists>a2. in_state (cn pl) conn (Module pg a2) (fst (snd (pm_read_module_state pl port w))))"
proof (rule read_module_good [OF assms(1-3)])
  show "pm_get_presence pl port w = (True, w1)"
    using presence_now [OF assms(4-6)] assms(7) by simp
  show "pm_read_a0 pl port x w1 = ((0, pg), w2)" if "serial_id_offset port = Some x" for x
    using that assms(4,8,9) by (simp add: pm_read_a0_def sfp_serial_id_size Let_def)
qed (rule assms(10))

theorem pm_read_module_state_identifies_witness:
  "\<exists>a2. in_state (\<lambda>_. '''') CONNECTOR_SFP_PLUS (Module SFP_SR_AVAGO a2)
     (fst (snd (pm_read_module_state (sample_platform False SFP_SR_AVAGO)
        (sample_port CONNECTOR_SFP_PLUS) [])))"
proof -
  let ?pl = "sample_platform False SFP_SR_AVAGO" and ?p = "sample_port CONNECTOR_SFP_PLUS"
  have "fst (pm_read_module_state ?pl ?p []) = 0 \<and>
    (\<exists>a2. in_state (cn ?pl) CONNECTOR_SFP_PLUS (Module SFP_SR_AVAGO a2)
       (fst (snd (pm_read_module_state ?pl ?p []))))"
    by (rule pm_read_module_state_identifies [where st = Fresh and op = sample_bit_op and r = 1 and off = 0])
      (simp_all add: sample_platform_def presence_op_def serial_id_offset_def connector_is_def
        SFP_SERIAL_ID_OFFSET_def, simp_all add: sample_yaml_def)
  then show ?thesis by (simp add: sample_platform_def)
qed

section \<open>A module that is known\<close>

text \<open>
C25: an identified module is not read again: as long as it is present, a call returns 0, leaves
the port as it is, diagnostics included, and accesses nothing but the presence register.
\<close>

theorem pm_read_module_state_idle:
  assumes "managed conn port" and "in_state (cn pl) conn st port" and "identified st"
    and "pm_get_presence pl port w = (True, w1)"
  shows "pm_read_module_state pl port w = (0, port, w1)"
proof -
  obtain off where off: "serial_id_offset port = Some off" using managed_offset [OF assms(1)] by blast
  have "\<not> wants_a0 port"
    using assms(2,3) state_flags_wants_a0 [of conn st port] by (simp add: in_state_def)
  then have "read_a0_part pl off n a0 port w = (Go_on n, port, w1)" for n a0
    using assms(4) by (subst read_a0_part.simps) (auto simp: wants_a0_def)
  then show ?thesis using off assms(1) by (simp add: pm_read_module_state_def managed_def)
qed

text \<open>The sample port after an insertion of the sample module.\<close>

definition sample_inserted :: pm_port where
  "sample_inserted =
     fst (snd (pm_read_module_state (sample_platform False SFP_SR_AVAGO) (sample_port CONNECTOR_SFP_PLUS) []))"

lemma sample_platform_simps [simp]:
  "simulation (sample_platform sim pg) = sim" "cn (sample_platform sim pg) = (\<lambda>_. '''')"
  by (simp_all add: sample_platform_def)

lemma sample_presence:
  "pm_get_presence (sample_platform False pg) p w = (True, w @ [Reg_read op])" if "presence_op p = Some op"
proof -
  have "i2c_reg_read (sample_platform False pg) (subsystem p) op w = ((0, 1), w @ [Reg_read op])"
    by (simp add: sample_platform_def)
  then show ?thesis using presence_now [of "sample_platform False pg" p op w 1] that by simp
qed

lemma sample_ops [simp]:
  "presence_op (sample_port CONNECTOR_SFP_PLUS) = Some sample_bit_op"
  "serial_id_offset (sample_port CONNECTOR_SFP_PLUS) = Some 0"
  by (simp_all add: presence_op_def serial_id_offset_def connector_is_def SFP_SERIAL_ID_OFFSET_def)
    (simp add: sample_yaml_def)

lemma sample_inserted_state:
  "managed CONNECTOR_SFP_PLUS sample_inserted"
  "\<exists>a2. in_state (\<lambda>_. '''') CONNECTOR_SFP_PLUS (Module SFP_SR_AVAGO a2) sample_inserted"
proof -
  let ?pl = "sample_platform False SFP_SR_AVAGO" and ?p = "sample_port CONNECTOR_SFP_PLUS"
  show "managed CONNECTOR_SFP_PLUS sample_inserted"
    unfolding sample_inserted_def by (rule pm_read_module_state_managed) simp
  have "fst (pm_read_module_state ?pl ?p []) = 0 \<and>
    (\<exists>a2. in_state (cn ?pl) CONNECTOR_SFP_PLUS (Module SFP_SR_AVAGO a2)
       (fst (snd (pm_read_module_state ?pl ?p []))))"
    by (rule read_module_good [where st = Fresh and ?w1.0 = "[Reg_read sample_bit_op]"
          and ?w2.0 = "[Reg_read sample_bit_op, Data_read 0]"])
      (simp_all add: sample_presence, simp add: pm_read_a0_def sample_platform_def sfp_serial_id_size Let_def)
  then show "\<exists>a2. in_state (\<lambda>_. '''') CONNECTOR_SFP_PLUS (Module SFP_SR_AVAGO a2) sample_inserted"
    by (simp add: sample_inserted_def)
qed

lemma sample_inserted_presence: "presence_op sample_inserted = Some sample_bit_op"
proof -
  have "config_of sample_inserted = config_of (sample_port CONNECTOR_SFP_PLUS)"
    unfolding sample_inserted_def by (rule cfg.keep_read_module_state) simp
  then have "module_device sample_inserted = sample_yaml CONNECTOR_SFP_PLUS"
    by (simp add: config_of_def)
  then show ?thesis by (simp add: presence_op_def connector_is_def) (simp add: sample_yaml_def)
qed

theorem pm_read_module_state_idle_witness:
  "pm_read_module_state (sample_platform False QSFP_CR4_MOLEX) sample_inserted [] =
     (0, sample_inserted, [Reg_read sample_bit_op])"
proof -
  obtain a2 where "in_state (\<lambda>_. '''') CONNECTOR_SFP_PLUS (Module SFP_SR_AVAGO a2) sample_inserted"
    using sample_inserted_state(2) by blast
  then show ?thesis
    using pm_read_module_state_idle [OF sample_inserted_state(1),
        of "sample_platform False QSFP_CR4_MOLEX" "Module SFP_SR_AVAGO a2" "[]"]
      sample_presence [OF sample_inserted_presence, of QSFP_CR4_MOLEX "[]"]
    by simp
qed

text \<open>
C26: a module that is not present leaves a managed port with exactly two columns, the connector
(absent) and the status (unrecognized), whatever was published before; the diagnostic columns
are left as they were, so that the values of a removed module stay published.
\<close>

theorem pm_read_module_state_removed:
  assumes "managed conn port" and "in_state (cn pl) conn st port"
    and "pm_get_presence pl port w = (False, w1)"
  shows "let port' = fst (snd (pm_read_module_state pl port w)) in
    fst (pm_read_module_state pl port w) = 0 \<and> \<not> present port' \<and>
    col_text (cn pl) port' = [Connector \<mapsto> cn pl CONNECTOR_ABSENT,
                              Connector_status \<mapsto> cn pl CONNECTOR_STATUS_UNRECOGNIZED] \<and>
    ovs_module_dom_columns port' = ovs_module_dom_columns port"
proof -
  obtain off where off: "serial_id_offset port = Some off" using managed_offset [OF assms(1)] by blast
  have "read_a0_part pl off n a0 port w = (Return 0, module_absent port, w1)" for n a0
    using assms(3) by (subst read_a0_part.simps) simp
  then have r: "pm_read_module_state pl port w = (0, module_absent port, w1)"
    using off by (simp add: pm_read_module_state_def)
  have "ovs_module_dom_columns (module_absent port) = ovs_module_dom_columns port"
  proof -
    have "ovs_module_dom_columns (SET_STATIC_STRING Connector_status CONNECTOR_STATUS_UNRECOGNIZED
        (SET_STATIC_STRING Connector CONNECTOR_ABSENT (pm_delete_all_data (set_present False port))))
      = ovs_module_dom_columns port"
      by (intro dom_frame.keep_static dom_frame.keep_delete_all) (simp_all add: set_present_def)
    then show ?thesis by (simp add: module_absent_def)
  qed
  then show ?thesis
    using in_state_absent [OF assms(2)] by (simp add: r in_state_def)
qed

theorem pm_read_module_state_removed_witness:
  "col_text (\<lambda>_. '''') (fst (snd (pm_read_module_state
       ((sample_platform False SFP_SR_AVAGO)\<lparr>i2c_reg_read := \<lambda>_ op w. ((0, 0), w)\<rparr>)
       sample_inserted []))) Vendor_name = None"
proof -
  let ?pl = "(sample_platform False SFP_SR_AVAGO)\<lparr>i2c_reg_read := \<lambda>_ op w. ((0, 0), w)\<rparr>"
  obtain a2 where "in_state (\<lambda>_. '''') CONNECTOR_SFP_PLUS (Module SFP_SR_AVAGO a2) sample_inserted"
    using sample_inserted_state(2) by blast
  moreover have "pm_get_presence ?pl sample_inserted [] = (False, [])"
    using presence_now [of ?pl sample_inserted sample_bit_op "[]" 0 "[]"] sample_inserted_presence
    by simp
  ultimately show ?thesis
    using pm_read_module_state_removed [OF sample_inserted_state(1), of ?pl "Module SFP_SR_AVAGO a2" "[]" "[]"]
    by (simp add: Let_def)
qed

section \<open>Bounded access\<close>

text \<open>Any platform, with counters of the register reads and of the page reads in its world.\<close>

definition counting :: "'w platform \<Rightarrow> ('w \<times> nat \<times> nat) platform" where
  "counting pl =
     \<lparr>simulation = simulation pl, cn = cn pl,
      yaml_new_config_handle = (\<lambda>(w, c). (yaml_new_config_handle pl w, c)),
      yaml_add_subsystem = (\<lambda>s d (w, c). case yaml_add_subsystem pl s d w of (x, w) \<Rightarrow> (x, w, c)),
      yaml_parse_devices = (\<lambda>s (w, c). case yaml_parse_devices pl s w of (x, w) \<Rightarrow> (x, w, c)),
      yaml_parse_ports = (\<lambda>s (w, c). case yaml_parse_ports pl s w of (x, w) \<Rightarrow> (x, w, c)),
      yaml_init_devices = (\<lambda>s (w, c). (yaml_init_devices pl s w, c)),
      yaml_get_port_count = (\<lambda>w. yaml_get_port_count pl (fst w)),
      yaml_get_port = (\<lambda>w. yaml_get_port pl (fst w)),
      yaml_find_device = (\<lambda>w. yaml_find_device pl (fst w)),
      yaml_add_device = (\<lambda>s n d (w, c). case yaml_add_device pl s n d w of (x, w) \<Rightarrow> (x, w, c)),
      i2c_reg_read = (\<lambda>s op (w, r, d). case i2c_reg_read pl s op w of (x, w) \<Rightarrow> (x, w, Suc r, d)),
      i2c_reg_write = (\<lambda>s op v (w, r, d). case i2c_reg_write pl s op v w of (x, w) \<Rightarrow> (x, w, r, d)),
      i2c_data_read = (\<lambda>dev s off n (w, r, d).
        case i2c_data_read pl dev s off n w of (x, w) \<Rightarrow> (x, w, r, Suc d)),
      i2c_data_write = (\<lambda>dev s off bs (w, r, d).
        case i2c_data_write pl dev s off bs w of (x, w) \<Rightarrow> (x, w, r, d)),
      file_contents = (\<lambda>w. file_contents pl (fst w)),
      slot = slot pl\<rparr>"

text \<open>The counters.\<close>

definition reg_reads :: "'w \<times> nat \<times> nat \<Rightarrow> nat" where "reg_reads w = fst (snd w)"
definition page_reads :: "'w \<times> nat \<times> nat \<Rightarrow> nat" where "page_reads w = snd (snd w)"

lemma counting_simps:
  "reg_reads (snd (i2c_reg_read (counting pl) s op w)) = Suc (reg_reads w)"
  "page_reads (snd (i2c_reg_read (counting pl) s op w)) = page_reads w"
  "reg_reads (snd (i2c_reg_write (counting pl) s op v w)) = reg_reads w"
  "page_reads (snd (i2c_reg_write (counting pl) s op v w)) = page_reads w"
  "reg_reads (snd (i2c_data_read (counting pl) dev s off n w)) = reg_reads w"
  "page_reads (snd (i2c_data_read (counting pl) dev s off n w)) = Suc (page_reads w)"
  by (auto simp: counting_def reg_reads_def page_reads_def split: prod.splits)

lemma count_presence_retry:
  "reg_reads (snd (presence_retry (counting pl) p op n w)) \<le> reg_reads w + Suc n \<and>
   page_reads (snd (presence_retry (counting pl) p op n w)) = page_reads w"
proof (induction n arbitrary: w)
  case 0
  then show ?case
    using counting_simps(1,2) [where pl = pl and s = "subsystem p" and op = op and w = w]
    by (subst (1 2) presence_retry.simps) (auto split: prod.split)
next
  case (Suc n)
  obtain rc r w1 where i: "i2c_reg_read (counting pl) (subsystem p) op w = ((rc, r), w1)"
    by (metis prod_cases3 surj_pair)
  then have "reg_reads w1 = Suc (reg_reads w)" "page_reads w1 = page_reads w"
    using counting_simps(1,2) [where pl = pl and s = "subsystem p" and op = op and w = w] by simp_all
  then show ?case using Suc [of w1] i by (subst (1 2) presence_retry.simps) auto
qed

lemma count_presence:
  "reg_reads (snd (pm_get_presence (counting pl) p w)) \<le> reg_reads w + 3"
  "page_reads (snd (pm_get_presence (counting pl) p w)) = page_reads w"
  using count_presence_retry [of pl p _ 2 w]
  by (auto simp: pm_get_presence_def eval_nat_numeral split: option.split)

lemma count_reset:
  "reg_reads (pm_reset_port (counting pl) p w) = reg_reads w"
  "page_reads (pm_reset_port (counting pl) p w) = page_reads w"
  by (simp_all add: pm_reset_port_def pm_clear_reset_def pm_reset_def counting_simps split: option.split)

lemma count_read_a0:
  "reg_reads (snd (pm_read_a0 (counting pl) p off w)) = reg_reads w"
  "page_reads (snd (pm_read_a0 (counting pl) p off w)) \<le> Suc (page_reads w)"
  using counting_simps(5,6) [where pl = pl and s = "subsystem p" and w = w]
  by (auto simp: pm_read_a0_def Let_def split: prod.splits) (metis order_refl snd_conv)+

lemma count_read_a2:
  "reg_reads (snd (pm_read_a2 (counting pl) p w)) = reg_reads w"
  "page_reads (snd (pm_read_a2 (counting pl) p w)) \<le> Suc (page_reads w)"
  using counting_simps(5,6) [where pl = pl and s = "subsystem p" and w = w]
  by (auto simp: pm_read_a2_def Let_def split: prod.splits) (metis order_refl snd_conv)+

fun retries_left :: "flow \<Rightarrow> nat" where
  "retries_left (Return rc) = 0"
| "retries_left (Go_on m) = m"

lemma count_read_a0_part:
  "case read_a0_part (counting pl) off n a0 p w of (fl, p', w') \<Rightarrow>
     page_reads w' + retries_left fl \<le> page_reads w + n + 1 \<and>
     reg_reads w' + 3 * retries_left fl \<le> reg_reads w + 3 * n + 3"
proof (induction n arbitrary: a0 w rule: less_induct)
  case (less n a0 w)
  let ?pl = "counting pl"
  obtain pr w1 where pr: "pm_get_presence ?pl p w = (pr, w1)" by (metis surj_pair)
  obtain rc data w2 where rd: "pm_read_a0 ?pl p off w1 = ((rc, data), w2)"
    by (metis prod_cases3 surj_pair)
  have c: "reg_reads w2 \<le> reg_reads w + 3" "page_reads w2 \<le> page_reads w + 1"
    "reg_reads w1 \<le> reg_reads w + 3" "page_reads w1 = page_reads w"
    using count_presence [where pl = pl and p = p and w = w]
      count_read_a0 [where pl = pl and p = p and off = off and w = w1] pr rd by auto
  note unfold = read_a0_part.simps [of ?pl off n a0 p w] pr rd
  show ?case
  proof (cases "pr \<and> wants_a0 p \<and> (rc \<noteq> 0 \<or> sfpp_sum_verify (mem_write a0 data) \<noteq> 0) \<and> n \<noteq> 0")
    case True
    then obtain m where n: "n = Suc m" by (cases n) auto
    let ?r = "read_a0_part ?pl off m (mem_write a0 data) p (pm_reset_port ?pl p w2)"
    have "read_a0_part ?pl off n a0 p w = ?r"
      unfolding unfold using True n by (auto simp: wants_a0_def Let_def rd)
    moreover have "case ?r of (fl, p', w') \<Rightarrow>
        page_reads w' + retries_left fl \<le> page_reads w2 + m + 1 \<and>
        reg_reads w' + 3 * retries_left fl \<le> reg_reads w2 + 3 * m + 3"
      using less.IH [where y = m and ?a0.0 = "mem_write a0 data" and w = "pm_reset_port ?pl p w2"] n by (simp add: count_reset)
    ultimately show ?thesis using n c by (auto split: prod.splits)
  next
    case False
    then show ?thesis
      using c unfolding unfold by (auto simp: wants_a0_def Let_def rd split: nat.split)
  qed
qed

lemma count_read_a2_part:
  "page_reads (snd (read_a2_part (counting pl) n a2 p w)) \<le> page_reads w + n + 1 \<and>
   reg_reads (snd (read_a2_part (counting pl) n a2 p w)) = reg_reads w"
proof (induction n arbitrary: a2 w)
  case 0
  then show ?case
    using count_read_a2 [where pl = pl and p = p and w = w] by (subst (1 2) read_a2_part.simps) (auto simp: Let_def split: prod.split)
next
  case (Suc n)
  obtain rc data w1 where i: "pm_read_a2 (counting pl) p w = ((rc, data), w1)"
    by (metis prod_cases3 surj_pair)
  then have "reg_reads w1 = reg_reads w" "page_reads w1 \<le> Suc (page_reads w)"
    using count_read_a2 [where pl = pl and p = p and w = w] by simp_all
  then show ?case
    using Suc [of "mem_write a2 data" w1] i by (subst (1 2) read_a2_part.simps) (auto simp: Let_def)
qed

text \<open>
C16: every call of \<open>pm_read_module_state\<close> ends after a bounded number of accesses, on any
hardware: since the two retries are shared by the serial id page and the diagnostic page, at
most four pages are read, and the presence register is read at most nine times.
\<close>

theorem pm_read_module_state_bounded:
  "page_reads (snd (snd (pm_read_module_state (counting pl) port w))) \<le> page_reads w + 4 \<and>
   reg_reads (snd (snd (pm_read_module_state (counting pl) port w))) \<le> reg_reads w + 9"
proof (cases "serial_id_offset port")
  case None
  then show ?thesis by (simp add: pm_read_module_state_def)
next
  case (Some off)
  let ?a0 = "replicate (csize pm_sfp_serial_id_t) 0" and ?pl = "counting pl"
  obtain fl p w1 where r: "read_a0_part ?pl off 2 ?a0 port w = (fl, p, w1)" by (metis prod_cases3)
  have c: "page_reads w1 + retries_left fl \<le> page_reads w + 3"
    "reg_reads w1 + 3 * retries_left fl \<le> reg_reads w + 9"
    using count_read_a0_part [where pl = pl and off = off and n = 2 and ?a0.0 = ?a0
        and p = port and w = w] r by simp_all
  show ?thesis
  proof (cases fl)
    case (Return rc)
    then show ?thesis using Some r c by (simp add: pm_read_module_state_def)
  next
    case (Go_on m)
    then show ?thesis
      using Some r c count_read_a2_part [where pl = pl and n = m
          and ?a2.0 = "replicate (csize pm_sfp_dom_t) 0" and p = p and w = w1]
      by (auto simp: pm_read_module_state_def split: prod.split)
  qed
qed

end
