(* ===== verification/Enable_Props.thy ===== *)
theory Enable_Props
  imports Plug_Props
begin

text \<open>
  The properties of the other operations of \<open>src/plug.c\<close>: enabling and disabling
  transmitters, and the insertion and removal of simulated modules.
\<close>

section \<open>The disable byte\<close>

lemma bit_subport_mask:
  "idx + length es \<le> 8 \<Longrightarrow>
     bit (subport_mask es idx d) i \<longleftrightarrow>
       bit d i \<or> (idx \<le> i \<and> i < idx + length es \<and> \<not> es ! (i - idx))"
proof (induction es idx d rule: subport_mask.induct)
  case (1 idx d)
  then show ?case by auto
next
  case (2 e es idx d)
  have new: "bit (if \<not> e then d OR push_bit idx 1 else d) i \<longleftrightarrow> bit d i \<or> (i = idx \<and> \<not> e)"
    using 2(2) by (auto simp: bit_simps dest: bit_imp_le_length)
  have nth: "(e # es) ! (i - idx) = (if i = idx then e else es ! (i - Suc idx))" if "idx \<le> i"
    using that by (auto simp: nth_Cons' Suc_diff_le)
  have "bit (subport_mask (e # es) idx d) i \<longleftrightarrow>
      (bit d i \<or> (i = idx \<and> \<not> e)) \<or>
      (Suc idx \<le> i \<and> i < Suc idx + length es \<and> \<not> es ! (i - Suc idx))"
    using 2 new by simp
  also have "\<dots> \<longleftrightarrow> bit d i \<or> (idx \<le> i \<and> i < idx + length (e # es) \<and> \<not> (e # es) ! (i - idx))"
    using nth by (cases "i = idx") auto
  finally show ?case .
qed

lemma bit_0x0f: "bit (0x0f :: byte) i \<longleftrightarrow> i < 4"
proof -
  have "(0x0f :: byte) = mask 4" by (simp add: mask_eq_exp_minus_1)
  then show ?thesis by (simp only: bit_mask_iff) auto
qed

lemma bit_qsfp_disable_data:
  assumes "length (hw_enable_subport port) = MAX_SPLIT_COUNT"
  shows "bit (qsfp_disable_data port) i \<longleftrightarrow>
    i < MAX_SPLIT_COUNT \<and>
    \<not> (if split_port port then hw_enable_subport port ! i else hw_enable port)"
proof (cases "split_port port")
  case True
  then show ?thesis
    using assms bit_subport_mask [of 0 "hw_enable_subport port" 0 i]
    by (simp add: qsfp_disable_data_def MAX_SPLIT_COUNT_def)
next
  case False
  then show ?thesis
    unfolding qsfp_disable_data_def MAX_SPLIT_COUNT_def
    by (cases "hw_enable port") (simp_all only: if_False if_True simp_thms bit_0x0f bit_0_eq bot_apply bot_bool_def)
qed

text \<open>
The byte written to disable the lanes of a QSFP module has bit \<open>i\<close> set exactly when
lane \<open>i\<close> (of the four) is to be off: each lane by its own flag on a split port, all of them by
the port's flag otherwise.
\<close>

theorem qsfp_disable_data_bits:
  assumes "length (hw_enable_subport port) = MAX_SPLIT_COUNT"
  shows "bit (qsfp_disable_data port) i \<longleftrightarrow>
    i < MAX_SPLIT_COUNT \<and>
    \<not> (if split_port port then hw_enable_subport port ! i else hw_enable port)"
  by (rule bit_qsfp_disable_data [OF assms])

theorem qsfp_disable_data_bits_witness:
  "bit (qsfp_disable_data ((sample_port CONNECTOR_QSFP28)
     \<lparr>split_port := True, hw_enable_subport := [True, True, False, True]\<rparr>)) 2"
  by (subst qsfp_disable_data_bits) (simp_all add: MAX_SPLIT_COUNT_def)

section \<open>What is written to the hardware\<close>

lemma set_enabled_loop:
  "\<not> simulation pl \<Longrightarrow>
     shash_for_each (pm_configure_port pl) sh w = (sh, fold (\<lambda>(name, p) w. snd (pm_configure_port pl p w)) sh w)"
proof (induction sh arbitrary: w)
  case Nil
  then show ?case by simp
next
  case (Cons e sh)
  obtain name p where e: "e = (name, p)" by (cases e)
  have "fst (pm_configure_port pl p w) = p"
    using Cons.prems by (simp add: pm_configure_port_def pm_configure_qsfp_def Let_def)
  then obtain v where v: "pm_configure_port pl p w = (p, v)" by (metis prod.collapse)
  then show ?case using Cons.IH [OF Cons.prems, of v] by (simp add: e)
qed

text \<open>
C28: on a hardware build, configuring a port never changes the port. A QSFP module that is
present and optical gets one byte at offset 86 of its EEPROM, which turns off exactly the lanes
that are to be off; for other QSFP modules the hardware is not accessed; an SFP+ port gets its
transmit-disable mask, 0 when enabled. \<open>pm_set_enabled\<close> does this for every port of the table, in
table order, and changes none.
\<close>

theorem pm_configure_port_hardware:
  assumes "\<not> simulation pl" and "length (hw_enable_subport port) = MAX_SPLIT_COUNT"
  shows "fst (pm_configure_port pl port w) = port \<and>
    (is_qsfp port \<and> present port \<and> optical port \<longrightarrow>
       (\<exists>b. snd (pm_configure_port pl port w) =
          snd (i2c_data_write pl
                 (yaml_find_device pl w (subsystem port) (yp_module_eeprom (module_device port)))
                 (subsystem port) 86 [b] w) \<and>
          (\<forall>i. bit b i \<longleftrightarrow> i < 4 \<and>
             \<not> (if split_port port then hw_enable_subport port ! i else hw_enable port)))) \<and>
    (is_qsfp port \<and> \<not> (present port \<and> optical port) \<longrightarrow> snd (pm_configure_port pl port w) = w) \<and>
    (\<not> is_qsfp port \<longrightarrow>
       snd (pm_configure_port pl port w) =
         snd (i2c_reg_write pl (subsystem port) (sfpp_tx_disable (module_device port))
                (if hw_enable port then 0 else bit_mask (sfpp_tx_disable (module_device port))) w)) \<and>
    pm_set_enabled pl sh w = (0, sh, fold (\<lambda>(name, p) w. snd (pm_configure_port pl p w)) sh w)"
proof (intro conjI impI)
  show "pm_set_enabled pl sh w = (0, sh, fold (\<lambda>(name, p) w. snd (pm_configure_port pl p w)) sh w)"
    by (simp add: pm_set_enabled_def set_enabled_loop [OF assms(1)])
  assume "is_qsfp port \<and> present port \<and> optical port"
  then show "\<exists>b. snd (pm_configure_port pl port w) =
          snd (i2c_data_write pl
                 (yaml_find_device pl w (subsystem port) (yp_module_eeprom (module_device port)))
                 (subsystem port) 86 [b] w) \<and>
          (\<forall>i. bit b i \<longleftrightarrow> i < 4 \<and>
             \<not> (if split_port port then hw_enable_subport port ! i else hw_enable port))"
    using assms(1) bit_qsfp_disable_data [OF assms(2)]
    by (intro exI [of _ "qsfp_disable_data port"])
      (simp add: pm_configure_port_def pm_configure_qsfp_def QSFP_DISABLE_OFFSET_def MAX_SPLIT_COUNT_def Let_def)
qed (use assms(1) in \<open>simp_all add: pm_configure_port_def pm_configure_qsfp_def Let_def\<close>)

theorem pm_configure_port_hardware_witness:
  "pm_configure_port (sample_platform False SFP_SR_AVAGO) (sample_port CONNECTOR_SFP_PLUS) [] =
     (sample_port CONNECTOR_SFP_PLUS, [Reg_write sample_bit_op 1])"
proof -
  let ?pl = "sample_platform False SFP_SR_AVAGO" and ?p = "sample_port CONNECTOR_SFP_PLUS"
  have "length (hw_enable_subport ?p) = MAX_SPLIT_COUNT" by (simp add: sample_port_def MAX_SPLIT_COUNT_def)
  note t = pm_configure_port_hardware [of ?pl ?p "[]" "[]", OF _ this]
  have "\<not> is_qsfp ?p" by (simp add: is_qsfp_def connector_is_def)
  moreover have "i2c_reg_write ?pl (subsystem ?p) op v [] = (0, [Reg_write op v])" for op v
    by (simp add: sample_platform_def)
  ultimately have "snd (pm_configure_port ?pl ?p []) = [Reg_write sample_bit_op 1]" "fst (pm_configure_port ?pl ?p []) = ?p"
    using t by (simp_all, simp add: sample_port_def sample_yaml_def sample_bit_op_def)
  then show ?thesis by (simp add: prod_eq_iff)
qed

text \<open>
C27: reading the state of a module never writes to a module's EEPROM: it gives the same result
on a platform whose data writes do anything else. In particular the lanes of a QSFP module that
is inserted are not disabled by the call that finds it.
\<close>

theorem pm_read_module_state_no_data_write:
  "pm_read_module_state (pl\<lparr>i2c_data_write := f\<rparr>) port w = pm_read_module_state pl port w"
proof -
  let ?pl = "pl\<lparr>i2c_data_write := f\<rparr>"
  have presence_retry: "presence_retry ?pl p op n w = presence_retry pl p op n w" for p op n w
  proof (induction n arbitrary: w)
    case 0
    then show ?case by (subst (1 2) presence_retry.simps) (simp split: prod.split)
  next
    case (Suc n)
    then show ?case by (subst (1 2) presence_retry.simps) (simp split: prod.split)
  qed
  then have presence: "pm_get_presence ?pl p w = pm_get_presence pl p w" for p w
    by (simp add: pm_get_presence_def split: option.split)
  have a0: "pm_read_a0 ?pl p off w = pm_read_a0 pl p off w" for p off w by (simp add: pm_read_a0_def)
  have a2: "pm_read_a2 ?pl p w = pm_read_a2 pl p w" for p w by (simp add: pm_read_a2_def)
  have reset: "pm_reset_port ?pl p w = pm_reset_port pl p w" for p w
    by (simp add: pm_reset_port_def pm_clear_reset_def pm_reset_def split: option.split)
  have part1: "read_a0_part ?pl off n a0 p w = read_a0_part pl off n a0 p w" for off n a0 p w
  proof (induction n arbitrary: a0 w)
    case 0
    then show ?case by (subst (1 2) read_a0_part.simps) (simp add: presence a0 Let_def split: prod.split)
  next
    case (Suc n)
    then show ?case
      by (subst (1 2) read_a0_part.simps) (simp add: presence a0 reset Let_def split: prod.split)
  qed
  have part2: "read_a2_part ?pl n a p w = read_a2_part pl n a p w" for n a p w
  proof (induction n arbitrary: a w)
    case 0
    then show ?case by (subst (1 2) read_a2_part.simps) (simp add: a2 Let_def split: prod.split)
  next
    case (Suc n)
    then show ?case by (subst (1 2) read_a2_part.simps) (simp add: a2 Let_def split: prod.split)
  qed
  show ?thesis
    by (simp add: pm_read_module_state_def part1 part2 split: option.split prod.split flow.split)
qed

section \<open>Simulated modules\<close>

text \<open>The page of every simulated module has the size of a serial id.\<close>

definition module_data_ok :: "pm_port \<Rightarrow> bool" where
  "module_data_ok port \<longleftrightarrow> (\<forall>pg. module_data port = Some pg \<longrightarrow> length pg = 128)"

lemma set_module_data_simps [simp]:
  "module_data (set_module_data d p) = d"
  "module_data_ok (set_module_data None p)"
  "length bs = 128 \<Longrightarrow> module_data_ok (set_module_data (Some bs) p)"
  by (simp_all add: module_data_ok_def set_module_data_def)

lemma set_module_data_keeps [simp]:
  "managed conn (set_module_data d p) \<longleftrightarrow> managed conn p"
  "in_state texts conn st (set_module_data d p) \<longleftrightarrow> in_state texts conn st p"
proof -
  have "mem_ok (set_module_data d p) = mem_ok p" by (simp add: mem_ok_def set_module_data_def)
  then show "managed conn (set_module_data d p) \<longleftrightarrow> managed conn p"
    by (simp add: managed_def) (simp add: set_module_data_def)
  have "col_text texts (set_module_data d p) = col_text texts p"
    by (simp add: col_text_def set_module_data_def fun_eq_iff)
  then show "in_state texts conn st (set_module_data d p) \<longleftrightarrow> in_state texts conn st p"
    by (cases st) (simp_all add: in_state_def, simp_all add: set_module_data_def)
qed

lemma set_module_data_twice [simp]:
  "set_module_data d (set_module_data e p) = set_module_data d p"
  by (simp add: set_module_data_def)

lemma sample_table:
  "shash_ok [(n, p)]" "shash_find [(n, p)] n = Some p"
  by (simp_all add: shash_ok_def shash_find_def)

lemma sample_contents: "file_contents (sample_platform sim pg) w fname = Some pg"
  by (simp add: sample_platform_def)

text \<open>
C29: inserting a simulated module changes only the named interface. It succeeds exactly when
the interface exists and the file has at least 128 bytes, which become the page of the module;
a failure removes the module that was there.
\<close>

theorem pmd_sim_insert_spec:
  assumes "shash_ok intfs"
  shows "case pmd_sim_insert pl name fname intfs w of (rc, reply, intfs') \<Rightarrow>
    shash_ok intfs' \<and>
    (case shash_find intfs name of
       None \<Rightarrow> rc = - 1 \<and> intfs' = intfs
     | Some port \<Rightarrow>
         let page = (case file_contents pl w fname of
                       Some bytes \<Rightarrow> if 128 \<le> length bytes then Some (take 128 bytes) else None
                     | None \<Rightarrow> None)
         in (rc = 0 \<longleftrightarrow> page \<noteq> None) \<and>
            shash_find intfs' = (shash_find intfs)(name \<mapsto> set_module_data page port))"
proof (cases "shash_find intfs name")
  case None
  then show ?thesis using assms by (simp add: pmd_sim_insert_def)
next
  case (Some port)
  let ?cleared = "if module_data port \<noteq> None then shash_modify name (set_module_data None) intfs else intfs"
  have same: "set_module_data None port = port" if "module_data port = None"
    using that by (simp add: set_module_data_def)
  have cleared: "shash_ok ?cleared" "shash_find ?cleared = (shash_find intfs)(name \<mapsto> set_module_data None port)"
    using assms Some same
    by (auto simp: intfs.ok_modify intfs.find_modify fun_upd_idem)
  show ?thesis
  proof (cases "file_contents pl w fname")
    case None
    then show ?thesis
      using Some cleared by (simp only: pmd_sim_insert_def Let_def option.case) simp
  next
    case (Some bytes)
    note contents = this
    show ?thesis
    proof (cases "length bytes < 128")
      case True
      then show ?thesis
        using contents \<open>shash_find intfs name = Some port\<close> cleared
        by (simp only: pmd_sim_insert_def Let_def option.case sfp_serial_id_size) simp
    next
      case False
      have "shash_find (shash_modify name (set_module_data (Some (take 128 bytes))) ?cleared)
          = (shash_find intfs)(name \<mapsto> set_module_data (Some (take 128 bytes)) port)"
        unfolding intfs.find_modify [OF cleared(1)] cleared(2) by simp
      then show ?thesis
        using False contents \<open>shash_find intfs name = Some port\<close> intfs.ok_modify [OF cleared(1)]
        by (simp only: pmd_sim_insert_def Let_def option.case sfp_serial_id_size) simp
    qed
  qed
qed

theorem pmd_sim_insert_spec_witness:
  "case pmd_sim_insert (sample_platform True SFP_SR_AVAGO) ''1'' ''f''
       [(''1'', sample_port CONNECTOR_SFP_PLUS)] [] of (rc, reply, intfs') \<Rightarrow>
     rc = 0 \<and> shash_find intfs' ''1'' = Some (set_module_data (Some SFP_SR_AVAGO) (sample_port CONNECTOR_SFP_PLUS))"
  using pmd_sim_insert_spec [where intfs = "[(''1'', sample_port CONNECTOR_SFP_PLUS)]"
      and pl = "sample_platform True SFP_SR_AVAGO" and name = "''1''" and fname = "''f''" and w = "[]"]
    sample_contents
  by (simp add: sample_table split: prod.splits)



end
