(* ===== verification/Pm_Config.thy ===== *)
theory Pm_Config
  imports Platform
begin

text \<open>
  \<open>src/config.c\<close>: what the daemon asks of the YAML hardware description. A dereference of a
  NULL pointer is an error value.
\<close>

datatype crash = Null_yaml_port | Null_connector | Null_smap_value

section \<open>Reading the description\<close>

definition pm_config_init :: "'w platform \<Rightarrow> 'w \<Rightarrow> 'w" where
  "pm_config_init pl w = yaml_new_config_handle pl w"

text \<open>The loop of \<open>pm_get_yaml_port\<close>, with \<open>n\<close> rounds to go from \<open>idx\<close>.\<close>

fun get_yaml_port_loop :: "'w platform \<Rightarrow> 'w \<Rightarrow> string \<Rightarrow> string \<Rightarrow> nat \<Rightarrow> nat \<Rightarrow> yaml_port option" where
  "get_yaml_port_loop pl w subsys instance_name idx 0 = None"
| "get_yaml_port_loop pl w subsys instance_name idx (Suc n) =
     (let yaml_port = yaml_get_port pl w subsys idx in
      if yp_name yaml_port = instance_name then Some yaml_port
      else get_yaml_port_loop pl w subsys instance_name (Suc idx) n)"

definition pm_get_yaml_port :: "'w platform \<Rightarrow> 'w \<Rightarrow> string \<Rightarrow> string \<Rightarrow> yaml_port option" where
  "pm_get_yaml_port pl w subsys instance_name =
     get_yaml_port_loop pl w subsys instance_name 0 (yaml_get_port_count pl w subsys)"

text \<open>
  \<open>pm_read_yaml_files\<close>: each step only after the one before has succeeded; the i2c
  initialization has no result.
\<close>

definition pm_read_yaml_files :: "'w platform \<Rightarrow> string \<Rightarrow> string \<Rightarrow> 'w \<Rightarrow> int \<times> 'w" where
  "pm_read_yaml_files pl name hw_desc_dir w =
     (case yaml_add_subsystem pl name hw_desc_dir w of (rc, w) \<Rightarrow>
        if rc \<noteq> 0 then (rc, w)
        else case yaml_parse_devices pl name w of (rc, w) \<Rightarrow>
          if rc \<noteq> 0 then (rc, w)
          else case yaml_parse_ports pl name w of (rc, w) \<Rightarrow>
            if rc \<noteq> 0 then (rc, w)
            else (rc, yaml_init_devices pl name w))"

section \<open>Diagnostic devices\<close>

text \<open>
  \<open>pm_create_a2_devices\<close>, whose only call is commented out. The device of the diagnostic page
  of an SFP+ port is that of its serial id page at another i2c address.
\<close>

definition PM_SFP_A2_I2C_ADDRESS :: nat where "PM_SFP_A2_I2C_ADDRESS = 0x51"

definition a2_device :: "yaml_device \<Rightarrow> yaml_device" where
  "a2_device a0_device =
     \<lparr>dev_name = dev_name a0_device @ ''_dom'', dev_bus = dev_bus a0_device,
      dev_type = dev_type a0_device, dev_address = PM_SFP_A2_I2C_ADDRESS,
      dev_pre = dev_pre a0_device, dev_post = dev_post a0_device\<rparr>"

definition create_a2_device :: "'w platform \<Rightarrow> pm_port \<Rightarrow> 'w \<Rightarrow> crash + 'w" where
  "create_a2_device pl port w =
     (case pm_get_yaml_port pl w (subsystem port) (port_instance port) of
        None \<Rightarrow> Inl Null_yaml_port
      | Some yaml_port \<Rightarrow>
          if \<not> yp_pluggable yaml_port then Inr w
          else case yp_connector yaml_port of
            None \<Rightarrow> Inl Null_connector
          | Some connector \<Rightarrow>
              if connector \<noteq> cn pl SFPP then Inr w
              else case yaml_find_device pl w (subsystem port) (yp_module_eeprom yaml_port) of
                None \<Rightarrow> Inr w
              | Some a0_device \<Rightarrow>
                  Inr (snd (yaml_add_device pl (subsystem port) (dev_name (a2_device a0_device))
                              (a2_device a0_device) w)))"

fun pm_create_a2_devices :: "'w platform \<Rightarrow> shash \<Rightarrow> 'w \<Rightarrow> crash + 'w" where
  "pm_create_a2_devices pl [] w = Inr w"
| "pm_create_a2_devices pl ((name, port) # sh) w =
     (case create_a2_device pl port w of
        Inl e \<Rightarrow> Inl e
      | Inr w \<Rightarrow> pm_create_a2_devices pl sh w)"

section \<open>What the search returns\<close>

lemma get_yaml_port_loop_Some:
  "get_yaml_port_loop pl w s i idx n = Some p \<Longrightarrow>
     \<exists>k. idx \<le> k \<and> k < idx + n \<and> p = yaml_get_port pl w s k \<and> yp_name p = i \<and>
       (\<forall>j. idx \<le> j \<and> j < k \<longrightarrow> yp_name (yaml_get_port pl w s j) \<noteq> i)"
proof (induction n arbitrary: idx)
  case 0
  then show ?case by simp
next
  case (Suc n)
  show ?case
  proof (cases "yp_name (yaml_get_port pl w s idx) = i")
    case True
    then show ?thesis using Suc.prems by (intro exI [of _ idx]) (auto simp: Let_def)
  next
    case False
    then have "get_yaml_port_loop pl w s i (Suc idx) n = Some p" using Suc.prems by (simp add: Let_def)
    then obtain k where "Suc idx \<le> k" "k < Suc idx + n" "p = yaml_get_port pl w s k" "yp_name p = i"
      "\<forall>j. Suc idx \<le> j \<and> j < k \<longrightarrow> yp_name (yaml_get_port pl w s j) \<noteq> i"
      using Suc.IH by blast
    then show ?thesis using False by (intro exI [of _ k]) (metis Suc_le_eq add_Suc add_Suc_right le_neq_implies_less less_imp_le)
  qed
qed

lemma get_yaml_port_loop_None:
  "get_yaml_port_loop pl w s i idx n = None \<longleftrightarrow>
     (\<forall>k. idx \<le> k \<and> k < idx + n \<longrightarrow> yp_name (yaml_get_port pl w s k) \<noteq> i)"
proof (induction n arbitrary: idx)
  case 0
  then show ?case by auto
next
  case (Suc n)
  have "(\<forall>k. idx \<le> k \<and> k < idx + Suc n \<longrightarrow> P k) \<longleftrightarrow> P idx \<and> (\<forall>k. Suc idx \<le> k \<and> k < Suc idx + n \<longrightarrow> P k)"
    for P by (metis add_Suc add_Suc_right le_antisym le_refl less_add_Suc1 not_less_eq_eq Suc_leD)
  then show ?case using Suc by (simp add: Let_def)
qed

end
