(* ===== verification/Config_Props.thy ===== *)
theory Config_Props
  imports Pm_Config Plug Sample_Pages
begin

text \<open>The properties of \<open>src/config.c\<close>.\<close>

section \<open>The search for a port\<close>

lemma get_yaml_port_loop_find:
  "get_yaml_port_loop pl w s i idx n = find (\<lambda>p. yp_name p = i) (map (yaml_get_port pl w s) [idx..<idx + n])"
proof (induction n arbitrary: idx)
  case 0
  then show ?case by simp
next
  case (Suc n)
  have "[idx..<idx + Suc n] = idx # [Suc idx..<Suc idx + n]" by (simp add: upt_conv_Cons)
  then show ?case using Suc [of "Suc idx"] by (simp add: Let_def)
qed

text \<open>
\<open>pm_get_yaml_port\<close> is the search for the first port of that name in the list of the ports
of the subsystem; it looks at every port of the list and at no other.
\<close>

lemma pm_get_yaml_port_find:
  "pm_get_yaml_port pl w subsys name =
     find (\<lambda>p. yp_name p = name) (map (yaml_get_port pl w subsys) [0..<yaml_get_port_count pl w subsys])"
  by (simp add: pm_get_yaml_port_def get_yaml_port_loop_find)

section \<open>Diagnostic devices\<close>

text \<open>A platform whose world is the list of the added devices.\<close>

definition device_platform :: "(string \<times> yaml_device) list platform" where
  "device_platform =
     \<lparr>simulation = False, cn = (\<lambda>_. CONNECTOR_SFP_PLUS),
      yaml_new_config_handle = (\<lambda>w. w),
      yaml_add_subsystem = (\<lambda>_ _ w. (0, w)),
      yaml_parse_devices = (\<lambda>_ w. (0, w)),
      yaml_parse_ports = (\<lambda>_ w. (0, w)),
      yaml_init_devices = (\<lambda>_ w. w),
      yaml_get_port_count = (\<lambda>_ _. 1),
      yaml_get_port = (\<lambda>_ _ _. sample_yaml CONNECTOR_SFP_PLUS),
      yaml_find_device = (\<lambda>w _ name. map_of w name),
      yaml_add_device = (\<lambda>_ name dev w. (0, (name, dev) # w)),
      i2c_reg_read = (\<lambda>_ op w. ((0, 0), w)),
      i2c_reg_write = (\<lambda>_ op v w. (0, w)),
      i2c_data_read = (\<lambda>_ _ off n w. ((0, []), w)),
      i2c_data_write = (\<lambda>_ _ off bs w. (0, w)),
      file_contents = (\<lambda>_ _. None),
      slot = (\<lambda>_ _. 0)\<rparr>"

definition eeprom_device :: yaml_device where
  "eeprom_device =
     \<lparr>dev_name = ''eeprom'', dev_bus = ''bus'', dev_type = ''sfp'', dev_address = 0x50, dev_pre = [],
      dev_post = []\<rparr>"



end
