(* ===== verification/Ovsdb_Access.thy ===== *)
theory Ovsdb_Access
  imports Pm_Config Plug
begin

text \<open>
  \<open>src/ovsdb_access.c\<close>: the interface to the database. The replica that the IDL library keeps
  is data that the daemon reads: the rows of three tables, in the order of the iteration macros.
  What a call writes is the list of the writes of its transaction; the code does not look at the
  outcome of the commit.
\<close>

section \<open>The replica\<close>

type_synonym smap = "(string \<times> string) list"

record ovsrec_interface =
  intf_name :: string
  intf_uuid :: "128 word"
  hw_intf_config :: smap

record ovsrec_subsystem =
  sub_name :: string
  sub_uuid :: "128 word"
  hw_desc_dir :: string
  sub_interfaces :: "ovsrec_interface list"

record ovsdb_idl =
  seqno :: nat
  interface_rows :: "ovsrec_interface list"
  subsystem_rows :: "ovsrec_subsystem list"
  daemon_rows :: "string list"

definition smap_get :: "smap \<Rightarrow> string \<Rightarrow> string option" where
  "smap_get m key = map_of m key"

definition ovsrec_interface_get_for_uuid :: "ovsdb_idl \<Rightarrow> 128 word \<Rightarrow> ovsrec_interface option" where
  "ovsrec_interface_get_for_uuid idl u = find (\<lambda>i. intf_uuid i = u) (interface_rows idl)"

definition ovsrec_subsystem_get_for_uuid :: "ovsdb_idl \<Rightarrow> 128 word \<Rightarrow> ovsrec_subsystem option" where
  "ovsrec_subsystem_get_for_uuid idl u = find (\<lambda>s. sub_uuid s = u) (subsystem_rows idl)"

datatype db_write = Set_pm_info "128 word" smap | Set_cur_hw string int

section \<open>The state of the daemon\<close>

text \<open>The static variables. The order of \<open>ovs_subs\<close> is never observed.\<close>

record daemon =
  ovs_intfs :: shash
  ovs_subs :: "(string \<times> 128 word) list"
  idl_seqno :: nat
  cur_hw_set :: bool

section \<open>Interfaces and subsystems\<close>

definition ovsdb_if_intf_get_hw_enable :: "'w platform \<Rightarrow> ovsrec_interface \<Rightarrow> bool" where
  "ovsdb_if_intf_get_hw_enable pl intf =
     (case smap_get (hw_intf_config intf) (cn pl INTERFACE_HW_INTF_CONFIG_MAP_ENABLE) of
        None \<Rightarrow> False
      | Some v \<Rightarrow> cn pl INTERFACE_HW_INTF_CONFIG_MAP_ENABLE_TRUE = v)"

text \<open>The allocated port: zeroed memory with some members filled in.\<close>

definition new_port :: "'w platform \<Rightarrow> ovsrec_interface \<Rightarrow> string \<Rightarrow> yaml_port \<Rightarrow> pm_port" where
  "new_port pl intf sub yaml_port =
     \<lparr>port_instance = intf_name intf, uuid = intf_uuid intf, module_device = yaml_port,
      subsystem = sub, ovs_module_columns = (\<lambda>_. None), ovs_module_dom_columns = (\<lambda>_. None),
      module_info_changed = False, hw_enable = ovsdb_if_intf_get_hw_enable pl intf,
      hw_enable_subport = replicate MAX_SPLIT_COUNT False, present = False, retry = False,
      a2_read_requested = False, split_port = False, optical = False, module_data = None,
      port_enable = 0, bad_free = False, leaked = False\<rparr>"

text \<open>
  The port is in the table before it is configured and reset; nothing reads the table in
  between, so that the configured port is added here. A NULL connector is dereferenced by
  \<open>pm_configure_port\<close>.
\<close>

definition ovsdb_if_intf_create ::
  "'w platform \<Rightarrow> ovsrec_interface \<Rightarrow> string \<Rightarrow> daemon \<Rightarrow> 'w \<Rightarrow> crash + daemon \<times> 'w" where
  "ovsdb_if_intf_create pl intf sub d w =
     (case pm_get_yaml_port pl w sub (intf_name intf) of
        None \<Rightarrow> Inr (d, w)
      | Some yaml_port \<Rightarrow>
          if \<not> yp_pluggable yaml_port then Inr (d, w)
          else if yp_connector yaml_port = None then Inl Null_connector
          else case pm_configure_port pl (new_port pl intf sub yaml_port) w of
            (port, w) \<Rightarrow>
              Inr (d\<lparr>ovs_intfs := shash_add pl (intf_name intf) port (ovs_intfs d)\<rparr>,
                   pm_clear_reset pl port w))"

definition ovsdb_if_intf_modify ::
  "'w platform \<Rightarrow> ovsrec_interface \<Rightarrow> pm_port \<Rightarrow> 'w \<Rightarrow> pm_port \<times> 'w" where
  "ovsdb_if_intf_modify pl intf port w =
     (let enable = ovsdb_if_intf_get_hw_enable pl intf in
      if hw_enable port \<noteq> enable then pm_configure_port pl (port\<lparr>hw_enable := enable\<rparr>) w
      else (port, w))"

text \<open>An operation on the port of a name, if there is one, through the pointer in the table.\<close>

definition with_port ::
  "(pm_port \<Rightarrow> 'w \<Rightarrow> pm_port \<times> 'w) \<Rightarrow> string \<Rightarrow> daemon \<Rightarrow> 'w \<Rightarrow> daemon \<times> 'w" where
  "with_port f name d w =
     (case shash_find (ovs_intfs d) name of
        None \<Rightarrow> (d, w)
      | Some port \<Rightarrow>
          (case f port w of (port, w) \<Rightarrow>
             (d\<lparr>ovs_intfs := shash_modify name (\<lambda>_. port) (ovs_intfs d)\<rparr>, w)))"

definition ovsdb_if_intf_configure ::
  "'w platform \<Rightarrow> ovsrec_interface \<Rightarrow> daemon \<Rightarrow> 'w \<Rightarrow> daemon \<times> 'w" where
  "ovsdb_if_intf_configure pl intf = with_port (pm_configure_port pl) (intf_name intf)"

fun create_interfaces ::
  "'w platform \<Rightarrow> string \<Rightarrow> ovsrec_interface list \<Rightarrow> daemon \<Rightarrow> 'w \<Rightarrow> crash + daemon \<times> 'w" where
  "create_interfaces pl sub [] d w = Inr (d, w)"
| "create_interfaces pl sub (intf # intfs) d w =
     (if shash_find (ovs_intfs d) (intf_name intf) = None
      then (case ovsdb_if_intf_create pl intf sub d w of
              Inl e \<Rightarrow> Inl e
            | Inr (d, w) \<Rightarrow> create_interfaces pl sub intfs d w)
      else create_interfaces pl sub intfs d w)"

text \<open>
  A subsystem is entered before its files are read: when that fails, the next call takes it for
  one whose files have been read.
\<close>

definition ovsdb_if_subsys_process ::
  "'w platform \<Rightarrow> ovsrec_subsystem \<Rightarrow> daemon \<Rightarrow> 'w \<Rightarrow> crash + daemon \<times> 'w" where
  "ovsdb_if_subsys_process pl ovs_sub d w =
     (if map_of (ovs_subs d) (sub_name ovs_sub) = None then
        (let d = d\<lparr>ovs_subs := (sub_name ovs_sub, sub_uuid ovs_sub) # ovs_subs d\<rparr> in
         case pm_read_yaml_files pl (sub_name ovs_sub) (hw_desc_dir ovs_sub) w of (rc, w) \<Rightarrow>
           if rc \<noteq> 0 then Inr (d, w)
           else create_interfaces pl (sub_name ovs_sub) (sub_interfaces ovs_sub) d w)
      else create_interfaces pl (sub_name ovs_sub) (sub_interfaces ovs_sub) d w)"

fun process_subsystems ::
  "'w platform \<Rightarrow> ovsrec_subsystem list \<Rightarrow> daemon \<Rightarrow> 'w \<Rightarrow> crash + daemon \<times> 'w" where
  "process_subsystems pl [] d w = Inr (d, w)"
| "process_subsystems pl (s # subs) d w =
     (case ovsdb_if_subsys_process pl s d w of
        Inl e \<Rightarrow> Inl e
      | Inr (d, w) \<Rightarrow> process_subsystems pl subs d w)"

section \<open>Publishing\<close>

text \<open>
  The statements \<open>if (guard) smap_add (&pm_info, key, value)\<close> as a table of guards, keys and
  values; adding a NULL value crashes.
\<close>

fun smap_add_all ::
  "('f \<Rightarrow> string option) \<Rightarrow> ('f \<times> string \<times> 'f) list \<Rightarrow> smap \<Rightarrow> crash + smap" where
  "smap_add_all cols [] m = Inr m"
| "smap_add_all cols ((guard, key, val) # es) m =
     (if cols guard \<noteq> None
      then (case cols val of
              None \<Rightarrow> Inl Null_smap_value
            | Some s \<Rightarrow> smap_add_all cols es (m @ [(key, s)]))
      else smap_add_all cols es m)"

definition module_info :: "(mod_field \<times> string \<times> mod_field) list" where
  "module_info =
     [(Cable_length, ''cable_length'', Cable_length),
      (Cable_technology, ''cable_technology'', Cable_technology),
      (Connector, ''connector'', Connector),
      (Connector_status, ''connector_status'', Connector_status),
      (Supported_speeds, ''supported_speeds'', Supported_speeds),
      (Max_speed, ''max_speed'', Max_speed),
      (Power_mode, ''power_mode'', Power_mode),
      (Vendor_name, ''vendor_name'', Vendor_name),
      (Vendor_oui, ''vendor_oui'', Vendor_oui),
      (Vendor_part_number, ''vendor_part_number'', Vendor_part_number),
      (Vendor_revision, ''vendor_revision'', Vendor_revision),
      (Vendor_serial_number, ''vendor_serial_number'', Vendor_serial_number)]"

definition temperature_info :: "(dom_field \<times> string \<times> dom_field) list" where
  "temperature_info =
     [((Temperature, Value), ''temperature'', (Temperature, Value)),
      ((Temperature, Flag High_alarm), ''temperature_high_alarm'',
         (Temperature, Flag High_alarm)),
      ((Temperature, Flag Low_alarm), ''temperature_low_alarm'', (Temperature, Flag Low_alarm)),
      ((Temperature, Flag High_warning), ''temperature_high_warning'',
         (Temperature, Flag High_warning)),
      ((Temperature, Flag Low_warning), ''temperature_low_warning'',
         (Temperature, Flag Low_warning)),
      ((Temperature, Threshold High_alarm), ''temperature_high_alarm_threshold'',
         (Temperature, Threshold High_alarm)),
      ((Temperature, Threshold Low_alarm), ''temperature_low_alarm_threshold'',
         (Temperature, Threshold Low_alarm)),
      ((Temperature, Threshold High_warning), ''temperature_high_warning_threshold'',
         (Temperature, Threshold High_warning)),
      ((Temperature, Threshold Low_warning), ''temperature_low_warning_threshold'',
         (Temperature, Threshold Low_warning))]"

definition vcc_info :: "(dom_field \<times> string \<times> dom_field) list" where
  "vcc_info =
     [((Vcc, Value), ''vcc'', (Vcc, Value)),
      ((Vcc, Flag High_alarm), ''vcc_high_alarm'', (Vcc, Flag High_alarm)),
      ((Vcc, Flag Low_alarm), ''vcc_low_alarm'', (Vcc, Flag Low_alarm)),
      ((Vcc, Flag High_warning), ''vcc_high_warning'', (Vcc, Flag High_warning)),
      ((Vcc, Flag Low_warning), ''vcc_low_warning'', (Vcc, Flag Low_warning)),
      ((Vcc, Threshold High_alarm), ''vcc_high_alarm_threshold'', (Vcc, Threshold High_alarm)),
      ((Vcc, Threshold Low_alarm), ''vcc_low_alarm_threshold'', (Vcc, Threshold Low_alarm)),
      ((Vcc, Threshold High_warning), ''vcc_high_warning_threshold'',
         (Vcc, Threshold High_warning)),
      ((Vcc, Threshold Low_warning), ''vcc_low_warning_threshold'',
         (Vcc, Threshold Low_warning))]"

definition tx_bias_info :: "(dom_field \<times> string \<times> dom_field) list" where
  "tx_bias_info =
     [((Tx_bias, Value), ''tx_bias'', (Tx_bias, Value)),
      ((Tx_bias, Flag High_alarm), ''tx_bias_high_alarm'', (Tx_bias, Flag High_alarm)),
      ((Tx_bias, Flag Low_alarm), ''tx_bias_low_alarm'', (Tx_bias, Flag Low_alarm)),
      ((Tx_bias, Flag High_warning), ''tx_bias_high_warning'', (Tx_bias, Flag High_warning)),
      ((Tx_bias, Flag Low_warning), ''tx_bias_low_warning'', (Tx_bias, Flag Low_warning)),
      ((Tx_bias, Threshold High_alarm), ''tx_bias_high_alarm_threshold'',
         (Tx_bias, Threshold High_alarm)),
      ((Tx_bias, Threshold Low_alarm), ''tx_bias_low_alarm_threshold'',
         (Tx_bias, Threshold Low_alarm)),
      ((Tx_bias, Threshold High_warning), ''tx_bias_high_warning_threshold'',
         (Tx_bias, Threshold High_warning)),
      ((Tx_bias, Threshold Low_warning), ''tx_bias_low_warning_threshold'',
         (Tx_bias, Threshold Low_warning))]"

definition rx_power_info :: "(dom_field \<times> string \<times> dom_field) list" where
  "rx_power_info =
     [((Rx_power, Value), ''rx_power'', (Rx_power, Value)),
      ((Rx_power, Flag High_alarm), ''rx_power_high_alarm'', (Rx_power, Flag High_alarm)),
      ((Rx_power, Flag Low_alarm), ''rx_power_low_alarm'', (Rx_power, Flag Low_alarm)),
      ((Rx_power, Flag High_warning), ''rx_power_high_warning'', (Rx_power, Flag High_warning)),
      ((Rx_power, Flag Low_warning), ''rx_power_low_warning'', (Rx_power, Flag Low_warning)),
      ((Rx_power, Threshold High_alarm), ''rx_power_high_alarm_threshold'',
         (Rx_power, Threshold High_alarm)),
      ((Rx_power, Threshold Low_alarm), ''rx_power_low_alarm_threshold'',
         (Rx_power, Threshold Low_alarm)),
      ((Rx_power, Threshold High_warning), ''rx_power_high_warning_threshold'',
         (Rx_power, Threshold High_warning)),
      ((Rx_power, Threshold Low_warning), ''rx_power_low_warning_threshold'',
         (Rx_power, Threshold Low_warning))]"

definition tx_power_info :: "(dom_field \<times> string \<times> dom_field) list" where
  "tx_power_info =
     [((Tx_power, Value), ''tx_power'', (Tx_power, Value)),
      ((Rx_power, Flag High_alarm), ''tx_power_high_alarm'', (Tx_power, Flag High_alarm)),
      ((Tx_power, Flag Low_alarm), ''tx_power_low_alarm'', (Tx_power, Flag Low_alarm)),
      ((Tx_power, Flag High_warning), ''tx_power_high_warning'', (Tx_power, Flag High_warning)),
      ((Tx_power, Flag Low_warning), ''tx_power_low_warning'', (Tx_power, Flag Low_warning)),
      ((Tx_power, Threshold High_alarm), ''tx_power_high_alarm_threshold'',
         (Tx_power, Threshold High_alarm)),
      ((Tx_power, Threshold Low_alarm), ''tx_power_low_alarm_threshold'',
         (Tx_power, Threshold Low_alarm)),
      ((Tx_power, Threshold High_warning), ''tx_power_high_warning_threshold'',
         (Tx_power, Threshold High_warning)),
      ((Tx_power, Threshold Low_warning), ''tx_power_low_warning_threshold'',
         (Tx_power, Threshold Low_warning))]"

definition lane1_info :: "(dom_field \<times> string \<times> dom_field) list" where
  "lane1_info =
     [((Tx_lane_bias L1, Value), ''tx1_bias'', (Tx_lane_bias L1, Value)),
      ((Rx_lane_power L1, Value), ''rx1_power'', (Rx_lane_power L1, Value)),
      ((Tx_lane_bias L1, Flag High_alarm), ''tx1_bias_high_alarm'',
         (Tx_lane_bias L1, Flag High_alarm)),
      ((Tx_lane_bias L1, Flag Low_alarm), ''tx1_bias_low_alarm'',
         (Tx_lane_bias L1, Flag Low_alarm)),
      ((Tx_lane_bias L1, Flag High_warning), ''tx1_bias_high_warning'',
         (Tx_lane_bias L1, Flag High_warning)),
      ((Tx_lane_bias L1, Flag Low_warning), ''tx1_bias_low_warning'',
         (Tx_lane_bias L1, Flag Low_warning)),
      ((Tx_lane_bias L1, Threshold High_alarm), ''tx1_bias_high_alarm_threshold'',
         (Tx_lane_bias L1, Threshold High_alarm)),
      ((Tx_lane_bias L1, Threshold Low_alarm), ''tx1_bias_low_alarm_threshold'',
         (Tx_lane_bias L1, Threshold Low_alarm)),
      ((Tx_lane_bias L1, Threshold High_warning), ''tx1_bias_high_warning_threshold'',
         (Tx_lane_bias L1, Threshold High_warning)),
      ((Tx_lane_bias L1, Threshold Low_warning), ''tx1_bias_low_warning_threshold'',
         (Tx_lane_bias L1, Threshold Low_warning)),
      ((Rx_lane_power L1, Flag High_alarm), ''rx1_power_high_alarm'',
         (Rx_lane_power L1, Flag High_alarm)),
      ((Rx_lane_power L1, Flag Low_alarm), ''rx1_power_low_alarm'',
         (Rx_lane_power L1, Flag Low_alarm)),
      ((Rx_lane_power L1, Flag High_warning), ''rx1_power_high_warning'',
         (Rx_lane_power L1, Flag High_warning)),
      ((Rx_lane_power L1, Flag Low_warning), ''rx1_power_low_warning'',
         (Rx_lane_power L1, Flag Low_warning)),
      ((Rx_lane_power L1, Threshold High_alarm), ''rx1_power_high_alarm_threshold'',
         (Rx_lane_power L1, Threshold High_alarm)),
      ((Rx_lane_power L1, Threshold Low_alarm), ''rx1_power_low_alarm_threshold'',
         (Rx_lane_power L1, Threshold Low_alarm)),
      ((Rx_lane_power L1, Threshold High_warning), ''rx1_power_high_warning_threshold'',
         (Rx_lane_power L1, Threshold High_warning)),
      ((Rx_lane_power L1, Threshold Low_warning), ''rx1_power_low_warning_threshold'',
         (Rx_lane_power L1, Threshold Low_warning))]"

definition lane2_info :: "(dom_field \<times> string \<times> dom_field) list" where
  "lane2_info =
     [((Tx_lane_bias L2, Value), ''tx2_bias'', (Tx_lane_bias L2, Value)),
      ((Rx_lane_power L2, Value), ''rx2_power'', (Rx_lane_power L2, Value)),
      ((Tx_lane_bias L2, Flag High_alarm), ''tx2_bias_high_alarm'',
         (Tx_lane_bias L2, Flag High_alarm)),
      ((Tx_lane_bias L2, Flag Low_alarm), ''tx2_bias_low_alarm'',
         (Tx_lane_bias L2, Flag Low_alarm)),
      ((Tx_lane_bias L2, Flag High_warning), ''tx2_bias_high_warning'',
         (Tx_lane_bias L2, Flag High_warning)),
      ((Tx_lane_bias L2, Flag Low_warning), ''tx2_bias_low_warning'',
         (Tx_lane_bias L2, Flag Low_warning)),
      ((Tx_lane_bias L2, Threshold High_alarm), ''tx2_bias_high_alarm_threshold'',
         (Tx_lane_bias L2, Threshold High_alarm)),
      ((Tx_lane_bias L2, Threshold Low_alarm), ''tx2_bias_low_alarm_threshold'',
         (Tx_lane_bias L2, Threshold Low_alarm)),
      ((Tx_lane_bias L2, Threshold High_warning), ''tx2_bias_high_warning_threshold'',
         (Tx_lane_bias L2, Threshold High_warning)),
      ((Tx_lane_bias L2, Threshold Low_warning), ''tx2_bias_low_warning_threshold'',
         (Tx_lane_bias L2, Threshold Low_warning)),
      ((Rx_lane_power L2, Flag High_alarm), ''rx2_power_high_alarm'',
         (Rx_lane_power L2, Flag High_alarm)),
      ((Rx_lane_power L2, Flag Low_alarm), ''rx2_power_low_alarm'',
         (Rx_lane_power L2, Flag Low_alarm)),
      ((Rx_lane_power L2, Flag High_warning), ''rx2_power_high_warning'',
         (Rx_lane_power L2, Flag High_warning)),
      ((Rx_lane_power L2, Flag Low_warning), ''rx2_power_low_warning'',
         (Rx_lane_power L2, Flag Low_warning)),
      ((Rx_lane_power L2, Threshold High_alarm), ''rx2_power_high_alarm_threshold'',
         (Rx_lane_power L2, Threshold High_alarm)),
      ((Rx_lane_power L2, Threshold Low_alarm), ''rx2_power_low_alarm_threshold'',
         (Rx_lane_power L2, Threshold Low_alarm)),
      ((Rx_lane_power L2, Threshold High_warning), ''rx2_power_high_warning_threshold'',
         (Rx_lane_power L2, Threshold High_warning)),
      ((Rx_lane_power L2, Threshold Low_warning), ''rx2_power_low_warning_threshold'',
         (Rx_lane_power L2, Threshold Low_warning))]"

definition lane3_info :: "(dom_field \<times> string \<times> dom_field) list" where
  "lane3_info =
     [((Tx_lane_bias L3, Value), ''tx3_bias'', (Tx_lane_bias L3, Value)),
      ((Rx_lane_power L3, Value), ''rx3_power'', (Rx_lane_power L3, Value)),
      ((Tx_lane_bias L3, Flag High_alarm), ''tx3_bias_high_alarm'',
         (Tx_lane_bias L3, Flag High_alarm)),
      ((Tx_lane_bias L3, Flag Low_alarm), ''tx3_bias_low_alarm'',
         (Tx_lane_bias L3, Flag Low_alarm)),
      ((Tx_lane_bias L3, Flag High_warning), ''tx3_bias_high_warning'',
         (Tx_lane_bias L3, Flag High_warning)),
      ((Tx_lane_bias L3, Flag Low_warning), ''tx3_bias_low_warning'',
         (Tx_lane_bias L3, Flag Low_warning)),
      ((Tx_lane_bias L3, Threshold High_alarm), ''tx3_bias_high_alarm_threshold'',
         (Tx_lane_bias L3, Threshold High_alarm)),
      ((Tx_lane_bias L3, Threshold Low_alarm), ''tx3_bias_low_alarm_threshold'',
         (Tx_lane_bias L3, Threshold Low_alarm)),
      ((Tx_lane_bias L3, Threshold High_warning), ''tx3_bias_high_warning_threshold'',
         (Tx_lane_bias L3, Threshold High_warning)),
      ((Tx_lane_bias L3, Threshold Low_warning), ''tx3_bias_low_warning_threshold'',
         (Tx_lane_bias L3, Threshold Low_warning)),
      ((Rx_lane_power L3, Flag High_alarm), ''rx3_power_high_alarm'',
         (Rx_lane_power L3, Flag High_alarm)),
      ((Rx_lane_power L3, Flag Low_alarm), ''rx3_power_low_alarm'',
         (Rx_lane_power L3, Flag Low_alarm)),
      ((Rx_lane_power L3, Flag High_warning), ''rx3_power_high_warning'',
         (Rx_lane_power L3, Flag High_warning)),
      ((Rx_lane_power L3, Flag Low_warning), ''rx3_power_low_warning'',
         (Rx_lane_power L3, Flag Low_warning)),
      ((Rx_lane_power L3, Threshold High_alarm), ''rx3_power_high_alarm_threshold'',
         (Rx_lane_power L3, Threshold High_alarm)),
      ((Rx_lane_power L3, Threshold Low_alarm), ''rx3_power_low_alarm_threshold'',
         (Rx_lane_power L3, Threshold Low_alarm)),
      ((Rx_lane_power L3, Threshold High_warning), ''rx3_power_high_warning_threshold'',
         (Rx_lane_power L3, Threshold High_warning)),
      ((Rx_lane_power L3, Threshold Low_warning), ''rx3_power_low_warning_threshold'',
         (Rx_lane_power L3, Threshold Low_warning))]"

definition lane4_info :: "(dom_field \<times> string \<times> dom_field) list" where
  "lane4_info =
     [((Tx_lane_bias L4, Value), ''tx4_bias'', (Tx_lane_bias L4, Value)),
      ((Rx_lane_power L4, Value), ''rx4_power'', (Rx_lane_power L4, Value)),
      ((Tx_lane_bias L4, Flag High_alarm), ''tx4_bias_high_alarm'',
         (Tx_lane_bias L4, Flag High_alarm)),
      ((Tx_lane_bias L4, Flag Low_alarm), ''tx4_bias_low_alarm'',
         (Tx_lane_bias L4, Flag Low_alarm)),
      ((Tx_lane_bias L4, Flag High_warning), ''tx4_bias_high_warning'',
         (Tx_lane_bias L4, Flag High_warning)),
      ((Tx_lane_bias L4, Flag Low_warning), ''tx4_bias_low_warning'',
         (Tx_lane_bias L4, Flag Low_warning)),
      ((Tx_lane_bias L4, Threshold High_alarm), ''tx4_bias_high_alarm_threshold'',
         (Tx_lane_bias L4, Threshold High_alarm)),
      ((Tx_lane_bias L4, Threshold Low_alarm), ''tx4_bias_low_alarm_threshold'',
         (Tx_lane_bias L4, Threshold Low_alarm)),
      ((Tx_lane_bias L4, Threshold High_warning), ''tx4_bias_high_warning_threshold'',
         (Tx_lane_bias L4, Threshold High_warning)),
      ((Tx_lane_bias L4, Threshold Low_warning), ''tx4_bias_low_warning_threshold'',
         (Tx_lane_bias L4, Threshold Low_warning)),
      ((Rx_lane_power L4, Flag High_alarm), ''rx4_power_high_alarm'',
         (Rx_lane_power L4, Flag High_alarm)),
      ((Rx_lane_power L4, Flag Low_alarm), ''rx4_power_low_alarm'',
         (Rx_lane_power L4, Flag Low_alarm)),
      ((Rx_lane_power L4, Flag High_warning), ''rx4_power_high_warning'',
         (Rx_lane_power L4, Flag High_warning)),
      ((Rx_lane_power L4, Flag Low_warning), ''rx4_power_low_warning'',
         (Rx_lane_power L4, Flag Low_warning)),
      ((Rx_lane_power L4, Threshold High_alarm), ''rx4_power_high_alarm_threshold'',
         (Rx_lane_power L4, Threshold High_alarm)),
      ((Rx_lane_power L4, Threshold Low_alarm), ''rx4_power_low_alarm_threshold'',
         (Rx_lane_power L4, Threshold Low_alarm)),
      ((Rx_lane_power L4, Threshold High_warning), ''rx4_power_high_warning_threshold'',
         (Rx_lane_power L4, Threshold High_warning)),
      ((Rx_lane_power L4, Threshold Low_warning), ''rx4_power_low_warning_threshold'',
         (Rx_lane_power L4, Threshold Low_warning))]"

definition dom_info :: "(dom_field \<times> string \<times> dom_field) list" where
  "dom_info =
     temperature_info @ vcc_info @ tx_bias_info @ rx_power_info @ tx_power_info
       @ lane1_info @ lane2_info @ lane3_info @ lane4_info"

definition make_pm_info :: "(ext_const \<Rightarrow> string) \<Rightarrow> pm_port \<Rightarrow> crash + smap" where
  "make_pm_info texts port =
     (case smap_add_all (col_text texts port) module_info [] of
        Inl e \<Rightarrow> Inl e
      | Inr m \<Rightarrow> smap_add_all (dom_text texts port) dom_info m)"

fun update_ports ::
  "(ext_const \<Rightarrow> string) \<Rightarrow> ovsdb_idl \<Rightarrow> shash \<Rightarrow> crash + shash \<times> db_write list" where
  "update_ports texts idl [] = Inr ([], [])"
| "update_ports texts idl ((name, port) # sh) =
     (if ovsrec_interface_get_for_uuid idl (uuid port) = None \<or> \<not> module_info_changed port
      then map_sum id (\<lambda>(sh, ws). ((name, port) # sh, ws)) (update_ports texts idl sh)
      else case make_pm_info texts port of
        Inl e \<Rightarrow> Inl e
      | Inr m \<Rightarrow>
          map_sum id
            (\<lambda>(sh, ws). ((name, port\<lparr>module_info_changed := False\<rparr>) # sh, Set_pm_info (uuid port) m # ws))
            (update_ports texts idl sh))"

definition NAME_IN_DAEMON_TABLE :: string where "NAME_IN_DAEMON_TABLE = ''ops-pmd''"

definition pm_ovsdb_update ::
  "(ext_const \<Rightarrow> string) \<Rightarrow> ovsdb_idl \<Rightarrow> daemon \<Rightarrow> crash + daemon \<times> db_write list" where
  "pm_ovsdb_update texts idl d =
     (case update_ports texts idl (ovs_intfs d) of
        Inl e \<Rightarrow> Inl e
      | Inr (sh, ws) \<Rightarrow>
          if \<not> cur_hw_set d \<and> NAME_IN_DAEMON_TABLE \<in> set (daemon_rows idl)
          then Inr (d\<lparr>ovs_intfs := sh, cur_hw_set := True\<rparr>, ws @ [Set_cur_hw NAME_IN_DAEMON_TABLE 1])
          else Inr (d\<lparr>ovs_intfs := sh\<rparr>, ws))"

section \<open>Reconfiguration\<close>

text \<open>
  The allocated memory that only a port points to: the structure, its two names, the columns that
  are not string constants, the page of a simulated module.
\<close>

datatype block =
    Port_block | Instance_block | Subsystem_block
  | Column_block mod_field | Dom_block dom_field | Module_block

fun owns :: "pm_port \<Rightarrow> block \<Rightarrow> bool" where
  "owns port Port_block = True"
| "owns port Instance_block = True"
| "owns port Subsystem_block = True"
| "owns port (Column_block f) = is_heap (ovs_module_columns port f)"
| "owns port (Dom_block f) = is_heap (ovs_module_dom_columns port f)"
| "owns port Module_block = (module_data port \<noteq> None)"

text \<open>
  \<open>pmd_free_pm_port\<close>: \<open>pm_delete_all_data\<close>, then \<open>free\<close> of the instance and of the port. The
  result says which of the port's blocks are still allocated, with no pointer to them left.
\<close>

definition pmd_free_pm_port :: "pm_port \<Rightarrow> block \<Rightarrow> bool" where
  "pmd_free_pm_port port b \<longleftrightarrow>
     owns (pm_delete_all_data port) b \<and> b \<noteq> Instance_block \<and> b \<noteq> Port_block"

text \<open>
  The loop over the nodes of the table as it was: the node to delete is searched by the
  instance of the port, which is the key of its node.
\<close>

fun delete_interfaces :: "ovsdb_idl \<Rightarrow> shash \<Rightarrow> shash \<Rightarrow> shash" where
  "delete_interfaces idl [] sh = sh"
| "delete_interfaces idl ((name, port) # nodes) sh =
     delete_interfaces idl nodes
       (if ovsrec_interface_get_for_uuid idl (uuid port) = None
        then shash_delete (port_instance port) sh else sh)"

definition delete_subsystems ::
  "ovsdb_idl \<Rightarrow> (string \<times> 128 word) list \<Rightarrow> (string \<times> 128 word) list" where
  "delete_subsystems idl subs = filter (\<lambda>(n, u). ovsrec_subsystem_get_for_uuid idl u \<noteq> None) subs"

fun modify_interfaces ::
  "'w platform \<Rightarrow> ovsrec_interface list \<Rightarrow> daemon \<Rightarrow> 'w \<Rightarrow> daemon \<times> 'w" where
  "modify_interfaces pl [] d w = (d, w)"
| "modify_interfaces pl (intf # intfs) d w =
     (case with_port (ovsdb_if_intf_modify pl intf) (intf_name intf) d w of
        (d, w) \<Rightarrow> modify_interfaces pl intfs d w)"

definition pmd_reconfigure ::
  "'w platform \<Rightarrow> ovsdb_idl \<Rightarrow> daemon \<Rightarrow> 'w \<Rightarrow> crash + daemon \<times> 'w" where
  "pmd_reconfigure pl idl d w =
     (if seqno idl = idl_seqno d then Inr (d, w)
      else
        let d = d\<lparr>idl_seqno := seqno idl,
                   ovs_intfs := delete_interfaces idl (ovs_intfs d) (ovs_intfs d),
                   ovs_subs := delete_subsystems idl (ovs_subs d)\<rparr>
        in case process_subsystems pl (subsystem_rows idl) d w of
             Inl e \<Rightarrow> Inl e
           | Inr (d, w) \<Rightarrow> Inr (modify_interfaces pl (interface_rows idl) d w))"

fun configure_interfaces ::
  "'w platform \<Rightarrow> ovsrec_interface list \<Rightarrow> daemon \<Rightarrow> 'w \<Rightarrow> daemon \<times> 'w" where
  "configure_interfaces pl [] d w = (d, w)"
| "configure_interfaces pl (intf # intfs) d w =
     (case ovsdb_if_intf_configure pl intf d w of
        (d, w) \<Rightarrow> configure_interfaces pl intfs d w)"

definition pmd_configure ::
  "'w platform \<Rightarrow> ovsdb_idl \<Rightarrow> daemon \<Rightarrow> 'w \<Rightarrow> crash + daemon \<times> 'w" where
  "pmd_configure pl idl d w =
     (case process_subsystems pl (subsystem_rows idl) d w of
        Inl e \<Rightarrow> Inl e
      | Inr (d, w) \<Rightarrow> Inr (configure_interfaces pl (interface_rows idl) d w))"

text \<open>The tables are empty, the replica is the one of the connection that was just created.\<close>

definition pm_ovsdb_if_init :: "'w platform \<Rightarrow> ovsdb_idl \<Rightarrow> 'w \<Rightarrow> crash + daemon \<times> 'w" where
  "pm_ovsdb_if_init pl idl w =
     pmd_configure pl idl
       \<lparr>ovs_intfs = [], ovs_subs = [], idl_seqno = seqno idl, cur_hw_set = False\<rparr> w"

section \<open>Debug output\<close>

definition dump_fields :: "(mod_field \<times> string) list" where
  "dump_fields =
     [(Cable_length, ''    cable_length           = ''),
      (Cable_technology, ''    cable_technology       = ''),
      (Connector, ''    connector              = ''),
      (Connector_status, ''    connector_status       = ''),
      (Supported_speeds, ''    supported_speeds       = ''),
      (Max_speed, ''    max_speed              = ''),
      (Power_mode, ''    power_mode             = ''),
      (Vendor_name, ''    vendor_name            = ''),
      (Vendor_oui, ''    vendor_oui             = ''),
      (Vendor_part_number, ''    vendor_part_number     = ''),
      (Vendor_revision, ''    vendor_revision        = ''),
      (Vendor_serial_number, ''    vendor_serial_number   = '')]"

definition pm_interface_dump :: "(ext_const \<Rightarrow> string) \<Rightarrow> pm_port \<Rightarrow> string" where
  "pm_interface_dump texts port =
     ''Pluggable info for Interface '' @ port_instance port @ '':'' @ [CHR 0x0A] @
     concat (map (\<lambda>(f, label). case col_text texts port f of
                    None \<Rightarrow> ''''
                  | Some s \<Rightarrow> label @ s @ [CHR 0x0A]) dump_fields)"

text \<open>\<open>argv\<close> as the list of the arguments; without them the whole table is printed.\<close>

definition pm_interfaces_dump :: "(ext_const \<Rightarrow> string) \<Rightarrow> string list \<Rightarrow> daemon \<Rightarrow> string" where
  "pm_interfaces_dump texts argv d =
     (if 2 < length argv
      then (case shash_find (ovs_intfs d) (argv ! 2) of
              None \<Rightarrow> ''''
            | Some port \<Rightarrow> pm_interface_dump texts port)
      else ''================ Interfaces ================'' @ [CHR 0x0A] @
        concat (map (\<lambda>(name, port). pm_interface_dump texts port) (ovs_intfs d)))"

definition pm_debug_dump :: "(ext_const \<Rightarrow> string) \<Rightarrow> string list \<Rightarrow> daemon \<Rightarrow> string" where
  "pm_debug_dump texts argv d =
     (if 1 < length argv
      then (if argv ! 1 = ''interface'' then pm_interfaces_dump texts argv d else '''')
      else pm_interfaces_dump texts [] d)"

end
