(* ===== verification/Pmd.thy ===== *)
theory Pmd
  imports Ovsdb_Access
begin

text \<open>
  \<open>src/pmd.c\<close>: the main loop and the commands of the control socket, and the states that the
  daemon can reach. Waiting is where the world changes. The command line and the exit status are in
  \<open>Process\<close>.
\<close>

section \<open>One round\<close>

definition pmd_init :: "'w platform \<Rightarrow> ovsdb_idl \<Rightarrow> 'w \<Rightarrow> crash + daemon \<times> 'w" where
  "pmd_init pl idl w = pm_ovsdb_if_init pl idl (pm_config_init pl w)"

text \<open>
  \<open>pmd_run\<close>, with the replica after \<open>ovsdb_idl_run\<close> and the state of the database lock; the
  third result is what the transaction writes.
\<close>

definition pmd_run ::
  "'w platform \<Rightarrow> ovsdb_idl \<Rightarrow> bool \<Rightarrow> bool \<Rightarrow> daemon \<Rightarrow> 'w \<Rightarrow> crash + daemon \<times> 'w \<times> db_write list"
where
  "pmd_run pl idl lock_contended has_lock d w =
     (if lock_contended then Inr (d, w, [])
      else if \<not> has_lock then Inr (d, w, [])
      else case pmd_reconfigure pl idl d w of
        Inl e \<Rightarrow> Inl e
      | Inr (d, w) \<Rightarrow>
          (case pm_read_state pl (ovs_intfs d) w of
             (rc, sh, w) \<Rightarrow>
               (case pm_ovsdb_update (cn pl) idl (d\<lparr>ovs_intfs := sh\<rparr>) of
                  Inl e \<Rightarrow> Inl e
                | Inr (d, ws) \<Rightarrow> Inr (d, w, ws))))"

section \<open>Commands\<close>

datatype reply = Reply string | Reply_error string

text \<open>
  \<open>ops-pmd/sim\<close>, registered with two or three arguments after the name. Invalid usage returns
  without a reply.
\<close>

definition pmd_unixctl_sim ::
  "'w platform \<Rightarrow> string list \<Rightarrow> daemon \<Rightarrow> 'w \<Rightarrow> reply option \<times> daemon" where
  "pmd_unixctl_sim pl argv d w =
     (let finish = (\<lambda>(rc, ds, sh).
            (Some (if rc < (0 :: int) then Reply_error ds else Reply ds), d\<lparr>ovs_intfs := sh\<rparr>))
      in if length argv = 4 \<and> argv ! 2 = ''insert''
         then finish (pmd_sim_insert pl (argv ! 1) (argv ! 3) (ovs_intfs d) w)
         else if length argv = 3 \<and> argv ! 2 = ''remove''
         then finish (pmd_sim_remove (argv ! 1) (ovs_intfs d))
         else (None, d))"

definition pmd_unixctl_dump :: "(ext_const \<Rightarrow> string) \<Rightarrow> string list \<Rightarrow> daemon \<Rightarrow> reply" where
  "pmd_unixctl_dump texts argv d = Reply (pm_debug_dump texts argv d)"

section \<open>The main loop\<close>

text \<open>
  The commands that the server of the control socket dispatches: \<open>exit\<close>, \<open>ops-pmd/sim\<close>
  (registered in a simulation build only), \<open>ops-pmd/dump\<close>. \<open>ops_pmd_exit\<close> sets the flag of
  \<open>main\<close> and replies with an empty text.
\<close>

datatype command = Exit | Sim "string list" | Dump "string list"

definition ops_pmd_exit :: "bool \<Rightarrow> reply \<times> bool" where
  "ops_pmd_exit exiting = (Reply '''', True)"

fun run_command ::
  "'w platform \<Rightarrow> command \<Rightarrow> bool \<Rightarrow> daemon \<Rightarrow> 'w \<Rightarrow> reply option \<times> bool \<times> daemon" where
  "run_command pl Exit exiting d w = (case ops_pmd_exit exiting of (r, exiting) \<Rightarrow> (Some r, exiting, d))"
| "run_command pl (Sim argv) exiting d w =
     (if simulation pl then (case pmd_unixctl_sim pl argv d w of (r, d) \<Rightarrow> (r, exiting, d))
      else (None, exiting, d))"
| "run_command pl (Dump argv) exiting d w = (Some (pmd_unixctl_dump (cn pl) argv d), exiting, d)"

fun run_commands ::
  "'w platform \<Rightarrow> command list \<Rightarrow> bool \<Rightarrow> daemon \<Rightarrow> 'w \<Rightarrow> reply option list \<times> bool \<times> daemon" where
  "run_commands pl [] exiting d w = ([], exiting, d)"
| "run_commands pl (c # cs) exiting d w =
     (case run_command pl c exiting d w of (r, exiting, d) \<Rightarrow>
        case run_commands pl cs exiting d w of (rs, exiting, d) \<Rightarrow> (r # rs, exiting, d))"

text \<open>
  What one turn of the loop meets: the replica and the lock, the commands, and what happens
  outside while the daemon waits.
\<close>

record 'w turn =
  turn_idl :: ovsdb_idl
  turn_contended :: bool
  turn_lock :: bool
  turn_commands :: "command list"
  turn_world :: "'w \<Rightarrow> 'w"

text \<open>
  The loop over a list of turns, until the flag is set or the list ends; the last result is the
  list of the transactions.
\<close>

fun main_loop ::
  "'w platform \<Rightarrow> 'w turn list \<Rightarrow> bool \<Rightarrow> daemon \<Rightarrow> 'w \<Rightarrow> crash + bool \<times> daemon \<times> 'w \<times> db_write list list"
where
  "main_loop pl [] exiting d w = Inr (exiting, d, w, [])"
| "main_loop pl (t # ts) exiting d w =
     (if exiting then Inr (exiting, d, w, [])
      else case pmd_run pl (turn_idl t) (turn_contended t) (turn_lock t) d w of
        Inl e \<Rightarrow> Inl e
      | Inr (d, w, ws) \<Rightarrow>
          (case run_commands pl (turn_commands t) exiting d w of
             (rs, exiting, d) \<Rightarrow>
               map_sum id (\<lambda>(x, d, w, wss). (x, d, w, ws # wss))
                 (main_loop pl ts exiting d (turn_world t w))))"

definition pmd_main ::
  "'w platform \<Rightarrow> ovsdb_idl \<Rightarrow> 'w turn list \<Rightarrow> 'w \<Rightarrow> crash + bool \<times> daemon \<times> 'w \<times> db_write list list" where
  "pmd_main pl idl ts w =
     (case pmd_init pl idl w of Inl e \<Rightarrow> Inl e | Inr (d, w) \<Rightarrow> main_loop pl ts False d w)"

section \<open>Reachable states\<close>

text \<open>
  The states that the loop of \<open>main\<close> passes through: rounds, commands, and in between any
  change of the world outside. A round may see any replica and any state of the lock.
\<close>

inductive reachable :: "'w platform \<Rightarrow> daemon \<Rightarrow> 'w \<Rightarrow> bool" for pl :: "'w platform" where
  start: "pmd_init pl idl w = Inr (d, v) \<Longrightarrow> reachable pl d v"
| round: "reachable pl d w \<Longrightarrow> pmd_run pl idl contended has_lock d w = Inr (e, v, ws) \<Longrightarrow> reachable pl e v"
| command: "reachable pl d w \<Longrightarrow> simulation pl \<Longrightarrow> pmd_unixctl_sim pl argv d w = (r, e) \<Longrightarrow> reachable pl e w"
| outside: "reachable pl d w \<Longrightarrow> reachable pl d v"

inductive_cases reachableE: "reachable pl d w"

section \<open>The invariant\<close>

text \<open>
  What the daemon relies on in the hardware description: a pluggable port has one of the three
  connectors that the daemon knows.
\<close>

definition yaml_ok :: "'w platform \<Rightarrow> bool" where
  "yaml_ok pl \<longleftrightarrow> (\<forall>w sub i. yp_pluggable (yaml_get_port pl w sub i) \<longrightarrow>
     (\<exists>conn. yp_connector (yaml_get_port pl w sub i) = Some conn \<and>
        conn \<in> {CONNECTOR_SFP_PLUS, CONNECTOR_QSFP_PLUS, CONNECTOR_QSFP28}))"

end
