(* ===== verification/Pm_Info.thy ===== *)
theory Pm_Info
  imports Ovsdb_Access Port_States
begin

text \<open>
  What \<open>pm_ovsdb_update\<close> puts into the \<open>pm_info\<close> column of a row: the keys, derived from
  the names of the columns, and the proof that the statements of the code publish every column
  that is set, each under its own key, and nothing else.
\<close>

section \<open>Keys\<close>

text \<open>The dumps of the pages are not published.\<close>

fun mod_key :: "mod_field \<Rightarrow> string option" where
  "mod_key Cable_length = Some ''cable_length''"
| "mod_key Cable_technology = Some ''cable_technology''"
| "mod_key Connector = Some ''connector''"
| "mod_key Connector_status = Some ''connector_status''"
| "mod_key Supported_speeds = Some ''supported_speeds''"
| "mod_key Max_speed = Some ''max_speed''"
| "mod_key Power_mode = Some ''power_mode''"
| "mod_key Vendor_name = Some ''vendor_name''"
| "mod_key Vendor_oui = Some ''vendor_oui''"
| "mod_key Vendor_part_number = Some ''vendor_part_number''"
| "mod_key Vendor_revision = Some ''vendor_revision''"
| "mod_key Vendor_serial_number = Some ''vendor_serial_number''"
| "mod_key A0 = None"
| "mod_key A0_uppers = None"
| "mod_key A2 = None"

fun lane_digit :: "lane \<Rightarrow> string" where
  "lane_digit L1 = ''1''" | "lane_digit L2 = ''2''" | "lane_digit L3 = ''3''" | "lane_digit L4 = ''4''"

fun quantity_key :: "dom_quantity \<Rightarrow> string" where
  "quantity_key Temperature = ''temperature''"
| "quantity_key Vcc = ''vcc''"
| "quantity_key Tx_bias = ''tx_bias''"
| "quantity_key Rx_power = ''rx_power''"
| "quantity_key Tx_power = ''tx_power''"
| "quantity_key (Tx_lane_bias n) = ''tx'' @ lane_digit n @ ''_bias''"
| "quantity_key (Rx_lane_power n) = ''rx'' @ lane_digit n @ ''_power''"

fun level_key :: "level \<Rightarrow> string" where
  "level_key High_alarm = ''_high_alarm''"
| "level_key Low_alarm = ''_low_alarm''"
| "level_key High_warning = ''_high_warning''"
| "level_key Low_warning = ''_low_warning''"

fun dom_key :: "dom_field \<Rightarrow> string" where
  "dom_key (q, Value) = quantity_key q"
| "dom_key (q, Flag l) = quantity_key q @ level_key l"
| "dom_key (q, Threshold l) = quantity_key q @ level_key l @ ''_threshold''"

section \<open>The tables\<close>

lemmas info_defs =
  temperature_info_def vcc_info_def tx_bias_info_def rx_power_info_def tx_power_info_def
  lane1_info_def lane2_info_def lane3_info_def lane4_info_def

lemma module_info_entry: "(g, k, v) \<in> set module_info \<longleftrightarrow> g = v \<and> mod_key v = Some k"
  by (cases v) (auto simp: module_info_def)

text \<open>The guard of one entry is another column than the one that is added.\<close>

definition rx_alarm :: dom_field where "rx_alarm = (Rx_power, Flag High_alarm)"
definition tx_alarm :: dom_field where "tx_alarm = (Tx_power, Flag High_alarm)"

definition entry_ok :: "dom_field \<times> string \<times> dom_field \<Rightarrow> bool" where
  "entry_ok = (\<lambda>(g, k, v). k = dom_key v \<and> (g = v \<or> g = rx_alarm \<and> v = tx_alarm))"

lemma dom_info_entries: "\<forall>e \<in> set dom_info. entry_ok e"
proof -
  have "\<forall>e \<in> set temperature_info. entry_ok e" "\<forall>e \<in> set vcc_info. entry_ok e"
      "\<forall>e \<in> set tx_bias_info. entry_ok e" "\<forall>e \<in> set rx_power_info. entry_ok e"
      "\<forall>e \<in> set tx_power_info. entry_ok e"
      "\<forall>e \<in> set lane1_info. entry_ok e" "\<forall>e \<in> set lane2_info. entry_ok e"
      "\<forall>e \<in> set lane3_info. entry_ok e" "\<forall>e \<in> set lane4_info. entry_ok e"
    by (simp_all add: info_defs entry_ok_def rx_alarm_def tx_alarm_def)
  then show ?thesis by (simp add: dom_info_def ball_Un)
qed

text \<open>All columns of a quantity have an entry in a table.\<close>

definition covers :: "(dom_field \<times> string \<times> dom_field) list \<Rightarrow> dom_quantity \<Rightarrow> bool" where
  "covers es q \<longleftrightarrow> (\<forall>a. (q, a) \<in> set (map (\<lambda>e. snd (snd e)) es))"

lemma covers_tables:
  "covers temperature_info Temperature" "covers vcc_info Vcc" "covers tx_bias_info Tx_bias"
  "covers rx_power_info Rx_power" "covers tx_power_info Tx_power"
  "covers lane1_info (Tx_lane_bias L1)" "covers lane1_info (Rx_lane_power L1)"
  "covers lane2_info (Tx_lane_bias L2)" "covers lane2_info (Rx_lane_power L2)"
  "covers lane3_info (Tx_lane_bias L3)" "covers lane3_info (Rx_lane_power L3)"
  "covers lane4_info (Tx_lane_bias L4)" "covers lane4_info (Rx_lane_power L4)"
  by (simp_all add: covers_def info_defs dom_attr_all)

lemma covers_dom_info: "covers dom_info q"
proof -
  note append = dom_info_def covers_def set_append map_append Un_iff
  show ?thesis
  proof (cases q)
    case (Tx_lane_bias n)
    then show ?thesis using covers_tables(6,8,10,12) by (cases n) (simp_all add: append del: set_map)
  next
    case (Rx_lane_power n)
    then show ?thesis using covers_tables(7,9,11,13) by (cases n) (simp_all add: append del: set_map)
  qed (use covers_tables(1-5) in \<open>simp_all add: append del: set_map\<close>)
qed

lemma dom_info_complete: "\<exists>g. (g, dom_key f, f) \<in> set dom_info"
proof -
  have "f \<in> set (map (\<lambda>e. snd (snd e)) dom_info)"
    using covers_dom_info [of "fst f"] unfolding covers_def by (metis prod.collapse)
  then obtain g k where e: "(g, k, f) \<in> set dom_info" by auto
  moreover have "k = dom_key f" using bspec [OF dom_info_entries e] by (simp add: entry_ok_def)
  ultimately show ?thesis by blast
qed

lemma info_keys_distinct:
  "distinct (map (\<lambda>e. fst (snd e)) module_info @ map (\<lambda>e. fst (snd e)) dom_info)"
  by (simp add: info_defs dom_info_def module_info_def)

section \<open>Adding the entries\<close>

definition added :: "('f \<Rightarrow> string option) \<Rightarrow> ('f \<times> string \<times> 'f) list \<Rightarrow> smap" where
  "added cols es = map (\<lambda>(g, k, v). (k, the (cols v))) (filter (\<lambda>(g, k, v). cols v \<noteq> None) es)"

lemma smap_add_all_added:
  "\<forall>(g, k, v) \<in> set es. cols g = None \<longleftrightarrow> cols v = None \<Longrightarrow>
     smap_add_all cols es m = Inr (m @ added cols es)"
  by (induction cols es m rule: smap_add_all.induct) (auto simp: added_def)

lemma set_added: "(k, s) \<in> set (added cols es) \<longleftrightarrow> (\<exists>g v. (g, k, v) \<in> set es \<and> cols v = Some s)"
  by (force simp: added_def)

lemma keys_added: "set (map fst (added cols es)) \<subseteq> set (map (\<lambda>e. fst (snd e)) es)"
  by (force simp: added_def)

lemma distinct_added: "distinct (map (\<lambda>e. fst (snd e)) es) \<Longrightarrow> distinct (map fst (added cols es))"
proof (induction es)
  case Nil
  then show ?case by (simp add: added_def)
next
  case (Cons e es)
  obtain g k v where e: "e = (g, k, v)" by (cases e)
  have "added cols (e # es) = (if cols v = None then [] else [(k, the (cols v))]) @ added cols es"
    by (simp add: e added_def)
  then show ?case using Cons keys_added [of cols es] by (auto simp: e)
qed

text \<open>
  The two flags of which one guards the other are set together: this is what keeps the code
  from adding a NULL value.
\<close>

definition alarms_paired :: "pm_port \<Rightarrow> bool" where
  "alarms_paired port \<longleftrightarrow>
     (ovs_module_dom_columns port rx_alarm = None \<longleftrightarrow> ovs_module_dom_columns port tx_alarm = None)"

definition pm_info_of :: "(ext_const \<Rightarrow> string) \<Rightarrow> pm_port \<Rightarrow> smap" where
  "pm_info_of texts port = added (col_text texts port) module_info @ added (dom_text texts port) dom_info"

lemma make_pm_info_added:
  assumes "alarms_paired port"
  shows "make_pm_info texts port = Inr (pm_info_of texts port)"
proof -
  have "smap_add_all (col_text texts port) module_info [] = Inr ([] @ added (col_text texts port) module_info)"
    by (rule smap_add_all_added) (auto simp: module_info_entry)
  moreover have "smap_add_all (dom_text texts port) dom_info m = Inr (m @ added (dom_text texts port) dom_info)" for m
  proof (rule smap_add_all_added, intro ballI, clarify)
    fix g1 g2 k v1 v2
    assume "((g1, g2), k, v1, v2) \<in> set dom_info"
    then show "(dom_text texts port (g1, g2) = None) = (dom_text texts port (v1, v2) = None)"
      using bspec [OF dom_info_entries] assms
      by (fastforce simp: entry_ok_def alarms_paired_def dom_text_def rx_alarm_def tx_alarm_def)
  qed
  ultimately show ?thesis by (simp add: make_pm_info_def pm_info_of_def)
qed

lemma pm_info_of_distinct: "distinct (map fst (pm_info_of texts port))"
  using info_keys_distinct keys_added [of "col_text texts port" module_info]
    keys_added [of "dom_text texts port" dom_info]
  unfolding pm_info_of_def map_append distinct_append by (blast intro: distinct_added)

lemma set_pm_info_of:
  "(k, s) \<in> set (pm_info_of texts port) \<longleftrightarrow>
     (\<exists>f. mod_key f = Some k \<and> col_text texts port f = Some s) \<or>
     (\<exists>f. dom_key f = k \<and> dom_text texts port f = Some s)"
proof -
  have "(\<exists>g v. (g, k, v) \<in> set dom_info \<and> dom_text texts port v = Some s) \<longleftrightarrow>
      (\<exists>f. dom_key f = k \<and> dom_text texts port f = Some s)"
    using dom_info_complete bspec [OF dom_info_entries] by (fastforce simp: entry_ok_def)
  then show ?thesis by (auto simp: pm_info_of_def set_added module_info_entry)
qed

text \<open>The keys of two columns differ.\<close>

lemma mod_key_inj: "mod_key f = Some k \<Longrightarrow> mod_key g = Some k \<Longrightarrow> f = g"
  by (cases f; cases g) auto

lemma inj_dom_key: "dom_key f = dom_key g \<Longrightarrow> f = g"
proof -
  assume eq: "dom_key f = dom_key g"
  obtain a b where e: "(a, dom_key f, f) \<in> set dom_info" "(b, dom_key f, g) \<in> set dom_info"
    using dom_info_complete [of f] dom_info_complete [of g] eq by auto
  have "distinct (map (\<lambda>e. fst (snd e)) dom_info)" using info_keys_distinct by simp
  then have "inj_on (\<lambda>e. fst (snd e)) (set dom_info)" by (simp add: distinct_map)
  from inj_onD [OF this _ e] show "f = g" by simp
qed

lemma mod_dom_key: "mod_key f = Some k \<Longrightarrow> dom_key g \<noteq> k"
proof
  assume f: "mod_key f = Some k" and g: "dom_key g = k"
  have "(f, k, f) \<in> set module_info" using f by (simp add: module_info_entry)
  moreover obtain a where "(a, k, g) \<in> set dom_info" using dom_info_complete [of g] g by auto
  ultimately show False using info_keys_distinct unfolding distinct_append by force
qed

lemma option_ext: "(\<And>s. x = Some s \<longleftrightarrow> y = Some s) \<Longrightarrow> x = y"
  by (cases x) (metis option.exhaust)+

text \<open>What the database returns for a key.\<close>

lemma smap_get_pm_info:
  "mod_key f = Some k \<Longrightarrow> smap_get (pm_info_of texts port) k = col_text texts port f"
  "smap_get (pm_info_of texts port) (dom_key h) = dom_text texts port h"
proof -
  have get: "smap_get (pm_info_of texts port) k = Some s \<longleftrightarrow> (k, s) \<in> set (pm_info_of texts port)" for k s
    by (simp add: smap_get_def map_of_eq_Some_iff pm_info_of_distinct)
  show "smap_get (pm_info_of texts port) k = col_text texts port f" if "mod_key f = Some k"
    by (rule option_ext) (use that in \<open>auto simp: get set_pm_info_of dest: mod_key_inj mod_dom_key\<close>)
  show "smap_get (pm_info_of texts port) (dom_key h) = dom_text texts port h"
    by (rule option_ext) (metis get set_pm_info_of inj_dom_key mod_dom_key)
qed

end
