(* ===== verification/Daemon_Inv.thy ===== *)
theory Daemon_Inv
  imports Pmd Pm_Info Enable_Props
begin

text \<open>
  The invariant of the daemon: what holds of every port in the table between two steps, and
  the proofs that every operation of \<open>src/ovsdb_access.c\<close> and \<open>src/pmd.c\<close> keeps it, and
  under it never dereferences NULL.
\<close>

section \<open>One port\<close>

definition port_ok :: "(ext_const \<Rightarrow> string) \<Rightarrow> string \<Rightarrow> pm_port \<Rightarrow> bool" where
  "port_ok texts name p \<longleftrightarrow>
     port_instance p = name \<and> (\<exists>conn st. managed conn p \<and> in_state texts conn st p) \<and>
     module_data_ok p \<and> length (hw_enable_subport p) = MAX_SPLIT_COUNT \<and> \<not> split_port p \<and>
     alarms_paired p"

text \<open>Members that the invariant does not constrain.\<close>

lemma in_state_cong:
  "ovs_module_columns q = ovs_module_columns p \<Longrightarrow> present q = present p \<Longrightarrow> retry q = retry p \<Longrightarrow>
     optical q = optical p \<Longrightarrow> in_state texts conn st q \<longleftrightarrow> in_state texts conn st p"
  by (cases st) (simp_all add: in_state_def col_text_def fun_eq_iff)

lemma port_ok_frame [simp]:
  "port_ok texts name (p\<lparr>port_enable := b\<rparr>) \<longleftrightarrow> port_ok texts name p"
  "port_ok texts name (p\<lparr>hw_enable := e\<rparr>) \<longleftrightarrow> port_ok texts name p"
  "port_ok texts name (p\<lparr>module_info_changed := c\<rparr>) \<longleftrightarrow> port_ok texts name p"
proof -
  have "port_ok texts name q \<longleftrightarrow> port_ok texts name p"
    if "q \<in> {p\<lparr>port_enable := b\<rparr>, p\<lparr>hw_enable := e\<rparr>, p\<lparr>module_info_changed := c\<rparr>}" for q
  proof -
    have "in_state texts conn st q \<longleftrightarrow> in_state texts conn st p" for conn st
      using that by (intro in_state_cong) auto
    then show ?thesis
      using that by (auto simp: port_ok_def managed_def mem_ok_def module_data_ok_def alarms_paired_def)
  qed
  then show "port_ok texts name (p\<lparr>port_enable := b\<rparr>) \<longleftrightarrow> port_ok texts name p"
    "port_ok texts name (p\<lparr>hw_enable := e\<rparr>) \<longleftrightarrow> port_ok texts name p"
    "port_ok texts name (p\<lparr>module_info_changed := c\<rparr>) \<longleftrightarrow> port_ok texts name p"
    by simp_all
qed

lemma port_ok_module_data:
  "port_ok texts name p \<Longrightarrow> d = None \<or> (\<exists>bs. d = Some bs \<and> length bs = 128) \<Longrightarrow>
     port_ok texts name (set_module_data d p)"
  by (auto simp: port_ok_def) (auto simp: set_module_data_def alarms_paired_def)

text \<open>Configuring a port changes only the enable byte of a simulation build.\<close>

lemma configure_port_result: "\<exists>b. fst (pm_configure_port pl p w) = p\<lparr>port_enable := b\<rparr>"
proof -
  have "\<exists>b. p = p\<lparr>port_enable := b\<rparr>" by (rule exI [of _ "port_enable p"]) simp
  then show ?thesis by (auto simp: pm_configure_port_def pm_configure_qsfp_def Let_def)
qed

lemma port_ok_configure: "port_ok texts name p \<Longrightarrow> port_ok texts name (fst (pm_configure_port pl p w))"
  using configure_port_result [of pl p w] by auto

lemma port_ok_modify: "port_ok texts name p \<Longrightarrow> port_ok texts name (fst (ovsdb_if_intf_modify pl intf p w))"
  by (auto simp: ovsdb_if_intf_modify_def Let_def intro: port_ok_configure)

text \<open>A new port.\<close>

lemma port_ok_new:
  assumes "yp_pluggable yaml" and "yp_connector yaml = Some conn"
    and "conn \<in> {CONNECTOR_SFP_PLUS, CONNECTOR_QSFP_PLUS, CONNECTOR_QSFP28}"
  shows "port_ok texts (intf_name intf) (new_port pl intf sub yaml)"
proof -
  let ?p = "new_port pl intf sub yaml"
  have "managed conn ?p" using assms
    by (auto simp: managed_def new_port_def mem_ok_def is_static_def known_connector_def)
  moreover have "in_state texts conn Fresh ?p"
    by (simp add: in_state_def new_port_def col_text_def fun_eq_iff)
  ultimately show ?thesis
    by (auto simp: port_ok_def) (auto simp: new_port_def module_data_ok_def alarms_paired_def)
qed

section \<open>The diagnostic columns of a port\<close>

lemma dom_columns_simps:
  "ovs_module_dom_columns (pm_delete_all_data p) = ovs_module_dom_columns p"
  "static_field f \<Longrightarrow> ovs_module_dom_columns (SET_STATIC_STRING f c p) = ovs_module_dom_columns p"
  "ovs_module_dom_columns (set_present b p) = ovs_module_dom_columns p"
  "ovs_module_dom_columns (set_retry b p) = ovs_module_dom_columns p"
  "ovs_module_dom_columns (set_a2_requested b p) = ovs_module_dom_columns p"
  "ovs_module_dom_columns (set_a2_read_request pg p) = ovs_module_dom_columns p"
  "ovs_module_dom_columns (snd (pm_parse texts pg p)) = ovs_module_dom_columns p"
  by (rule dom_frame.keep_delete_all, simp) (rule dom_frame.keep_static, simp, simp,
      simp_all add: setter_defs set_a2_read_request_def Let_def pm_parse_dom)

lemma dom_columns_ends:
  "ovs_module_dom_columns (module_absent p) = ovs_module_dom_columns p"
  "ovs_module_dom_columns (read_failed p) = ovs_module_dom_columns p"
  "ovs_module_dom_columns (checksum_failed p) = ovs_module_dom_columns p"
  "ovs_module_dom_columns (parse_verified texts pg p) = ovs_module_dom_columns p"
  by (simp_all add: module_absent_def read_failed_def checksum_failed_def parse_verified_def
      dom_columns_simps static_field_def split: prod.split)
    (metis dom_columns_simps(7) snd_conv)

lemma alarms_paired_text:
  "alarms_paired p \<longleftrightarrow> (dom_text texts p rx_alarm = None \<longleftrightarrow> dom_text texts p tx_alarm = None)"
  by (simp add: alarms_paired_def dom_text_def)

text \<open>The two power alarms are written together, by the part for SFP+ modules, or not at all.\<close>

lemma alarms_paired_set_a2:
  assumes "yp_pluggable (module_device p)" and "yp_connector (module_device p) = Some conn"
    and "known_connector conn" and "alarms_paired p"
  shows "alarms_paired (pm_set_a2 texts pg p)"
  using assms(4) unfolding alarms_paired_text [of _ texts] pm_set_a2_dom [OF assms(1-3)]
  by (simp add: dom_column_def dom_source_def rx_alarm_def tx_alarm_def)

lemma alarms_paired_cong:
  "ovs_module_dom_columns q = ovs_module_dom_columns p \<Longrightarrow> alarms_paired q \<longleftrightarrow> alarms_paired p"
  by (simp add: alarms_paired_def)

lemma alarms_paired_read:
  assumes "managed conn p" and "alarms_paired p"
  shows "alarms_paired (fst (snd (pm_read_module_state pl p w)))"
proof -
  obtain rc p' w' where r: "pm_read_module_state pl p w = (rc, p', w')" by (metis prod_cases3)
  have "alarms_paired p'"
    using assms(1) r
  proof (cases rule: pm_read_module_state_cases)
    case (published pg d)
    let ?q = "parse_verified (cn pl) pg p"
    have "config_of ?q = config_of p" by (rule cfg.keep_parse_verified) simp
    then have q: "yp_pluggable (module_device ?q)" "yp_connector (module_device ?q) = Some conn"
      "known_connector conn" using assms(1) by (simp_all add: managed_def config_of_def)
    have "alarms_paired ?q"
      using assms(2) by (simp add: alarms_paired_cong [OF dom_columns_ends(4)])
    then have "alarms_paired (pm_set_a2 (cn pl) d ?q)" by (rule alarms_paired_set_a2 [OF q])
    then show ?thesis
      by (simp add: published(5) publish_a2_def alarms_paired_cong [OF dom_columns_simps(5)])
  qed (use assms(2) in \<open>auto simp: alarms_paired_cong [OF dom_columns_ends(1)]
      alarms_paired_cong [OF dom_columns_ends(2)] alarms_paired_cong [OF dom_columns_ends(3)]
      alarms_paired_cong [OF dom_columns_ends(4)]\<close>)
  then show ?thesis by (simp add: r)
qed

lemma port_ok_read:
  assumes "port_ok (cn pl) name p"
  shows "port_ok (cn pl) name (fst (snd (pm_read_module_state pl p w)))"
proof -
  let ?q = "fst (snd (pm_read_module_state pl p w))"
  obtain conn st where p: "managed conn p" "in_state (cn pl) conn st p"
    using assms by (auto simp: port_ok_def)
  have "config_of ?q = config_of p" by (rule cfg.keep_read_module_state) simp
  moreover obtain st' where "in_state (cn pl) conn st' ?q" using read_module_simulation [OF p] by blast
  moreover have "managed conn ?q" by (rule pm_read_module_state_managed [OF p(1)])
  moreover have "alarms_paired ?q"
    using alarms_paired_read [OF p(1)] assms by (simp add: port_ok_def)
  ultimately show ?thesis using assms unfolding port_ok_def module_data_ok_def config_of_def by auto
qed

section \<open>Invariants of the table\<close>

definition all_ports :: "(string \<Rightarrow> pm_port \<Rightarrow> bool) \<Rightarrow> shash \<Rightarrow> bool" where
  "all_ports Q sh \<longleftrightarrow> shash_ok sh \<and> (\<forall>(name, p) \<in> set sh. Q name p)"

lemma all_portsD: "all_ports Q sh \<Longrightarrow> shash_find sh name = Some p \<Longrightarrow> Q name p"
  by (auto simp: all_ports_def shash_find_iff)

lemma all_ports_Nil: "all_ports Q []"
  by (simp add: all_ports_def shash_ok_def)

lemma all_ports_add:
  "all_ports Q sh \<Longrightarrow> shash_find sh name = None \<Longrightarrow> Q name p \<Longrightarrow> all_ports Q (shash_add pl name p sh)"
  by (auto simp: all_ports_def intfs.ok_add set_shash_add)

lemma all_ports_delete: "all_ports Q sh \<Longrightarrow> all_ports Q (shash_delete name sh)"
  by (simp add: all_ports_def intfs.ok_delete) (simp add: shash_delete_def)

lemma all_ports_modify:
  "all_ports Q sh \<Longrightarrow> (\<And>p. (name, p) \<in> set sh \<Longrightarrow> Q name (f p)) \<Longrightarrow> all_ports Q (shash_modify name f sh)"
  by (auto simp: all_ports_def intfs.ok_modify) (auto simp: shash_modify_def split: if_splits)

lemma all_ports_for_each:
  assumes "\<And>name p w. Q name p \<Longrightarrow> R name (fst (f p w))" and "all_ports Q sh"
  shows "all_ports R (fst (shash_for_each f sh w))"
  unfolding all_ports_def
proof (intro conjI ballI)
  show "shash_ok (fst (shash_for_each f sh w))"
    using assms(2) by (simp add: all_ports_def shash_for_each_ok)
  fix e
  assume "e \<in> set (fst (shash_for_each f sh w))"
  then obtain name p v where "e = (name, fst (f p v))" "(name, p) \<in> set sh"
    using shash_for_each_entry [of "fst e" "snd e" f sh w] by (metis prod.collapse)
  then show "case e of (name, p) \<Rightarrow> R name p" using assms by (auto simp: all_ports_def)
qed

lemma all_ports_mono: "all_ports Q sh \<Longrightarrow> (\<And>name p. Q name p \<Longrightarrow> R name p) \<Longrightarrow> all_ports R sh"
  by (auto simp: all_ports_def)

text \<open>
  The interface between the operations on one port and those on the table: what a property of
  the ports must survive so that it holds of the table in every state. \<open>row\<close> is what is known
  of the rows of the database.
\<close>

locale table_invariant =
  fixes pl :: "'w platform" and row :: "ovsrec_interface \<Rightarrow> bool" and Q :: "string \<Rightarrow> pm_port \<Rightarrow> bool"
  assumes keep_new: "row intf \<Longrightarrow> yp_pluggable yaml \<Longrightarrow> yp_connector yaml = Some conn \<Longrightarrow>
        conn \<in> {CONNECTOR_SFP_PLUS, CONNECTOR_QSFP_PLUS, CONNECTOR_QSFP28} \<Longrightarrow>
        Q (intf_name intf) (new_port pl intf sub yaml)"
    and keep_configure: "Q name p \<Longrightarrow> Q name (fst (pm_configure_port pl p w))"
    and keep_enable: "Q name p \<Longrightarrow> Q name (p\<lparr>hw_enable := b\<rparr>)"
    and keep_read: "Q name p \<Longrightarrow> Q name (fst (snd (pm_read_module_state pl p w)))"
    and keep_data: "Q name p \<Longrightarrow> d = None \<or> (\<exists>bs. d = Some bs \<and> length bs = 128) \<Longrightarrow>
        Q name (set_module_data d p)"
begin

definition good :: "crash + daemon \<times> 'w \<Rightarrow> bool" where
  "good r \<longleftrightarrow> (\<exists>d w. r = Inr (d, w) \<and> all_ports Q (ovs_intfs d))"

lemma good_Inr [simp]: "good (Inr (d, w)) \<longleftrightarrow> all_ports Q (ovs_intfs d)"
  by (simp add: good_def)

lemma good_bind:
  "good r \<Longrightarrow> (\<And>d w. all_ports Q (ovs_intfs d) \<Longrightarrow> good (f d w)) \<Longrightarrow>
     good (case r of Inl e \<Rightarrow> Inl e | Inr (d, w) \<Rightarrow> f d w)"
  by (auto simp: good_def)

lemma keep_modify: "Q name p \<Longrightarrow> Q name (fst (ovsdb_if_intf_modify pl intf p w))"
  by (simp add: ovsdb_if_intf_modify_def Let_def keep_configure keep_enable)

lemma create_good:
  assumes "all_ports Q (ovs_intfs d)" and "shash_find (ovs_intfs d) (intf_name intf) = None"
    and "row intf" and "yaml_ok pl"
  shows "good (ovsdb_if_intf_create pl intf sub d w)"
proof (cases "pm_get_yaml_port pl w sub (intf_name intf)")
  case None
  then show ?thesis using assms(1) by (simp add: ovsdb_if_intf_create_def)
next
  case (Some yaml)
  then obtain k where yaml: "yaml = yaml_get_port pl w sub k"
    using get_yaml_port_loop_Some [OF Some [unfolded pm_get_yaml_port_def]] by metis
  show ?thesis
  proof (cases "yp_pluggable yaml")
    case False
    then show ?thesis using assms(1) Some by (simp add: ovsdb_if_intf_create_def)
  next
    case True
    then obtain conn where conn: "yp_connector yaml = Some conn"
      "conn \<in> {CONNECTOR_SFP_PLUS, CONNECTOR_QSFP_PLUS, CONNECTOR_QSFP28}"
      using assms(4) yaml unfolding yaml_ok_def by blast
    obtain p v where p: "pm_configure_port pl (new_port pl intf sub yaml) w = (p, v)" by fastforce
    have "Q (intf_name intf) p"
      using keep_configure [OF keep_new [OF assms(3) True conn], of sub w] p by simp
    then show ?thesis
      using Some True conn(1) p assms(1,2) by (simp add: ovsdb_if_intf_create_def all_ports_add)
  qed
qed

lemma create_interfaces_good:
  "all_ports Q (ovs_intfs d) \<Longrightarrow> \<forall>i \<in> set intfs. row i \<Longrightarrow> yaml_ok pl \<Longrightarrow>
     good (create_interfaces pl sub intfs d w)"
proof (induction intfs arbitrary: d w)
  case Nil
  then show ?case by simp
next
  case (Cons i intfs)
  note good = Cons.IH Cons.prems
  show ?case
  proof (cases "shash_find (ovs_intfs d) (intf_name i) = None")
    case True
    have "good (case ovsdb_if_intf_create pl i sub d w of Inl e \<Rightarrow> Inl e
        | Inr (d, w) \<Rightarrow> create_interfaces pl sub intfs d w)"
      by (rule good_bind [OF create_good]) (use good True in simp_all)
    then show ?thesis using True by (simp only: create_interfaces.simps if_True simp_thms)
  next
    case False
    then show ?thesis using good by (simp only: create_interfaces.simps if_False) simp
  qed
qed

lemma subsys_good:
  assumes "all_ports Q (ovs_intfs d)" and "\<forall>i \<in> set (sub_interfaces s). row i" and "yaml_ok pl"
  shows "good (ovsdb_if_subsys_process pl s d w)"
  using assms by (auto simp: ovsdb_if_subsys_process_def Let_def create_interfaces_good split: prod.split)

lemma process_good:
  "all_ports Q (ovs_intfs d) \<Longrightarrow> \<forall>s \<in> set subs. \<forall>i \<in> set (sub_interfaces s). row i \<Longrightarrow> yaml_ok pl \<Longrightarrow>
     good (process_subsystems pl subs d w)"
proof (induction subs arbitrary: d w)
  case Nil
  then show ?case by simp
next
  case (Cons s subs)
  show ?case
    unfolding process_subsystems.simps
    by (rule good_bind [OF subsys_good]) (use Cons.IH Cons.prems in simp_all)
qed

text \<open>The loops over the rows of the interface table.\<close>

lemma with_port_keeps:
  assumes "all_ports Q (ovs_intfs d)" and "\<And>p w. Q name p \<Longrightarrow> Q name (fst (f p w))"
  shows "all_ports Q (ovs_intfs (fst (with_port f name d w)))"
proof (cases "shash_find (ovs_intfs d) name")
  case None
  then show ?thesis using assms(1) by (simp add: with_port_def)
next
  case (Some p)
  then have "Q name (fst (f p w))" using assms all_portsD by blast
  then have "all_ports Q (shash_modify name (\<lambda>_. fst (f p w)) (ovs_intfs d))"
    by (intro all_ports_modify assms(1))
  then show ?thesis using Some by (cases "f p w") (simp add: with_port_def)
qed

lemma modify_interfaces_keeps:
  "all_ports Q (ovs_intfs d) \<Longrightarrow> all_ports Q (ovs_intfs (fst (modify_interfaces pl intfs d w)))"
proof (induction intfs arbitrary: d w)
  case Nil
  then show ?case by simp
next
  case (Cons i intfs)
  obtain e v where r: "with_port (ovsdb_if_intf_modify pl i) (intf_name i) d w = (e, v)" by fastforce
  have "all_ports Q (ovs_intfs e)"
    using with_port_keeps [OF Cons.prems, where f = "ovsdb_if_intf_modify pl i" and w = w] keep_modify r
    by (metis fst_conv)
  then show ?case using Cons.IH r by simp
qed

lemma configure_interfaces_keeps:
  "all_ports Q (ovs_intfs d) \<Longrightarrow> all_ports Q (ovs_intfs (fst (configure_interfaces pl intfs d w)))"
proof (induction intfs arbitrary: d w)
  case Nil
  then show ?case by simp
next
  case (Cons i intfs)
  obtain e v where r: "ovsdb_if_intf_configure pl i d w = (e, v)" by fastforce
  have "all_ports Q (ovs_intfs e)"
    using with_port_keeps [OF Cons.prems, where f = "pm_configure_port pl" and w = w] keep_configure r
    by (metis fst_conv ovsdb_if_intf_configure_def)
  then show ?case using Cons.IH r by simp
qed

text \<open>The rows that a replica shows to the daemon.\<close>

definition rows :: "ovsdb_idl \<Rightarrow> bool" where
  "rows idl \<longleftrightarrow> (\<forall>s \<in> set (subsystem_rows idl). \<forall>i \<in> set (sub_interfaces s). row i)"

lemma good_map: "good r \<Longrightarrow> (\<And>d w. all_ports Q (ovs_intfs d) \<Longrightarrow> all_ports Q (ovs_intfs (fst (g d w)))) \<Longrightarrow>
    good (case r of Inl e \<Rightarrow> Inl e | Inr (d, w) \<Rightarrow> Inr (g d w))"
  by (auto simp: good_def) (metis fst_conv surj_pair)

lemma init_good:
  assumes "rows idl" and "yaml_ok pl"
  shows "good (pmd_init pl idl w)"
  unfolding pmd_init_def pm_ovsdb_if_init_def pmd_configure_def
  by (rule good_map [OF process_good configure_interfaces_keeps])
    (use assms in \<open>simp_all add: all_ports_Nil rows_def\<close>)

lemma delete_interfaces_keeps: "all_ports Q sh \<Longrightarrow> all_ports Q (delete_interfaces idl nodes sh)"
  by (induction idl nodes sh rule: delete_interfaces.induct) (simp_all add: all_ports_delete)

lemma reconfigure_good:
  assumes "all_ports Q (ovs_intfs d)" and "rows idl" and "yaml_ok pl"
  shows "good (pmd_reconfigure pl idl d w)"
proof (cases "seqno idl = idl_seqno d")
  case True
  then show ?thesis using assms(1) by (simp add: pmd_reconfigure_def)
next
  case False
  have "good (case process_subsystems pl (subsystem_rows idl)
      (d\<lparr>idl_seqno := seqno idl, ovs_intfs := delete_interfaces idl (ovs_intfs d) (ovs_intfs d),
         ovs_subs := delete_subsystems idl (ovs_subs d)\<rparr>) w of
      Inl e \<Rightarrow> Inl e | Inr (d, w) \<Rightarrow> Inr (modify_interfaces pl (interface_rows idl) d w))"
    by (rule good_map [OF process_good modify_interfaces_keeps])
      (use assms in \<open>simp_all add: rows_def delete_interfaces_keeps\<close>)
  then show ?thesis using False by (simp only: pmd_reconfigure_def Let_def if_False)
qed

lemma read_state_keeps:
  assumes "all_ports Q sh"
  shows "all_ports Q (fst (snd (pm_read_state pl sh w)))"
proof -
  let ?f = "\<lambda>port w. case pm_read_port_state pl (Some port) w of (rc, p, w) \<Rightarrow> (the p, w)"
  have "fst (?f p v) = fst (snd (pm_read_module_state pl p v))" for p v
    by (simp add: pm_read_port_state_def split: prod.split)
  then have "all_ports Q (fst (shash_for_each ?f sh w))"
    using all_ports_for_each [OF _ assms, of Q ?f w] keep_read by simp
  then show ?thesis by (simp add: pm_read_state_def split: prod.split)
qed

lemma set_data_keeps:
  "all_ports Q sh \<Longrightarrow> d = None \<or> (\<exists>bs. d = Some bs \<and> length bs = 128) \<Longrightarrow>
     all_ports Q (shash_modify name (set_module_data d) sh)"
  by (rule all_ports_modify) (auto simp: all_ports_def intro: keep_data)

lemma sim_insert_keeps:
  "all_ports Q sh \<Longrightarrow> all_ports Q (snd (snd (pmd_sim_insert pl name fname sh w)))"
  by (auto simp: pmd_sim_insert_def Let_def sfp_serial_id_size set_data_keeps split: option.split)

lemma sim_remove_keeps: "all_ports Q sh \<Longrightarrow> all_ports Q (snd (snd (pmd_sim_remove name sh)))"
  by (auto simp: pmd_sim_remove_def set_data_keeps split: option.split)

lemma sim_command_keeps:
  "all_ports Q (ovs_intfs d) \<Longrightarrow> all_ports Q (ovs_intfs (snd (pmd_unixctl_sim pl argv d w)))"
  using sim_insert_keeps [of "ovs_intfs d" "argv ! 1" "argv ! 3" w]
    sim_remove_keeps [of "ovs_intfs d" "argv ! 1"]
  by (auto simp: pmd_unixctl_sim_def Let_def split: prod.split)

end

end
