(* ===== verification/Daemon_Publish.thy ===== *)
theory Daemon_Publish
  imports Daemon_Inv
begin

text \<open>
  What \<open>pm_ovsdb_update\<close> writes, the safety of a whole round of the daemon, and the agreement
  of the database with the columns of the ports over any run: no change of a column is lost.
\<close>

section \<open>The port invariant holds of the table\<close>

interpretation ok: table_invariant pl "\<lambda>_. True" "port_ok (cn pl)"
  by unfold_locales (auto intro: port_ok_new port_ok_configure port_ok_read port_ok_module_data)

section \<open>The update\<close>

definition has_row :: "ovsdb_idl \<Rightarrow> pm_port \<Rightarrow> bool" where
  "has_row idl p \<longleftrightarrow> ovsrec_interface_get_for_uuid idl (uuid p) \<noteq> None"

definition to_publish :: "ovsdb_idl \<Rightarrow> pm_port \<Rightarrow> bool" where
  "to_publish idl p \<longleftrightarrow> has_row idl p \<and> module_info_changed p"

text \<open>The reference for the loop: the ports with their flags, and the writes in table order.\<close>

definition published_port :: "ovsdb_idl \<Rightarrow> pm_port \<Rightarrow> pm_port" where
  "published_port idl p = (if to_publish idl p then p\<lparr>module_info_changed := False\<rparr> else p)"

definition published_table :: "ovsdb_idl \<Rightarrow> shash \<Rightarrow> shash" where
  "published_table idl = map (\<lambda>(name, p). (name, published_port idl p))"

definition pm_info_writes :: "(ext_const \<Rightarrow> string) \<Rightarrow> ovsdb_idl \<Rightarrow> shash \<Rightarrow> db_write list" where
  "pm_info_writes texts idl sh =
     map (\<lambda>(name, p). Set_pm_info (uuid p) (pm_info_of texts p)) (filter (\<lambda>(name, p). to_publish idl p) sh)"

lemma update_ports_eq:
  "\<forall>(name, p) \<in> set sh. alarms_paired p \<Longrightarrow>
     update_ports texts idl sh = Inr (published_table idl sh, pm_info_writes texts idl sh)"
  by (induction texts idl sh rule: update_ports.induct)
    (auto simp: published_table_def pm_info_writes_def published_port_def to_publish_def has_row_def
      make_pm_info_added)

definition cur_hw_write :: "ovsdb_idl \<Rightarrow> daemon \<Rightarrow> db_write list" where
  "cur_hw_write idl d =
     (if \<not> cur_hw_set d \<and> NAME_IN_DAEMON_TABLE \<in> set (daemon_rows idl)
      then [Set_cur_hw NAME_IN_DAEMON_TABLE 1] else [])"

lemma pm_ovsdb_update_eq:
  assumes "\<forall>(name, p) \<in> set (ovs_intfs d). alarms_paired p"
  shows "pm_ovsdb_update texts idl d =
    Inr (d\<lparr>ovs_intfs := published_table idl (ovs_intfs d),
           cur_hw_set := cur_hw_set d \<or> NAME_IN_DAEMON_TABLE \<in> set (daemon_rows idl)\<rparr>,
         pm_info_writes texts idl (ovs_intfs d) @ cur_hw_write idl d)"
proof -
  have "d\<lparr>ovs_intfs := sh\<rparr> = d\<lparr>ovs_intfs := sh, cur_hw_set := cur_hw_set d\<rparr>" for sh by simp
  then show ?thesis
    by (auto simp: pm_ovsdb_update_def update_ports_eq [OF assms] cur_hw_write_def)
qed

lemma all_ports_published:
  assumes "all_ports Q sh" and "\<And>name p. (name, p) \<in> set sh \<Longrightarrow> Q name p \<Longrightarrow> R name (published_port idl p)"
  shows "all_ports R (published_table idl sh)"
proof -
  have "map fst (published_table idl sh) = map fst sh"
    by (induction sh) (auto simp: published_table_def)
  then show ?thesis using assms by (auto simp: all_ports_def shash_ok_def) (auto simp: published_table_def)
qed

section \<open>Rounds\<close>

text \<open>The invariant of the daemon.\<close>

definition daemon_ok :: "'w platform \<Rightarrow> daemon \<Rightarrow> bool" where
  "daemon_ok pl d \<longleftrightarrow> all_ports (port_ok (cn pl)) (ovs_intfs d)"

lemma ok_rows: "ok.rows idl"
  by (simp add: ok.rows_def)

lemma read_alarms: "all_ports (port_ok texts) sh \<Longrightarrow> \<forall>(name, p) \<in> set sh. alarms_paired p"
  by (auto simp: all_ports_def port_ok_def)

lemma reconfigure_ok:
  "daemon_ok pl d \<Longrightarrow> yaml_ok pl \<Longrightarrow> \<exists>e v. pmd_reconfigure pl idl d w = Inr (e, v) \<and> daemon_ok pl e"
  using ok.reconfigure_good [OF _ ok_rows, of pl d idl w] by (auto simp: ok.good_def daemon_ok_def)

text \<open>A round that holds the lock, from its parts.\<close>

lemma pmd_run_parts:
  assumes "daemon_ok pl d" and "yaml_ok pl"
  obtains d1 w1 sh w2 where "pmd_reconfigure pl idl d w = Inr (d1, w1)"
    "daemon_ok pl d1" "pm_read_state pl (ovs_intfs d1) w1 = (0, sh, w2)"
    "all_ports (port_ok (cn pl)) sh"
    "pmd_run pl idl False True d w =
       Inr (d1\<lparr>ovs_intfs := published_table idl sh,
               cur_hw_set := cur_hw_set d1 \<or> NAME_IN_DAEMON_TABLE \<in> set (daemon_rows idl)\<rparr>, w2,
            pm_info_writes (cn pl) idl sh @ cur_hw_write idl d1)"
proof -
  obtain d1 w1 where d1: "pmd_reconfigure pl idl d w = Inr (d1, w1)" "daemon_ok pl d1"
    using reconfigure_ok [OF assms, of idl w] by blast
  obtain rc sh w2 where r: "pm_read_state pl (ovs_intfs d1) w1 = (rc, sh, w2)" by (metis prod_cases3)
  have rc: "rc = 0" using r by (auto simp: pm_read_state_def split: prod.splits)
  have sh: "all_ports (port_ok (cn pl)) sh"
    using ok.read_state_keeps [of pl "ovs_intfs d1" w1] d1(2) r by (simp add: daemon_ok_def)
  have "pmd_run pl idl False True d w =
      (case pm_ovsdb_update (cn pl) idl (d1\<lparr>ovs_intfs := sh\<rparr>) of
         Inl e \<Rightarrow> Inl e | Inr (d, ws) \<Rightarrow> Inr (d, w2, ws))"
    by (simp add: pmd_run_def d1(1) r)
  then show ?thesis
    using that [OF d1 r [unfolded rc] sh] read_alarms [OF sh]
    by (simp add: pm_ovsdb_update_eq cur_hw_write_def)
qed

lemma published_port_frame: "port_ok texts name (published_port idl p) \<longleftrightarrow> port_ok texts name p"
  by (simp add: published_port_def)

lemma run_ok:
  assumes "daemon_ok pl d" and "yaml_ok pl"
  shows "\<exists>e v ws. pmd_run pl idl contended has_lock d w = Inr (e, v, ws) \<and> daemon_ok pl e"
proof (cases "contended \<or> \<not> has_lock")
  case True
  then show ?thesis using assms(1) by (auto simp: pmd_run_def)
next
  case False
  obtain d1 w1 sh w2 where r: "all_ports (port_ok (cn pl)) sh"
    "pmd_run pl idl False True d w =
       Inr (d1\<lparr>ovs_intfs := published_table idl sh,
               cur_hw_set := cur_hw_set d1 \<or> NAME_IN_DAEMON_TABLE \<in> set (daemon_rows idl)\<rparr>, w2,
            pm_info_writes (cn pl) idl sh @ cur_hw_write idl d1)"
    by (rule pmd_run_parts [OF assms, of idl w])
  have "all_ports (port_ok (cn pl)) (published_table idl sh)"
    by (rule all_ports_published [OF r(1)]) (simp add: published_port_frame)
  then show ?thesis using r(2) False by (simp add: daemon_ok_def)
qed

lemma init_ok: "yaml_ok pl \<Longrightarrow> \<exists>d v. pmd_init pl idl w = Inr (d, v) \<and> daemon_ok pl d"
  using ok.init_good [OF ok_rows, of pl idl w] by (auto simp: ok.good_def daemon_ok_def)

lemma reachable_ok:
  assumes "reachable pl d w" and "yaml_ok pl"
  shows "daemon_ok pl d"
  using assms
proof (induction rule: reachable.induct)
  case (start idl w d v)
  then show ?case using init_ok [of pl idl w] by auto
next
  case (round d w idl contended has_lock e v ws)
  then show ?case using run_ok [of pl d idl contended has_lock w] by auto
next
  case (command d w argv r e)
  then show ?case using ok.sim_command_keeps [of pl d argv w] by (simp add: daemon_ok_def)
qed

section \<open>The database\<close>

text \<open>The \<open>pm_info\<close> column of each row, by the identifier of the row.\<close>

type_synonym pm_infos = "128 word \<Rightarrow> smap option"

fun db_apply :: "db_write \<Rightarrow> pm_infos \<Rightarrow> pm_infos" where
  "db_apply (Set_pm_info u m) db = db(u \<mapsto> m)"
| "db_apply (Set_cur_hw name v) db = db"

text \<open>
  Runs of the daemon together with the database, when every transaction succeeds. The name of
  a row never changes: \<open>nm\<close> is the name of a row by its identifier. At the start the database
  holds anything, from an earlier daemon say.
\<close>

definition named :: "(128 word \<Rightarrow> string) \<Rightarrow> ovsrec_interface \<Rightarrow> bool" where
  "named nm i \<longleftrightarrow> nm (intf_uuid i) = intf_name i"

definition rows_named :: "(128 word \<Rightarrow> string) \<Rightarrow> ovsdb_idl \<Rightarrow> bool" where
  "rows_named nm idl \<longleftrightarrow> (\<forall>s \<in> set (subsystem_rows idl). \<forall>i \<in> set (sub_interfaces s). named nm i)"

inductive tracked :: "'w platform \<Rightarrow> (128 word \<Rightarrow> string) \<Rightarrow> daemon \<Rightarrow> 'w \<Rightarrow> pm_infos \<Rightarrow> bool"
  for pl :: "'w platform" and nm :: "128 word \<Rightarrow> string" where
  start: "pmd_init pl idl w = Inr (d, v) \<Longrightarrow> rows_named nm idl \<Longrightarrow> tracked pl nm d v db"
| round: "tracked pl nm d w db \<Longrightarrow> rows_named nm idl \<Longrightarrow>
    pmd_run pl idl contended has_lock d w = Inr (e, v, ws) \<Longrightarrow> tracked pl nm e v (fold db_apply ws db)"
| command: "tracked pl nm d w db \<Longrightarrow> simulation pl \<Longrightarrow> pmd_unixctl_sim pl argv d w = (r, e) \<Longrightarrow>
    tracked pl nm e w db"
| outside: "tracked pl nm d w db \<Longrightarrow> tracked pl nm d v db"

lemma tracked_reachable: "tracked pl nm d w db \<Longrightarrow> reachable pl d w"
  by (induction rule: tracked.induct) (auto intro: reachable.intros)

text \<open>A port whose columns are not what the database holds is marked.\<close>

definition no_columns :: "pm_port \<Rightarrow> bool" where
  "no_columns p \<longleftrightarrow> ovs_module_columns p = (\<lambda>_. None) \<and> ovs_module_dom_columns p = (\<lambda>_. None)"

definition synced :: "(ext_const \<Rightarrow> string) \<Rightarrow> pm_infos \<Rightarrow> pm_port \<Rightarrow> bool" where
  "synced texts db p \<longleftrightarrow>
     module_info_changed p \<or> no_columns p \<or> db (uuid p) = Some (pm_info_of texts p)"

definition tracked_port ::
  "(ext_const \<Rightarrow> string) \<Rightarrow> (128 word \<Rightarrow> string) \<Rightarrow> pm_infos \<Rightarrow> string \<Rightarrow> pm_port \<Rightarrow> bool" where
  "tracked_port texts nm db name p \<longleftrightarrow> nm (uuid p) = name \<and> synced texts db p"

lemma pm_info_of_cong:
  "ovs_module_columns q = ovs_module_columns p \<Longrightarrow> ovs_module_dom_columns q = ovs_module_dom_columns p \<Longrightarrow>
     pm_info_of texts q = pm_info_of texts p"
proof -
  assume "ovs_module_columns q = ovs_module_columns p" "ovs_module_dom_columns q = ovs_module_dom_columns p"
  then have "col_text texts q = col_text texts p" "dom_text texts q = dom_text texts p"
    by (simp_all add: col_text_def dom_text_def fun_eq_iff)
  then show ?thesis by (simp add: pm_info_of_def)
qed

lemma tracked_port_cong:
  "ovs_module_columns q = ovs_module_columns p \<Longrightarrow> ovs_module_dom_columns q = ovs_module_dom_columns p \<Longrightarrow>
     uuid q = uuid p \<Longrightarrow> module_info_changed q = module_info_changed p \<Longrightarrow>
     tracked_port texts nm db name q \<longleftrightarrow> tracked_port texts nm db name p"
  by (simp add: tracked_port_def synced_def no_columns_def pm_info_of_cong [of q p])

text \<open>Every write to a column marks the port: the frame of an unmarked port is all its columns.\<close>

interpretation marks: port_invariant
  "\<lambda>p. module_info_changed p \<or> ovs_module_columns p = c \<and> ovs_module_dom_columns p = d"
  by unfold_locales (auto simp: macro_defs write_heap_def write_dom_def setter_defs)

lemma tracked_read:
  assumes "tracked_port texts nm db name p"
  shows "tracked_port texts nm db name (fst (snd (pm_read_module_state pl p w)))"
proof -
  let ?q = "fst (snd (pm_read_module_state pl p w))"
  have "config_of ?q = config_of p" by (rule cfg.keep_read_module_state) simp
  then have uuid: "uuid ?q = uuid p" by (simp add: config_of_def)
  show ?thesis
  proof (cases "module_info_changed ?q")
    case True
    then show ?thesis using assms uuid by (simp add: tracked_port_def synced_def)
  next
    case False
    then have clean: "\<not> module_info_changed p" using changed.keep_read_module_state [of p pl w] by blast
    have "ovs_module_columns ?q = ovs_module_columns p \<and> ovs_module_dom_columns ?q = ovs_module_dom_columns p"
      using marks.keep_read_module_state [of p "ovs_module_columns p" "ovs_module_dom_columns p" pl w] False
      by blast
    then show ?thesis
      using tracked_port_cong [of ?q p texts nm db name] uuid clean False assms by simp
  qed
qed

interpretation tr: table_invariant pl "named nm" "tracked_port (cn pl) nm db"
proof unfold_locales
  fix intf sub yaml
  assume "named nm intf"
  then show "tracked_port (cn pl) nm db (intf_name intf) (new_port pl intf sub yaml)"
    by (simp add: tracked_port_def synced_def no_columns_def named_def) (simp add: new_port_def)
next
  fix name p w
  assume "tracked_port (cn pl) nm db name p"
  then show "tracked_port (cn pl) nm db name (fst (pm_configure_port pl p w))"
    using configure_port_result [of pl p w] tracked_port_cong [of "p\<lparr>port_enable := b\<rparr>" p for b] by auto
next
  fix name p b
  assume "tracked_port (cn pl) nm db name p"
  then show "tracked_port (cn pl) nm db name (p\<lparr>hw_enable := b\<rparr>)"
    using tracked_port_cong [of "p\<lparr>hw_enable := b\<rparr>" p] by simp
next
  fix name p d
  assume "tracked_port (cn pl) nm db name p"
  then show "tracked_port (cn pl) nm db name (set_module_data d p)"
    using tracked_port_cong [of "set_module_data d p" p] by (simp add: set_module_data_def)
qed (rule tracked_read)

section \<open>The effect of the writes\<close>

abbreviation port_uuids :: "shash \<Rightarrow> 128 word list" where
  "port_uuids sh \<equiv> map (\<lambda>(name, p). uuid p) sh"

lemma uuids_distinct: "all_ports (\<lambda>name p. nm (uuid p) = name) sh \<Longrightarrow> distinct (port_uuids sh)"
proof -
  assume sh: "all_ports (\<lambda>name p. nm (uuid p) = name) sh"
  then have "map nm (port_uuids sh) = map fst sh" by (induction sh) (auto simp: all_ports_def shash_ok_def)
  moreover have "distinct (map fst sh)" using sh by (simp add: all_ports_def shash_ok_def)
  ultimately show ?thesis by (metis distinct_map)
qed

lemma pm_info_writes_Cons:
  "pm_info_writes texts idl ((name, p) # sh) =
     (if to_publish idl p then [Set_pm_info (uuid p) (pm_info_of texts p)] else []) @ pm_info_writes texts idl sh"
  by (simp add: pm_info_writes_def)

text \<open>A row that no port of the table has is left alone.\<close>

lemma db_frame:
  "u \<notin> set (port_uuids sh) \<Longrightarrow> fold db_apply (pm_info_writes texts idl sh) db u = db u"
proof (induction sh arbitrary: db)
  case Nil
  then show ?case by (simp add: pm_info_writes_def)
next
  case (Cons e sh)
  then show ?case by (cases e) (simp add: pm_info_writes_Cons)
qed

lemma db_port:
  "distinct (port_uuids sh) \<Longrightarrow> (name, p) \<in> set sh \<Longrightarrow>
     fold db_apply (pm_info_writes texts idl sh) db (uuid p) =
       (if to_publish idl p then Some (pm_info_of texts p) else db (uuid p))"
proof (induction sh arbitrary: db)
  case Nil
  then show ?case by simp
next
  case (Cons e sh)
  obtain n q where e: "e = (n, q)" by (cases e)
  show ?case
  proof (cases "(name, p) = e")
    case True
    then have "uuid p \<notin> set (port_uuids sh)" using Cons.prems(1) e by auto
    then show ?thesis using True e by (simp add: pm_info_writes_Cons db_frame)
  next
    case False
    then have p: "(name, p) \<in> set sh" "uuid p \<noteq> uuid q" using Cons.prems e by force+
    then show ?thesis using Cons e by (simp add: pm_info_writes_Cons)
  qed
qed

lemma db_cur_hw: "fold db_apply (cur_hw_write idl d) db = db"
  by (simp add: cur_hw_write_def)

text \<open>After the update every port with a row is in the database.\<close>

lemma update_synced:
  assumes "all_ports (tracked_port texts nm db) sh"
  shows "all_ports (tracked_port texts nm (fold db_apply (pm_info_writes texts idl sh) db)) (published_table idl sh)"
proof (rule all_ports_published [OF assms])
  fix name p
  assume p: "(name, p) \<in> set sh" and t: "tracked_port texts nm db name p"
  have "all_ports (\<lambda>name p. nm (uuid p) = name) sh"
    using all_ports_mono [OF assms, of "\<lambda>name p. nm (uuid p) = name"] by (simp add: tracked_port_def)
  note db = db_port [OF uuids_distinct [OF this] p, of texts idl db]
  show "tracked_port texts nm (fold db_apply (pm_info_writes texts idl sh) db) name (published_port idl p)"
    using t db
    by (cases "to_publish idl p")
      (simp_all add: published_port_def tracked_port_def synced_def no_columns_def
        pm_info_of_cong [of "p\<lparr>module_info_changed := False\<rparr>" p])
qed

lemma tracked_synced:
  assumes "tracked pl nm d w db" and "yaml_ok pl"
  shows "all_ports (tracked_port (cn pl) nm db) (ovs_intfs d)"
  using assms
proof (induction rule: tracked.induct)
  case (start idl w d v db)
  have "tr.rows nm idl" using start(2) by (simp add: tr.rows_def rows_named_def)
  then show ?case
    using tr.init_good [of nm idl pl db w] start(1,3) by (simp add: tr.good_def)
next
  case (round d w db idl contended has_lock e v ws)
  have ok: "daemon_ok pl d"
    by (rule reachable_ok [OF tracked_reachable [OF round.hyps(1)] round.prems])
  have rows: "tr.rows nm idl" using round.hyps(2) by (simp add: tr.rows_def rows_named_def)
  show ?case
  proof (cases "contended \<or> \<not> has_lock")
    case True
    then have "pmd_run pl idl contended has_lock d w = Inr (d, w, [])" by (auto simp: pmd_run_def)
    then show ?thesis using round.IH [OF round.prems] round.hyps(3) by simp
  next
    case False
    obtain d1 w1 sh w2 where r: "pmd_reconfigure pl idl d w = Inr (d1, w1)"
      "pm_read_state pl (ovs_intfs d1) w1 = (0, sh, w2)"
      "pmd_run pl idl False True d w =
         Inr (d1\<lparr>ovs_intfs := published_table idl sh,
                 cur_hw_set := cur_hw_set d1 \<or> NAME_IN_DAEMON_TABLE \<in> set (daemon_rows idl)\<rparr>, w2,
              pm_info_writes (cn pl) idl sh @ cur_hw_write idl d1)"
      by (rule pmd_run_parts [OF ok round.prems, of idl w])
    have "all_ports (tracked_port (cn pl) nm db) (ovs_intfs d1)"
      using tr.reconfigure_good [OF round.IH [OF round.prems] rows round.prems, of w] r(1)
      by (simp add: tr.good_def)
    then have "all_ports (tracked_port (cn pl) nm db) sh"
      using tr.read_state_keeps [of pl nm db "ovs_intfs d1" w1] r(2) by simp
    from update_synced [OF this, of idl] show ?thesis
      using r(3) False round.hyps(3) by (auto simp: db_cur_hw)
  qed
next
  case (command d w db argv r e)
  then show ?case using tr.sim_command_keeps [of pl nm db d argv w] by simp
qed

section \<open>After a round\<close>

text \<open>Once a port has been read it is not fresh any more: it has a connector column.\<close>

lemma in_state_Fresh: "in_state texts conn st p \<Longrightarrow> st = Fresh \<longleftrightarrow> col_text texts p Connector = None"
  by (cases st) (auto simp: in_state_def)

lemma read_not_fresh:
  assumes "port_ok (cn pl) name p"
  shows "col_text (cn pl) (fst (snd (pm_read_module_state pl p w))) Connector \<noteq> None"
proof -
  obtain conn st where p: "managed conn p" "in_state (cn pl) conn st p"
    using assms by (auto simp: port_ok_def)
  obtain st' where st': "port_step st st'"
    "in_state (cn pl) conn st' (fst (snd (pm_read_module_state pl p w)))"
    using read_module_simulation [OF p] by blast
  have "st' \<noteq> Fresh" using st'(1) by (auto elim: port_step.cases)
  then show ?thesis using in_state_Fresh [OF st'(2)] by simp
qed

lemma read_state_not_fresh:
  assumes "all_ports (port_ok (cn pl)) sh" and "pm_read_state pl sh w = (rc, sh', v)"
  shows "all_ports (\<lambda>name p. col_text (cn pl) p Connector \<noteq> None) sh'"
proof -
  let ?f = "\<lambda>port w. case pm_read_port_state pl (Some port) w of (rc, p, w) \<Rightarrow> (the p, w)"
  have "fst (?f p v) = fst (snd (pm_read_module_state pl p v))" for p v
    by (simp add: pm_read_port_state_def split: prod.split)
  then have "col_text (cn pl) (fst (?f p v)) Connector \<noteq> None" if "port_ok (cn pl) name p" for name p v
    using read_not_fresh [OF that, of v] by (simp only:) simp
  then have "all_ports (\<lambda>name p. col_text (cn pl) p Connector \<noteq> None) (fst (shash_for_each ?f sh w))"
    by (rule all_ports_for_each [OF _ assms(1)])
  then show ?thesis using assms(2) by (simp add: pm_read_state_def split: prod.splits)
qed

end
