(* ===== verification/Daemon_Props.thy ===== *)
theory Daemon_Props
  imports Daemon_Publish
begin

text \<open>
  The properties of the whole daemon: \<open>src/pmd.c\<close> on top of \<open>src/ovsdb_access.c\<close>,
  \<open>src/plug.c\<close> and \<open>src/config.c\<close>.
\<close>

section \<open>A database\<close>

definition sample_interface :: ovsrec_interface where
  "sample_interface = \<lparr>intf_name = ''1'', intf_uuid = 5, hw_intf_config = []\<rparr>"

definition sample_subsystem :: ovsrec_subsystem where
  "sample_subsystem =
     \<lparr>sub_name = ''base'', sub_uuid = 7, hw_desc_dir = ''/etc'', sub_interfaces = [sample_interface]\<rparr>"

definition sample_idl :: ovsdb_idl where
  "sample_idl =
     \<lparr>seqno = 1, interface_rows = [sample_interface], subsystem_rows = [sample_subsystem],
      daemon_rows = [''ops-pmd'']\<rparr>"

definition sample_names :: "128 word \<Rightarrow> string" where
  "sample_names u = (if u = 5 then ''1'' else '''')"

abbreviation sample_pl :: "i2c_event list platform" where
  "sample_pl \<equiv> sample_platform False SFP_SR_AVAGO"

definition sample_new_port :: pm_port where
  "sample_new_port = new_port sample_pl sample_interface ''base'' (sample_yaml CONNECTOR_SFP_PLUS)"

definition sample_daemon :: daemon where
  "sample_daemon =
     \<lparr>ovs_intfs = [(''1'', sample_new_port)], ovs_subs = [(''base'', 7)], idl_seqno = 1, cur_hw_set = False\<rparr>"

lemma sample_yaml_ok: "yaml_ok sample_pl"
  by (simp add: yaml_ok_def sample_platform_def)

lemma sample_rows_named: "rows_named sample_names sample_idl"
  by (simp add: rows_named_def named_def sample_idl_def sample_subsystem_def sample_interface_def sample_names_def)

lemma sample_configure: "pm_configure_port sample_pl sample_new_port w = (sample_new_port, w @ [Reg_write sample_bit_op 1])"
  by (simp add: pm_configure_port_def is_qsfp_def connector_is_def sample_new_port_def new_port_def
      ovsdb_if_intf_get_hw_enable_def sample_interface_def smap_get_def)
    (simp add: sample_platform_def sample_yaml_def sample_bit_op_def Let_def)

lemma sample_create:
  "ovs_intfs d = [] \<Longrightarrow>
     ovsdb_if_intf_create sample_pl sample_interface ''base'' d w =
       Inr (d\<lparr>ovs_intfs := [(''1'', sample_new_port)]\<rparr>, w @ [Reg_write sample_bit_op 1])"
proof -
  assume d: "ovs_intfs d = []"
  have get: "pm_get_yaml_port sample_pl w ''base'' (intf_name sample_interface) =
      Some (sample_yaml CONNECTOR_SFP_PLUS)"
    by (simp add: pm_get_yaml_port_def sample_platform_def sample_yaml_def sample_interface_def)
  have reset: "pm_clear_reset sample_pl sample_new_port v = v" for v
    by (simp add: pm_clear_reset_def pm_reset_def reset_op_def connector_is_def sample_new_port_def new_port_def)
  have "shash_add sample_pl (intf_name sample_interface) sample_new_port [] = [(''1'', sample_new_port)]"
    by (simp add: shash_add_def sample_interface_def)
  then show ?thesis
    using d by (simp add: ovsdb_if_intf_create_def get sample_new_port_def [symmetric] sample_configure reset)
qed

lemma sample_init: "\<exists>v. pmd_init sample_pl sample_idl [] = Inr (sample_daemon, v)"
proof -
  have "pm_read_yaml_files sample_pl n h w = (0, w)" for n h w
    by (simp add: pm_read_yaml_files_def sample_platform_def)
  then have "\<exists>v. process_subsystems sample_pl [sample_subsystem]
      \<lparr>ovs_intfs = [], ovs_subs = [], idl_seqno = 1, cur_hw_set = False\<rparr> [] = Inr (sample_daemon, v)"
    by (simp add: ovsdb_if_subsys_process_def Let_def sample_subsystem_def shash_find_def sample_create
        sample_daemon_def)
  then obtain v where v: "process_subsystems sample_pl [sample_subsystem]
      \<lparr>ovs_intfs = [], ovs_subs = [], idl_seqno = 1, cur_hw_set = False\<rparr> [] = Inr (sample_daemon, v)" by blast
  have "ovsdb_if_intf_configure sample_pl sample_interface sample_daemon v =
      (sample_daemon, v @ [Reg_write sample_bit_op 1])"
    by (simp add: ovsdb_if_intf_configure_def with_port_def sample_interface_def sample_daemon_def
        shash_find_def sample_configure shash_modify_def)
  moreover have "pm_config_init sample_pl [] = []" by (simp add: pm_config_init_def sample_platform_def)
  ultimately show ?thesis
    using v by (simp add: pmd_init_def pm_ovsdb_if_init_def pmd_configure_def sample_idl_def)
qed

text \<open>A first round on this platform.\<close>

lemma sample_round:
  "\<exists>v e u ws p. tracked sample_pl sample_names sample_daemon v db \<and>
     pmd_run sample_pl sample_idl False True sample_daemon v = Inr (e, u, ws) \<and>
     ovs_intfs e = [(''1'', p)] \<and> uuid p = 5 \<and>
     p = published_port sample_idl (fst (snd (pm_read_module_state sample_pl sample_new_port v)))"
proof -
  obtain v where v: "pmd_init sample_pl sample_idl [] = Inr (sample_daemon, v)" using sample_init by blast
  have t: "tracked sample_pl sample_names sample_daemon v db"
    by (rule tracked.start [OF v sample_rows_named])
  have ok: "daemon_ok sample_pl sample_daemon"
    by (rule reachable_ok [OF tracked_reachable [OF t] sample_yaml_ok])
  let ?q = "fst (snd (pm_read_module_state sample_pl sample_new_port v))"
  have "config_of ?q = config_of sample_new_port" by (rule cfg.keep_read_module_state) simp
  then have q: "uuid ?q = 5" by (simp add: config_of_def sample_new_port_def new_port_def sample_interface_def)
  obtain d1 w1 sh w2 where r: "pmd_reconfigure sample_pl sample_idl sample_daemon v = Inr (d1, w1)"
    "pm_read_state sample_pl (ovs_intfs d1) w1 = (0, sh, w2)"
    "pmd_run sample_pl sample_idl False True sample_daemon v =
       Inr (d1\<lparr>ovs_intfs := published_table sample_idl sh,
               cur_hw_set := cur_hw_set d1 \<or> NAME_IN_DAEMON_TABLE \<in> set (daemon_rows sample_idl)\<rparr>, w2,
            pm_info_writes (cn sample_pl) sample_idl sh @ cur_hw_write sample_idl d1)"
    by (rule pmd_run_parts [OF ok sample_yaml_ok, of sample_idl v])
  have "d1 = sample_daemon" "w1 = v"
    using r(1) by (simp_all add: pmd_reconfigure_def sample_idl_def sample_daemon_def)
  then have "sh = [(''1'', ?q)]"
    using r(2) by (auto simp: pm_read_state_def pm_read_port_state_def sample_daemon_def split: prod.splits)
  then have "published_table sample_idl sh = [(''1'', published_port sample_idl ?q)]"
    by (simp add: published_table_def)
  moreover have "uuid (published_port sample_idl ?q) = 5" using q by (simp add: published_port_def)
  moreover have "\<exists>e ws. pmd_run sample_pl sample_idl False True sample_daemon v = Inr (e, w2, ws) \<and>
      ovs_intfs e = published_table sample_idl sh" using r(3) by simp
  ultimately show ?thesis using t by metis
qed

lemma sample_has_row: "uuid p = 5 \<Longrightarrow> has_row sample_idl p"
  by (simp add: has_row_def ovsrec_interface_get_for_uuid_def sample_idl_def sample_interface_def)

section \<open>The database follows the modules\<close>

lemma run_published:
  assumes "tracked pl nm d w db" and "yaml_ok pl" and "rows_named nm idl"
    and "pmd_run pl idl False True d w = Inr (e, v, ws)"
    and "(name, p) \<in> set (ovs_intfs e)" and "has_row idl p"
  shows "port_ok (cn pl) name p" and "col_text (cn pl) p Connector \<noteq> None"
    and "fold db_apply ws db (uuid p) = Some (pm_info_of (cn pl) p)"
proof -
  have ok: "daemon_ok pl d" by (rule reachable_ok [OF tracked_reachable [OF assms(1)] assms(2)])
  obtain d1 w1 sh w2 where r: "pm_read_state pl (ovs_intfs d1) w1 = (0, sh, w2)" "daemon_ok pl d1"
    "all_ports (port_ok (cn pl)) sh"
    "pmd_run pl idl False True d w =
       Inr (d1\<lparr>ovs_intfs := published_table idl sh,
               cur_hw_set := cur_hw_set d1 \<or> NAME_IN_DAEMON_TABLE \<in> set (daemon_rows idl)\<rparr>, w2,
            pm_info_writes (cn pl) idl sh @ cur_hw_write idl d1)"
    by (rule pmd_run_parts [OF ok assms(2), of idl w])
  have e: "ovs_intfs e = published_table idl sh" using r(4) assms(4) by auto
  then obtain q where q: "(name, q) \<in> set sh" "p = published_port idl q"
    using assms(5) by (auto simp: published_table_def)
  have "has_row idl q" using assms(6) q(2) by (simp add: published_port_def has_row_def split: if_splits)
  then have clean: "\<not> module_info_changed p" using q(2) by (simp add: published_port_def to_publish_def)
  have "port_ok (cn pl) name q" using r(3) q(1) by (auto simp: all_ports_def)
  then show "port_ok (cn pl) name p" using q(2) by (simp add: published_port_frame)
  have "all_ports (\<lambda>name p. col_text (cn pl) p Connector \<noteq> None) sh"
    using read_state_not_fresh [OF _ r(1)] r(2) by (simp add: daemon_ok_def)
  then have "col_text (cn pl) q Connector \<noteq> None" using q(1) by (auto simp: all_ports_def)
  moreover have "col_text (cn pl) p = col_text (cn pl) q"
    using q(2) by (simp add: published_port_def col_text_def fun_eq_iff)
  ultimately show read: "col_text (cn pl) p Connector \<noteq> None" by simp
  have "all_ports (tracked_port (cn pl) nm (fold db_apply ws db)) (ovs_intfs e)"
    by (rule tracked_synced [OF tracked.round [OF assms(1,3,4)] assms(2)])
  then have "synced (cn pl) (fold db_apply ws db) p"
    using assms(5) by (auto simp: all_ports_def tracked_port_def)
  moreover have "\<not> no_columns p" using read by (auto simp: no_columns_def col_text_def)
  ultimately show "fold db_apply ws db (uuid p) = Some (pm_info_of (cn pl) p)"
    using clean by (simp add: synced_def)
qed

text \<open>
C1: after every round that holds the database lock, the \<open>pm_info\<close> column of each interface
that the daemon manages and that has a row is exactly what the abstract state of its port says:
the state is one in which the port has been read, every published module column has the text of
that state under its own key and a column that the state does not have is not there, and the
diagnostic keys are those of the port. No change is lost over any earlier sequence of rounds
with or without the lock, of replicas, of simulated modules and of hardware behaviour, when
every transaction succeeds.
\<close>

theorem pmd_run_publishes:
  assumes "tracked pl nm d w db" and "yaml_ok pl" and "rows_named nm idl"
    and "pmd_run pl idl False True d w = Inr (e, v, ws)"
    and "(name, p) \<in> set (ovs_intfs e)" and "has_row idl p"
  shows "\<exists>conn st m. managed conn p \<and> in_state (cn pl) conn st p \<and> st \<noteq> Fresh \<and>
    fold db_apply ws db (uuid p) = Some m \<and>
    (\<forall>f k. mod_key f = Some k \<longrightarrow> smap_get m k = state_columns (cn pl) conn st f) \<and>
    (\<forall>f. smap_get m (dom_key f) = dom_text (cn pl) p f)"
proof -
  note r = run_published [OF assms]
  obtain conn st where st: "managed conn p" "in_state (cn pl) conn st p" using r(1) by (auto simp: port_ok_def)
  then show ?thesis
    using r(2,3) in_state_Fresh [OF st(2)] smap_get_pm_info
    by (intro exI [of _ conn] exI [of _ st] exI [of _ "pm_info_of (cn pl) p"]) (auto simp: in_state_def)
qed

theorem pmd_run_publishes_witness:
  "\<exists>v e u ws m. pmd_run sample_pl sample_idl False True sample_daemon v = Inr (e, u, ws) \<and>
     fold db_apply ws (\<lambda>_. None) 5 = Some m \<and> smap_get m ''connector'' \<noteq> None"
proof -
  obtain v e u ws p where r: "tracked sample_pl sample_names sample_daemon v (\<lambda>_. None)"
    "pmd_run sample_pl sample_idl False True sample_daemon v = Inr (e, u, ws)"
    "ovs_intfs e = [(''1'', p)]" "uuid p = 5"
    using sample_round by blast
  have p: "(''1'', p) \<in> set (ovs_intfs e)" using r(3) by simp
  obtain conn st m where m: "st \<noteq> Fresh" "fold db_apply ws (\<lambda>_. None) (uuid p) = Some m"
    "\<forall>f k. mod_key f = Some k \<longrightarrow> smap_get m k = state_columns (cn sample_pl) conn st f"
    using pmd_run_publishes [OF r(1) sample_yaml_ok sample_rows_named r(2) p sample_has_row [OF r(4)]]
    by blast
  have "smap_get m ''connector'' = state_columns (cn sample_pl) conn st Connector" using m(3) by simp
  then have "smap_get m ''connector'' \<noteq> None" using m(1) by (cases st) simp_all
  moreover have "fold db_apply ws (\<lambda>_. None) 5 = Some m" using r(4) m(2) by simp
  ultimately show ?thesis using r(2) by blast
qed

lemma commands_reachable:
  "reachable pl d w \<Longrightarrow> run_commands pl cs exiting d w = (rs, x, e) \<Longrightarrow>
     reachable pl e w \<and> (x \<longleftrightarrow> exiting \<or> Exit \<in> set cs)"
proof (induction cs arbitrary: exiting d rs x e)
  case Nil
  then show ?case by simp
next
  case (Cons c cs)
  obtain r y d1 where c: "run_command pl c exiting d w = (r, y, d1)" by (metis prod_cases3)
  have "reachable pl d1 w \<and> (y \<longleftrightarrow> exiting \<or> c = Exit)"
  proof (cases c)
    case Exit
    then show ?thesis using c Cons.prems(1) by (auto simp: ops_pmd_exit_def)
  next
    case (Sim argv)
    obtain r' d' where s: "pmd_unixctl_sim pl argv d w = (r', d')" by fastforce
    then show ?thesis
      using c Sim Cons.prems(1) reachable.command [OF Cons.prems(1) _ s] by (auto split: if_splits)
  next
    case (Dump argv)
    then show ?thesis using c Cons.prems(1) by auto
  qed
  then show ?case using Cons.IH [of d1 y _ x e] Cons.prems(2) c by (auto split: prod.splits)
qed

abbreviation exits :: "'w turn \<Rightarrow> bool" where
  "exits t \<equiv> Exit \<in> set (turn_commands t)"

lemma main_loop_total:
  "reachable pl d w \<Longrightarrow> yaml_ok pl \<Longrightarrow>
     \<exists>e v wss. main_loop pl ts False d w = Inr (\<exists>t \<in> set ts. exits t, e, v, wss) \<and> reachable pl e v \<and>
       length wss = length (takeWhile (\<lambda>t. \<not> exits t) ts) + (if \<exists>t \<in> set ts. exits t then 1 else 0)"
proof (induction ts arbitrary: d w)
  case Nil
  then show ?case by simp
next
  case (Cons t ts)
  obtain d1 w1 ws where run: "pmd_run pl (turn_idl t) (turn_contended t) (turn_lock t) d w = Inr (d1, w1, ws)"
    using run_ok [OF reachable_ok [OF Cons.prems] Cons.prems(2)] by blast
  obtain rs x d2 where c: "run_commands pl (turn_commands t) False d1 w1 = (rs, x, d2)" by (metis prod_cases3)
  have d2: "reachable pl d2 w1" "x \<longleftrightarrow> exits t"
    using commands_reachable [OF reachable.round [OF Cons.prems(1) run] c] by simp_all
  have next_turn: "reachable pl d2 (turn_world t w1)" by (rule reachable.outside [OF d2(1)])
  show ?case
  proof (cases "exits t")
    case True
    then have "main_loop pl ts x d2 (turn_world t w1) = Inr (True, d2, turn_world t w1, [])"
      using d2(2) by (cases ts) simp_all
    then show ?thesis using run c True next_turn by simp
  next
    case False
    then show ?thesis using Cons.IH [OF next_turn Cons.prems(2)] run c d2(2) by auto
  qed
qed

definition sample_turn :: "command list \<Rightarrow> i2c_event list turn" where
  "sample_turn cs =
     \<lparr>turn_idl = sample_idl, turn_contended = False, turn_lock = True, turn_commands = cs, turn_world = id\<rparr>"



text \<open>
C9: in every reachable state the table of interfaces is well formed: its names are distinct,
each entry is a pluggable port of one of the three known connectors under its own name, whose
columns own their memory, are not leaked, and are those of an abstract state; the page of a
simulated module has 128 bytes; the four lanes have their flags and no port is split.
\<close>

theorem reachable_well_formed:
  assumes "reachable pl d w" and "yaml_ok pl"
  shows "distinct (map fst (ovs_intfs d)) \<and>
    (\<forall>name p. shash_find (ovs_intfs d) name = Some p \<longrightarrow>
       port_instance p = name \<and> (\<exists>conn st. managed conn p \<and> in_state (cn pl) conn st p) \<and>
       (\<forall>pg. module_data p = Some pg \<longrightarrow> length pg = 128) \<and>
       length (hw_enable_subport p) = MAX_SPLIT_COUNT \<and> \<not> split_port p)"
proof -
  have ok: "all_ports (port_ok (cn pl)) (ovs_intfs d)" using reachable_ok [OF assms] by (simp add: daemon_ok_def)
  then show ?thesis
    using all_portsD [OF ok] by (auto simp: port_ok_def module_data_ok_def) (simp add: all_ports_def shash_ok_def)
qed

theorem reachable_well_formed_witness:
  "reachable sample_pl sample_daemon [] \<and> port_instance sample_new_port = ''1''"
proof -
  obtain v where "pmd_init sample_pl sample_idl [] = Inr (sample_daemon, v)" using sample_init by blast
  then have r: "reachable sample_pl sample_daemon []" by (rule reachable.outside [OF reachable.start])
  have "shash_find (ovs_intfs sample_daemon) ''1'' = Some sample_new_port"
    by (simp add: sample_daemon_def shash_find_def)
  then show ?thesis using r reachable_well_formed [OF r sample_yaml_ok] by blast
qed

end
