(* ===== verification/Hardware_Props.thy ===== *)
theory Hardware_Props
  imports Daemon_Props
begin

text \<open>
  From the hardware to the database in one round: \<open>pm_read_state\<close>, \<open>pm_parse\<close> and
  \<open>pm_ovsdb_update\<close> composed. What a cage shows to the daemon is a state of the abstract port machine.
\<close>

section \<open>What the hardware shows\<close>

text \<open>
  However often it is asked, a cage is empty, or it has a module whose page cannot be read or is
  corrupted, or a module with one valid page.
\<close>

fun hardware_shows :: "'w platform \<Rightarrow> pm_port \<Rightarrow> port_state \<Rightarrow> bool" where
  "hardware_shows pl p Fresh = False"
| "hardware_shows pl p Absent \<longleftrightarrow> (\<forall>w. \<not> fst (pm_get_presence pl p w))"
| "hardware_shows pl p Unreadable \<longleftrightarrow>
     (\<forall>w. fst (pm_get_presence pl p w)) \<and>
     (\<forall>off w. case fst (pm_read_a0 pl p off w) of (rc, data) \<Rightarrow>
        rc \<noteq> 0 \<or> length data = 128 \<and> sfpp_sum_verify data \<noteq> 0)"
| "hardware_shows pl p (Module pg a2) \<longleftrightarrow>
     (\<forall>w. fst (pm_get_presence pl p w)) \<and> verified pg \<and>
     (\<forall>off w. serial_id_offset p = Some off \<longrightarrow> fst (pm_read_a0 pl p off w) = (0, pg))"

text \<open>The diagnostic page can be read, always with the same result, or never.\<close>

definition diagnostics_show :: "'w platform \<Rightarrow> pm_port \<Rightarrow> page option \<Rightarrow> bool" where
  "diagnostics_show pl p d \<longleftrightarrow>
     (\<forall>w. case d of
        Some a2 \<Rightarrow> length a2 = 128 \<and> fst (pm_read_a2 pl p w) = (0, a2)
      | None \<Rightarrow> fst (fst (pm_read_a2 pl p w)) \<noteq> 0)"

text \<open>Byte 92 of the serial id page announces diagnostics that the daemon understands.\<close>

definition announces_diagnostics :: "string \<Rightarrow> page \<Rightarrow> bool" where
  "announces_diagnostics conn pg \<longleftrightarrow>
     (if conn = CONNECTOR_SFP_PLUS
      then bit (pg ! 92) 6 \<and> bit (pg ! 92) 5 \<and> bit (pg ! 92) 3 \<and> \<not> bit (pg ! 92) 2
      else bit (pg ! 92) 3)"

text \<open>
  The diagnostic columns after the module of a state has been found: those of the page, where a page
  that cannot be read counts as all ones, on top of the old columns.
\<close>

fun shown_diagnostics ::
  "string \<Rightarrow> port_state \<Rightarrow> page option \<Rightarrow> (dom_field \<Rightarrow> string option) \<Rightarrow> dom_field \<Rightarrow> string option" where
  "shown_diagnostics conn (Module pg a) d old =
     (if announces_diagnostics conn pg
      then dom_column conn (case d of Some a2 \<Rightarrow> a2 | None \<Rightarrow> replicate 128 0xff) old
      else old)"
| "shown_diagnostics conn _ d old = old"

lemma read_a0_part_bad:
  assumes "hardware_shows pl p Unreadable" and "wants_a0 p"
  shows "length a0 = 128 \<Longrightarrow>
    \<exists>q v. read_a0_part pl off n a0 p w = (Return (- 1), q, v) \<and> (q = read_failed p \<or> q = checksum_failed p)"
proof (induction n arbitrary: a0 w rule: less_induct)
  case (less n a0 w)
  obtain w1 where pr: "pm_get_presence pl p w = (True, w1)"
    using assms(1) by (metis (full_types) hardware_shows.simps(3) prod.collapse)
  obtain rc data w2 where rd: "pm_read_a0 pl p off w1 = ((rc, data), w2)" by (metis prod_cases3 surj_pair)
  then have bad: "rc \<noteq> 0 \<or> length data = 128 \<and> sfpp_sum_verify data \<noteq> 0"
    using assms(1) by (metis (mono_tags, lifting) case_prodD fst_conv hardware_shows.simps(3))
  let ?a0 = "mem_write a0 data"
  have retry: "rc \<noteq> 0 \<or> sfpp_sum_verify ?a0 \<noteq> 0" using bad less.prems by (auto simp: mem_write_def)
  note step = read_a0_part.simps [of pl off n a0 p w]
  show ?case
  proof (cases n)
    case 0
    then show ?thesis
      using assms(2) retry by (subst step) (auto simp: pr rd wants_a0_def Let_def)
  next
    case (Suc m)
    then have "read_a0_part pl off n a0 p w = read_a0_part pl off m ?a0 p (pm_reset_port pl p w2)"
      using assms(2) retry by (subst step) (auto simp: pr rd wants_a0_def Let_def)
    then show ?thesis using less.IH [of m ?a0 "pm_reset_port pl p w2"] Suc less.prems by simp
  qed
qed

lemma read_a2_config: "config_of q = config_of p \<Longrightarrow> pm_read_a2 pl q w = pm_read_a2 pl p w"
  by (simp add: pm_read_a2_def a2_device_name_def connector_is_def config_of_def)

lemma read_a2_part_shown:
  assumes "diagnostics_show pl p d" and "config_of q = config_of p"
  shows "length a2 = 128 \<Longrightarrow>
    fst (read_a2_part pl n a2 q w) = (case d of Some pg \<Rightarrow> pg | None \<Rightarrow> replicate 128 0xff)"
proof (induction n arbitrary: a2 w rule: less_induct)
  case (less n a2 w)
  obtain rc data w1 where rd: "pm_read_a2 pl q w = ((rc, data), w1)" by (metis prod_cases3 surj_pair)
  then have "fst (pm_read_a2 pl p w) = (rc, data)" using read_a2_config [OF assms(2), of pl w] by simp
  then have shown: "case d of Some pg \<Rightarrow> length pg = 128 \<and> rc = 0 \<and> data = pg | None \<Rightarrow> rc \<noteq> 0"
    using assms(1) by (auto simp: diagnostics_show_def split: option.splits dest: spec [where x = w])
  show ?case
  proof (cases d)
    case (Some pg)
    then show ?thesis
      using shown less.prems by (subst read_a2_part.simps) (simp add: rd mem_write_def)
  next
    case None
    then show ?thesis
      using shown less.prems less.IH [of _ "mem_write a2 data" w1]
      by (subst read_a2_part.simps) (auto simp: rd Let_def sfp_dom_size split: nat.split)
  qed
qed

lemma requested_announced:
  assumes "managed conn p" and "length pg = 128"
  shows "a2_read_requested (parse_verified texts pg p) \<longleftrightarrow> announces_diagnostics conn pg"
proof -
  let ?q = "snd (pm_parse texts pg p)"
  have m: "mem_ok p" "yp_pluggable (module_device p)" "yp_connector (module_device p) = Some conn"
    "known_connector conn" using assms(1) by (simp_all add: managed_def)
  have eq: "parse_verified texts pg p = set_a2_read_request pg (set_retry False (set_present True ?q))"
    using pm_parse_columns_lemma(1) [OF m assms(2), of texts]
    by (cases "pm_parse texts pg p") (simp add: parse_verified_def)
  have "config_of ?q = config_of p" by (rule cfg.keep_pm_parse) (rule cfg.keep_optical, simp_all)
  moreover have "status_of ?q = status_of p" by (rule pm_parse_status)
  ultimately have "a2_read_requested ?q = a2_read_requested p" "module_device ?q = module_device p"
    by (simp_all add: status_of_def config_of_def)
  then show ?thesis
    using m assms(1)
    by (auto simp: eq set_a2_read_request_spec setter_defs connector_is_def announces_diagnostics_def
        managed_def known_connector_def)
qed

text \<open>
  One call of \<open>pm_read_module_state\<close> takes an unidentified port to the state that the hardware
  shows, and its diagnostics to those that it shows.
\<close>

lemma read_hardware:
  assumes "managed conn p" and "in_state (cn pl) conn st0 p" and "hardware_shows pl p st"
    and "st = Absent \<or> \<not> identified st0" and "diagnostics_show pl p d"
  shows "\<exists>st1. in_state (cn pl) conn st1 (fst (snd (pm_read_module_state pl p w))) \<and>
    (st1 = st \<or> (\<exists>pg a b. st = Module pg a \<and> st1 = Module pg b)) \<and>
    dom_text (cn pl) (fst (snd (pm_read_module_state pl p w))) =
      shown_diagnostics conn st d (dom_text (cn pl) p)"
proof (cases st)
  case Fresh
  then show ?thesis using assms(3) by simp
next
  case Absent
  obtain off where off: "serial_id_offset p = Some off" using managed_offset [OF assms(1)] by blast
  obtain w1 where "pm_get_presence pl p w = (False, w1)"
    using assms(3) Absent by (metis (full_types) hardware_shows.simps(2) prod.collapse)
  then have "read_a0_part pl off n a0 p w = (Return 0, module_absent p, w1)" for n a0
    by (subst read_a0_part.simps) simp
  then have "fst (snd (pm_read_module_state pl p w)) = module_absent p"
    using off by (simp add: pm_read_module_state_def)
  then show ?thesis
    using in_state_absent [OF assms(2)] Absent by (auto simp: dom_text_def dom_columns_ends fun_eq_iff)
next
  case Unreadable
  obtain off where off: "serial_id_offset p = Some off" using managed_offset [OF assms(1)] by blast
  have wants: "wants_a0 p"
    using assms(2,4) Unreadable state_flags_wants_a0 [of conn st0 p] by (simp add: in_state_def)
  obtain q v where "read_a0_part pl off 2 (replicate (csize pm_sfp_serial_id_t) 0) p w = (Return (- 1), q, v)"
    "q = read_failed p \<or> q = checksum_failed p"
    using read_a0_part_bad [OF assms(3) [unfolded Unreadable] wants, of "replicate (csize pm_sfp_serial_id_t) 0"]
    by (metis length_replicate sfp_serial_id_size)
  then show ?thesis
    using off in_state_failed Unreadable
    by (auto simp: pm_read_module_state_def dom_text_def dom_columns_ends fun_eq_iff)
next
  case (Module pg a)
  then have hw: "\<And>w. fst (pm_get_presence pl p w)" "verified pg"
    "\<And>off w. serial_id_offset p = Some off \<Longrightarrow> fst (pm_read_a0 pl p off w) = (0, pg)"
    using assms(3) by simp_all
  obtain off where off: "serial_id_offset p = Some off" using managed_offset [OF assms(1)] by blast
  obtain w1 where pr: "pm_get_presence pl p w = (True, w1)" using hw(1) by (metis (full_types) prod.collapse)
  obtain w2 where rd: "pm_read_a0 pl p off w1 = ((0, pg), w2)" using hw(3) [OF off, of w1] by (metis prod.collapse)
  have state: "\<exists>b. in_state (cn pl) conn (Module pg b) (fst (snd (pm_read_module_state pl p w)))"
    using read_module_good [OF assms(1,2) _ pr _ hw(2), of w2] rd assms(4) Module off by auto
  have wants: "wants_a0 p"
    using assms(2,4) Module state_flags_wants_a0 [of conn st0 p] by (simp add: in_state_def)
  let ?q = "parse_verified (cn pl) pg p" and ?a2 = "case d of Some a2 \<Rightarrow> a2 | None \<Rightarrow> replicate 128 0xff"
  have config: "config_of ?q = config_of p" by (rule cfg.keep_parse_verified) simp
  then have q: "yp_pluggable (module_device ?q)" "yp_connector (module_device ?q) = Some conn"
    "known_connector conn" using assms(1) by (simp_all add: managed_def config_of_def)
  have "read_a0_part pl off 2 (replicate (csize pm_sfp_serial_id_t) 0) p w = (Go_on 2, ?q, w2)"
    using read_a0_part_good [OF pr wants rd hw(2)] by (simp add: sfp_serial_id_size)
  then have "fst (snd (pm_read_module_state pl p w)) =
      (if a2_read_requested ?q then publish_a2 (cn pl) ?a2 ?q else ?q)"
    using off read_a2_part_shown [OF assms(5) config, of "replicate (csize pm_sfp_dom_t) 0" 2 w2]
    by (auto simp: pm_read_module_state_def publish_a2_def sfp_dom_size split: prod.splits)
  moreover have "dom_text (cn pl) (publish_a2 (cn pl) x ?q) = dom_column conn x (dom_text (cn pl) ?q)" for x
    using pm_set_a2_dom [OF q, of "cn pl" x] by (simp add: publish_a2_def dom_text_def fun_eq_iff dom_columns_simps)
  moreover have "dom_text (cn pl) ?q = dom_text (cn pl) p" by (simp add: dom_text_def fun_eq_iff dom_columns_ends)
  moreover have "a2_read_requested ?q \<longleftrightarrow> announces_diagnostics conn pg"
    using requested_announced [OF assms(1)] hw(2) by (simp add: verified_def)
  ultimately have "dom_text (cn pl) (fst (snd (pm_read_module_state pl p w))) =
      shown_diagnostics conn st d (dom_text (cn pl) p)" using Module by simp
  then show ?thesis using state Module by blast
qed

section \<open>The table\<close>

lemma for_each_source:
  "(name, q) \<in> set (fst (shash_for_each f sh w)) \<Longrightarrow> \<exists>p v. (name, p) \<in> set sh \<and> q = fst (f p v)"
proof (induction f sh w rule: shash_for_each.induct)
  case (2 f name' p sh w)
  obtain p' v where f: "f p w = (p', v)" by fastforce
  show ?case
  proof (cases "(name, q) = (name', p')")
    case True
    then show ?thesis using f by (intro exI [of _ p] exI [of _ w]) simp
  next
    case False
    then have "(name, q) \<in> set (fst (shash_for_each f sh v))" using 2(2) f by (auto split: prod.splits)
    then show ?thesis using 2(1) [OF f [symmetric]] by auto
  qed
qed simp

lemma read_state_source:
  assumes "pm_read_state pl sh w = (rc, sh', v)" and "(name, q) \<in> set sh'"
  shows "\<exists>p u. (name, p) \<in> set sh \<and> q = fst (snd (pm_read_module_state pl p u))"
proof -
  let ?f = "\<lambda>port w. case pm_read_port_state pl (Some port) w of (rc, p, w) \<Rightarrow> (the p, w)"
  have "(name, q) \<in> set (fst (shash_for_each ?f sh w))"
    using assms by (simp add: pm_read_state_def split: prod.splits)
  from for_each_source [OF this] show ?thesis
    by (auto simp: pm_read_port_state_def split: prod.splits) (metis fst_conv snd_conv)
qed

lemma read_state_names: "pm_read_state pl sh w = (rc, sh', v) \<Longrightarrow> map fst sh' = map fst sh"
proof -
  assume r: "pm_read_state pl sh w = (rc, sh', v)"
  let ?f = "\<lambda>port w. case pm_read_port_state pl (Some port) w of (rc, p, w) \<Rightarrow> (the p, w)"
  have "sh' = fst (shash_for_each ?f sh w)" using r by (simp add: pm_read_state_def split: prod.splits)
  then show ?thesis by (simp add: shash_for_each_names)
qed

lemma mod_key_columns:
  "mod_key f = Some k \<Longrightarrow> state_columns texts conn (Module pg a) f = state_columns texts conn (Module pg b) f"
  by (cases f) simp_all

text \<open>
C2: from the hardware to the database in one round. If the cage of an interface is empty, or has
a module that cannot be read, or one with a valid page, and the daemon has not identified a
module there before (which does not matter for an empty cage), then after one round without a
change of the configuration the row of the interface is determined: its module keys are those of
that state, the columns that the page says by its byte offsets or the two that report an unreadable
or an absent module; its diagnostic keys are the old ones, unless the page announces diagnostics:
then they are those of the diagnostic page, or, when that page cannot be read, those of a page of
ones, in which every alarm is on. This holds whatever the other cages do and whatever the
database held for the module before.
\<close>

theorem hardware_published:
  assumes "tracked pl nm d w db" and "yaml_ok pl" and "rows_named nm idl"
    and "pmd_run pl idl False True d w = Inr (e, v, ws)" and "seqno idl = idl_seqno d"
    and "shash_find (ovs_intfs d) name = Some p" and "has_row idl p"
    and "yp_connector (module_device p) = Some conn" and "hardware_shows pl p st"
    and "diagnostics_show pl p diag" and "st = Absent \<or> \<not> present p \<or> retry p"
  shows "\<exists>m. fold db_apply ws db (uuid p) = Some m \<and>
    (\<forall>f k. mod_key f = Some k \<longrightarrow> smap_get m k = state_columns (cn pl) conn st f) \<and>
    (\<forall>f. smap_get m (dom_key f) = shown_diagnostics conn st diag (dom_text (cn pl) p) f)"
proof -
  have ok: "daemon_ok pl d" by (rule reachable_ok [OF tracked_reachable [OF assms(1)] assms(2)])
  obtain d1 w1 sh w2 where r: "pmd_reconfigure pl idl d w = Inr (d1, w1)"
    "pm_read_state pl (ovs_intfs d1) w1 = (0, sh, w2)"
    "pmd_run pl idl False True d w =
       Inr (d1\<lparr>ovs_intfs := published_table idl sh,
               cur_hw_set := cur_hw_set d1 \<or> NAME_IN_DAEMON_TABLE \<in> set (daemon_rows idl)\<rparr>, w2,
            pm_info_writes (cn pl) idl sh @ cur_hw_write idl d1)"
    by (rule pmd_run_parts [OF ok assms(2), of idl w])
  have d1: "d1 = d" using r(1) assms(5) by (simp add: pmd_reconfigure_def)
  have e: "ovs_intfs e = published_table idl sh" using r(3) assms(4) by auto
  have names: "all_ports (port_ok (cn pl)) (ovs_intfs d)" using ok by (simp add: daemon_ok_def)
  have "map fst sh = map fst (ovs_intfs d)" using r(2) unfolding d1 by (rule read_state_names)
  then obtain q where q: "(name, q) \<in> set sh"
    using assms(6) by (metis (no_types, lifting) fst_conv image_iff list.set_map shash_find_def map_of_SomeD surj_pair)
  obtain p' u where p': "(name, p') \<in> set (ovs_intfs d)" "q = fst (snd (pm_read_module_state pl p' u))"
    using read_state_source [OF r(2) q] d1 by blast
  have "p' = p" using p'(1) assms(6) names by (simp add: all_ports_def shash_find_def shash_ok_def)
  then have q_eq: "q = fst (snd (pm_read_module_state pl p u))" using p'(2) by simp
  obtain conn' st0 where st0: "managed conn' p" "in_state (cn pl) conn' st0 p"
    using all_portsD [OF names assms(6)] by (auto simp: port_ok_def)
  have conn: "conn' = conn" using st0(1) assms(8) by (simp add: managed_def)
  have "st = Absent \<or> \<not> identified st0"
    using assms(11) st0(2) by (cases st0) (auto simp: in_state_def)
  from read_hardware [OF st0 assms(9) this assms(10), of u] obtain st1 where st1:
    "in_state (cn pl) conn st1 q"
    "st1 = st \<or> (\<exists>pg a b. st = Module pg a \<and> st1 = Module pg b)"
    "dom_text (cn pl) q = shown_diagnostics conn st diag (dom_text (cn pl) p)"
    unfolding conn q_eq by blast
  have config: "config_of q = config_of p" unfolding q_eq by (rule cfg.keep_read_module_state) simp
  let ?p = "published_port idl q"
  have pub: "uuid ?p = uuid p" "has_row idl ?p" "col_text (cn pl) ?p = col_text (cn pl) q"
    using config assms(7) by (simp_all add: published_port_def config_of_def has_row_def col_text_def fun_eq_iff)
  have "(name, ?p) \<in> set (ovs_intfs e)" using q by (force simp: e published_table_def)
  from run_published(3) [OF assms(1-4) this pub(2)]
  have "fold db_apply ws db (uuid p) = Some (pm_info_of (cn pl) ?p)" using pub(1) by simp
  moreover have "smap_get (pm_info_of (cn pl) ?p) k = state_columns (cn pl) conn st f" if "mod_key f = Some k" for f k
  proof -
    have "smap_get (pm_info_of (cn pl) ?p) k = state_columns (cn pl) conn st1 f"
      using that st1(1) pub(3) smap_get_pm_info by (simp add: in_state_def)
    then show ?thesis using st1(2) mod_key_columns [OF that] by auto
  qed
  moreover have "smap_get (pm_info_of (cn pl) ?p) (dom_key f) = shown_diagnostics conn st diag (dom_text (cn pl) p) f" for f
  proof -
    have "dom_text (cn pl) ?p = dom_text (cn pl) q" by (simp add: published_port_def dom_text_def fun_eq_iff)
    then show ?thesis using smap_get_pm_info st1(3) by metis
  qed
  ultimately show ?thesis by blast
qed

lemma sample_hardware:
  "hardware_shows sample_pl sample_new_port (Module SFP_SR_AVAGO None)"
  "diagnostics_show sample_pl sample_new_port (Some SFP_SR_AVAGO)"
proof -
  have op: "presence_op sample_new_port = Some sample_bit_op"
    by (simp add: presence_op_def connector_is_def sample_new_port_def new_port_def) (simp add: sample_yaml_def)
  show "hardware_shows sample_pl sample_new_port (Module SFP_SR_AVAGO None)"
    by (simp add: sample_presence [OF op])
      (simp add: pm_read_a0_def sample_platform_def sfp_serial_id_size Let_def)
  show "diagnostics_show sample_pl sample_new_port (Some SFP_SR_AVAGO)"
    by (simp add: diagnostics_show_def pm_read_a2_def sample_platform_def sfp_dom_size Let_def)
qed

theorem hardware_published_witness:
  "\<exists>v e u ws m. pmd_run sample_pl sample_idl False True sample_daemon v = Inr (e, u, ws) \<and>
     fold db_apply ws (\<lambda>_. None) 5 = Some m \<and>
     smap_get m ''vendor_name'' = Some ''AVAGO'' \<and> smap_get m ''cable_length'' = None \<and>
     smap_get m ''vcc_high_alarm'' = Some ''On''"
proof -
  obtain v e u ws where r: "tracked sample_pl sample_names sample_daemon v (\<lambda>_. None)"
    "pmd_run sample_pl sample_idl False True sample_daemon v = Inr (e, u, ws)"
    using sample_round by blast
  have p: "seqno sample_idl = idl_seqno sample_daemon" "has_row sample_idl sample_new_port"
    "shash_find (ovs_intfs sample_daemon) ''1'' = Some sample_new_port"
    "yp_connector (module_device sample_new_port) = Some CONNECTOR_SFP_PLUS"
    "uuid sample_new_port = 5" "\<not> present sample_new_port"
    by (simp_all add: sample_idl_def sample_daemon_def shash_find_def has_row_def
        ovsrec_interface_get_for_uuid_def sample_interface_def sample_new_port_def new_port_def)
  obtain m where m: "fold db_apply ws (\<lambda>_. None) 5 = Some m"
    "\<forall>f k. mod_key f = Some k \<longrightarrow>
       smap_get m k = state_columns (cn sample_pl) CONNECTOR_SFP_PLUS (Module SFP_SR_AVAGO None) f"
    "\<forall>f. smap_get m (dom_key f) =
       shown_diagnostics CONNECTOR_SFP_PLUS (Module SFP_SR_AVAGO None) (Some SFP_SR_AVAGO)
         (dom_text (cn sample_pl) sample_new_port) f"
    using hardware_published [OF r(1) sample_yaml_ok sample_rows_named r(2) p(1,3,2,4) sample_hardware]
      p(5,6) by metis
  have "smap_get m ''vendor_name'' = Some ''AVAGO''"
    using m(2) [rule_format, of Vendor_name "''vendor_name''"]
    by (simp add: SFP_SR_AVAGO_def page_eval)
  moreover have "smap_get m ''cable_length'' = None"
    using m(2) [rule_format, of Cable_length "''cable_length''"]
    by (simp add: SFP_SR_AVAGO_def page_eval)
  moreover have "smap_get m ''vcc_high_alarm'' = Some ''On''"
    using m(3) [rule_format, of "(Vcc, Flag High_alarm)"]
    by (simp add: SFP_SR_AVAGO_def announces_diagnostics_def dom_column_def dom_source_def bit_0 bit_Suc)
  ultimately show ?thesis using r(2) m(1) by blast
qed

end
