(* ===== verification/Reconfigure.thy ===== *)
theory Reconfigure
  imports Daemon_Publish
begin

text \<open>
  What \<open>pmd_reconfigure\<close> does to the table of interfaces: which ports it deletes, which it
  keeps and how, and that a port is enabled as its row says.
\<close>

section \<open>Deletion\<close>

text \<open>The loop deletes by name while it walks over the table as it was.\<close>

lemma delete_interfaces_nodes:
  "\<forall>(name, p) \<in> set nodes. port_instance p = name \<Longrightarrow>
     delete_interfaces idl nodes sh =
       filter (\<lambda>e. \<forall>(name, p) \<in> set nodes. fst e = name \<longrightarrow> has_row idl p) sh"
proof (induction idl nodes sh rule: delete_interfaces.induct)
  case (1 idl sh)
  then show ?case by simp
next
  case (2 idl name p nodes sh)
  then show ?case
    by (auto simp: shash_delete_def has_row_def intro!: filter_cong)
qed

lemma delete_interfaces_filter:
  assumes "all_ports (\<lambda>name p. port_instance p = name) sh"
  shows "delete_interfaces idl sh sh = filter (\<lambda>(name, p). has_row idl p) sh"
proof -
  have unique: "p = q" if "(name, p) \<in> set sh" "(name, q) \<in> set sh" for name p q
    using assms that shash_find_iff [of sh name p] shash_find_iff [of sh name q]
    by (simp add: all_ports_def)
  have "\<forall>(name, p) \<in> set sh. port_instance p = name" using assms by (simp add: all_ports_def)
  from delete_interfaces_nodes [OF this] show ?thesis
    by (auto intro!: filter_cong dest: unique)
qed

section \<open>What survives\<close>

text \<open>Creating interfaces leaves the entries that are there alone.\<close>

definition extends :: "daemon \<Rightarrow> daemon \<Rightarrow> bool" where
  "extends d e \<longleftrightarrow> shash_ok (ovs_intfs e) \<and>
     (\<forall>name p. shash_find (ovs_intfs d) name = Some p \<longrightarrow> shash_find (ovs_intfs e) name = Some p)"

lemma extends_refl: "shash_ok (ovs_intfs d) \<Longrightarrow> extends d d"
  by (simp add: extends_def)

lemma extends_trans: "extends c d \<Longrightarrow> extends d e \<Longrightarrow> extends c e"
  by (simp add: extends_def)

lemma create_extends:
  "shash_ok (ovs_intfs d) \<Longrightarrow> shash_find (ovs_intfs d) (intf_name intf) = None \<Longrightarrow>
     ovsdb_if_intf_create pl intf sub d w = Inr (e, v) \<Longrightarrow> extends d e"
  by (auto simp: ovsdb_if_intf_create_def extends_def intfs.ok_add intfs.find_add
      split: option.splits prod.splits if_splits)

lemma create_interfaces_extends:
  "shash_ok (ovs_intfs d) \<Longrightarrow> create_interfaces pl sub intfs d w = Inr (e, v) \<Longrightarrow> extends d e"
proof (induction intfs arbitrary: d w)
  case Nil
  then show ?case by (simp add: extends_refl)
next
  case (Cons i intfs)
  show ?case
  proof (cases "shash_find (ovs_intfs d) (intf_name i) = None")
    case True
    then obtain d1 w1 where d1: "ovsdb_if_intf_create pl i sub d w = Inr (d1, w1)"
      "create_interfaces pl sub intfs d1 w1 = Inr (e, v)"
      using Cons.prems(2) by (auto split: sum.splits)
    have "extends d d1" by (rule create_extends [OF Cons.prems(1) True d1(1)])
    then show ?thesis using Cons.IH [OF _ d1(2)] extends_trans by (auto simp: extends_def)
  next
    case False
    then have "create_interfaces pl sub intfs d w = Inr (e, v)"
      using Cons.prems(2) by (simp only: create_interfaces.simps if_False)
    then show ?thesis by (rule Cons.IH [OF Cons.prems(1)])
  qed
qed

lemma subsys_extends:
  assumes "shash_ok (ovs_intfs d)" and "ovsdb_if_subsys_process pl s d w = Inr (e, v)"
  shows "extends d e"
proof (cases "map_of (ovs_subs d) (sub_name s) = None")
  case True
  let ?d = "d\<lparr>ovs_subs := (sub_name s, sub_uuid s) # ovs_subs d\<rparr>"
  have "extends ?d e"
    using assms True create_interfaces_extends [of ?d] extends_refl [of ?d]
    by (auto simp: ovsdb_if_subsys_process_def Let_def split: prod.splits if_splits)
  then show ?thesis by (simp add: extends_def)
next
  case False
  then show ?thesis
    using assms create_interfaces_extends by (auto simp: ovsdb_if_subsys_process_def)
qed

lemma process_extends:
  "shash_ok (ovs_intfs d) \<Longrightarrow> process_subsystems pl subs d w = Inr (e, v) \<Longrightarrow> extends d e"
proof (induction subs arbitrary: d w)
  case Nil
  then show ?case by (simp add: extends_refl)
next
  case (Cons s subs)
  then obtain d1 w1 where d1: "ovsdb_if_subsys_process pl s d w = Inr (d1, w1)"
    "process_subsystems pl subs d1 w1 = Inr (e, v)" by (auto split: sum.splits)
  have "extends d d1" by (rule subsys_extends [OF Cons.prems(1) d1(1)])
  then show ?case using Cons.IH [OF _ d1(2)] extends_trans by (auto simp: extends_def)
qed

text \<open>Modifying interfaces changes only how ports are enabled.\<close>

definition same_module :: "pm_port \<Rightarrow> pm_port \<Rightarrow> bool" where
  "same_module p q \<longleftrightarrow> q\<lparr>hw_enable := hw_enable p, port_enable := port_enable p\<rparr> = p"

lemma same_module_trans: "same_module p q \<Longrightarrow> same_module q r \<Longrightarrow> same_module p r"
  by (cases p; cases q; cases r) (simp add: same_module_def)

lemma same_module_configure:
  "same_module p (fst (pm_configure_port pl p w))"
  "same_module p (fst (pm_configure_port pl (p\<lparr>hw_enable := b\<rparr>) w))"
  using configure_port_result [of pl p w] configure_port_result [of pl "p\<lparr>hw_enable := b\<rparr>" w]
  by (auto simp: same_module_def)

lemma modify_result:
  "same_module p (fst (ovsdb_if_intf_modify pl intf p w))"
  "hw_enable (fst (ovsdb_if_intf_modify pl intf p w)) = ovsdb_if_intf_get_hw_enable pl intf"
proof -
  have refl: "same_module p p" by (simp add: same_module_def)
  show "same_module p (fst (ovsdb_if_intf_modify pl intf p w))"
    by (simp add: ovsdb_if_intf_modify_def Let_def same_module_configure refl)
  have "hw_enable (fst (pm_configure_port pl q w)) = hw_enable q" for q
    using configure_port_result [of pl q w] by auto
  then show "hw_enable (fst (ovsdb_if_intf_modify pl intf p w)) = ovsdb_if_intf_get_hw_enable pl intf"
    by (simp add: ovsdb_if_intf_modify_def Let_def)
qed

lemma with_port_find:
  assumes "shash_ok (ovs_intfs d)" and "with_port f name d w = (e, v)"
  shows "shash_ok (ovs_intfs e)"
    and "name' \<noteq> name \<Longrightarrow> shash_find (ovs_intfs e) name' = shash_find (ovs_intfs d) name'"
    and "shash_find (ovs_intfs d) name = Some p \<Longrightarrow> shash_find (ovs_intfs e) name = Some (fst (f p w))"
  using assms by (auto simp: with_port_def intfs.ok_modify intfs.find_modify split: option.splits prod.splits)

text \<open>Each port that has a row of its name is enabled as the row says, the others are left alone.\<close>

lemma modify_interfaces_find:
  "shash_ok (ovs_intfs d) \<Longrightarrow> modify_interfaces pl intfs d w = (e, v) \<Longrightarrow>
     shash_find (ovs_intfs d) name = Some p \<Longrightarrow>
     \<exists>q. shash_find (ovs_intfs e) name = Some q \<and> same_module p q \<and>
       (name \<notin> intf_name ` set intfs \<longrightarrow> q = p)"
proof (induction intfs arbitrary: d w p)
  case Nil
  then show ?case by (simp add: same_module_def)
next
  case (Cons i intfs)
  obtain d1 w1 where d1: "with_port (ovsdb_if_intf_modify pl i) (intf_name i) d w = (d1, w1)" by fastforce
  then have rest: "modify_interfaces pl intfs d1 w1 = (e, v)" using Cons.prems(2) by simp
  note find = with_port_find [OF Cons.prems(1) d1]
  show ?case
  proof (cases "name = intf_name i")
    case True
    have q: "shash_find (ovs_intfs d1) name = Some (fst (ovsdb_if_intf_modify pl i p w))"
      using find(3) Cons.prems(3) True by simp
    show ?thesis
      using Cons.IH [OF find(1) rest q] same_module_trans [OF modify_result(1) [of p pl i w]] True by auto
  next
    case False
    then have "shash_find (ovs_intfs d1) name = Some p" using find(2) Cons.prems(3) by simp
    from Cons.IH [OF find(1) rest this] show ?thesis using False by auto
  qed
qed

lemma modify_interfaces_enable:
  "shash_ok (ovs_intfs d) \<Longrightarrow> modify_interfaces pl intfs d w = (e, v) \<Longrightarrow> distinct (map intf_name intfs) \<Longrightarrow>
     i \<in> set intfs \<Longrightarrow> shash_find (ovs_intfs d) (intf_name i) = Some p \<Longrightarrow>
     \<exists>q. shash_find (ovs_intfs e) (intf_name i) = Some q \<and> hw_enable q = ovsdb_if_intf_get_hw_enable pl i"
proof (induction intfs arbitrary: d w)
  case Nil
  then show ?case by simp
next
  case (Cons j intfs)
  obtain d1 w1 where d1: "with_port (ovsdb_if_intf_modify pl j) (intf_name j) d w = (d1, w1)" by fastforce
  then have rest: "modify_interfaces pl intfs d1 w1 = (e, v)" using Cons.prems(2) by simp
  note find = with_port_find [OF Cons.prems(1) d1]
  show ?case
  proof (cases "i = j")
    case True
    then have q: "shash_find (ovs_intfs d1) (intf_name i) = Some (fst (ovsdb_if_intf_modify pl i p w))"
      using find(3) Cons.prems(5) by simp
    have "intf_name i \<notin> intf_name ` set intfs" using Cons.prems(3) True by simp
    then show ?thesis using modify_interfaces_find [OF find(1) rest q] modify_result(2) [of pl i p w] by auto
  next
    case False
    then have i: "i \<in> set intfs" "intf_name i \<noteq> intf_name j"
      using Cons.prems(3,4) by (auto, metis image_eqI)
    then have "shash_find (ovs_intfs d1) (intf_name i) = Some p" using find(2) Cons.prems(5) by simp
    then show ?thesis using Cons.IH [OF find(1) rest _ i(1)] Cons.prems(3) by simp
  qed
qed

lemma modify_interfaces_names:
  "map fst (ovs_intfs (fst (modify_interfaces pl intfs d w))) = map fst (ovs_intfs d)"
proof (induction intfs arbitrary: d w)
  case Nil
  then show ?case by simp
next
  case (Cons i intfs)
  obtain d1 w1 where d1: "with_port (ovsdb_if_intf_modify pl i) (intf_name i) d w = (d1, w1)" by fastforce
  then have "map fst (ovs_intfs d1) = map fst (ovs_intfs d)"
    by (auto simp: with_port_def split: option.splits prod.splits)
  then show ?case using Cons.IH [of d1 w1] d1 by simp
qed

section \<open>The parts of a reconfiguration\<close>

lemma pmd_reconfigure_parts:
  assumes "daemon_ok pl d" and "seqno idl \<noteq> idl_seqno d" and "pmd_reconfigure pl idl d w = Inr (e, v)"
  obtains d0 d1 w1 where "shash_ok (ovs_intfs d0)"
    "ovs_intfs d0 = filter (\<lambda>(name, p). has_row idl p) (ovs_intfs d)"
    "process_subsystems pl (subsystem_rows idl) d0 w = Inr (d1, w1)" "extends d0 d1"
    "modify_interfaces pl (interface_rows idl) d1 w1 = (e, v)"
proof -
  let ?d0 = "d\<lparr>idl_seqno := seqno idl, ovs_intfs := delete_interfaces idl (ovs_intfs d) (ovs_intfs d),
      ovs_subs := delete_subsystems idl (ovs_subs d)\<rparr>"
  have "all_ports (\<lambda>name p. port_instance p = name) (ovs_intfs d)"
    using assms(1) by (auto simp: daemon_ok_def all_ports_def port_ok_def)
  note filter = delete_interfaces_filter [OF this, of idl]
  have "shash_ok (ovs_intfs d)" using assms(1) by (simp add: daemon_ok_def all_ports_def)
  then have ok: "shash_ok (ovs_intfs ?d0)" by (simp add: filter shash_ok_def distinct_map_filter)
  obtain d1 w1 where d1: "process_subsystems pl (subsystem_rows idl) ?d0 w = Inr (d1, w1)"
    "modify_interfaces pl (interface_rows idl) d1 w1 = (e, v)"
    using assms(2,3) by (auto simp: pmd_reconfigure_def Let_def split: sum.splits)
  show ?thesis
    by (rule that [of ?d0 d1 w1]) (use ok d1 filter process_extends [OF ok d1(1)] in simp_all)
qed

lemma shash_find_filter:
  "shash_ok sh \<Longrightarrow> shash_find (filter (\<lambda>(name, p). P p) sh) name = Some p \<longleftrightarrow> shash_find sh name = Some p \<and> P p"
proof -
  assume sh: "shash_ok sh"
  then have "shash_ok (filter (\<lambda>(name, p). P p) sh)" by (simp add: shash_ok_def distinct_map_filter)
  then show ?thesis using sh by (auto simp: shash_find_iff)
qed

section \<open>Rows\<close>

text \<open>The interfaces of the subsystems are rows of the interface table.\<close>

definition rows_consistent :: "ovsdb_idl \<Rightarrow> bool" where
  "rows_consistent idl \<longleftrightarrow> (\<forall>s \<in> set (subsystem_rows idl). \<forall>i \<in> set (sub_interfaces s).
     ovsrec_interface_get_for_uuid idl (intf_uuid i) \<noteq> None)"

lemma has_row_cong: "uuid q = uuid p \<Longrightarrow> has_row idl q \<longleftrightarrow> has_row idl p"
  by (simp add: has_row_def)

interpretation hr: table_invariant pl "\<lambda>i. ovsrec_interface_get_for_uuid idl (intf_uuid i) \<noteq> None"
  "\<lambda>name p. has_row idl p"
proof unfold_locales
  fix intf :: ovsrec_interface and sub yaml
  assume "ovsrec_interface_get_for_uuid idl (intf_uuid intf) \<noteq> None"
  then show "has_row idl (new_port pl intf sub yaml)" by (simp add: has_row_def new_port_def)
next
  fix p w
  assume "has_row idl p"
  then show "has_row idl (fst (pm_configure_port pl p w))"
    using configure_port_result [of pl p w] has_row_cong [of "p\<lparr>port_enable := b\<rparr>" p for b] by auto
next
  fix p w
  assume p: "has_row idl p"
  have "config_of (fst (snd (pm_read_module_state pl p w))) = config_of p"
    by (rule cfg.keep_read_module_state) simp
  then show "has_row idl (fst (snd (pm_read_module_state pl p w)))"
    using p has_row_cong [of "fst (snd (pm_read_module_state pl p w))" p idl] by (simp add: config_of_def)
qed (simp_all add: has_row_def set_module_data_def)

lemma reconfigure_survivors:
  assumes "daemon_ok pl d" and "seqno idl \<noteq> idl_seqno d" and "pmd_reconfigure pl idl d w = Inr (e, v)"
    and "shash_find (ovs_intfs d) name = Some p" and "has_row idl p"
  shows "\<exists>q. shash_find (ovs_intfs e) name = Some q \<and> same_module p q"
proof -
  obtain d0 d1 w1 where r: "shash_ok (ovs_intfs d0)"
    "ovs_intfs d0 = filter (\<lambda>(name, p). has_row idl p) (ovs_intfs d)" "extends d0 d1"
    "modify_interfaces pl (interface_rows idl) d1 w1 = (e, v)"
    by (rule pmd_reconfigure_parts [OF assms(1-3)])
  have "shash_ok (ovs_intfs d)" using assms(1) by (simp add: daemon_ok_def all_ports_def)
  then have "shash_find (ovs_intfs d0) name = Some p"
    using r(2) assms(4,5) shash_find_filter by simp
  then have "shash_ok (ovs_intfs d1)" "shash_find (ovs_intfs d1) name = Some p"
    using r(3) by (auto simp: extends_def)
  then show ?thesis using modify_interfaces_find [OF _ r(4)] by blast
qed

lemma reconfigure_rows:
  assumes "daemon_ok pl d" and "seqno idl \<noteq> idl_seqno d" and "pmd_reconfigure pl idl d w = Inr (e, v)"
    and "rows_consistent idl" and "yaml_ok pl"
  shows "all_ports (\<lambda>name p. has_row idl p) (ovs_intfs e)"
proof -
  obtain d0 d1 w1 where r: "shash_ok (ovs_intfs d0)"
    "ovs_intfs d0 = filter (\<lambda>(name, p). has_row idl p) (ovs_intfs d)"
    "process_subsystems pl (subsystem_rows idl) d0 w = Inr (d1, w1)"
    "modify_interfaces pl (interface_rows idl) d1 w1 = (e, v)"
    by (rule pmd_reconfigure_parts [OF assms(1-3)])
  have "all_ports (\<lambda>name p. has_row idl p) (ovs_intfs d0)" using r(1,2) by (auto simp: all_ports_def)
  moreover have "\<forall>s \<in> set (subsystem_rows idl). \<forall>i \<in> set (sub_interfaces s).
      ovsrec_interface_get_for_uuid idl (intf_uuid i) \<noteq> None"
    using assms(4) unfolding rows_consistent_def .
  ultimately have "hr.good idl (process_subsystems pl (subsystem_rows idl) d0 w)"
    by (rule hr.process_good [OF _ _ assms(5)])
  then have "all_ports (\<lambda>name p. has_row idl p) (ovs_intfs d1)" using r(3) by (simp add: hr.good_def)
  then show ?thesis using hr.modify_interfaces_keeps [of idl d1 pl "interface_rows idl" w1] r(4) by simp
qed

lemma reconfigure_enable:
  assumes "daemon_ok pl d" and "seqno idl \<noteq> idl_seqno d" and "pmd_reconfigure pl idl d w = Inr (e, v)"
    and "distinct (map intf_name (interface_rows idl))" and "i \<in> set (interface_rows idl)"
    and "shash_find (ovs_intfs e) (intf_name i) = Some q"
  shows "hw_enable q = ovsdb_if_intf_get_hw_enable pl i"
proof -
  obtain d0 d1 w1 where r: "extends d0 d1" "modify_interfaces pl (interface_rows idl) d1 w1 = (e, v)"
    by (rule pmd_reconfigure_parts [OF assms(1-3)])
  have "map fst (ovs_intfs e) = map fst (ovs_intfs d1)"
    using modify_interfaces_names [of pl "interface_rows idl" d1 w1] r(2) by simp
  then have "fst ` set (ovs_intfs e) = fst ` set (ovs_intfs d1)" by (metis set_map)
  then obtain p where "shash_find (ovs_intfs d1) (intf_name i) = Some p"
    using assms(6) shash_find_None by (metis option.exhaust)
  moreover have "shash_ok (ovs_intfs d1)" using r(1) by (simp add: extends_def)
  ultimately show ?thesis using modify_interfaces_enable [OF _ r(2) assms(4,5)] assms(6) by auto
qed

end
