(* ===== verification/Ovsdb_Props.thy ===== *)
theory Ovsdb_Props
  imports Daemon_Props Reconfigure
begin

text \<open>The properties of \<open>src/ovsdb_access.c\<close> and of the simulation command of \<open>src/pmd.c\<close>.\<close>

section \<open>The published map\<close>

text \<open>
C8: the 129 statements that fill the \<open>pm_info\<close> map publish every column that is set, under
the key that is derived from its name, and nothing else; no key is written twice. This needs
the two high power alarms to be set together, since the one guards the other.
\<close>

theorem make_pm_info_complete:
  assumes "alarms_paired port"
  shows "\<exists>m. make_pm_info texts port = Inr m \<and> distinct (map fst m) \<and>
    (\<forall>f k. mod_key f = Some k \<longrightarrow> smap_get m k = col_text texts port f) \<and>
    (\<forall>f. smap_get m (dom_key f) = dom_text texts port f) \<and>
    (\<forall>k \<in> fst ` set m. (\<exists>f. mod_key f = Some k) \<or> (\<exists>f. k = dom_key f))"
proof (intro exI conjI)
  show "make_pm_info texts port = Inr (pm_info_of texts port)" by (rule make_pm_info_added [OF assms])
  show "distinct (map fst (pm_info_of texts port))" by (rule pm_info_of_distinct)
  show "\<forall>f k. mod_key f = Some k \<longrightarrow> smap_get (pm_info_of texts port) k = col_text texts port f"
    by (simp add: smap_get_pm_info)
  show "\<forall>f. smap_get (pm_info_of texts port) (dom_key f) = dom_text texts port f"
    by (simp add: smap_get_pm_info)
  show "\<forall>k \<in> fst ` set (pm_info_of texts port). (\<exists>f. mod_key f = Some k) \<or> (\<exists>f. k = dom_key f)"
    using set_pm_info_of [of _ _ texts port] by (force simp del: dom_key.simps)
qed

theorem make_pm_info_complete_witness:
  "\<exists>m. make_pm_info (\<lambda>_. ''x'') (SET_STATIC_STRING Connector CONNECTOR_ABSENT (sample_port CONNECTOR_QSFP28))
       = Inr m \<and> smap_get m ''connector'' = Some ''x'' \<and> smap_get m ''vcc'' = None"
proof -
  let ?p = "SET_STATIC_STRING Connector CONNECTOR_ABSENT (sample_port CONNECTOR_QSFP28)"
  have dom: "ovs_module_dom_columns ?p = (\<lambda>_. None)"
    using dom_columns_simps(2) [of Connector CONNECTOR_ABSENT "sample_port CONNECTOR_QSFP28"]
    by (simp add: static_field_def) (simp add: sample_port_def)
  then have "alarms_paired ?p" by (simp add: alarms_paired_def)
  from make_pm_info_complete [OF this, of "\<lambda>_. ''x''"] obtain m where m:
    "make_pm_info (\<lambda>_. ''x'') ?p = Inr m"
    "\<forall>f k. mod_key f = Some k \<longrightarrow> smap_get m k = col_text (\<lambda>_. ''x'') ?p f"
    "\<forall>f. smap_get m (dom_key f) = dom_text (\<lambda>_. ''x'') ?p f" by blast
  have "smap_get m ''connector'' = Some ''x''"
    using m(2) [rule_format, of Connector "''connector''"] by simp
  moreover have "smap_get m ''vcc'' = None"
    using m(3) [rule_format, of "(Vcc, Value)"] dom by (simp add: dom_text_def)
  ultimately show ?thesis using m(1) by blast
qed

lemma smap_add_all_Inl:
  "smap_add_all cols es m = Inl e \<longleftrightarrow>
     e = Null_smap_value \<and> (\<exists>(g, k, v) \<in> set es. cols g \<noteq> None \<and> cols v = None)"
  by (induction cols es m rule: smap_add_all.induct) (auto split: option.split)

text \<open>
C33: the statement for \<open>tx_power_high_alarm\<close> tests \<open>rx_power_high_alarm\<close>: the update
dereferences NULL exactly if the latter is set and the former is not.
\<close>

theorem make_pm_info_wrong_guard:
  "make_pm_info texts port = Inl Null_smap_value \<longleftrightarrow>
     dom_text texts port (Rx_power, Flag High_alarm) \<noteq> None \<and>
     dom_text texts port (Tx_power, Flag High_alarm) = None"
proof -
  have "smap_add_all (col_text texts port) module_info [] \<noteq> Inl e" for e
    by (auto simp: smap_add_all_Inl module_info_entry)
  then obtain m where m: "smap_add_all (col_text texts port) module_info [] = Inr m"
    by (metis sum.exhaust)
  have "(\<exists>(g, k, v) \<in> set dom_info. dom_text texts port g \<noteq> None \<and> dom_text texts port v = None) \<longleftrightarrow>
      dom_text texts port rx_alarm \<noteq> None \<and> dom_text texts port tx_alarm = None" (is "?l \<longleftrightarrow> ?r")
  proof
    assume ?l
    then show ?r using bspec [OF dom_info_entries] by (fastforce simp: entry_ok_def)
  next
    assume ?r
    moreover have "(rx_alarm, ''tx_power_high_alarm'', tx_alarm) \<in> set dom_info"
      by (simp add: dom_info_def info_defs rx_alarm_def tx_alarm_def)
    ultimately show ?l by blast
  qed
  then show ?thesis
    by (simp add: make_pm_info_def m smap_add_all_Inl rx_alarm_def tx_alarm_def)
qed

section \<open>The update\<close>

text \<open>
C7: in every state that the daemon reaches, \<open>pm_ovsdb_update\<close> is its reference: it writes
the complete map of each port that has a row and is marked as changed, in the order of the
table, clears exactly those marks, and sets \<open>cur_hw\<close> of its own row of the daemon table the
first time that it finds the row.
\<close>

theorem pm_ovsdb_update_reference:
  assumes "reachable pl d w" and "yaml_ok pl"
  shows "pm_ovsdb_update (cn pl) idl d =
    Inr (d\<lparr>ovs_intfs := map (\<lambda>(name, p). (name, if has_row idl p \<and> module_info_changed p
                                     then p\<lparr>module_info_changed := False\<rparr> else p)) (ovs_intfs d),
           cur_hw_set := cur_hw_set d \<or> ''ops-pmd'' \<in> set (daemon_rows idl)\<rparr>,
         [Set_pm_info (uuid p) (pm_info_of (cn pl) p).
            (name, p) \<leftarrow> ovs_intfs d, has_row idl p \<and> module_info_changed p] @
         (if \<not> cur_hw_set d \<and> ''ops-pmd'' \<in> set (daemon_rows idl) then [Set_cur_hw ''ops-pmd'' 1] else []))"
proof -
  have "all_ports (port_ok (cn pl)) (ovs_intfs d)" using reachable_ok [OF assms] by (simp add: daemon_ok_def)
  note eq = pm_ovsdb_update_eq [OF read_alarms [OF this], of "cn pl" idl]
  have "pm_info_writes (cn pl) idl sh = [Set_pm_info (uuid p) (pm_info_of (cn pl) p).
            (name, p) \<leftarrow> sh, has_row idl p \<and> module_info_changed p]" for sh
    by (induction sh) (auto simp: pm_info_writes_def to_publish_def split: if_splits)
  then show ?thesis
    by (simp add: eq published_table_def published_port_def to_publish_def cur_hw_write_def
        NAME_IN_DAEMON_TABLE_def)
qed

theorem pm_ovsdb_update_reference_witness:
  "pm_ovsdb_update (cn sample_pl) sample_idl sample_daemon =
     Inr (sample_daemon\<lparr>cur_hw_set := True\<rparr>, [Set_cur_hw ''ops-pmd'' 1])"
proof -
  obtain v where "pmd_init sample_pl sample_idl [] = Inr (sample_daemon, v)" using sample_init by blast
  then have "reachable sample_pl sample_daemon v" by (rule reachable.start)
  from pm_ovsdb_update_reference [OF this sample_yaml_ok, of sample_idl] show ?thesis
    by (simp add: sample_daemon_def sample_idl_def sample_new_port_def new_port_def)
qed

section \<open>Reconfiguration\<close>

text \<open>
C10: when the replica has changed, \<open>pmd_reconfigure\<close> keeps every port whose row still exists,
with all of its module data and changing at most how it is enabled; and if the interfaces of the
subsystems are rows of the interface table, every port that it leaves in the table, old or new,
has a row: the ports of deleted rows are gone.
\<close>

theorem pmd_reconfigure_ports:
  assumes "reachable pl d w" and "yaml_ok pl" and "seqno idl \<noteq> idl_seqno d"
    and "pmd_reconfigure pl idl d w = Inr (e, v)"
  shows "(\<forall>name p. shash_find (ovs_intfs d) name = Some p \<and> has_row idl p \<longrightarrow>
      (\<exists>q. shash_find (ovs_intfs e) name = Some q \<and>
         q\<lparr>hw_enable := hw_enable p, port_enable := port_enable p\<rparr> = p)) \<and>
    (rows_consistent idl \<longrightarrow> (\<forall>name q. shash_find (ovs_intfs e) name = Some q \<longrightarrow> has_row idl q))"
  using reconfigure_survivors [OF reachable_ok [OF assms(1,2)] assms(3,4)]
    reconfigure_rows [OF reachable_ok [OF assms(1,2)] assms(3,4) _ assms(2)]
  unfolding same_module_def by (metis all_portsD)

text \<open>A replica whose only interface is enabled, and one where it is gone.\<close>

definition enabled_interface :: ovsrec_interface where
  "enabled_interface = sample_interface\<lparr>hw_intf_config := [('''', '''')]\<rparr>"

definition enabled_idl :: ovsdb_idl where
  "enabled_idl = \<lparr>seqno = 2, interface_rows = [enabled_interface], subsystem_rows = [], daemon_rows = []\<rparr>"

definition empty_idl :: ovsdb_idl where
  "empty_idl = \<lparr>seqno = 3, interface_rows = [], subsystem_rows = [], daemon_rows = []\<rparr>"

lemma sample_reachable: "reachable sample_pl sample_daemon v"
proof -
  obtain u where "pmd_init sample_pl sample_idl [] = Inr (sample_daemon, u)" using sample_init by blast
  then show ?thesis by (rule reachable.outside [OF reachable.start])
qed

lemma sample_reconfigure: "\<exists>e v. pmd_reconfigure sample_pl idl sample_daemon [] = Inr (e, v)"
  using reconfigure_ok [OF reachable_ok [OF sample_reachable sample_yaml_ok] sample_yaml_ok] by blast

lemma sample_find: "shash_find (ovs_intfs sample_daemon) ''1'' = Some sample_new_port"
  by (simp add: sample_daemon_def shash_find_def)

theorem pmd_reconfigure_ports_witness:
  "\<exists>e v. pmd_reconfigure sample_pl enabled_idl sample_daemon [] = Inr (e, v) \<and>
     shash_find (ovs_intfs e) ''1'' \<noteq> None"
proof -
  obtain e v where r: "pmd_reconfigure sample_pl enabled_idl sample_daemon [] = Inr (e, v)"
    using sample_reconfigure by blast
  have "seqno enabled_idl \<noteq> idl_seqno sample_daemon" by (simp add: enabled_idl_def sample_daemon_def)
  moreover have "has_row enabled_idl sample_new_port"
    by (simp add: has_row_def ovsrec_interface_get_for_uuid_def enabled_idl_def enabled_interface_def
        sample_new_port_def new_port_def)
  ultimately show ?thesis
    using pmd_reconfigure_ports [OF sample_reachable sample_yaml_ok _ r] sample_find r by blast
qed

text \<open>
C11: after the daemon has seen a change of the replica, every port that is in the table under
the name of a row is enabled exactly if the \<open>hw_intf_config\<close> of that row maps the enable key
to its true value.
\<close>

theorem pmd_reconfigure_enable:
  assumes "reachable pl d w" and "yaml_ok pl" and "seqno idl \<noteq> idl_seqno d"
    and "pmd_reconfigure pl idl d w = Inr (e, v)" and "distinct (map intf_name (interface_rows idl))"
    and "i \<in> set (interface_rows idl)" and "shash_find (ovs_intfs e) (intf_name i) = Some q"
  shows "hw_enable q \<longleftrightarrow>
    map_of (hw_intf_config i) (cn pl INTERFACE_HW_INTF_CONFIG_MAP_ENABLE) =
      Some (cn pl INTERFACE_HW_INTF_CONFIG_MAP_ENABLE_TRUE)"
proof -
  have "hw_enable q = ovsdb_if_intf_get_hw_enable pl i"
    by (rule reconfigure_enable [OF reachable_ok [OF assms(1,2)] assms(3-7)])
  then show ?thesis
    by (auto simp: ovsdb_if_intf_get_hw_enable_def smap_get_def split: option.split)
qed

theorem pmd_reconfigure_enable_witness:
  "\<exists>e v q. pmd_reconfigure sample_pl enabled_idl sample_daemon [] = Inr (e, v) \<and>
     shash_find (ovs_intfs e) ''1'' = Some q \<and> hw_enable q"
proof -
  obtain e v where r: "pmd_reconfigure sample_pl enabled_idl sample_daemon [] = Inr (e, v)"
    using sample_reconfigure by blast
  have new: "seqno enabled_idl \<noteq> idl_seqno sample_daemon" by (simp add: enabled_idl_def sample_daemon_def)
  have "has_row enabled_idl sample_new_port"
    by (simp add: has_row_def ovsrec_interface_get_for_uuid_def enabled_idl_def enabled_interface_def
        sample_new_port_def new_port_def)
  then obtain q where q: "shash_find (ovs_intfs e) ''1'' = Some q"
    using reconfigure_survivors [OF reachable_ok [OF sample_reachable sample_yaml_ok] new r sample_find] by blast
  have "hw_enable q"
    using pmd_reconfigure_enable [OF sample_reachable sample_yaml_ok new r, of enabled_interface q] q
    by (simp add: enabled_idl_def enabled_interface_def sample_interface_def sample_platform_def)
  then show ?thesis using r q by blast
qed

section \<open>Errors\<close>

text \<open>A platform on which reading the YAML files does anything else.\<close>

definition other_files ::
  "(string \<Rightarrow> string \<Rightarrow> 'w \<Rightarrow> int \<times> 'w) \<Rightarrow> (string \<Rightarrow> 'w \<Rightarrow> int \<times> 'w) \<Rightarrow> (string \<Rightarrow> 'w \<Rightarrow> int \<times> 'w) \<Rightarrow>
     (string \<Rightarrow> 'w \<Rightarrow> 'w) \<Rightarrow> 'w platform \<Rightarrow> 'w platform" where
  "other_files add devices ports init pl =
     pl\<lparr>yaml_add_subsystem := add, yaml_parse_devices := devices, yaml_parse_ports := ports,
        yaml_init_devices := init\<rparr>"

lemma other_files_get: "get_yaml_port_loop (other_files a b c i pl) w s n idx k = get_yaml_port_loop pl w s n idx k"
  by (induction k arbitrary: idx) (simp_all add: other_files_def Let_def)

lemma other_files_enable:
  "ovsdb_if_intf_get_hw_enable (other_files a b c i pl) = ovsdb_if_intf_get_hw_enable pl"
  by (auto simp: fun_eq_iff ovsdb_if_intf_get_hw_enable_def other_files_def split: option.split)

lemma other_files_configure: "pm_configure_port (other_files a b c i pl) = pm_configure_port pl"
  by (simp add: fun_eq_iff pm_configure_port_def pm_configure_qsfp_def other_files_def)

lemma other_files_create: "ovsdb_if_intf_create (other_files a b c i pl) = ovsdb_if_intf_create pl"
proof -
  let ?pl = "other_files a b c i pl"
  have find: "pm_get_yaml_port ?pl = pm_get_yaml_port pl"
    unfolding fun_eq_iff pm_get_yaml_port_def other_files_get by (simp add: other_files_def)
  have new: "new_port ?pl = new_port pl"
    by (simp add: fun_eq_iff new_port_def other_files_enable)
  have reset: "pm_clear_reset ?pl = pm_clear_reset pl"
    by (simp add: fun_eq_iff pm_clear_reset_def pm_reset_def other_files_def split: option.split)
  have add: "shash_add ?pl = shash_add pl"
    by (simp add: fun_eq_iff shash_add_def other_files_def)
  show ?thesis
    by (intro ext) (unfold ovsdb_if_intf_create_def find new other_files_configure reset add, rule refl)
qed

lemma other_files_interfaces:
  "create_interfaces (other_files a b c i pl) sub intfs d w = create_interfaces pl sub intfs d w"
proof (induction intfs arbitrary: d w)
  case Nil
  then show ?case by simp
next
  case (Cons j intfs)
  then show ?case by (simp add: other_files_create split: sum.split)
qed

lemma create_interfaces_subs: "create_interfaces pl sub intfs d w = Inr (e, v) \<Longrightarrow> ovs_subs e = ovs_subs d"
proof (induction intfs arbitrary: d w)
  case Nil
  then show ?case by simp
next
  case (Cons j intfs)
  have "ovs_subs d1 = ovs_subs d" if "ovsdb_if_intf_create pl j sub d w = Inr (d1, w1)" for d1 w1
    using that by (auto simp: ovsdb_if_intf_create_def split: option.splits if_splits prod.splits)
  then show ?case using Cons by (auto split: sum.splits if_splits)
qed

text \<open>The files of known subsystems are not read.\<close>

lemma other_files_process:
  "\<forall>s \<in> set subs. map_of (ovs_subs d) (sub_name s) \<noteq> None \<Longrightarrow>
     process_subsystems (other_files a b c i pl) subs d w = process_subsystems pl subs d w"
proof (induction subs arbitrary: d w)
  case Nil
  then show ?case by simp
next
  case (Cons s subs)
  have s: "ovsdb_if_subsys_process pl' s d w = create_interfaces pl' (sub_name s) (sub_interfaces s) d w" for pl'
    using Cons.prems by (auto simp: ovsdb_if_subsys_process_def)
  show ?case
  proof (cases "create_interfaces pl (sub_name s) (sub_interfaces s) d w")
    case (Inl e)
    then show ?thesis by (simp add: s other_files_interfaces)
  next
    case (Inr r)
    obtain e v where r: "r = (e, v)" by (cases r)
    have "ovs_subs e = ovs_subs d" by (rule create_interfaces_subs [OF Inr [unfolded r]])
    then show ?thesis using Cons.IH [of e v] Cons.prems Inr r by (simp add: s other_files_interfaces)
  qed
qed

lemma other_files_modify: "modify_interfaces (other_files a b c i pl) intfs d w = modify_interfaces pl intfs d w"
proof -
  have "ovsdb_if_intf_modify (other_files a b c i pl) = ovsdb_if_intf_modify pl"
    by (intro ext) (unfold ovsdb_if_intf_modify_def other_files_enable other_files_configure, rule refl)
  then show ?thesis by (induction intfs arbitrary: d w) (auto split: prod.split)
qed

lemma other_files_reconfigure:
  assumes "\<forall>s \<in> set (subsystem_rows idl). map_of (delete_subsystems idl (ovs_subs d)) (sub_name s) \<noteq> None"
  shows "pmd_reconfigure (other_files a b c i pl) idl d w = pmd_reconfigure pl idl d w"
proof -
  have "process_subsystems (other_files a b c i pl) (subsystem_rows idl) d0 w =
      process_subsystems pl (subsystem_rows idl) d0 w" if "ovs_subs d0 = delete_subsystems idl (ovs_subs d)" for d0
    using assms that by (intro other_files_process) simp
  then show ?thesis
    by (simp add: pmd_reconfigure_def Let_def other_files_modify split: sum.split)
qed



text \<open>A pluggable port without a connector.\<close>

definition null_connector :: "'w platform \<Rightarrow> bool" where
  "null_connector pl \<longleftrightarrow>
     (\<exists>w sub k. yp_pluggable (yaml_get_port pl w sub k) \<and> yp_connector (yaml_get_port pl w sub k) = None)"

lemma create_crash: "ovsdb_if_intf_create pl intf sub d w = Inl c \<Longrightarrow> c = Null_connector \<and> null_connector pl"
proof -
  assume crash: "ovsdb_if_intf_create pl intf sub d w = Inl c"
  then obtain yaml where yaml: "pm_get_yaml_port pl w sub (intf_name intf) = Some yaml"
    "yp_pluggable yaml" "yp_connector yaml = None" "c = Null_connector"
    by (auto simp: ovsdb_if_intf_create_def split: option.splits if_splits prod.splits)
  then obtain k where "yaml = yaml_get_port pl w sub k"
    using get_yaml_port_loop_Some [OF yaml(1) [unfolded pm_get_yaml_port_def]] by metis
  then show ?thesis using yaml by (auto simp: null_connector_def)
qed

lemma create_interfaces_crash:
  "create_interfaces pl sub intfs d w = Inl c \<Longrightarrow> c = Null_connector \<and> null_connector pl"
proof (induction intfs arbitrary: d w)
  case Nil
  then show ?case by simp
next
  case (Cons i intfs)
  then show ?case
    using create_crash [of pl i sub d w c] by (auto split: sum.splits if_splits)
qed

lemma process_crash: "process_subsystems pl subs d w = Inl c \<Longrightarrow> c = Null_connector \<and> null_connector pl"
proof (induction subs arbitrary: d w)
  case Nil
  then show ?case by simp
next
  case (Cons s subs)
  have "c = Null_connector \<and> null_connector pl" if "ovsdb_if_subsys_process pl s d w = Inl c"
    using that create_interfaces_crash [of pl "sub_name s" "sub_interfaces s" _ _ c]
    by (auto simp: ovsdb_if_subsys_process_def Let_def split: if_splits prod.splits)
  then show ?case using Cons by (auto split: sum.splits)
qed



section \<open>Deleted ports\<close>

lemma owns_deleted:
  assumes "mem_ok p"
  shows "owns (pm_delete_all_data p) b \<longleftrightarrow> owns p b \<and> (\<forall>f. b \<noteq> Column_block f)"
proof -
  have "mem_ok (pm_delete_all_data p)" by (rule mem.keep_delete_all [OF assms])
  then have "\<not> is_heap (ovs_module_columns (pm_delete_all_data p) Connector)"
    using col_ok_not_heap [of Connector] by (simp add: mem_ok_def)
  moreover have "ovs_module_columns (pm_delete_all_data p) f = None" if "f \<noteq> Connector" for f
    using fun_cong [OF col_text_delete_all, of undefined p f] that by (simp add: col_text_def)
  ultimately have "\<not> is_heap (ovs_module_columns (pm_delete_all_data p) f)" for f
    by (cases "f = Connector") (simp_all add: is_heap_def)
  moreover have "config_of (pm_delete_all_data p) = config_of p" by (rule cfg.keep_delete_all) simp
  ultimately show ?thesis
    by (cases b) (simp_all add: dom_columns_simps config_of_def)
qed

lemma heap_dom: "mem_ok p \<Longrightarrow> is_heap (ovs_module_dom_columns p f) \<longleftrightarrow> ovs_module_dom_columns p f \<noteq> None"
proof -
  assume "mem_ok p"
  then have "\<not> is_static (ovs_module_dom_columns p f)" unfolding mem_ok_def by blast
  then show ?thesis by (auto simp: is_heap_def is_static_def split: option.splits cptr.splits)
qed

text \<open>
C36: deleting an interface leaks memory: of the blocks that only its port points to,
\<open>pmd_free_pm_port\<close> leaves allocated the name of the subsystem, every diagnostic column that is
set and the page of a simulated module, and no others.
\<close>

theorem freed_port_leaks:
  assumes "reachable pl d w" and "yaml_ok pl" and "shash_find (ovs_intfs d) name = Some p"
  shows "pmd_free_pm_port p b \<longleftrightarrow>
    b = Subsystem_block \<or>
    (\<exists>f. b = Dom_block f \<and> ovs_module_dom_columns p f \<noteq> None) \<or>
    b = Module_block \<and> module_data p \<noteq> None"
proof -
  have "all_ports (port_ok (cn pl)) (ovs_intfs d)"
    using reachable_ok [OF assms(1,2)] by (simp add: daemon_ok_def)
  from all_portsD [OF this assms(3)] have m: "mem_ok p" by (auto simp: port_ok_def managed_def)
  then show ?thesis
    unfolding pmd_free_pm_port_def owns_deleted [OF m] by (cases b) (simp_all add: heap_dom [OF m])
qed

theorem freed_port_leaks_witness:
  "pmd_free_pm_port sample_new_port Subsystem_block"
  using freed_port_leaks [OF sample_reachable sample_yaml_ok sample_find] by simp

section \<open>The simulation command\<close>

text \<open>What the command may change of the table.\<close>

definition only_module :: "string \<Rightarrow> shash \<Rightarrow> shash \<Rightarrow> bool" where
  "only_module name sh sh' \<longleftrightarrow>
     (\<forall>n. n \<noteq> name \<longrightarrow> shash_find sh' n = shash_find sh n) \<and>
     (\<forall>p. shash_find sh name = Some p \<longrightarrow> (\<exists>m. shash_find sh' name = Some (p\<lparr>module_data := m\<rparr>)))"

lemma only_module_refl: "only_module name sh sh"
proof -
  have "\<exists>m. p = p\<lparr>module_data := m\<rparr>" for p :: pm_port by (rule exI [of _ "module_data p"]) simp
  then show ?thesis by (auto simp: only_module_def)
qed

lemma only_module_modify:
  "shash_ok sh \<Longrightarrow> only_module name sh (shash_modify name (set_module_data d) sh)"
  by (auto simp: only_module_def intfs.find_modify set_module_data_def)

lemma only_module_modify2:
  "shash_ok sh \<Longrightarrow>
     only_module name sh (shash_modify name (set_module_data d) (shash_modify name (set_module_data c) sh))"
  by (auto simp: only_module_def intfs.find_modify intfs.ok_modify set_module_data_def)

lemma sim_insert_only:
  "shash_ok sh \<Longrightarrow> only_module name sh (snd (snd (pmd_sim_insert pl name fname sh w)))"
  by (simp add: pmd_sim_insert_def Let_def only_module_refl only_module_modify only_module_modify2
      split: option.split)

lemma sim_remove_only: "shash_ok sh \<Longrightarrow> only_module name sh (snd (snd (pmd_sim_remove name sh)))"
  by (simp add: pmd_sim_remove_def only_module_refl only_module_modify split: option.split)

text \<open>The command changes only the module of the interface that it names, and replies to valid usage.\<close>

lemma sim_command_only:
  "shash_ok (ovs_intfs d) \<Longrightarrow> pmd_unixctl_sim pl argv d w = (r, e) \<Longrightarrow>
     only_module (argv ! 1) (ovs_intfs d) (ovs_intfs e)"
  using only_module_refl [of "argv ! 1" "ovs_intfs d"]
    sim_insert_only [of "ovs_intfs d" "argv ! 1" pl "argv ! 3" w] sim_remove_only [of "ovs_intfs d" "argv ! 1"]
  by (auto simp: pmd_unixctl_sim_def Let_def split: prod.splits if_splits)

lemma sim_command_reply:
  "pmd_unixctl_sim pl argv d w = (r, e) \<Longrightarrow>
     (r \<noteq> None \<longleftrightarrow> length argv = 4 \<and> argv ! 2 = ''insert'' \<or> length argv = 3 \<and> argv ! 2 = ''remove'') \<and>
     (r = None \<longrightarrow> e = d) \<and> e = d\<lparr>ovs_intfs := ovs_intfs e\<rparr>"
  by (auto simp: pmd_unixctl_sim_def Let_def split: prod.splits if_splits)

text \<open>
\<open>ops-pmd/sim\<close> gets a reply exactly if its usage is valid, and otherwise changes nothing;
it never changes anything but the simulated module of the named interface.
\<close>

theorem pmd_unixctl_sim_safe:
  assumes "shash_ok (ovs_intfs d)" and "pmd_unixctl_sim pl argv d w = (r, d')"
  shows "(r \<noteq> None \<longleftrightarrow> length argv = 4 \<and> argv ! 2 = ''insert'' \<or> length argv = 3 \<and> argv ! 2 = ''remove'') \<and>
    (r = None \<longrightarrow> d' = d) \<and> d' = d\<lparr>ovs_intfs := ovs_intfs d'\<rparr> \<and>
    (\<forall>name. name \<noteq> argv ! 1 \<longrightarrow> shash_find (ovs_intfs d') name = shash_find (ovs_intfs d) name) \<and>
    (\<forall>p. shash_find (ovs_intfs d) (argv ! 1) = Some p \<longrightarrow>
       (\<exists>m. shash_find (ovs_intfs d') (argv ! 1) = Some (p\<lparr>module_data := m\<rparr>)))"
proof -
  show ?thesis
    using sim_command_only [OF assms] sim_command_reply [OF assms(2)] by (simp add: only_module_def)
qed

theorem pmd_unixctl_sim_safe_witness:
  "\<exists>r d'. pmd_unixctl_sim (sample_platform True SFP_SR_AVAGO) [''ops-pmd/sim'', ''2'', ''remove''] sample_daemon []
     = (Some r, d') \<and> shash_find (ovs_intfs d') ''1'' = Some sample_new_port"
proof -
  have ok: "shash_ok (ovs_intfs sample_daemon)" by (simp add: sample_daemon_def shash_ok_def)
  obtain r d' where c: "pmd_unixctl_sim (sample_platform True SFP_SR_AVAGO)
      [''ops-pmd/sim'', ''2'', ''remove''] sample_daemon [] = (r, d')" by fastforce
  show ?thesis
    using pmd_unixctl_sim_safe [OF ok c] c sample_find by auto
qed

end
