(* ===== verification/Quiescence.thy ===== *)
theory Quiescence
  imports Daemon_Props
begin

text \<open>
  A round on an unchanged replica and unchanged hardware does nothing. The other side of this
  is in \<open>Commits\<close>: what a round has written is not written again, whatever became of it.
\<close>

section \<open>Ports that do not change\<close>

text \<open>The known presence is the real one, and no module waits for a retry.\<close>

definition settled :: "'w platform \<Rightarrow> pm_port \<Rightarrow> bool" where
  "settled pl p \<longleftrightarrow> (\<forall>w. fst (pm_get_presence pl p w) = present p) \<and> (present p \<longrightarrow> \<not> retry p)"

lemma read_settled:
  assumes "port_ok (cn pl) name p" and "settled pl p" and "col_text (cn pl) p Connector \<noteq> None"
  shows "fst (snd (pm_read_module_state pl p w)) = p"
proof -
  obtain conn where p: "managed conn p" using assms(1) by (auto simp: port_ok_def)
  then obtain off where off: "serial_id_offset p = Some off" using managed_offset by blast
  have request: "\<not> a2_read_requested p" using p by (simp add: managed_def)
  have "pm_get_presence pl p w = (present p, snd (pm_get_presence pl p w))"
    using assms(2) by (simp add: settled_def prod_eq_iff)
  then obtain w1 where pr: "pm_get_presence pl p w = (present p, w1)" by blast
  show ?thesis
  proof (cases "present p")
    case True
    then have "read_a0_part pl off n a0 p w = (Go_on n, p, w1)" for n a0
      using pr assms(2) by (subst read_a0_part.simps) (simp add: settled_def)
    then show ?thesis using off request by (simp add: pm_read_module_state_def)
  next
    case False
    then have "module_absent p = p" using assms(3) by (auto simp: module_absent_def col_text_def)
    then have "read_a0_part pl off n a0 p w = (Return 0, p, w1)" for n a0
      using pr False by (subst read_a0_part.simps) simp
    then show ?thesis using off by (simp add: pm_read_module_state_def)
  qed
qed

lemma shash_for_each_id:
  "\<forall>(name, p) \<in> set sh. \<forall>w. fst (f p w) = p \<Longrightarrow> fst (shash_for_each f sh w) = sh"
proof (induction f sh w rule: shash_for_each.induct)
  case (1 f w)
  then show ?case by simp
next
  case (2 f name p sh w)
  obtain q v where f: "f p w = (q, v)" by fastforce
  then have "q = p" using 2(2) by (metis (mono_tags, lifting) case_prodD fst_conv list.set_intros(1))
  then show ?case using 2(1) [OF f [symmetric]] 2(2) f by (auto split: prod.split)
qed

lemma read_state_settled:
  assumes "all_ports (port_ok (cn pl)) sh" and "\<forall>(name, p) \<in> set sh. settled pl p"
    and "\<forall>(name, p) \<in> set sh. col_text (cn pl) p Connector \<noteq> None"
  shows "\<exists>v. pm_read_state pl sh w = (0, sh, v)"
proof -
  let ?f = "\<lambda>port w. case pm_read_port_state pl (Some port) w of (rc, p, w) \<Rightarrow> (the p, w)"
  have eq: "fst (?f p v) = fst (snd (pm_read_module_state pl p v))" for p v
    by (simp add: pm_read_port_state_def split: prod.split)
  have "\<forall>(name, p) \<in> set sh. \<forall>w. fst (?f p w) = p"
    using assms read_settled [of pl] unfolding eq all_ports_def by fastforce
  from shash_for_each_id [OF this, of w] have "\<exists>v. shash_for_each ?f sh w = (sh, v)"
    by (metis prod.collapse)
  then show ?thesis by (auto simp: pm_read_state_def)
qed

section \<open>The sequence number\<close>

lemma create_interfaces_frame:
  "create_interfaces pl sub intfs d w = Inr (e, v) \<Longrightarrow> idl_seqno e = idl_seqno d \<and> cur_hw_set e = cur_hw_set d"
proof (induction intfs arbitrary: d w)
  case Nil
  then show ?case by simp
next
  case (Cons i intfs)
  have "idl_seqno d1 = idl_seqno d \<and> cur_hw_set d1 = cur_hw_set d"
    if "ovsdb_if_intf_create pl i sub d w = Inr (d1, w1)" for d1 w1
    using that by (auto simp: ovsdb_if_intf_create_def split: option.splits if_splits prod.splits)
  then show ?case using Cons by (auto split: sum.splits if_splits)
qed

lemma process_frame:
  "process_subsystems pl subs d w = Inr (e, v) \<Longrightarrow> idl_seqno e = idl_seqno d \<and> cur_hw_set e = cur_hw_set d"
proof (induction subs arbitrary: d w)
  case Nil
  then show ?case by simp
next
  case (Cons s subs)
  have "idl_seqno d1 = idl_seqno d \<and> cur_hw_set d1 = cur_hw_set d"
    if "ovsdb_if_subsys_process pl s d w = Inr (d1, w1)" for d1 w1
    using that by (auto simp: ovsdb_if_subsys_process_def Let_def dest!: create_interfaces_frame
        split: if_splits prod.splits)
  then show ?case using Cons by (auto split: sum.splits)
qed

lemma modify_frame:
  "idl_seqno (fst (modify_interfaces pl intfs d w)) = idl_seqno d"
proof (induction intfs arbitrary: d w)
  case Nil
  then show ?case by simp
next
  case (Cons i intfs)
  obtain d1 w1 where d1: "with_port (ovsdb_if_intf_modify pl i) (intf_name i) d w = (d1, w1)" by fastforce
  then have "idl_seqno d1 = idl_seqno d" by (auto simp: with_port_def split: option.splits prod.splits)
  then show ?case using Cons [of d1 w1] d1 by simp
qed

lemma reconfigure_seqno: "pmd_reconfigure pl idl d w = Inr (e, v) \<Longrightarrow> idl_seqno e = seqno idl"
proof -
  assume r: "pmd_reconfigure pl idl d w = Inr (e, v)"
  show ?thesis
  proof (cases "seqno idl = idl_seqno d")
    case True
    then show ?thesis using r by (auto simp: pmd_reconfigure_def)
  next
    case False
    let ?d0 = "d\<lparr>idl_seqno := seqno idl, ovs_intfs := delete_interfaces idl (ovs_intfs d) (ovs_intfs d),
        ovs_subs := delete_subsystems idl (ovs_subs d)\<rparr>"
    obtain d1 w1 where d1: "process_subsystems pl (subsystem_rows idl) ?d0 w = Inr (d1, w1)"
      "modify_interfaces pl (interface_rows idl) d1 w1 = (e, v)"
      using False r by (auto simp: pmd_reconfigure_def Let_def split: sum.splits)
    then show ?thesis using process_frame [OF d1(1)] modify_frame [of pl "interface_rows idl" d1 w1] by simp
  qed
qed

section \<open>Quiescence\<close>

text \<open>
After a round that holds the lock, when every port has a row, no module waits for a retry
and the presence of the modules does not change, the next round on the same replica changes
nothing in the daemon and writes nothing to the database: the update is idempotent. In
particular a transaction that has failed is not repeated, since the code does not look at the
outcome of the commit.
\<close>

theorem pmd_run_quiescent:
  assumes "reachable pl d w" and "yaml_ok pl" and "pmd_run pl idl False True d w = Inr (e, v, ws)"
    and "\<forall>(name, p) \<in> set (ovs_intfs e). has_row idl p \<and> settled pl p"
  shows "\<exists>v'. pmd_run pl idl False True e v = Inr (e, v', [])"
proof -
  obtain d1 w1 sh w2 where r: "pmd_reconfigure pl idl d w = Inr (d1, w1)" "daemon_ok pl d1"
    "pm_read_state pl (ovs_intfs d1) w1 = (0, sh, w2)" "all_ports (port_ok (cn pl)) sh"
    "pmd_run pl idl False True d w =
       Inr (d1\<lparr>ovs_intfs := published_table idl sh,
               cur_hw_set := cur_hw_set d1 \<or> NAME_IN_DAEMON_TABLE \<in> set (daemon_rows idl)\<rparr>, w2,
            pm_info_writes (cn pl) idl sh @ cur_hw_write idl d1)"
    by (rule pmd_run_parts [OF reachable_ok [OF assms(1,2)] assms(2), of idl w])
  have e: "ovs_intfs e = published_table idl sh" "idl_seqno e = seqno idl"
    "cur_hw_set e \<longleftrightarrow> cur_hw_set d1 \<or> NAME_IN_DAEMON_TABLE \<in> set (daemon_rows idl)"
    using r(5) assms(3) reconfigure_seqno [OF r(1)] by auto
  have ok: "all_ports (port_ok (cn pl)) (ovs_intfs e)"
    unfolding e(1) by (rule all_ports_published [OF r(4)]) (simp add: published_port_frame)
  have "all_ports (\<lambda>name p. col_text (cn pl) p Connector \<noteq> None) (ovs_intfs e)"
    unfolding e(1)
    by (rule all_ports_published [OF read_state_not_fresh [OF _ r(3)]])
      (use r(2) in \<open>simp_all add: daemon_ok_def published_port_def col_text_def\<close>)
  then have "\<forall>(name, p) \<in> set (ovs_intfs e). col_text (cn pl) p Connector \<noteq> None"
    by (simp add: all_ports_def)
  moreover have "\<forall>(name, p) \<in> set (ovs_intfs e). settled pl p" using assms(4) by auto
  ultimately obtain v' where read: "pm_read_state pl (ovs_intfs e) v = (0, ovs_intfs e, v')"
    using read_state_settled [OF ok, of v] by blast
  have clean: "\<not> to_publish idl p" if "(name, p) \<in> set (ovs_intfs e)" for name p
    using that unfolding e(1) published_table_def
    by (auto simp: published_port_def to_publish_def has_row_def split: if_splits)
  have same: "published_table idl (ovs_intfs e) = ovs_intfs e" "pm_info_writes (cn pl) idl (ovs_intfs e) = []"
    using clean by (auto simp: published_table_def published_port_def pm_info_writes_def filter_empty_conv
        intro!: map_idI)
  have "pmd_reconfigure pl idl e v = Inr (e, v)" using e(2) by (simp add: pmd_reconfigure_def)
  then have "pmd_run pl idl False True e v =
      (case pm_ovsdb_update (cn pl) idl e of Inl c \<Rightarrow> Inl c | Inr (d, ws) \<Rightarrow> Inr (d, v', ws))"
    by (simp add: pmd_run_def read)
  moreover have "cur_hw_write idl e = []" using e(3) by (simp add: cur_hw_write_def)
  moreover have "e\<lparr>ovs_intfs := ovs_intfs e,
      cur_hw_set := cur_hw_set e \<or> NAME_IN_DAEMON_TABLE \<in> set (daemon_rows idl)\<rparr> = e"
    using e(3) by (cases e) auto
  ultimately show ?thesis
    by (simp add: pm_ovsdb_update_eq [OF read_alarms [OF ok]] same)
qed

text \<open>The sample port after its module has been found is settled.\<close>

lemma sample_settled:
  "settled sample_pl (published_port sample_idl (fst (snd (pm_read_module_state sample_pl sample_new_port v))))"
proof -
  let ?q = "fst (snd (pm_read_module_state sample_pl sample_new_port v))"
  have new: "managed CONNECTOR_SFP_PLUS sample_new_port" "in_state (cn sample_pl) CONNECTOR_SFP_PLUS Fresh sample_new_port"
    by (auto simp: managed_def sample_new_port_def new_port_def mem_ok_def is_static_def known_connector_def
        in_state_def col_text_def)
  have op: "presence_op sample_new_port = Some sample_bit_op"
    by (simp add: presence_op_def connector_is_def sample_new_port_def new_port_def) (simp add: sample_yaml_def)
  have off: "serial_id_offset sample_new_port = Some 0"
    by (simp add: serial_id_offset_def connector_is_def sample_new_port_def new_port_def SFP_SERIAL_ID_OFFSET_def)
  have "\<exists>a2. in_state (cn sample_pl) CONNECTOR_SFP_PLUS (Module SFP_SR_AVAGO a2) ?q"
    by (rule read_module_good [OF new _ _ _ sample_verified(1), where ?w1.0 = "v @ [Reg_read sample_bit_op]"
          and ?w2.0 = "v @ [Reg_read sample_bit_op, Data_read 0]", THEN conjunct2])
      (simp_all add: sample_presence [OF op] off,
        simp add: pm_read_a0_def sample_platform_def sfp_serial_id_size Let_def)
  then have q: "present ?q" "\<not> retry ?q" by (auto simp: in_state_def)
  have "config_of ?q = config_of sample_new_port" by (rule cfg.keep_read_module_state) simp
  then have "presence_op (published_port sample_idl ?q) = presence_op sample_new_port"
    by (simp add: presence_op_def connector_is_def published_port_def config_of_def)
  then show ?thesis
    using q op sample_presence by (simp add: settled_def) (simp add: published_port_def)
qed

theorem pmd_run_quiescent_witness:
  "\<exists>v e u u' ws. pmd_run sample_pl sample_idl False True sample_daemon v = Inr (e, u, ws) \<and>
     pmd_run sample_pl sample_idl False True e u = Inr (e, u', [])"
proof -
  obtain v e u ws p where r: "tracked sample_pl sample_names sample_daemon v (\<lambda>_. None)"
    "pmd_run sample_pl sample_idl False True sample_daemon v = Inr (e, u, ws)"
    "ovs_intfs e = [(''1'', p)]" "uuid p = 5"
    "p = published_port sample_idl (fst (snd (pm_read_module_state sample_pl sample_new_port v)))"
    using sample_round by blast
  have "\<forall>(name, p) \<in> set (ovs_intfs e). has_row sample_idl p \<and> settled sample_pl p"
    using r(3-5) sample_has_row sample_settled by simp
  then show ?thesis
    using pmd_run_quiescent [OF tracked_reachable [OF r(1)] sample_yaml_ok r(2)] r(2) by blast
qed

end
