(* ===== verification/Commits.thy ===== *)
theory Commits
  imports Quiescence
begin

text \<open>
  What becomes of the transactions: the database when some of them fail, and the database when
  the hardware is stable. \<open>pm_ovsdb_update\<close> clears the marks of the ports before it commits and
  does not look at the outcome.
\<close>

section \<open>Failed transactions\<close>

text \<open>Rounds on one replica, all of whose transactions succeed.\<close>

fun rounds ::
  "'w platform \<Rightarrow> ovsdb_idl \<Rightarrow> nat \<Rightarrow> daemon \<Rightarrow> 'w \<Rightarrow> pm_infos \<Rightarrow> crash + daemon \<times> 'w \<times> pm_infos" where
  "rounds pl idl 0 d w db = Inr (d, w, db)"
| "rounds pl idl (Suc n) d w db =
     (case pmd_run pl idl False True d w of
        Inl c \<Rightarrow> Inl c
      | Inr (d, w, ws) \<Rightarrow> rounds pl idl n d w (fold db_apply ws db))"

lemma rounds_quiescent:
  assumes "reachable pl d w" and "yaml_ok pl" and "pmd_run pl idl False True d w = Inr (e, v, ws)"
    and "\<forall>(name, p) \<in> set (ovs_intfs e). has_row idl p \<and> settled pl p"
  shows "\<exists>v'. rounds pl idl n e v db = Inr (e, v', db)"
  using assms(1,3)
proof (induction n arbitrary: d w v ws)
  case 0
  then show ?case by simp
next
  case (Suc n)
  obtain v' where v': "pmd_run pl idl False True e v = Inr (e, v', [])"
    using pmd_run_quiescent [OF Suc.prems(1) assms(2) Suc.prems(2) assms(4)] by blast
  have "reachable pl e v" by (rule reachable.round [OF Suc.prems])
  from Suc.IH [OF this v'] show ?case using v' by simp
qed

lemma Set_pm_info_writes:
  "Set_pm_info u m \<in> set (pm_info_writes texts idl sh) \<longleftrightarrow>
     (\<exists>(name, p) \<in> set sh. to_publish idl p \<and> u = uuid p \<and> m = pm_info_of texts p)"
  by (force simp: pm_info_writes_def)

text \<open>Whatever the database holds, a transaction sets the rows of the ports that it writes, and no others.\<close>

lemma run_writes:
  assumes "tracked pl nm d w ghost" and "yaml_ok pl" and "rows_named nm idl"
    and "pmd_run pl idl False True d w = Inr (e, v, ws)" and "(name, p) \<in> set (ovs_intfs e)"
  shows "fold db_apply ws db (uuid p) =
    (if \<exists>m. Set_pm_info (uuid p) m \<in> set ws then Some (pm_info_of (cn pl) p) else db (uuid p))"
proof -
  have ok: "daemon_ok pl d" by (rule reachable_ok [OF tracked_reachable [OF assms(1)] assms(2)])
  obtain d1 w1 sh w2 where r: "all_ports (port_ok (cn pl)) sh"
    "pmd_run pl idl False True d w =
       Inr (d1\<lparr>ovs_intfs := published_table idl sh,
               cur_hw_set := cur_hw_set d1 \<or> NAME_IN_DAEMON_TABLE \<in> set (daemon_rows idl)\<rparr>, w2,
            pm_info_writes (cn pl) idl sh @ cur_hw_write idl d1)"
    by (rule pmd_run_parts [OF ok assms(2), of idl w])
  have e: "ovs_intfs e = published_table idl sh" "ws = pm_info_writes (cn pl) idl sh @ cur_hw_write idl d1"
    using r(2) assms(4) by auto
  obtain q where q: "(name, q) \<in> set sh" "p = published_port idl q"
    using assms(5) e(1) by (auto simp: published_table_def)
  have same: "uuid p = uuid q" "pm_info_of (cn pl) p = pm_info_of (cn pl) q"
    using q(2) pm_info_of_cong [of p q] by (simp_all add: published_port_def)
  have "all_ports (tracked_port (cn pl) nm (fold db_apply ws ghost)) (ovs_intfs e)"
    by (rule tracked_synced [OF tracked.round [OF assms(1,3,4)] assms(2)])
  then have "all_ports (\<lambda>name p. nm (uuid p) = name) (ovs_intfs e)"
    using all_ports_mono by (fastforce simp: tracked_port_def)
  then have "distinct (port_uuids (ovs_intfs e))" by (rule uuids_distinct)
  moreover have "port_uuids (ovs_intfs e) = port_uuids sh"
    by (auto simp: e(1) published_table_def published_port_def)
  ultimately have dist: "distinct (port_uuids sh)" by simp
  have "(\<exists>m. Set_pm_info (uuid q) m \<in> set ws) \<longleftrightarrow> to_publish idl q"
  proof
    assume "\<exists>m. Set_pm_info (uuid q) m \<in> set ws"
    then obtain name' q' where q': "(name', q') \<in> set sh" "to_publish idl q'" "uuid q = uuid q'"
      by (auto simp: e(2) Set_pm_info_writes cur_hw_write_def split: if_splits)
    then have "(name', q') = (name, q)" using dist q(1) by (auto simp: distinct_map inj_on_def)
    then show "to_publish idl q" using q'(2) by simp
  next
    assume "to_publish idl q"
    then show "\<exists>m. Set_pm_info (uuid q) m \<in> set ws" using q(1) by (auto simp: e(2) Set_pm_info_writes)
  qed
  then show ?thesis
    using db_port [OF dist q(1), of "cn pl" idl db] by (simp add: same e(2) db_cur_hw)
qed

text \<open>
C12: a failed transaction is not repaired by itself. Whatever the database holds after failures, a
transaction that succeeds makes the rows of the ports that it writes right, each as a whole, and
leaves all other rows as they are; and when the ports have rows and the hardware has settled,
no later round writes anything: if the transaction of a round is lost, the database keeps
what it had for any number of further rounds, although all of their transactions succeed.
\<close>

theorem failed_commit_not_repeated:
  assumes "tracked pl nm d w ghost" and "yaml_ok pl" and "rows_named nm idl"
    and "pmd_run pl idl False True d w = Inr (e, v, ws)"
  shows "(\<forall>(name, p) \<in> set (ovs_intfs e).
      fold db_apply ws db (uuid p) =
        (if \<exists>m. Set_pm_info (uuid p) m \<in> set ws then Some (pm_info_of (cn pl) p) else db (uuid p))) \<and>
    ((\<forall>(name, p) \<in> set (ovs_intfs e). has_row idl p \<and> settled pl p) \<longrightarrow>
      (\<forall>n. \<exists>v'. rounds pl idl n e v db = Inr (e, v', db)))"
  using run_writes [OF assms, of _ _ db] rounds_quiescent [OF tracked_reachable [OF assms(1)] assms(2,4)]
  by fast

text \<open>The first round of the sample daemon: a module is found, its transaction fails.\<close>

theorem failed_commit_not_repeated_witness:
  "\<exists>v e u u' ws m. pmd_run sample_pl sample_idl False True sample_daemon v = Inr (e, u, ws) \<and>
     Set_pm_info 5 m \<in> set ws \<and> rounds sample_pl sample_idl 1000 e u (\<lambda>_. None) = Inr (e, u', \<lambda>_. None)"
proof -
  obtain v e u ws p where r: "tracked sample_pl sample_names sample_daemon v (\<lambda>_. None)"
    "pmd_run sample_pl sample_idl False True sample_daemon v = Inr (e, u, ws)"
    "ovs_intfs e = [(''1'', p)]" "uuid p = 5"
    "p = published_port sample_idl (fst (snd (pm_read_module_state sample_pl sample_new_port v)))"
    using sample_round by blast
  have settled: "\<forall>(name, p) \<in> set (ovs_intfs e). has_row sample_idl p \<and> settled sample_pl p"
    using r(3-5) sample_has_row sample_settled by simp
  note lost = failed_commit_not_repeated [OF r(1) sample_yaml_ok sample_rows_named r(2), of "\<lambda>_. None"]
  have "fold db_apply ws (\<lambda>_. None) (uuid p) \<noteq> None"
    using run_published(3) [OF r(1) sample_yaml_ok sample_rows_named r(2), of "''1''" p] r(3)
      sample_has_row [OF r(4)] by simp
  then have "\<exists>m. Set_pm_info 5 m \<in> set ws" using lost r(3,4) by (auto split: if_splits)
  moreover have "\<exists>u'. rounds sample_pl sample_idl 1000 e u (\<lambda>_. None) = Inr (e, u', \<lambda>_. None)"
    using lost settled by blast
  ultimately show ?thesis using r(2) by blast
qed

end
