(* ===== verification/Process.thy ===== *)
theory Process
  imports Pmd
begin

text \<open>
  \<open>src/pmd.c\<close> around the main loop: the command line, the texts that it can ask for, the
  registration of the commands and \<open>main\<close> with its exit status. What the libraries do is a record of
  parameters: what \<open>getopt_long\<close> returns for an argument vector, call by call up to \<open>-1\<close>, with the
  operands that are left; the texts of the help of the libraries; whether the control socket
  can be created; the replica behind the socket of a database.
\<close>

section \<open>The libraries\<close>

text \<open>
  The results of \<open>getopt_long\<close>: \<open>'h'\<close>, \<open>'V'\<close>, \<open>OPT_UNIXCTL\<close> with its argument, an option of the
  logging and daemon libraries, which their handlers consume, \<open>'?'\<close>, any other value.
\<close>

datatype getopt =
    Opt_help | Opt_version | OPT_UNIXCTL string | Opt_library string | Opt_question | Opt_other int

record environment =
  getopt_long :: "string list \<Rightarrow> getopt list \<times> string list"
  program_name :: "string \<Rightarrow> string"
  ovs_rundir :: string
  daemon_usage :: string
  vlog_usage :: string
  unixctl_server_create :: "string option \<Rightarrow> int"
  ovsdb_connect :: "string \<Rightarrow> ovsdb_idl"

text \<open>How the process ends or goes on; an exit has its status and the standard output.\<close>

datatype 'a startup = Exits int string | Aborts | Goes_on 'a

definition EXIT_SUCCESS :: int where "EXIT_SUCCESS = 0"
definition EXIT_FAILURE :: int where "EXIT_FAILURE = 1"

abbreviation newline :: string where "newline \<equiv> [CHR 0x0A]"

section \<open>Options\<close>

definition program_version :: string where "program_version = ''0.02''"

definition pmd_print_version :: "string \<Rightarrow> string" where
  "pmd_print_version name = name @ '' version '' @ program_version @ newline"

definition usage :: "environment \<Rightarrow> string \<Rightarrow> 'a startup" where
  "usage env name =
     Exits EXIT_SUCCESS
       (name @ '': OpenSwitch pluggable module daemon (pmd)'' @ newline @
        ''usage: '' @ name @ '' [OPTIONS] [DATABASE]'' @ newline @
        ''where DATABASE is a socket on which ovsdb-server is listening'' @ newline @
        ''      (default: '' @ [CHR 0x22] @ ''unix:'' @ ovs_rundir env @ ''/db.sock'' @ [CHR 0x22] @ '').'' @ newline @
        daemon_usage env @
        vlog_usage env @
        newline @ ''Other options:'' @ newline @
        ''  --unixctl=SOCKET        override default control socket name'' @ newline @
        ''  -h, --help              display this help message'' @ newline @
        ''  -V, --version           display version information'' @ newline)"

text \<open>The loop over the options; the result is the path of the control socket.\<close>

fun option_loop :: "environment \<Rightarrow> string \<Rightarrow> getopt list \<Rightarrow> string option \<Rightarrow> string option startup" where
  "option_loop env name [] unixctl_path = Goes_on unixctl_path"
| "option_loop env name (c # cs) unixctl_path =
     (case c of
        Opt_help \<Rightarrow> usage env name
      | Opt_version \<Rightarrow> Exits EXIT_SUCCESS (pmd_print_version name)
      | OPT_UNIXCTL optarg \<Rightarrow> option_loop env name cs (Some optarg)
      | Opt_library optarg \<Rightarrow> option_loop env name cs unixctl_path
      | Opt_question \<Rightarrow> Exits EXIT_FAILURE ''''
      | Opt_other _ \<Rightarrow> Aborts)"

text \<open>More than one operand is a fatal error, which exits with a failure.\<close>

definition parse_options :: "environment \<Rightarrow> string \<Rightarrow> string list \<Rightarrow> (string \<times> string option) startup" where
  "parse_options env name argv =
     (case getopt_long env argv of (cs, operands) \<Rightarrow>
        case option_loop env name cs None of
          Exits status out \<Rightarrow> Exits status out
        | Aborts \<Rightarrow> Aborts
        | Goes_on unixctl_path \<Rightarrow>
            (case operands of
               [] \<Rightarrow> Goes_on (''unix:'' @ ovs_rundir env @ ''/db.sock'', unixctl_path)
             | [remote] \<Rightarrow> Goes_on (remote, unixctl_path)
             | _ \<Rightarrow> Exits EXIT_FAILURE ''''))"

section \<open>Requests\<close>

text \<open>
  The registered commands, with the smallest and the largest number of arguments after the name;
  the server calls the handler of a registered name for a number of arguments in that range and
  answers every other request itself.
\<close>

definition registered :: "bool \<Rightarrow> (string \<times> nat \<times> nat \<times> (string list \<Rightarrow> command)) list" where
  "registered sim =
     [(''exit'', 0, 0, \<lambda>argv. Exit),
      (''ops-pmd/dump'', 0, 2, Dump)] @
     (if sim then [(''ops-pmd/sim'', 2, 3, Sim)] else [])"

definition request_command :: "bool \<Rightarrow> string list \<Rightarrow> command option" where
  "request_command sim argv =
     (case argv of
        [] \<Rightarrow> None
      | name # args \<Rightarrow>
          (case map_of (registered sim) name of
             None \<Rightarrow> None
           | Some (lo, hi, handler) \<Rightarrow>
               if lo \<le> length args \<and> length args \<le> hi then Some (handler argv) else None))"

section \<open>\<open>main\<close>\<close>

text \<open>
  The outcome of the process: its end with a status and the standard output, an abort, a NULL
  dereference, or that it still runs when the turns are over.
\<close>

datatype 'w process =
    Exited int string "db_write list list"
  | Aborted
  | Crashed crash
  | Running daemon 'w "db_write list list"

definition ops_pmd_main ::
  "environment \<Rightarrow> 'w platform \<Rightarrow> string list \<Rightarrow> 'w turn list \<Rightarrow> 'w \<Rightarrow> 'w process" where
  "ops_pmd_main env pl argv ts w =
     (case parse_options env (program_name env (hd argv)) argv of
        Exits status out \<Rightarrow> Exited status out []
      | Aborts \<Rightarrow> Aborted
      | Goes_on (remote, unixctl_path) \<Rightarrow>
          if unixctl_server_create env unixctl_path \<noteq> 0 then Exited EXIT_FAILURE '''' []
          else (case pmd_main pl (ovsdb_connect env remote) ts w of
                  Inl c \<Rightarrow> Crashed c
                | Inr (exiting, d, w, wss) \<Rightarrow>
                    if exiting then Exited 0 '''' wss else Running d w wss))"

end
