(* ===== verification/Process_Props.thy ===== *)
theory Process_Props
  imports Process Ovsdb_Props
begin

text \<open>The outcome of the whole process, from its argument vector to its exit status.\<close>

section \<open>Options\<close>

text \<open>The first option that is not just taken note of decides; the last path of a socket wins.\<close>

fun decisive :: "getopt \<Rightarrow> bool" where
  "decisive (OPT_UNIXCTL path) = False"
| "decisive (Opt_library optarg) = False"
| "decisive _ = True"

fun socket_paths :: "getopt list \<Rightarrow> string list" where
  "socket_paths [] = []"
| "socket_paths (OPT_UNIXCTL path # cs) = path # socket_paths cs"
| "socket_paths (_ # cs) = socket_paths cs"

definition last_path :: "string list \<Rightarrow> string option \<Rightarrow> string option" where
  "last_path paths old = (if paths = [] then old else Some (last paths))"

lemma option_loop_decided:
  "find decisive cs = Some c \<Longrightarrow> option_loop env name cs path = option_loop env name [c] None"
  by (induction env name cs path rule: option_loop.induct) (auto split: getopt.splits if_splits)

lemma option_loop_undecided:
  "find decisive cs = None \<Longrightarrow> option_loop env name cs path = Goes_on (last_path (socket_paths cs) path)"
  by (induction env name cs path rule: option_loop.induct)
    (auto simp: last_path_def split: getopt.splits if_splits)

lemma parse_options_decided:
  assumes "getopt_long env argv = (cs, operands)" and "find decisive cs = Some c"
  shows "parse_options env name argv =
    (case c of Opt_help \<Rightarrow> usage env name
     | Opt_version \<Rightarrow> Exits EXIT_SUCCESS (pmd_print_version name)
     | Opt_question \<Rightarrow> Exits EXIT_FAILURE ''''
     | _ \<Rightarrow> Aborts)"
proof -
  have "decisive c" using assms(2) by (auto simp: find_Some_iff)
  then show ?thesis
    using assms option_loop_decided [OF assms(2), of env name None]
    by (cases c) (simp_all add: parse_options_def usage_def)
qed

lemma parse_options_undecided:
  assumes "getopt_long env argv = (cs, operands)" and "find decisive cs = None"
  shows "parse_options env name argv =
    (if length operands > 1 then Exits EXIT_FAILURE ''''
     else Goes_on (case operands of [] \<Rightarrow> ''unix:'' @ ovs_rundir env @ ''/db.sock'' | remote # _ \<Rightarrow> remote,
                   last_path (socket_paths cs) None))"
  using assms option_loop_undecided [OF assms(2), of env name None]
  by (auto simp: parse_options_def split: list.split)

section \<open>The outcome\<close>

lemma pmd_main_runs:
  assumes "yaml_ok pl"
  shows "\<exists>d v wss. pmd_main pl idl ts w = Inr (\<exists>t \<in> set ts. exits t, d, v, wss)"
proof -
  obtain d v where d: "pmd_init pl idl w = Inr (d, v)" using init_ok [OF assms, of idl w] by blast
  show ?thesis using main_loop_total [OF reachable.start [OF d] assms, of ts] d by (auto simp: pmd_main_def)
qed

lemma ops_pmd_main_started:
  assumes "parse_options env (program_name env (hd argv)) argv = Goes_on (remote, path)"
    and "unixctl_server_create env path = 0" and "yaml_ok pl"
  shows "\<exists>d v wss. pmd_main pl (ovsdb_connect env remote) ts w = Inr (\<exists>t \<in> set ts. exits t, d, v, wss) \<and>
    ops_pmd_main env pl argv ts w =
      (if \<exists>t \<in> set ts. exits t then Exited 0 '''' wss else Running d v wss)"
proof -
  obtain d v wss where "pmd_main pl (ovsdb_connect env remote) ts w = Inr (\<exists>t \<in> set ts. exits t, d, v, wss)"
    using pmd_main_runs [OF assms(3)] by blast
  then show ?thesis
    using assms(1,2) by (intro exI [of _ d] exI [of _ v] exI [of _ wss]) (simp add: ops_pmd_main_def)
qed

text \<open>
C13: how the process ends is decided by the first option that is not just noted: help and
version exit with success and their texts, a wrong option exits with a failure, an option without
a handler aborts. Otherwise more than one operand or a control socket that cannot be created
exit with a failure; else the daemon runs on the database of the operand, or of the default
socket, never crashes on a hardware description with known connectors, and exits with
success after the first turn with an \<open>exit\<close> command, and only then.
\<close>

theorem ops_pmd_main_outcome:
  assumes "getopt_long env argv = (cs, operands)" and "name = program_name env (hd argv)"
  shows "(find decisive cs = Some Opt_help \<longrightarrow>
      (\<exists>text. usage env name = Exits 0 text \<and> ops_pmd_main env pl argv ts w = Exited 0 text [])) \<and>
    (find decisive cs = Some Opt_version \<longrightarrow>
      ops_pmd_main env pl argv ts w = Exited 0 (name @ '' version 0.02'' @ newline) []) \<and>
    (find decisive cs = Some Opt_question \<longrightarrow> ops_pmd_main env pl argv ts w = Exited 1 '''' []) \<and>
    (\<forall>i. find decisive cs = Some (Opt_other i) \<longrightarrow> ops_pmd_main env pl argv ts w = Aborted) \<and>
    (find decisive cs = None \<longrightarrow>
      (if length operands > 1 \<or> unixctl_server_create env (last_path (socket_paths cs) None) \<noteq> 0
       then ops_pmd_main env pl argv ts w = Exited 1 '''' []
       else yaml_ok pl \<longrightarrow>
         (\<exists>d v wss.
            pmd_main pl (ovsdb_connect env
                (case operands of [] \<Rightarrow> ''unix:'' @ ovs_rundir env @ ''/db.sock'' | remote # _ \<Rightarrow> remote)) ts w
              = Inr (\<exists>t \<in> set ts. exits t, d, v, wss) \<and>
            ops_pmd_main env pl argv ts w =
              (if \<exists>t \<in> set ts. exits t then Exited 0 '''' wss else Running d v wss))))"
proof (intro conjI allI impI)
  note decided = parse_options_decided [OF assms(1), where name = name]
  note exits = ops_pmd_main_def assms(2) [symmetric] EXIT_SUCCESS_def EXIT_FAILURE_def
  show "\<exists>text. usage env name = Exits 0 text \<and> ops_pmd_main env pl argv ts w = Exited 0 text []"
    if "find decisive cs = Some Opt_help"
    using decided [OF that] by (simp add: exits usage_def)
  show "ops_pmd_main env pl argv ts w = Exited 0 (name @ '' version 0.02'' @ newline) []"
    if "find decisive cs = Some Opt_version"
    using decided [OF that] by (simp add: exits pmd_print_version_def program_version_def)
  show "ops_pmd_main env pl argv ts w = Exited 1 '''' []" if "find decisive cs = Some Opt_question"
    using decided [OF that] by (simp add: exits)
  show "ops_pmd_main env pl argv ts w = Aborted" if "find decisive cs = Some (Opt_other i)" for i
    using decided [OF that] by (simp add: exits)
  let ?path = "last_path (socket_paths cs) None"
  let ?remote = "case operands of [] \<Rightarrow> ''unix:'' @ ovs_rundir env @ ''/db.sock'' | remote # _ \<Rightarrow> remote"
  assume none: "find decisive cs = None"
  note undecided = parse_options_undecided [OF assms(1) none, of name]
  show "if length operands > 1 \<or> unixctl_server_create env ?path \<noteq> 0
     then ops_pmd_main env pl argv ts w = Exited 1 '''' []
     else yaml_ok pl \<longrightarrow>
       (\<exists>d v wss. pmd_main pl (ovsdb_connect env ?remote) ts w = Inr (\<exists>t \<in> set ts. exits t, d, v, wss) \<and>
          ops_pmd_main env pl argv ts w =
            (if \<exists>t \<in> set ts. exits t then Exited 0 '''' wss else Running d v wss))"
  proof (cases "length operands > 1 \<or> unixctl_server_create env ?path \<noteq> 0")
    case True
    then show ?thesis using undecided by (auto simp: exits)
  next
    case False
    then show ?thesis
      using ops_pmd_main_started [of env argv ?remote ?path pl ts w] undecided assms(2) by simp
  qed
qed

definition sample_environment :: "getopt list \<Rightarrow> environment" where
  "sample_environment cs =
     \<lparr>getopt_long = (\<lambda>argv. (cs, [''unix:db''])), program_name = id, ovs_rundir = ''/run'',
      daemon_usage = '''', vlog_usage = '''',
      unixctl_server_create = (\<lambda>path. if path = Some ''/run/ctl'' then 0 else 2),
      ovsdb_connect = (\<lambda>remote. sample_idl)\<rparr>"

theorem ops_pmd_main_outcome_witness:
  "ops_pmd_main (sample_environment [OPT_UNIXCTL ''x'', Opt_version, Opt_help]) sample_pl [''ops-pmd''] [] []
     = Exited 0 (''ops-pmd version 0.02'' @ newline) [] \<and>
   ops_pmd_main (sample_environment [OPT_UNIXCTL ''x'']) sample_pl [''ops-pmd''] [] [] = Exited 1 '''' [] \<and>
   (\<exists>wss. ops_pmd_main (sample_environment [OPT_UNIXCTL ''x'', OPT_UNIXCTL ''/run/ctl'']) sample_pl
      [''ops-pmd''] (map sample_turn [[], [Exit]]) [] = Exited 0 '''' wss)"
proof -
  have env: "getopt_long (sample_environment cs) argv = (cs, [''unix:db''])"
    "program_name (sample_environment cs) = id"
    "unixctl_server_create (sample_environment cs) path = (if path = Some ''/run/ctl'' then 0 else 2)"
    for cs argv path
    by (simp_all add: sample_environment_def)
  note outcome = ops_pmd_main_outcome [OF env(1) refl, where pl = sample_pl and argv = "[''ops-pmd'']"]
  have exit: "\<exists>t \<in> set (map sample_turn [[], [Exit]]). exits t" by (simp add: sample_turn_def)
  show ?thesis
    using outcome [of "[OPT_UNIXCTL ''x'', Opt_version, Opt_help]" "[]" "[]"]
      outcome [of "[OPT_UNIXCTL ''x'']" "[]" "[]"]
      outcome [of "[OPT_UNIXCTL ''x'', OPT_UNIXCTL ''/run/ctl'']" "map sample_turn [[], [Exit]]" "[]"]
      sample_yaml_ok exit
    by (auto simp: env last_path_def)
qed

section \<open>Requests\<close>

lemma request_cases:
  assumes "request_command sim argv = Some c"
  obtains "argv = [''exit'']" "c = Exit"
  | "argv ! 0 = ''ops-pmd/dump''" "1 \<le> length argv" "length argv \<le> 3" "c = Dump argv"
  | "sim" "argv ! 0 = ''ops-pmd/sim''" "3 \<le> length argv" "length argv \<le> 4" "c = Sim argv"
  using assms by (auto simp: request_command_def registered_def split: list.splits if_splits option.splits)

lemma same_module: "\<exists>m. p = p\<lparr>module_data := m\<rparr>" for p :: pm_port
  by (rule exI [of _ "module_data p"]) simp

text \<open>
C14: the server of the control socket calls a handler only with as many arguments as were
registered for it, and every such request gets a reply, with one exception: \<open>ops-pmd/sim\<close> with a
wrong keyword, or with the wrong number of arguments for the right one, leaves its client
waiting. Only \<open>exit\<close> ends the loop, and no request changes anything but the simulated module
of the interface that \<open>ops-pmd/sim\<close> names.
\<close>

theorem request_replies:
  assumes "shash_ok (ovs_intfs d)" and "request_command (simulation pl) argv = Some c"
    and "run_command pl c exiting d w = (r, x, e)"
  shows "(r = None \<longleftrightarrow> argv ! 0 = ''ops-pmd/sim'' \<and>
      \<not> (length argv = 4 \<and> argv ! 2 = ''insert'' \<or> length argv = 3 \<and> argv ! 2 = ''remove'')) \<and>
    (x \<longleftrightarrow> exiting \<or> argv = [''exit'']) \<and>
    e = d\<lparr>ovs_intfs := ovs_intfs e\<rparr> \<and>
    (\<forall>name. \<not> (argv ! 0 = ''ops-pmd/sim'' \<and> name = argv ! 1) \<longrightarrow>
       shash_find (ovs_intfs e) name = shash_find (ovs_intfs d) name) \<and>
    (\<forall>name p. shash_find (ovs_intfs d) name = Some p \<longrightarrow>
       (\<exists>m. shash_find (ovs_intfs e) name = Some (p\<lparr>module_data := m\<rparr>)))"
  using assms(2)
proof (cases rule: request_cases)
  case 1
  then have "r \<noteq> None" "x" "e = d" using assms(3) by (auto simp: ops_pmd_exit_def)
  then show ?thesis using 1 by (auto intro: same_module)
next
  case 2
  then have "r \<noteq> None" "x = exiting" "e = d" using assms(3) by auto
  then show ?thesis using 2 by (auto intro: same_module)
next
  case 3
  then have sim: "pmd_unixctl_sim pl argv d w = (r, e)" "x = exiting" using assms(3) by (auto split: prod.splits)
  have only: "only_module (argv ! 1) (ovs_intfs d) (ovs_intfs e)"
    by (rule sim_command_only [OF assms(1) sim(1)])
  have others: "\<exists>m. shash_find (ovs_intfs e) name = Some (p\<lparr>module_data := m\<rparr>)"
    if "shash_find (ovs_intfs d) name = Some p" for name p
    using only that by (cases "name = argv ! 1") (auto simp: only_module_def intro: same_module)
  have frame: "shash_find (ovs_intfs e) name = shash_find (ovs_intfs d) name" if "name \<noteq> argv ! 1" for name
    using only that by (simp add: only_module_def)
  have exit: "argv \<noteq> [''exit'']" using 3(3) by auto
  note reply = sim_command_reply [OF sim(1)]
  have "e = d\<lparr>ovs_intfs := ovs_intfs e\<rparr>" using reply by blast
  moreover have "r = None \<longleftrightarrow> \<not> (length argv = 4 \<and> argv ! 2 = ''insert'' \<or> length argv = 3 \<and> argv ! 2 = ''remove'')"
    using reply by blast
  moreover have "x \<longleftrightarrow> exiting \<or> argv = [''exit'']" using sim(2) exit by simp
  ultimately show ?thesis
    by (intro conjI allI impI others) (simp_all only: 3(2) simp_thms, rule frame, simp)
qed

theorem request_replies_witness:
  "\<exists>c d. request_command True [''ops-pmd/sim'', ''1'', ''erase''] = Some c \<and>
     run_command (sample_platform True SFP_SR_AVAGO) c False sample_daemon [] = (None, False, d)"
proof -
  let ?c = "Sim [''ops-pmd/sim'', ''1'', ''erase'']" and ?pl = "sample_platform True SFP_SR_AVAGO"
  have c: "request_command (simulation ?pl) [''ops-pmd/sim'', ''1'', ''erase''] = Some ?c"
    by (simp add: request_command_def registered_def)
  obtain r x e where run: "run_command ?pl ?c False sample_daemon [] = (r, x, e)" by (metis prod_cases3)
  have "shash_ok (ovs_intfs sample_daemon)" by (simp add: sample_daemon_def shash_ok_def)
  from request_replies [OF this c run] c run show ?thesis by auto
qed

end
