(* ===== verification/Idl_Columns.thy ===== *)
theory Idl_Columns
  imports Daemon_Props
begin

text \<open>
  What \<open>pm_ovsdb_if_init\<close> asks of the IDL library before the daemon reads its replica: the
  calls of the library, in their order, as a list. A column is replicated only if it was added
  (the library was told not to monitor everything), a change of it wakes the daemon unless its alert
  was omitted, and after \<open>ovsdb_idl_verify_write_only\<close> the library discards writes to columns
  with an alert.
\<close>

section \<open>The calls\<close>

datatype idl_call =
    Idl_create string bool bool
  | Set_lock string
  | Verify_write_only
  | Add_table string
  | Add_column string string
  | Omit_alert string string

definition pm_subsystem_subscribe :: "idl_call list" where
  "pm_subsystem_subscribe =
     [Add_table ''subsystem'',
      Add_column ''subsystem'' ''name'',
      Add_column ''subsystem'' ''hw_desc_dir'',
      Add_column ''subsystem'' ''interfaces'']"

definition pm_intf_subscribe :: "idl_call list" where
  "pm_intf_subscribe =
     [Add_table ''interface'',
      Add_column ''interface'' ''name'',
      Add_column ''interface'' ''pm_info'',
      Omit_alert ''interface'' ''pm_info'',
      Add_column ''interface'' ''hw_intf_config'']"

definition pm_daemon_subscribe :: "idl_call list" where
  "pm_daemon_subscribe =
     [Add_table ''daemon'',
      Add_column ''daemon'' ''name'',
      Add_column ''daemon'' ''cur_hw'',
      Omit_alert ''daemon'' ''cur_hw'']"

definition idl_setup :: "string \<Rightarrow> idl_call list" where
  "idl_setup remote =
     [Idl_create remote False True, Set_lock ''ops_pmd'', Verify_write_only] @
     pm_subsystem_subscribe @ pm_intf_subscribe @ pm_daemon_subscribe"

section \<open>Replicated columns\<close>

definition replicated :: "idl_call list \<Rightarrow> string \<Rightarrow> string \<Rightarrow> bool" where
  "replicated calls table column \<longleftrightarrow> Add_table table \<in> set calls \<and> Add_column table column \<in> set calls"

definition alerting :: "idl_call list \<Rightarrow> string \<Rightarrow> string \<Rightarrow> bool" where
  "alerting calls table column \<longleftrightarrow>
     replicated calls table column \<and> Omit_alert table column \<notin> set calls"

text \<open>The replica of a database: a column that is not replicated has its default value.\<close>

definition replica_interface :: "idl_call list \<Rightarrow> ovsrec_interface \<Rightarrow> ovsrec_interface" where
  "replica_interface calls i =
     i\<lparr>intf_name := if replicated calls ''interface'' ''name'' then intf_name i else '''',
       hw_intf_config := if replicated calls ''interface'' ''hw_intf_config'' then hw_intf_config i else []\<rparr>"

definition replica_subsystem :: "idl_call list \<Rightarrow> ovsrec_subsystem \<Rightarrow> ovsrec_subsystem" where
  "replica_subsystem calls s =
     s\<lparr>sub_name := if replicated calls ''subsystem'' ''name'' then sub_name s else '''',
       hw_desc_dir := if replicated calls ''subsystem'' ''hw_desc_dir'' then hw_desc_dir s else '''',
       sub_interfaces := if replicated calls ''subsystem'' ''interfaces''
         then map (replica_interface calls) (sub_interfaces s) else []\<rparr>"

definition replica :: "idl_call list \<Rightarrow> ovsdb_idl \<Rightarrow> ovsdb_idl" where
  "replica calls db =
     db\<lparr>interface_rows := if Add_table ''interface'' \<in> set calls
          then map (replica_interface calls) (interface_rows db) else [],
        subsystem_rows := if Add_table ''subsystem'' \<in> set calls
          then map (replica_subsystem calls) (subsystem_rows db) else [],
        daemon_rows := if Add_table ''daemon'' \<in> set calls
          then map (\<lambda>name. if replicated calls ''daemon'' ''name'' then name else '''') (daemon_rows db)
          else []\<rparr>"

fun write_column :: "db_write \<Rightarrow> string \<times> string" where
  "write_column (Set_pm_info u m) = (''interface'', ''pm_info'')"
| "write_column (Set_cur_hw name v) = (''daemon'', ''cur_hw'')"

lemmas setup_defs =
  idl_setup_def pm_subsystem_subscribe_def pm_intf_subscribe_def pm_daemon_subscribe_def

lemma replicated_setup:
  "replicated (idl_setup remote) table column \<longleftrightarrow>
     table = ''subsystem'' \<and> column \<in> {''name'', ''hw_desc_dir'', ''interfaces''} \<or>
     table = ''interface'' \<and> column \<in> {''name'', ''pm_info'', ''hw_intf_config''} \<or>
     table = ''daemon'' \<and> column \<in> {''name'', ''cur_hw''}"
  by (auto simp: replicated_def setup_defs)

lemma replica_interface_id: "replica_interface (idl_setup remote) = id"
  by (simp add: replica_interface_def replicated_setup fun_eq_iff)

lemma replica_subsystem_id: "replica_subsystem (idl_setup remote) = id"
  by (simp add: replica_subsystem_def replicated_setup replica_interface_id fun_eq_iff)

lemma replica_id: "replica (idl_setup remote) db = db"
proof -
  have "Add_table t \<in> set (idl_setup remote)" if "t \<in> {''interface'', ''subsystem'', ''daemon''}" for t
    using that by (auto simp: setup_defs)
  then show ?thesis
    by (simp add: replica_def replicated_setup replica_interface_id replica_subsystem_id)
qed



end
