(* ===== verification/Test_Tools.thy ===== *)
theory Test_Tools
  imports Detect_Props
begin

text \<open>
  The two programs under \<open>tests/files\<close> (and, as copies, \<open>ops-tests/component/files\<close>) that make
  and check the pages of simulated modules: \<open>atoc.c\<close> converts a line of hexadecimal digits
  to bytes, \<open>sum.c\<close> prints the checksums of a page. A file is the list of its characters or bytes;
  reading it does not fail. The contents of an uninitialized buffer are parameters.
\<close>

section \<open>\<open>atoc.c\<close>\<close>

text \<open>
  \<open>fread (buf, 2, 1, fp)\<close>: the buffer afterwards, the rest of the file, and the end-of-file
  mark, which is set only by an attempt to read past the end. A last single character is stored.
\<close>

fun fread2 :: "char \<times> char \<Rightarrow> string \<Rightarrow> (char \<times> char) \<times> string \<times> bool" where
  "fread2 buf (c # d # rest) = ((c, d), rest, False)"
| "fread2 buf [c] = ((c, snd buf), [], True)"
| "fread2 buf [] = (buf, [], True)"

lemma fread2_less:
  "fread2 buf rest = (buf', rest', eof) \<Longrightarrow>
     length rest' + (if eof then 0 else 1) < length rest + 1"
  by (cases "(buf, rest)" rule: fread2.cases) auto

text \<open>
  The loop \<open>while (!feof (fp) && !ferror (fp))\<close>, with the bytes written so far; the result is the
  exit status, the bytes and, when the program comes to print it, their count.
\<close>

function atoc_loop ::
  "char \<times> char \<Rightarrow> string \<Rightarrow> bool \<Rightarrow> byte list \<Rightarrow> int \<times> byte list \<times> nat option"
where
  "atoc_loop buf rest eof out =
     (if eof then (0, out, Some (length out))
      else case fread2 buf rest of (buf, rest, eof) \<Rightarrow>
        if fst buf = CHR 0x0A then (0, out, Some (length out))
        else case (convert (fst buf), convert (snd buf)) of
          (Some h, Some l) \<Rightarrow> atoc_loop buf rest eof (out @ [push_bit 4 h + l])
        | _ \<Rightarrow> (1, out, None))"
  by pat_completeness auto

termination
  by (relation "measure (\<lambda>(buf, rest, eof, out). length rest + (if eof then 0 else 1))")
    (auto dest!: fread2_less [OF sym])

declare atoc_loop.simps [simp del]

text \<open>The file that the argument names, if it can be opened; \<open>buf\<close> is what the stack held.\<close>

definition atoc_main :: "char \<times> char \<Rightarrow> string option \<Rightarrow> int \<times> byte list \<times> nat option" where
  "atoc_main buf file =
     (case file of None \<Rightarrow> (1, [], None) | Some line \<Rightarrow> atoc_loop buf line False [])"

lemma unhex_Some_cases:
  assumes "unhex line = Some bs"
  obtains "line = []" "bs = []"
  | c d cs h l bs' where "line = c # d # cs" "convert c = Some h" "convert d = Some l"
      "unhex cs = Some bs'" "bs = (push_bit 4 h + l) # bs'" "c \<noteq> CHR 0x0A"
proof (cases line rule: unhex.cases)
  case (3 c d cs)
  moreover have "convert (CHR 0x0A) = None" by (simp add: convert_def to_upper_def)
  ultimately show ?thesis using assms that(2) by (auto split: option.splits) (metis option.distinct(1))
qed (use assms that(1) in auto)

text \<open>A run over a list of pairs of digits, up to the last pair.\<close>

definition last_pair :: "char \<times> char \<Rightarrow> string \<Rightarrow> char \<times> char" where
  "last_pair buf line = (if line = [] then buf else (last (butlast line), last line))"

lemma atoc_loop_pairs:
  "unhex line = Some bs \<Longrightarrow>
     atoc_loop buf (line @ rest) False out = atoc_loop (last_pair buf line) rest False (out @ bs)"
proof (induction line arbitrary: bs buf out rule: unhex.induct)
  case (3 c d cs)
  then obtain h l bs' where d: "convert c = Some h" "convert d = Some l" "unhex cs = Some bs'"
    "bs = (push_bit 4 h + l) # bs'" "c \<noteq> CHR 0x0A"
    using unhex_Some_cases [of "c # d # cs" bs] by (metis list.distinct(1) list.inject)
  have "cs = [] \<or> (\<exists>x y zs. cs = x # y # zs)" using d(3) by (cases cs rule: unhex.cases) auto
  then have "last_pair (c, d) cs = last_pair buf (c # d # cs)" by (auto simp: last_pair_def)
  moreover have "atoc_loop buf ((c # d # cs) @ rest) False out =
      atoc_loop (c, d) (cs @ rest) False (out @ [push_bit 4 h + l])"
    by (subst atoc_loop.simps) (simp add: d)
  ultimately show ?case using "3.IH" [OF d(3)] d(4) by simp
qed (simp_all add: last_pair_def)

lemma last_pair_byte:
  "unhex line = Some bs \<Longrightarrow> line \<noteq> [] \<Longrightarrow>
     \<exists>c d h l. last_pair buf line = (c, d) \<and> c \<noteq> CHR 0x0A \<and> convert c = Some h \<and> convert d = Some l \<and>
       last bs = push_bit 4 h + l"
proof (induction line arbitrary: bs buf rule: unhex.induct)
  case (3 c d cs)
  then obtain h l bs' where d: "convert c = Some h" "convert d = Some l" "unhex cs = Some bs'"
    "bs = (push_bit 4 h + l) # bs'" "c \<noteq> CHR 0x0A"
    using unhex_Some_cases [of "c # d # cs" bs] by (metis list.distinct(1) list.inject)
  show ?case
  proof (cases "cs = []")
    case True
    then show ?thesis using d by (simp add: last_pair_def)
  next
    case False
    then have "bs' \<noteq> []" using d(3) unhex_Some_cases [of cs bs'] by blast
    moreover have "\<exists>x y zs. cs = x # y # zs" using d(3) False by (cases cs rule: unhex.cases) auto
    then have "last_pair buf (c # d # cs) = last_pair (c, d) cs" by (auto simp: last_pair_def)
    moreover obtain c' d' h' l' where "last_pair (c, d) cs = (c', d')" "c' \<noteq> CHR 0x0A"
      "convert c' = Some h'" "convert d' = Some l'" "last bs' = push_bit 4 h' + l'"
      using "3.IH" [of bs' "(c, d)"] d(3) False by blast
    ultimately show ?thesis using d(4) by simp
  qed
qed simp_all

text \<open>
C39: \<open>atoc\<close> converts a line of hexadecimal digits, of either case, to the bytes that they
denote, and what follows the end of the line does not matter; but the end of the file is
noticed only by the next read, which leaves the buffer as it was, so that the last byte is written
twice when the last line does not end in a newline. It rejects a file that it cannot open.
\<close>

theorem atoc_converts:
  assumes "unhex line = Some bytes"
  shows "atoc_main buf (Some (line @ CHR 0x0A # rest)) = (0, bytes, Some (length bytes)) \<and>
    (bytes \<noteq> [] \<longrightarrow>
       atoc_main buf (Some line) = (0, bytes @ [last bytes], Some (Suc (length bytes)))) \<and>
    atoc_main buf None = (1, [], None)"
proof (intro conjI impI)
  have "fst (fst (fread2 (last_pair buf line) (CHR 0x0A # rest))) = CHR 0x0A" by (cases rest) auto
  then have "atoc_loop (last_pair buf line) (CHR 0x0A # rest) False bytes = (0, bytes, Some (length bytes))"
    by (subst atoc_loop.simps) (auto split: prod.split)
  then show "atoc_main buf (Some (line @ CHR 0x0A # rest)) = (0, bytes, Some (length bytes))"
    using atoc_loop_pairs [OF assms, of buf "CHR 0x0A # rest" "[]"] by (simp add: atoc_main_def)
next
  assume "bytes \<noteq> []"
  then have "line \<noteq> []" using assms by auto
  from last_pair_byte [OF assms this] obtain c d h l where p: "last_pair buf line = (c, d)" "c \<noteq> CHR 0x0A"
    "convert c = Some h" "convert d = Some l" "last bytes = push_bit 4 h + l" by blast
  have "atoc_loop (c, d) [] False bytes = atoc_loop (c, d) [] True (bytes @ [last bytes])"
    by (subst atoc_loop.simps) (simp add: p)
  also have "\<dots> = (0, bytes @ [last bytes], Some (Suc (length bytes)))"
    by (subst atoc_loop.simps) simp
  finally show "atoc_main buf (Some line) = (0, bytes @ [last bytes], Some (Suc (length bytes)))"
    using atoc_loop_pairs [OF assms, of buf "[]" "[]"] p(1) by (simp add: atoc_main_def)
qed (simp add: atoc_main_def)

theorem atoc_converts_witness:
  "atoc_main (CHR ''?'', CHR ''?'') (Some (''3aFF'' @ [CHR 0x0A])) = (0, [0x3A, 0xFF], Some 2) \<and>
   atoc_main (CHR ''?'', CHR ''?'') (Some ''3aFF'') = (0, [0x3A, 0xFF, 0xFF], Some 3)"
proof -
  have "unhex ''3aFF'' = Some [0x3A, 0xFF]" by (simp add: convert_def to_upper_def)
  from atoc_converts [OF this, of "(CHR ''?'', CHR ''?'')" "[]"] show ?thesis by simp
qed

section \<open>\<open>sum.c\<close>\<close>

text \<open>\<open>sum\<close>: the text that it prints. The loop is that of \<open>pm_byte_sum\<close>.\<close>

definition sum_c :: "page \<Rightarrow> nat \<Rightarrow> nat \<Rightarrow> nat \<Rightarrow> string" where
  "sum_c data start stop offset =
     dec_of_int (uint (byte_sum_loop data start (Suc stop - start) 0)) @ '' vs. ''
       @ dec_of_int (uint (data ! offset)) @ [CHR 0x0A]"

text \<open>
  \<open>main\<close>: the status and the output. A file of less than 128 bytes leaves the rest of the buffer as
  it was; \<open>stack\<close> is what it held.
\<close>

definition sum_main :: "byte list \<Rightarrow> byte list option \<Rightarrow> int \<times> string" where
  "sum_main stack file =
     (case file of
        None \<Rightarrow> (1, '''')
      | Some bytes \<Rightarrow>
          let buf = mem_write stack (take 128 bytes)
          in (0, sum_c buf 0 62 63 @ sum_c buf 64 94 95))"

text \<open>
C38: \<open>sum\<close> and the daemon agree on the pages that are valid: run on a file of at least 128 bytes,
\<open>sum\<close> prints two lines, each with the sum of a part of the page modulo 256 and its check byte, and
the daemon accepts the page exactly if the two numbers are equal on both lines.
\<close>

theorem sum_agrees_with_daemon:
  assumes "length stack = 128" and "128 \<le> length bytes"
  shows "\<exists>a b c d. sum_main stack (Some bytes) =
      (0, dec_of_int a @ '' vs. '' @ dec_of_int b @ [CHR 0x0A] @
          dec_of_int c @ '' vs. '' @ dec_of_int d @ [CHR 0x0A]) \<and>
    a = (\<Sum>k = 0..<63. uint (bytes ! k)) mod 256 \<and> b = uint (bytes ! 63) \<and>
    c = (\<Sum>k = 64..<95. uint (bytes ! k)) mod 256 \<and> d = uint (bytes ! 95) \<and>
    (sfpp_sum_verify (take 128 bytes) = 0 \<longleftrightarrow> a = b \<and> c = d)"
proof -
  let ?pg = "take 128 bytes"
  have buf: "mem_write stack ?pg = ?pg" using assms by (simp add: mem_write_def)
  have sum: "uint (byte_sum_loop ?pg i n 0) = (\<Sum>k = i..<i + n. uint (bytes ! k)) mod 256"
    if "i + n \<le> 128" for i n
  proof -
    have "map ((!) ?pg) [i ..< i + n] = map ((!) bytes) [i ..< i + n]" using that by auto
    then have "uint (byte_sum_loop ?pg i n 0) = sum_list (map (\<lambda>k. uint (bytes ! k)) [i ..< i + n]) mod 256"
      by (simp only: byte_sum_loop_eq uint_sum_list add_0 map_map comp_def)
    then show ?thesis by (simp only: interv_sum_list_conv_sum_set_nat set_upt)
  qed
  have "sfpp_sum_verify ?pg = 0 \<longleftrightarrow>
      uint (byte_sum_loop ?pg 0 63 0) = uint (bytes ! 63) \<and> uint (byte_sum_loop ?pg 64 31 0) = uint (bytes ! 95)"
    using assms by (auto simp: sfpp_sum_verify_def pm_byte_sum_def word_uint_eq_iff)
  then show ?thesis
    using assms sum [of 0 63] sum [of 64 31]
    by (simp add: sum_main_def buf sum_c_def)
qed

theorem sum_agrees_with_daemon_witness:
  "\<exists>s. sum_main (replicate 128 7) (Some SFP_DAC_MOLEX) = (0, s) \<and> sfpp_sum_verify (take 128 SFP_DAC_MOLEX) = 0"
  using sum_agrees_with_daemon [of "replicate 128 7" SFP_DAC_MOLEX] sample_checks(2) length_sample_pages
  by auto

end
