(* ===== verification/Spec2Isabelle.thy ===== *)
theory Spec2Isabelle
  imports Base_Props Detect_Props Dom_Props Plug_Props Enable_Props Config_Props
    Daemon_Props Hardware_Props Ovsdb_Props Commits Process_Props Idl_Columns Test_Tools
begin

text \<open>
  ops-pmd, the pluggable module daemon of OpenSwitch: it finds the transceiver modules in the
  SFP+, QSFP+ and QSFP28 cages of a switch, reads their identification and diagnostic pages over
  i2c, and publishes what it finds to the rows of the interface table of the switch database.

  \<^bold>\<open>The program.\<close> \<open>src/pmd.c\<close> runs the main loop: it looks for changes of the configuration
  (\<open>pmd_reconfigure\<close> in \<open>src/ovsdb_access.c\<close>, which reads the hardware description through
  \<open>src/config.c\<close>), reads the state of every port (\<open>pm_read_state\<close> in \<open>src/plug.c\<close>), and writes
  the columns that changed (\<open>pm_ovsdb_update\<close>). Reading the state of a port fetches a page of 128
  bytes, checks its two checksums and parses it (\<open>pm_parse\<close> in \<open>src/pm_detect.c\<close>), and for a module
  with diagnostics publishes a second page (\<open>pm_set_a2\<close> in \<open>src/pm_dom.c\<close>). The columns of a port
  are \<open>char *\<close> members of \<open>pm_port_t\<close>, written by the macros of \<open>include/pmd.h.in\<close>, which also mark
  the port as changed.

  \<^bold>\<open>The theories\<close>, from the bottom.

  \<^item> \<^verbatim>\<open>Pmd_Prelude\<close>: bytes, C strings, \<open>"%d"\<close>, \<open>"%02x"\<close>, \<open>strtol\<close>, straight-line code.
  \<^item> \<^verbatim>\<open>C_Layout\<close>, \<^verbatim>\<open>Plug_Layout\<close>, \<^verbatim>\<open>Dom_Layout\<close>: the packed structures and bit fields of
    \<open>include/plug.h\<close> and \<open>include/pm_dom.h\<close>, as layouts that are computed from their members.
  \<^item> \<^verbatim>\<open>C_Float\<close>: the \<open>float\<close> and \<open>double\<close> arithmetic and \<open>"%4.2f"\<close>, exactly, as integers in units of
    a power of two.
  \<^item> \<^verbatim>\<open>Pm_Hex\<close>: \<open>hex_to_ascii\<close> of \<open>src/pm_detect.c\<close>, and the digits read back.
  \<^item> \<^verbatim>\<open>Pm_Port\<close>, \<^verbatim>\<open>Port_Invariants\<close>: \<open>pm_port_t\<close>, the columns with the ownership of their memory,
    the macros; the interfaces (locales) between the macros and the code that uses them, with the
    interpretations that give memory safety and the frames.
  \<^item> \<^verbatim>\<open>Pm_Detect\<close>, \<^verbatim>\<open>Detect_Spec\<close>, \<^verbatim>\<open>Detect_Props\<close>: \<open>src/pm_detect.c\<close>, the pages by byte offsets, and
    that the parser publishes what they say. \<^verbatim>\<open>Sample_Pages\<close> has the pages of the test modules.
  \<^item> \<^verbatim>\<open>Pm_Dom\<close>, \<^verbatim>\<open>Dom_Spec\<close>, \<^verbatim>\<open>Dom_Props\<close>: the same for \<open>src/pm_dom.c\<close>.
  \<^item> \<^verbatim>\<open>Platform\<close>: what is outside of the repository, as one record of parameters, and the table of
    ports with the contract of a dictionary.
  \<^item> \<^verbatim>\<open>Plug\<close>, \<^verbatim>\<open>Plug_Lemmas\<close>, \<^verbatim>\<open>Port_States\<close>, \<^verbatim>\<open>Plug_Props\<close>, \<^verbatim>\<open>Enable_Props\<close>: \<open>src/plug.c\<close>, the
    life of a port as a machine of four states, and the simulation of the code by that machine.
  \<^item> \<^verbatim>\<open>Pm_Config\<close>, \<^verbatim>\<open>Config_Props\<close>: \<open>src/config.c\<close>.
  \<^item> \<^verbatim>\<open>Ovsdb_Access\<close>, \<^verbatim>\<open>Pm_Info\<close>: \<open>src/ovsdb_access.c\<close>, and the keys of the published map.
  \<^item> \<^verbatim>\<open>Pmd\<close>: \<open>src/pmd.c\<close>, one round, the commands, the main loop, the reachable states.
  \<^item> \<^verbatim>\<open>Process\<close>, \<^verbatim>\<open>Process_Props\<close>: \<open>src/pmd.c\<close> around the loop: options, texts, the registration of
    the commands, \<open>main\<close> and the exit status; which requests are answered.
  \<^item> \<^verbatim>\<open>Idl_Columns\<close>: the tables and columns that \<open>src/ovsdb_access.c\<close> asks for at the start.
  \<^item> \<^verbatim>\<open>Test_Tools\<close>: \<open>atoc.c\<close> and \<open>sum.c\<close> under \<open>ops-tests/component/files\<close>.
  \<^item> \<^verbatim>\<open>Daemon_Inv\<close>, \<^verbatim>\<open>Daemon_Publish\<close>, \<^verbatim>\<open>Reconfigure\<close>: the invariant of the table of ports as an
    interface between the operations on one port and those on the table, its interpretations
    (the well-formedness of every port, the agreement with the database, the existence of rows),
    and what an update and a reconfiguration do.
  \<^item> \<^verbatim>\<open>Daemon_Props\<close>, \<^verbatim>\<open>Ovsdb_Props\<close>, \<^verbatim>\<open>Hardware_Props\<close>, \<^verbatim>\<open>Quiescence\<close>, \<^verbatim>\<open>Commits\<close>: the properties of
    the daemon as a whole: the database after a round, from the states of the ports and from what the
    hardware shows; rounds that do nothing, and transactions that fail.

  \<^bold>\<open>What is shown.\<close> Every read of a port is a step of the four-state machine, whose states
  determine every module column, on any behaviour of the hardware; a run of the daemon never
  dereferences NULL when the pluggable ports of the hardware description have known connectors;
  after each round the database agrees with the states of the ports, so that no change is lost,
  when transactions succeed, while one that fails is never repeated; one round takes what a cage
  shows, byte for byte, to the row of its interface; reading a port never leaks a column or frees a
  constant; pages are parsed as the standards say by byte offsets; diagnostic values are rounded to the nearest hundredth, apart
  from the flaws that are stated as properties of their own (the fraction of a temperature is
  dropped, a column can keep an outdated value, a diagnostic page that cannot be read is published
  as a page of ones). The process exits with the status that its options, its operands and the
  \<open>exit\<close> command determine; deleting a port leaks some of its blocks, which are listed.

  \<^bold>\<open>Bounds.\<close> Integers are kept at their width where it matters: pages are lists of bytes, the
  checksums wrap at 256, registers have 32 bits. All loops of the code are structural
  recursions: over the retries that are left (two, as in the code), over tables of ports and
  rows, over options, over the bytes of a page; the loop of \<open>atoc.c\<close> has a measure, what is left of
  the file and whether its end has been met. No fuel is used: every definition is total, and the main loop is a
  recursion over the turns that it meets.

  \<^bold>\<open>Parameters.\<close> The libraries config-yaml and i2c, the texts of generated headers, the order of
  a hash table, the contents of files and the build option are fields of the record in
  \<^verbatim>\<open>Platform\<close>; nothing is assumed of them except where a property says so. The replica of the
  database is an argument of each round, a transaction is the list of its writes. The results of
  \<open>getopt_long\<close> and of the other calls at the start of the process are a record in \<^verbatim>\<open>Process\<close>.

  \<^bold>\<open>Not modelled.\<close> Logging; the messages on the standard error; daemonizing, the poll
  timer and the other ways to wait, and the destruction of library objects in \<open>src/pmd.c\<close>, which
  have no state of the daemon; read errors in the test tools; the outcome of a commit in the code,
  which does not look at it (\<^verbatim>\<open>Commits\<close> says what follows). Allocation always succeeds. The
  buffer in \<open>pm_read_a2\<close> is modelled for device names of at most 1019 characters.
\<close>

end
